(* ===== verification/GoStrings.thy ===== *)
theory GoStrings
  imports Main
begin

text \<open>
  The parts of Go's string library that the program uses, on strings as byte lists:
  \<open>strings.Index\<close>, \<open>Contains\<close>, \<open>HasPrefix\<close>, \<open>TrimPrefix\<close>, \<open>TrimSpace\<close>, \<open>ToLower\<close>,
  \<open>Split\<close>, \<open>SplitN(s, sep, 2)\<close>, \<open>ReplaceAll\<close> of one byte, \<open>strconv.Atoi\<close>,
  \<open>strconv.ParseBool\<close>, the verb \<open>%d\<close> of \<open>fmt.Sprintf\<close> and \<open>fmt.Sscanf\<close>.
  White space and letter case are those of ASCII; Go also knows the Unicode ones.
\<close>

section \<open>Searching\<close>

definition has_prefix :: "string \<Rightarrow> string \<Rightarrow> bool" where
  "has_prefix p s \<longleftrightarrow> take (length p) s = p"

definition trim_prefix :: "string \<Rightarrow> string \<Rightarrow> string" where
  "trim_prefix p s = (if has_prefix p s then drop (length p) s else s)"

fun str_index :: "string \<Rightarrow> string \<Rightarrow> nat option" where
  "str_index sub [] = (if sub = [] then Some 0 else None)"
| "str_index sub (c # s) =
     (if has_prefix sub (c # s) then Some 0 else map_option Suc (str_index sub s))"

definition str_contains :: "string \<Rightarrow> string \<Rightarrow> bool" where
  "str_contains sub s \<longleftrightarrow> str_index sub s \<noteq> None"

lemma has_prefix_append [simp]: "has_prefix p (p @ s)"
  by (simp add: has_prefix_def)

lemma has_prefix_iff: "has_prefix p s \<longleftrightarrow> (\<exists>t. s = p @ t)"
  by (metis append_take_drop_id has_prefix_append has_prefix_def)

lemma has_prefix_length: "has_prefix p s \<Longrightarrow> length p \<le> length s"
  by (auto simp: has_prefix_iff)

lemma str_index_SomeD:
  "str_index sub s = Some i \<Longrightarrow> s = take i s @ sub @ drop (i + length sub) s"
proof (induction s arbitrary: i)
  case Nil
  then show ?case by (auto split: if_splits)
next
  case (Cons c s)
  show ?case
  proof (cases "has_prefix sub (c # s)")
    case True
    with Cons.prems have "i = 0" by simp
    with True show ?thesis by (metis add_0 append_Nil append_take_drop_id has_prefix_def take0)
  next
    case False
    with Cons.prems obtain j where "str_index sub s = Some j" and "i = Suc j" by auto
    with Cons.IH show ?thesis by auto
  qed
qed

lemma str_index_bound: "str_index sub s = Some i \<Longrightarrow> i + length sub \<le> length s"
  by (induction s arbitrary: i) (auto dest: has_prefix_length split: if_splits)

lemma str_contains_iff: "str_contains sub s \<longleftrightarrow> (\<exists>a b. s = a @ sub @ b)"
proof
  assume "str_contains sub s"
  then show "\<exists>a b. s = a @ sub @ b"
    unfolding str_contains_def by (metis not_None_eq str_index_SomeD)
next
  assume "\<exists>a b. s = a @ sub @ b"
  then obtain a b where s: "s = a @ sub @ b" by blast
  have "str_index sub (a @ sub @ b) \<noteq> None"
  proof (induction a)
    case Nil
    have "has_prefix sub (sub @ b)" by simp
    then show ?case by (cases "sub @ b") (auto simp del: has_prefix_append)
  next
    case (Cons x a)
    then show ?case by simp
  qed
  with s show "str_contains sub s" by (simp add: str_contains_def)
qed

lemma str_index_None_iff: "str_index sub s = None \<longleftrightarrow> \<not> str_contains sub s"
  by (simp add: str_contains_def)

section \<open>Case, space, splitting, replacing\<close>

definition is_space :: "char \<Rightarrow> bool" where
  "is_space c \<longleftrightarrow> of_char c \<in> {9, 10, 11, 12, 13, 32 :: nat}"

definition trim_left :: "string \<Rightarrow> string" where
  "trim_left s = dropWhile is_space s"

definition trim_space :: "string \<Rightarrow> string" where
  "trim_space s = rev (trim_left (rev (trim_left s)))"

definition lower_char :: "char \<Rightarrow> char" where
  "lower_char c = (let n = of_char c :: nat in if 65 \<le> n \<and> n \<le> 90 then char_of (n + 32) else c)"

definition to_lower :: "string \<Rightarrow> string" where
  "to_lower s = map lower_char s"

fun split_on :: "char \<Rightarrow> string \<Rightarrow> string list" where
  "split_on sep [] = [[]]"
| "split_on sep (c # s) =
     (if c = sep then [] # split_on sep s
      else case split_on sep s of [] \<Rightarrow> [[c]] | p # ps \<Rightarrow> (c # p) # ps)"

fun splitn2 :: "char \<Rightarrow> string \<Rightarrow> string list" where
  "splitn2 sep [] = [[]]"
| "splitn2 sep (c # s) =
     (if c = sep then [[], s]
      else case splitn2 sep s of [] \<Rightarrow> [[c]] | p # ps \<Rightarrow> (c # p) # ps)"

definition replace_char :: "char \<Rightarrow> char \<Rightarrow> string \<Rightarrow> string" where
  "replace_char a b s = map (\<lambda>c. if c = a then b else c) s"

lemma splitn2_absent: "sep \<notin> set s \<Longrightarrow> splitn2 sep s = [s]"
  by (induction s) auto

lemma splitn2_present: "sep \<notin> set a \<Longrightarrow> splitn2 sep (a @ sep # b) = [a, b]"
  by (induction a) auto

lemma split_on_absent: "sep \<notin> set s \<Longrightarrow> split_on sep s = [s]"
  by (induction s) auto

lemma split_on_present: "sep \<notin> set a \<Longrightarrow> split_on sep (a @ sep # b) = a # split_on sep b"
  by (induction a) auto

lemma split_on_nonempty [simp]: "split_on sep s \<noteq> []"
  by (induction s) (auto split: list.split)

lemma length_to_lower [simp]: "length (to_lower s) = length s"
  by (simp add: to_lower_def)

lemma to_lower_Nil_iff [simp]: "to_lower s = [] \<longleftrightarrow> s = []"
  by (simp add: to_lower_def)

section \<open>Decimal numbers\<close>

definition is_digit :: "char \<Rightarrow> bool" where
  "is_digit c \<longleftrightarrow> (let n = of_char c :: nat in 48 \<le> n \<and> n \<le> 57)"

definition digit_val :: "char \<Rightarrow> nat" where
  "digit_val c = of_char c - 48"

definition digit :: "nat \<Rightarrow> char" where
  "digit n = char_of (48 + n)"

fun show_nat :: "nat \<Rightarrow> string" where
  "show_nat n = (if n < 10 then [digit n] else show_nat (n div 10) @ [digit (n mod 10)])"

declare show_nat.simps [simp del]

definition show_int :: "int \<Rightarrow> string" where
  "show_int i = (if i < 0 then CHR ''-'' # show_nat (nat (- i)) else show_nat (nat i))"

definition digits_to_nat :: "string \<Rightarrow> nat" where
  "digits_to_nat s = foldl (\<lambda>acc c. 10 * acc + digit_val c) 0 s"

lemma is_digit_digit [simp]: "n < 10 \<Longrightarrow> is_digit (digit n)"
  by (simp add: is_digit_def digit_def)

lemma digit_val_digit [simp]: "n < 10 \<Longrightarrow> digit_val (digit n) = n"
  by (simp add: digit_val_def digit_def)

lemma show_nat_digits: "\<forall>c \<in> set (show_nat n). is_digit c"
proof (induction n rule: show_nat.induct)
  case (1 n)
  then show ?case by (subst show_nat.simps) auto
qed

lemma show_nat_nonempty: "show_nat n \<noteq> []"
  by (subst show_nat.simps) simp

lemma digits_to_nat_snoc: "digits_to_nat (s @ [c]) = 10 * digits_to_nat s + digit_val c"
  by (simp add: digits_to_nat_def)

lemma digits_to_nat_show: "digits_to_nat (show_nat n) = n"
proof (induction n rule: show_nat.induct)
  case (1 n)
  show ?case
  proof (cases "n < 10")
    case True
    then show ?thesis
      by (subst show_nat.simps) (simp add: digits_to_nat_def)
  next
    case False
    with "1.IH" show ?thesis
      by (subst show_nat.simps) (simp add: digits_to_nat_snoc)
  qed
qed

lemma show_nat_inj: "show_nat m = show_nat n \<longleftrightarrow> m = n"
  by (metis digits_to_nat_show)

text \<open>
  \<open>strconv.Atoi\<close>: an optional sign and decimal digits only, in the range of a 64-bit int.
\<close>

definition int64_range :: "int \<Rightarrow> bool" where
  "int64_range x \<longleftrightarrow> - (2 ^ 63) \<le> x \<and> x < 2 ^ 63"

definition signed_digits :: "bool \<Rightarrow> string \<Rightarrow> int option" where
  "signed_digits neg ds =
     (if ds = [] \<or> \<not> list_all is_digit ds then None
      else let v = (if neg then - int (digits_to_nat ds) else int (digits_to_nat ds))
           in if int64_range v then Some v else None)"

fun atoi :: "string \<Rightarrow> int option" where
  "atoi [] = None"
| "atoi (c # s) =
     (if c = CHR ''-'' then signed_digits True s
      else if c = CHR ''+'' then signed_digits False s
      else signed_digits False (c # s))"

text \<open>
  \<open>fmt.Sscanf(s, "%d", &v)\<close>: leading spaces, an optional sign, then the longest run of
  decimal digits and underscores, which has to parse as a 64-bit integer (so an underscore in
  it fails).  What follows is ignored.  \<open>None\<close> leaves \<open>v\<close> as it was.
\<close>

definition is_scan_space :: "char \<Rightarrow> bool" where
  "is_scan_space c \<longleftrightarrow> is_space c \<and> c \<noteq> CHR 0x0A"

definition scan_run :: "bool \<Rightarrow> string \<Rightarrow> int option" where
  "scan_run neg s = signed_digits neg (takeWhile (\<lambda>c. is_digit c \<or> c = CHR ''_'') s)"

definition sscanf_d :: "string \<Rightarrow> int option" where
  "sscanf_d s = (case dropWhile is_scan_space s of
       [] \<Rightarrow> None
     | c # t \<Rightarrow> (if c = CHR ''-'' then scan_run True t
                 else if c = CHR ''+'' then scan_run False t
                 else scan_run False (c # t)))"

definition parse_bool :: "string \<Rightarrow> bool option" where
  "parse_bool s =
     (if s \<in> {''1'', ''t'', ''T'', ''TRUE'', ''true'', ''True''} then Some True
      else if s \<in> {''0'', ''f'', ''F'', ''FALSE'', ''false'', ''False''} then Some False
      else None)"

lemma is_digit_facts:
  assumes "is_digit c"
  shows "c \<noteq> CHR ''-''" and "c \<noteq> CHR ''+''" and "\<not> is_scan_space c" and "c \<noteq> CHR '':''"
  using assms by (auto simp: is_digit_def is_scan_space_def is_space_def)

lemma show_nat_Cons:
  obtains c t where "show_nat n = c # t" and "is_digit c"
  by (metis show_nat_digits show_nat_nonempty list.exhaust list.set_intros(1))

lemma signed_digits_show_nat:
  "int n < 2 ^ 63 \<Longrightarrow> signed_digits False (show_nat n) = Some (int n)"
  using show_nat_digits [of n] show_nat_nonempty [of n]
  by (simp add: signed_digits_def digits_to_nat_show list_all_iff int64_range_def)

text \<open>What \<open>%d\<close> prints, \<open>Sscanf\<close> and \<open>Atoi\<close> read back.\<close>

lemma sscanf_d_show_nat:
  assumes "int n < 2 ^ 63"
  shows "sscanf_d (show_nat n) = Some (int n)"
proof -
  obtain c t where ct: "show_nat n = c # t" "is_digit c" by (rule show_nat_Cons)
  have "takeWhile (\<lambda>c. is_digit c \<or> c = CHR ''_'') (show_nat n) = show_nat n"
    using show_nat_digits [of n] by (simp add: takeWhile_eq_all_conv)
  with ct have run: "takeWhile (\<lambda>c. is_digit c \<or> c = CHR ''_'') t = t" by simp
  then show ?thesis
    using ct is_digit_facts [OF ct(2)] signed_digits_show_nat [OF assms]
    by (simp add: sscanf_d_def scan_run_def run)
qed

lemma sscanf_d_show_int: "0 \<le> i \<Longrightarrow> i < 2 ^ 63 \<Longrightarrow> sscanf_d (show_int i) = Some i"
  using sscanf_d_show_nat [of "nat i"] by (simp add: show_int_def)

lemma atoi_show_nat:
  assumes "int n < 2 ^ 63"
  shows "atoi (show_nat n) = Some (int n)"
proof -
  obtain c t where ct: "show_nat n = c # t" "is_digit c" by (rule show_nat_Cons)
  then show ?thesis
    using is_digit_facts [OF ct(2)] signed_digits_show_nat [OF assms] by simp
qed

lemma show_int_nonempty [simp]: "show_int i \<noteq> []"
  by (simp add: show_int_def show_nat_nonempty)

end
