(* ===== verification/Prelude.thy ===== *)
theory Prelude
  imports GoStrings "HOL-Library.Word"
begin

text \<open>
  Shared base of the development: how Go code is rendered in HOL.

  A Go function that reads or changes state is a state transformer: it takes the state and
  returns its result with the new state.  A Go function that can fail returns
  \<open>go_error + 'a\<close>, with \<open>Inl\<close> for a non-nil error.  The Go idiom
  \<open>x, err := m(); if err != nil { h } ; k\<close> is the combinator \<open>try_do m h k\<close>; an error
  that the source discards (\<open>_ = m()\<close>) is \<open>ignore_do m k\<close>.

  Go's \<open>int\<close> and \<open>time.Duration\<close> have 64 bits: \<open>i64\<close> writes the wrap-around out where it
  can matter.  PostgreSQL's INTEGER columns hold the range \<open>int4\<close>.

  The locale \<open>preorder_effect\<close> is the interface through which every later theory proves that
  a whole handler respects a relation between the state before and the state after: the
  relation has to be a preorder, and then it is enough to look at the single statements.
\<close>

section \<open>Proof collections\<close>

named_theorems obeys_intro "rules that push a two-state relation through a program"
named_theorems store_defs "definitions of the store's statements"
named_theorems stmt_simps "what a single statement returns"

section \<open>Errors\<close>

text \<open>
  \<open>Sentinel\<close> is a package-level error variable, identified by its qualified name, so that
  \<open>err == ErrX\<close> is equality.  \<open>Errorf p e s\<close> is \<open>fmt.Errorf\<close> with a wrapped error \<open>e\<close>
  between the texts \<open>p\<close> and \<open>s\<close>.  \<open>External\<close> is an error made by a library (driver, network,
  codec), \<open>Panic\<close> a run-time panic that the caller's recovery turns into a failure.
\<close>

datatype go_error =
    Sentinel string string
  | Plain string
  | Errorf string go_error string
  | ApiError int string
  | External string
  | Panic string

fun err_msg :: "go_error \<Rightarrow> string" where
  "err_msg (Sentinel name msg) = msg"
| "err_msg (Plain msg) = msg"
| "err_msg (Errorf pre e post) = pre @ err_msg e @ post"
| "err_msg (ApiError code body) =
     ''proxmox API error (status '' @ show_int code @ ''): '' @ body"
| "err_msg (External msg) = msg"
| "err_msg (Panic msg) = msg"

abbreviation wrap_err :: "string \<Rightarrow> go_error \<Rightarrow> go_error" where
  "wrap_err pre e \<equiv> Errorf pre e ''''"

definition sql_ErrNoRows :: go_error where
  "sql_ErrNoRows = Sentinel ''sql.ErrNoRows'' ''sql: no rows in result set''"

section \<open>State transformers\<close>

type_synonym ('s, 'a) prog = "'s \<Rightarrow> 'a \<times> 's"
type_synonym ('s, 'a) eprog = "'s \<Rightarrow> (go_error + 'a) \<times> 's"

definition result :: "'a \<Rightarrow> ('s, 'a) prog" where
  "result x = (\<lambda>s. (x, s))"

definition ok :: "'a \<Rightarrow> ('s, 'a) eprog" where
  "ok x = (\<lambda>s. (Inr x, s))"

definition fail :: "go_error \<Rightarrow> ('s, 'a) eprog" where
  "fail e = (\<lambda>s. (Inl e, s))"

definition bind_do :: "('s, 'a) prog \<Rightarrow> ('a \<Rightarrow> ('s, 'b) prog) \<Rightarrow> ('s, 'b) prog" where
  "bind_do m k = (\<lambda>s. case m s of (x, s') \<Rightarrow> k x s')"

definition try_do ::
  "('s, 'a) eprog \<Rightarrow> (go_error \<Rightarrow> ('s, 'b) prog) \<Rightarrow> ('a \<Rightarrow> ('s, 'b) prog) \<Rightarrow> ('s, 'b) prog"
where
  "try_do m h k = (\<lambda>s. case m s of (Inl e, s') \<Rightarrow> h e s' | (Inr x, s') \<Rightarrow> k x s')"

definition ignore_do :: "('s, 'a) prog \<Rightarrow> ('s, 'b) prog \<Rightarrow> ('s, 'b) prog" where
  "ignore_do m k = (\<lambda>s. k (snd (m s)))"

text \<open>\<open>defer close()\<close>: \<open>close\<close> runs when the body returns, and the body's result is returned.\<close>

definition deferred :: "('s, unit) prog \<Rightarrow> ('s, 'a) prog \<Rightarrow> ('s, 'a) prog" where
  "deferred close body = bind_do body (\<lambda>r. ignore_do close (result r))"

text \<open>A \<open>for _, x := range xs\<close> loop whose body cannot leave the loop early.\<close>

fun for_each :: "'a list \<Rightarrow> ('a \<Rightarrow> ('s, 'b) prog) \<Rightarrow> ('s, unit) prog" where
  "for_each [] f = result ()"
| "for_each (x # xs) f = ignore_do (f x) (for_each xs f)"

text \<open>A loop whose body may return an error out of the enclosing function.\<close>

fun for_each_err :: "'a list \<Rightarrow> ('a \<Rightarrow> ('s, unit) eprog) \<Rightarrow> ('s, unit) eprog" where
  "for_each_err [] f = ok ()"
| "for_each_err (x # xs) f = try_do (f x) fail (\<lambda>_. for_each_err xs f)"

lemma result_apply [simp]: "result x s = (x, s)"
  by (simp add: result_def)

lemma ok_apply [simp]: "ok x s = (Inr x, s)"
  by (simp add: ok_def)

lemma fail_apply [simp]: "fail e s = (Inl e, s)"
  by (simp add: fail_def)

lemma bind_do_apply [simp]: "m s = (x, s') \<Longrightarrow> bind_do m k s = k x s'"
  by (simp add: bind_do_def)

lemma try_do_Inl [simp]: "m s = (Inl e, s') \<Longrightarrow> try_do m h k s = h e s'"
  by (simp add: try_do_def)

lemma try_do_Inr [simp]: "m s = (Inr x, s') \<Longrightarrow> try_do m h k s = k x s'"
  by (simp add: try_do_def)

lemma ignore_do_apply [simp]: "m s = (x, s') \<Longrightarrow> ignore_do m k s = k s'"
  by (simp add: ignore_do_def)

text \<open>Inversion: what a program that returned a given result must have done.\<close>

lemma try_do_cases:
  assumes "try_do m h k s = r"
  obtains (err) e s' where "m s = (Inl e, s')" and "h e s' = r"
  | (ok) x s' where "m s = (Inr x, s')" and "k x s' = r"
  using assms by (cases "m s"; cases "fst (m s)") (auto simp: try_do_def)

lemma try_do_InrD:
  assumes "try_do m (\<lambda>e. fail (f e)) k s = (Inr y, s')"
  obtains x s1 where "m s = (Inr x, s1)" and "k x s1 = (Inr y, s')"
  using assms by (elim try_do_cases) auto

section \<open>Two-state relations of whole programs\<close>

definition obeys :: "('s \<Rightarrow> 's \<Rightarrow> bool) \<Rightarrow> ('s, 'a) prog \<Rightarrow> bool" where
  "obeys R m \<longleftrightarrow> (\<forall>s. R s (snd (m s)))"

lemma obeysI: "(\<And>s. R s (snd (m s))) \<Longrightarrow> obeys R m"
  by (simp add: obeys_def)

lemma obeysD: "obeys R m \<Longrightarrow> R s (snd (m s))"
  by (simp add: obeys_def)

lemma obeysD': "obeys R m \<Longrightarrow> m s = (x, s') \<Longrightarrow> R s s'"
  by (metis obeysD snd_conv)

lemma obeys_mono: "obeys R m \<Longrightarrow> (\<And>s t. R s t \<Longrightarrow> Q s t) \<Longrightarrow> obeys Q m"
  by (simp add: obeys_def)

locale preorder_effect =
  fixes R :: "'s \<Rightarrow> 's \<Rightarrow> bool"
  assumes refl: "R s s"
    and trans: "R s t \<Longrightarrow> R t u \<Longrightarrow> R s u"
begin

lemma obeys_result [intro!]: "obeys R (result x)"
  by (simp add: obeys_def refl)

lemma obeys_ok [intro!]: "obeys R (ok x)"
  by (simp add: obeys_def refl)

lemma obeys_fail [intro!]: "obeys R (fail e)"
  by (simp add: obeys_def refl)

lemma obeys_bind [intro!]:
  "obeys R m \<Longrightarrow> (\<And>x. obeys R (k x)) \<Longrightarrow> obeys R (bind_do m k)"
  by (auto simp: obeys_def bind_do_def split: prod.split) (metis snd_conv trans)

lemma obeys_try [intro!]:
  assumes "obeys R m" and "\<And>e. obeys R (h e)" and "\<And>x. obeys R (k x)"
  shows "obeys R (try_do m h k)"
proof (rule obeysI)
  fix s
  show "R s (snd (try_do m h k s))"
  proof (cases "m s")
    case (Pair r s')
    with assms(1) have "R s s'" by (rule obeysD')
    with Pair assms(2,3) show ?thesis
      by (cases r) (auto simp: obeys_def intro: trans)
  qed
qed

lemma obeys_ignore [intro!]:
  "obeys R m \<Longrightarrow> obeys R k \<Longrightarrow> obeys R (ignore_do m k)"
  by (auto simp: obeys_def ignore_do_def intro: trans)

lemma obeys_deferred [intro!]:
  "obeys R close \<Longrightarrow> obeys R body \<Longrightarrow> obeys R (deferred close body)"
  unfolding deferred_def by (intro obeys_bind obeys_ignore obeys_result)

lemma obeys_if [intro!]:
  "(b \<Longrightarrow> obeys R m) \<Longrightarrow> (\<not> b \<Longrightarrow> obeys R k) \<Longrightarrow> obeys R (if b then m else k)"
  by simp

lemma obeys_option [intro!]:
  "(x = None \<Longrightarrow> obeys R m) \<Longrightarrow> (\<And>y. x = Some y \<Longrightarrow> obeys R (k y)) \<Longrightarrow>
   obeys R (case x of None \<Rightarrow> m | Some y \<Rightarrow> k y)"
  by (simp split: option.split)

lemma obeys_sum [intro!]:
  "(\<And>e. x = Inl e \<Longrightarrow> obeys R (m e)) \<Longrightarrow> (\<And>y. x = Inr y \<Longrightarrow> obeys R (k y)) \<Longrightarrow>
   obeys R (case x of Inl e \<Rightarrow> m e | Inr y \<Rightarrow> k y)"
  by (simp split: sum.split)

lemma obeys_prod [intro!]:
  "(\<And>a b. x = (a, b) \<Longrightarrow> obeys R (k a b)) \<Longrightarrow> obeys R (case x of (a, b) \<Rightarrow> k a b)"
  by (simp split: prod.split)

lemma obeys_for_each [intro!]:
  "(\<And>x. x \<in> set xs \<Longrightarrow> obeys R (f x)) \<Longrightarrow> obeys R (for_each xs f)"
  by (induction xs) auto

lemma obeys_for_each_err [intro!]:
  "(\<And>x. x \<in> set xs \<Longrightarrow> obeys R (f x)) \<Longrightarrow> obeys R (for_each_err xs f)"
  by (induction xs) auto

end

section \<open>Machine integers\<close>

definition i64 :: "int \<Rightarrow> int" where
  "i64 x = signed_take_bit 63 x"

definition int4 :: "int \<Rightarrow> bool" where
  "int4 x \<longleftrightarrow> - (2 ^ 31) \<le> x \<and> x < 2 ^ 31"

lemma i64_id: "- (2 ^ 63) \<le> x \<Longrightarrow> x < 2 ^ 63 \<Longrightarrow> i64 x = x"
  by (simp add: i64_def signed_take_bit_int_eq_self)

lemma i64_lower: "- (2 ^ 63) \<le> i64 x"
  using signed_take_bit_int_greater_eq_minus_exp [of 63 x] by (simp add: i64_def)

lemma i64_upper: "i64 x < 2 ^ 63"
  using signed_take_bit_int_less_exp [of 63 x] by (simp add: i64_def)

text \<open>Go's \<open>/\<close> truncates towards zero (the divisor is checked by the callers).\<close>

definition go_div :: "int \<Rightarrow> int \<Rightarrow> int" where
  "go_div a b = sgn a * sgn b * (\<bar>a\<bar> div \<bar>b\<bar>)"

lemma go_div_nonneg: "0 \<le> a \<Longrightarrow> 0 < b \<Longrightarrow> go_div a b = a div b"
  by (cases "a = 0") (simp_all add: go_div_def)

section \<open>Lists and tables\<close>

text \<open>\<open>UPDATE t SET f WHERE p\<close> on a table kept as a list of rows.\<close>

definition update_rows :: "('r \<Rightarrow> bool) \<Rightarrow> ('r \<Rightarrow> 'r) \<Rightarrow> 'r list \<Rightarrow> 'r list" where
  "update_rows p f rs = map (\<lambda>r. if p r then f r else r) rs"

lemma update_rows_Nil [simp]: "update_rows p f [] = []"
  by (simp add: update_rows_def)

lemma update_rows_Cons [simp]:
  "update_rows p f (r # rs) = (if p r then f r else r) # update_rows p f rs"
  by (simp add: update_rows_def)

lemma length_update_rows [simp]: "length (update_rows p f rs) = length rs"
  by (simp add: update_rows_def)

lemma set_update_rows:
  "r' \<in> set (update_rows p f rs) \<longleftrightarrow> (\<exists>r \<in> set rs. r' = (if p r then f r else r))"
  by (auto simp: update_rows_def)

lemma map_update_rows:
  "(\<And>r. p r \<Longrightarrow> g (f r) = g r) \<Longrightarrow> map g (update_rows p f rs) = map g rs"
  by (induction rs) auto

lemma find_update_rows:
  assumes "\<And>r. q (f r) = q r"
  shows "find q (update_rows p f rs) =
    map_option (\<lambda>r. if p r then f r else r) (find q rs)"
  using assms by (induction rs) auto

lemma update_rows_none: "\<forall>r \<in> set rs. \<not> p r \<Longrightarrow> update_rows p f rs = rs"
  by (induction rs) auto

lemma find_SomeD: "find p xs = Some x \<Longrightarrow> x \<in> set xs \<and> p x"
  by (induction xs) (auto split: if_splits)

lemma find_NoneD: "find p xs = None \<Longrightarrow> x \<in> set xs \<Longrightarrow> \<not> p x"
  by (induction xs) (auto split: if_splits)

lemma find_append:
  "find p (xs @ ys) = (case find p xs of None \<Rightarrow> find p ys | Some x \<Rightarrow> Some x)"
  by (induction xs) auto

lemma find_distinct_key:
  assumes "distinct (map key rs)" and "r \<in> set rs"
  shows "find (\<lambda>x. key x = key r) rs = Some r"
  using assms by (induction rs) (auto simp: image_iff)

lemma list_all2_partner_right:
  "list_all2 P xs ys \<Longrightarrow> x \<in> set xs \<Longrightarrow> \<exists>y \<in> set ys. P x y"
  by (induction rule: list_all2_induct) auto

lemma list_all2_partner_left:
  "list_all2 P xs ys \<Longrightarrow> y \<in> set ys \<Longrightarrow> \<exists>x \<in> set xs. P x y"
  by (induction rule: list_all2_induct) auto

end
