(* ===== verification/Proxy.thy ===== *)
theory Proxy
  imports Prelude
begin

text \<open>
  \<open>internal/proxy\<close>: the iptables script a workstation runs to be confined to the
  documentation proxy (iptables.go, config.go).  The script is the byte string the source
  builds; \<open>script_lines\<close> reads it back line by line, and the lemmas say which rules it appends,
  in which order.
\<close>

record proxy_config =
  pxAddr :: string

definition nl :: string where
  "nl = [CHR 0x0A]"

definition parseAddr :: "string \<Rightarrow> string \<times> string" where
  "parseAddr addr = (case splitn2 CHR '':'' addr of
       [host, port] \<Rightarrow> (host, port)
     | _ \<Rightarrow> (addr, ''3128''))"

fun cidr_rules :: "string list \<Rightarrow> string" where
  "cidr_rules [] = ''''"
| "cidr_rules (cidr # cidrs) =
     ''iptables -A OUTPUT -d '' @ cidr @ '' -j ACCEPT'' @ nl @ cidr_rules cidrs"

definition flush_rules :: string where
  "flush_rules =
     ''# Flush existing rules for ports 80 and 443'' @ nl @
     ''iptables -D OUTPUT -p tcp --dport 80 -j DROP 2>/dev/null || true'' @ nl @
     ''iptables -D OUTPUT -p tcp --dport 443 -j DROP 2>/dev/null || true'' @ nl @
     ''iptables -D OUTPUT -p tcp --dport 80 -j ACCEPT 2>/dev/null || true'' @ nl @
     ''iptables -D OUTPUT -p tcp --dport 443 -j ACCEPT 2>/dev/null || true'' @ nl @ nl"

definition GenerateIPTablesScript :: "proxy_config \<Rightarrow> string list \<Rightarrow> string" where
  "GenerateIPTablesScript cfg clusterCIDRs =
     ''#!/bin/bash'' @ nl @ ''set -euo pipefail'' @ nl @ nl @
     flush_rules @
     ''# Allow DNS'' @ nl @
     ''iptables -A OUTPUT -p udp --dport 53 -j ACCEPT'' @ nl @
     ''iptables -A OUTPUT -p tcp --dport 53 -j ACCEPT'' @ nl @ nl @
     ''# Allow traffic to cluster CIDRs'' @ nl @
     cidr_rules clusterCIDRs @ nl @
     ''# Allow traffic to proxy'' @ nl @
     (let (host, port) = parseAddr (pxAddr cfg) in
       ''iptables -A OUTPUT -p tcp -d '' @ host @ '' --dport '' @ port @ '' -j ACCEPT'') @ nl @ nl @
     ''# Allow loopback'' @ nl @
     ''iptables -A OUTPUT -o lo -j ACCEPT'' @ nl @ nl @
     ''# Allow established connections'' @ nl @
     ''iptables -A OUTPUT -m state --state ESTABLISHED,RELATED -j ACCEPT'' @ nl @ nl @
     ''# Block all other outbound HTTP/HTTPS'' @ nl @
     ''iptables -A OUTPUT -p tcp --dport 80 -j DROP'' @ nl @
     ''iptables -A OUTPUT -p tcp --dport 443 -j DROP'' @ nl @ nl @
     ''# Persist rules'' @ nl @
     ''if command -v iptables-save >/dev/null 2>&1; then'' @ nl @
     ''  iptables-save > /etc/iptables/rules.v4 2>/dev/null || true'' @ nl @
     ''fi'' @ nl"

section \<open>Reading the script back\<close>

definition script_lines :: "string \<Rightarrow> string list" where
  "script_lines s = split_on CHR 0x0A s"

definition is_append_rule :: "string \<Rightarrow> bool" where
  "is_append_rule l \<longleftrightarrow> has_prefix ''iptables -A OUTPUT '' l"

definition appended_rules :: "string \<Rightarrow> string list" where
  "appended_rules s = filter is_append_rule (script_lines s)"

definition one_line :: "string \<Rightarrow> bool" where
  "one_line s \<longleftrightarrow> CHR 0x0A \<notin> set s"

lemma one_line_append [simp]: "one_line (a @ b) \<longleftrightarrow> one_line a \<and> one_line b"
  by (auto simp: one_line_def)

lemma appended_rules_line:
  "one_line a \<Longrightarrow> appended_rules (a @ nl @ s) =
     (if is_append_rule a then a # appended_rules s else appended_rules s)"
  using split_on_present [of "CHR 0x0A" a s]
  by (simp add: appended_rules_def script_lines_def nl_def one_line_def)

text \<open>The script is a sequence of lines; the rules it appends are a filter of them.\<close>

definition lines_of :: "string list \<Rightarrow> string" where
  "lines_of ls = concat (map (\<lambda>l. l @ nl) ls)"

lemma appended_rules_lines:
  "list_all one_line ls \<Longrightarrow> appended_rules (lines_of ls) = filter is_append_rule ls"
proof (induction ls)
  case Nil
  show ?case
    by (simp add: lines_of_def appended_rules_def script_lines_def is_append_rule_def has_prefix_def)
next
  case (Cons l ls)
  then show ?case
    using appended_rules_line [of l "lines_of ls"] by (simp add: lines_of_def)
qed

lemma cidr_rules_lines:
  "cidr_rules cidrs = lines_of (map (\<lambda>c. ''iptables -A OUTPUT -d '' @ c @ '' -j ACCEPT'') cidrs)"
  by (induction cidrs) (simp_all add: lines_of_def)

lemma parseAddr_no_port: "CHR '':'' \<notin> set addr \<Longrightarrow> parseAddr addr = (addr, ''3128'')"
  by (simp add: parseAddr_def splitn2_absent)

lemma parseAddr_port: "CHR '':'' \<notin> set host \<Longrightarrow> parseAddr (host @ '':'' @ port) = (host, port)"
  using splitn2_present [of "CHR '':''" host port] by (simp add: parseAddr_def)

lemma parseAddr_one_line:
  assumes "one_line addr"
  shows "one_line (fst (parseAddr addr))" and "one_line (snd (parseAddr addr))"
proof -
  have "one_line (fst (parseAddr addr)) \<and> one_line (snd (parseAddr addr))"
  proof (cases "CHR '':'' \<in> set addr")
    case True
    then obtain a b where "addr = a @ CHR '':'' # b" and "CHR '':'' \<notin> set a"
      by (meson split_list_first)
    with assms parseAddr_port [of a b] show ?thesis by (simp add: one_line_def)
  next
    case False
    with assms show ?thesis by (simp add: parseAddr_no_port one_line_def)
  qed
  then show "one_line (fst (parseAddr addr))" and "one_line (snd (parseAddr addr))" by simp_all
qed

definition proxy_rule :: "string \<Rightarrow> string" where
  "proxy_rule addr = ''iptables -A OUTPUT -p tcp -d '' @ fst (parseAddr addr) @
     '' --dport '' @ snd (parseAddr addr) @ '' -j ACCEPT''"

definition expected_rules :: "proxy_config \<Rightarrow> string list \<Rightarrow> string list" where
  "expected_rules cfg cidrs =
     [''iptables -A OUTPUT -p udp --dport 53 -j ACCEPT'',
      ''iptables -A OUTPUT -p tcp --dport 53 -j ACCEPT''] @
     map (\<lambda>c. ''iptables -A OUTPUT -d '' @ c @ '' -j ACCEPT'') cidrs @
     [proxy_rule (pxAddr cfg),
      ''iptables -A OUTPUT -o lo -j ACCEPT'',
      ''iptables -A OUTPUT -m state --state ESTABLISHED,RELATED -j ACCEPT'',
      ''iptables -A OUTPUT -p tcp --dport 80 -j DROP'',
      ''iptables -A OUTPUT -p tcp --dport 443 -j DROP'']"

definition head_lines :: "string list" where
  "head_lines =
     [''#!/bin/bash'', ''set -euo pipefail'', '''',
      ''# Flush existing rules for ports 80 and 443'',
      ''iptables -D OUTPUT -p tcp --dport 80 -j DROP 2>/dev/null || true'',
      ''iptables -D OUTPUT -p tcp --dport 443 -j DROP 2>/dev/null || true'',
      ''iptables -D OUTPUT -p tcp --dport 80 -j ACCEPT 2>/dev/null || true'',
      ''iptables -D OUTPUT -p tcp --dport 443 -j ACCEPT 2>/dev/null || true'', '''',
      ''# Allow DNS'',
      ''iptables -A OUTPUT -p udp --dport 53 -j ACCEPT'',
      ''iptables -A OUTPUT -p tcp --dport 53 -j ACCEPT'', '''',
      ''# Allow traffic to cluster CIDRs'']"

definition tail_lines :: "string \<Rightarrow> string list" where
  "tail_lines addr =
     ['''', ''# Allow traffic to proxy'', proxy_rule addr, '''',
      ''# Allow loopback'', ''iptables -A OUTPUT -o lo -j ACCEPT'', '''',
      ''# Allow established connections'',
      ''iptables -A OUTPUT -m state --state ESTABLISHED,RELATED -j ACCEPT'', '''',
      ''# Block all other outbound HTTP/HTTPS'',
      ''iptables -A OUTPUT -p tcp --dport 80 -j DROP'',
      ''iptables -A OUTPUT -p tcp --dport 443 -j DROP'', '''',
      ''# Persist rules'',
      ''if command -v iptables-save >/dev/null 2>&1; then'',
      ''  iptables-save > /etc/iptables/rules.v4 2>/dev/null || true'', ''fi'']"

lemma script_as_lines:
  "GenerateIPTablesScript cfg cidrs = lines_of (head_lines @
     map (\<lambda>c. ''iptables -A OUTPUT -d '' @ c @ '' -j ACCEPT'') cidrs @ tail_lines (pxAddr cfg))"
  by (simp add: GenerateIPTablesScript_def flush_rules_def cidr_rules_lines lines_of_def
      head_lines_def tail_lines_def proxy_rule_def nl_def split: prod.split)

lemma head_rules:
  "filter is_append_rule head_lines =
     [''iptables -A OUTPUT -p udp --dport 53 -j ACCEPT'',
      ''iptables -A OUTPUT -p tcp --dport 53 -j ACCEPT'']"
  by (simp add: head_lines_def is_append_rule_def has_prefix_def)

lemma tail_rules:
  "filter is_append_rule (tail_lines addr) =
     [proxy_rule addr, ''iptables -A OUTPUT -o lo -j ACCEPT'',
      ''iptables -A OUTPUT -m state --state ESTABLISHED,RELATED -j ACCEPT'',
      ''iptables -A OUTPUT -p tcp --dport 80 -j DROP'',
      ''iptables -A OUTPUT -p tcp --dport 443 -j DROP'']"
  by (simp add: tail_lines_def proxy_rule_def is_append_rule_def has_prefix_def)

lemma head_one_line: "list_all one_line head_lines"
  by (simp add: head_lines_def one_line_def)

lemma tail_one_line: "one_line addr \<Longrightarrow> list_all one_line (tail_lines addr)"
  using parseAddr_one_line [of addr] by (simp add: tail_lines_def proxy_rule_def one_line_def)

lemma cidr_lines_filter:
  "filter is_append_rule (map (\<lambda>c. ''iptables -A OUTPUT -d '' @ c @ '' -j ACCEPT'') cidrs) =
     map (\<lambda>c. ''iptables -A OUTPUT -d '' @ c @ '' -j ACCEPT'') cidrs"
  by (induction cidrs) (simp_all add: is_append_rule_def has_prefix_def)

lemma cidr_lines_one_line:
  "list_all one_line cidrs \<Longrightarrow>
     list_all one_line (map (\<lambda>c. ''iptables -A OUTPUT -d '' @ c @ '' -j ACCEPT'') cidrs)"
  by (induction cidrs) (simp_all add: one_line_def)

lemma script_rules:
  assumes "one_line (pxAddr cfg)" and "list_all one_line cidrs"
  shows "appended_rules (GenerateIPTablesScript cfg cidrs) = expected_rules cfg cidrs"
proof -
  have "list_all one_line (head_lines @
      map (\<lambda>c. ''iptables -A OUTPUT -d '' @ c @ '' -j ACCEPT'') cidrs @ tail_lines (pxAddr cfg))"
    using head_one_line tail_one_line [OF assms(1)] cidr_lines_one_line [OF assms(2)] by simp
  then show ?thesis
    by (simp only: script_as_lines appended_rules_lines filter_append head_rules tail_rules
        cidr_lines_filter expected_rules_def)
qed

end
