(* ===== verification/Egress_Properties.thy ===== *)
theory Egress_Properties
  imports Proxy
begin

text \<open>
  What the script of \<open>internal/proxy\<close> lets through: the rules it appends are the texts of a
  policy, and the policy is read as iptables reads its OUTPUT chain, first match first.  Whether
  an address matches the argument of \<open>-d\<close> is left open (\<open>m\<close>).
\<close>

datatype protocol = Tcp | Udp

record packet =
  pkProto :: protocol
  pkDst :: string
  pkPort :: string
  pkLoopback :: bool
  pkEstablished :: bool

datatype rule =
    AcceptPort protocol string | AcceptDst string | AcceptDstPort string string
  | AcceptLoopback | AcceptEstablished | DropPort string

fun rule_text :: "rule \<Rightarrow> string" where
  "rule_text (AcceptPort Tcp p) = ''iptables -A OUTPUT -p tcp --dport '' @ p @ '' -j ACCEPT''"
| "rule_text (AcceptPort Udp p) = ''iptables -A OUTPUT -p udp --dport '' @ p @ '' -j ACCEPT''"
| "rule_text (AcceptDst c) = ''iptables -A OUTPUT -d '' @ c @ '' -j ACCEPT''"
| "rule_text (AcceptDstPort h p) = ''iptables -A OUTPUT -p tcp -d '' @ h @ '' --dport '' @ p @ '' -j ACCEPT''"
| "rule_text AcceptLoopback = ''iptables -A OUTPUT -o lo -j ACCEPT''"
| "rule_text AcceptEstablished = ''iptables -A OUTPUT -m state --state ESTABLISHED,RELATED -j ACCEPT''"
| "rule_text (DropPort p) = ''iptables -A OUTPUT -p tcp --dport '' @ p @ '' -j DROP''"

fun rule_matches :: "(string \<Rightarrow> string \<Rightarrow> bool) \<Rightarrow> packet \<Rightarrow> rule \<Rightarrow> bool" where
  "rule_matches m k (AcceptPort proto p) \<longleftrightarrow> pkProto k = proto \<and> pkPort k = p"
| "rule_matches m k (AcceptDst c) \<longleftrightarrow> m c (pkDst k)"
| "rule_matches m k (AcceptDstPort h p) \<longleftrightarrow> pkProto k = Tcp \<and> m h (pkDst k) \<and> pkPort k = p"
| "rule_matches m k AcceptLoopback \<longleftrightarrow> pkLoopback k"
| "rule_matches m k AcceptEstablished \<longleftrightarrow> pkEstablished k"
| "rule_matches m k (DropPort p) \<longleftrightarrow> pkProto k = Tcp \<and> pkPort k = p"

fun allowed :: "(string \<Rightarrow> string \<Rightarrow> bool) \<Rightarrow> packet \<Rightarrow> rule list \<Rightarrow> bool" where
  "allowed m k [] = True"
| "allowed m k (r # rs) =
     (if rule_matches m k r then (case r of DropPort p \<Rightarrow> False | _ \<Rightarrow> True) else allowed m k rs)"

definition egress_policy :: "proxy_config \<Rightarrow> string list \<Rightarrow> rule list" where
  "egress_policy cfg cidrs =
     [AcceptPort Udp ''53'', AcceptPort Tcp ''53''] @ map AcceptDst cidrs @
     [AcceptDstPort (fst (parseAddr (pxAddr cfg))) (snd (parseAddr (pxAddr cfg))),
      AcceptLoopback, AcceptEstablished, DropPort ''80'', DropPort ''443'']"

lemma allowed_cidrs:
  "allowed m k (map AcceptDst cidrs @ rs) \<longleftrightarrow> (\<exists>c \<in> set cidrs. m c (pkDst k)) \<or> allowed m k rs"
  by (induction cidrs) auto

text \<open>C24: What the script blocks, for addresses without line breaks: the rules it appends are, in
  order, those of the policy; and a packet is dropped exactly when it opens a TCP connection to
  port 80 or 443 that neither stays on the machine, nor goes to one of the given networks, nor to
  the proxy's address and port.  Everything else, other ports included, passes.\<close>

theorem egress_exact:
  assumes "one_line (pxAddr cfg)" and "list_all one_line cidrs"
  shows "appended_rules (GenerateIPTablesScript cfg cidrs) = map rule_text (egress_policy cfg cidrs) \<and>
    (\<not> allowed m k (egress_policy cfg cidrs) \<longleftrightarrow>
       pkProto k = Tcp \<and> pkPort k \<in> {''80'', ''443''} \<and> \<not> pkLoopback k \<and> \<not> pkEstablished k \<and>
       \<not> (\<exists>c \<in> set cidrs. m c (pkDst k)) \<and>
       \<not> (m (fst (parseAddr (pxAddr cfg))) (pkDst k) \<and> pkPort k = snd (parseAddr (pxAddr cfg))))"
proof
  have "map rule_text (egress_policy cfg cidrs) = expected_rules cfg cidrs"
    by (simp add: egress_policy_def expected_rules_def proxy_rule_def comp_def)
  then show "appended_rules (GenerateIPTablesScript cfg cidrs) = map rule_text (egress_policy cfg cidrs)"
    using script_rules [OF assms] by simp
next
  show "\<not> allowed m k (egress_policy cfg cidrs) \<longleftrightarrow>
       pkProto k = Tcp \<and> pkPort k \<in> {''80'', ''443''} \<and> \<not> pkLoopback k \<and> \<not> pkEstablished k \<and>
       \<not> (\<exists>c \<in> set cidrs. m c (pkDst k)) \<and>
       \<not> (m (fst (parseAddr (pxAddr cfg))) (pkDst k) \<and> pkPort k = snd (parseAddr (pxAddr cfg)))"
    by (auto simp: egress_policy_def allowed_cidrs)
qed

theorem egress_exact_witness:
  "\<not> allowed (=) \<lparr>pkProto = Tcp, pkDst = ''8.8.8.8'', pkPort = ''443'', pkLoopback = False, pkEstablished = False\<rparr>
     (egress_policy \<lparr>pxAddr = ''10.9.9.9:3128''\<rparr> [''10.0.0.0/8''])"
proof -
  let ?k = "\<lparr>pkProto = Tcp, pkDst = ''8.8.8.8'', pkPort = ''443'', pkLoopback = False, pkEstablished = False\<rparr>"
  have p: "parseAddr ''10.9.9.9:3128'' = (''10.9.9.9'', ''3128'')"
    using parseAddr_port [of "''10.9.9.9''" "''3128''"] by simp
  have "\<not> allowed (=) ?k (egress_policy \<lparr>pxAddr = ''10.9.9.9:3128''\<rparr> [''10.0.0.0/8'']) \<longleftrightarrow>
       pkProto ?k = Tcp \<and> pkPort ?k \<in> {''80'', ''443''} \<and> \<not> pkLoopback ?k \<and> \<not> pkEstablished ?k \<and>
       \<not> (\<exists>c \<in> set [''10.0.0.0/8'']. c = pkDst ?k) \<and>
       \<not> (fst (parseAddr (pxAddr \<lparr>pxAddr = ''10.9.9.9:3128''\<rparr>)) = pkDst ?k \<and>
          pkPort ?k = snd (parseAddr (pxAddr \<lparr>pxAddr = ''10.9.9.9:3128''\<rparr>)))"
    by (rule egress_exact [THEN conjunct2]) (simp_all add: one_line_def)
  then show ?thesis by (simp add: p)
qed

end
