(* ===== verification/Json.thy ===== *)
theory Json
  imports Prelude
begin

text \<open>
  JSON documents and what \<open>encoding/json\<close> does with them where the program relies on it:
  decoding an object into a struct (keys match their field name up to letter case, unknown
  keys are skipped unless the decoder disallows them, \<open>null\<close> leaves a field as it was, a value
  of the wrong type is an error) and encoding a struct field by field.  A document is kept as a
  tree; the text codec itself is the standard library's.  The google/uuid library is not part
  of the repository: it is the record \<open>uuid_lib\<close>, and the one fact the code relies on is
  \<open>uuid_lib_ok\<close>.
\<close>

section \<open>Documents\<close>

datatype json =
    JNull
  | JBool bool
  | JNum int
  | JFloat string
  | JStr string
  | JArr "json list"
  | JObj "(string \<times> json) list"

definition key_matches :: "string \<Rightarrow> string \<Rightarrow> bool" where
  "key_matches field key \<longleftrightarrow> to_lower field = to_lower key"

type_synonym 'a field_decoder = "string \<times> (json \<Rightarrow> 'a \<Rightarrow> 'a option)"

text \<open>The members of an object in order; \<open>strict\<close> is \<open>DisallowUnknownFields\<close>.\<close>

fun decode_members ::
  "bool \<Rightarrow> 'a field_decoder list \<Rightarrow> (string \<times> json) list \<Rightarrow> 'a \<Rightarrow> 'a option"
where
  "decode_members strict decs [] acc = Some acc"
| "decode_members strict decs ((key, v) # ms) acc =
     (case find (\<lambda>d. key_matches (fst d) key) decs of
        None \<Rightarrow> (if strict then None else decode_members strict decs ms acc)
      | Some d \<Rightarrow> (case snd d v acc of
            None \<Rightarrow> None
          | Some acc' \<Rightarrow> decode_members strict decs ms acc'))"

definition decode_struct :: "bool \<Rightarrow> 'a field_decoder list \<Rightarrow> 'a \<Rightarrow> json \<Rightarrow> 'a option" where
  "decode_struct strict decs zero v = (case v of
       JNull \<Rightarrow> Some zero
     | JObj ms \<Rightarrow> decode_members strict decs ms zero
     | _ \<Rightarrow> None)"

definition into_string :: "(string \<Rightarrow> 'a \<Rightarrow> 'a) \<Rightarrow> json \<Rightarrow> 'a \<Rightarrow> 'a option" where
  "into_string upd v acc = (case v of
       JStr s \<Rightarrow> Some (upd s acc) | JNull \<Rightarrow> Some acc | _ \<Rightarrow> None)"

definition into_int :: "(int \<Rightarrow> 'a \<Rightarrow> 'a) \<Rightarrow> json \<Rightarrow> 'a \<Rightarrow> 'a option" where
  "into_int upd v acc = (case v of
       JNum n \<Rightarrow> (if int64_range n then Some (upd n acc) else None)
     | JNull \<Rightarrow> Some acc | _ \<Rightarrow> None)"

definition into_bool :: "(bool \<Rightarrow> 'a \<Rightarrow> 'a) \<Rightarrow> json \<Rightarrow> 'a \<Rightarrow> 'a option" where
  "into_bool upd v acc = (case v of
       JBool b \<Rightarrow> Some (upd b acc) | JNull \<Rightarrow> Some acc | _ \<Rightarrow> None)"

text \<open>A pointer field: \<open>null\<close> stores nil, any other value is decoded into a fresh target.\<close>

definition into_string_ptr :: "(string option \<Rightarrow> 'a \<Rightarrow> 'a) \<Rightarrow> json \<Rightarrow> 'a \<Rightarrow> 'a option" where
  "into_string_ptr upd v acc = (case v of
       JStr s \<Rightarrow> Some (upd (Some s) acc) | JNull \<Rightarrow> Some (upd None acc) | _ \<Rightarrow> None)"

definition into_int_ptr :: "(int option \<Rightarrow> 'a \<Rightarrow> 'a) \<Rightarrow> json \<Rightarrow> 'a \<Rightarrow> 'a option" where
  "into_int_ptr upd v acc = (case v of
       JNum n \<Rightarrow> (if int64_range n then Some (upd (Some n) acc) else None)
     | JNull \<Rightarrow> Some (upd None acc) | _ \<Rightarrow> None)"

definition into_bool_ptr :: "(bool option \<Rightarrow> 'a \<Rightarrow> 'a) \<Rightarrow> json \<Rightarrow> 'a \<Rightarrow> 'a option" where
  "into_bool_ptr upd v acc = (case v of
       JBool b \<Rightarrow> Some (upd (Some b) acc) | JNull \<Rightarrow> Some (upd None acc) | _ \<Rightarrow> None)"

text \<open>All elements of an array, or an error if one of them does not decode.\<close>

fun decode_all :: "(json \<Rightarrow> 'b option) \<Rightarrow> json list \<Rightarrow> 'b list option" where
  "decode_all f [] = Some []"
| "decode_all f (v # vs) = (case f v of
       None \<Rightarrow> None
     | Some x \<Rightarrow> (case decode_all f vs of None \<Rightarrow> None | Some xs \<Rightarrow> Some (x # xs)))"

definition into_slice :: "(json \<Rightarrow> 'b option) \<Rightarrow> ('b list \<Rightarrow> 'a \<Rightarrow> 'a) \<Rightarrow> json \<Rightarrow> 'a \<Rightarrow> 'a option" where
  "into_slice f upd v acc = (case v of
       JArr vs \<Rightarrow> (case decode_all f vs of None \<Rightarrow> None | Some xs \<Rightarrow> Some (upd xs acc))
     | JNull \<Rightarrow> Some (upd [] acc)
     | _ \<Rightarrow> None)"

lemma decode_all_map:
  assumes "\<And>x. x \<in> set xs \<Longrightarrow> f (enc x) = Some (g x)"
  shows "decode_all f (map enc xs) = Some (map g xs)"
  using assms by (induction xs) auto

lemma decode_all_length: "decode_all f vs = Some xs \<Longrightarrow> length xs = length vs"
  by (induction vs arbitrary: xs) (auto split: option.splits)

definition json_strings :: "json list \<Rightarrow> string list option" where
  "json_strings vs = decode_all (\<lambda>v. into_string (\<lambda>s _. s) v '''') vs"

lemma json_strings_map_JStr [simp]: "json_strings (map JStr xs) = Some xs"
  using decode_all_map [of xs "\<lambda>v. into_string (\<lambda>s _. s) v ''''" JStr id]
  by (simp add: json_strings_def into_string_def)

section \<open>UUIDs\<close>

type_synonym uuid = "128 word"

definition uuid_Nil :: uuid where
  "uuid_Nil = 0"

record uuid_lib =
  uuid_Parse :: "string \<Rightarrow> go_error + uuid"
  uuid_String :: "uuid \<Rightarrow> string"

text \<open>Documented behaviour of google/uuid: the canonical text of a UUID parses to it.\<close>

definition uuid_lib_ok :: "uuid_lib \<Rightarrow> bool" where
  "uuid_lib_ok L \<longleftrightarrow> (\<forall>u. uuid_Parse L (uuid_String L u) = Inr u)"

lemma uuid_lib_okD: "uuid_lib_ok L \<Longrightarrow> uuid_Parse L (uuid_String L u) = Inr u"
  by (simp add: uuid_lib_ok_def)

text \<open>A concrete library (decimal text instead of hexadecimal), for the witnesses.\<close>

definition decimal_uuid_lib :: uuid_lib where
  "decimal_uuid_lib = \<lparr>
     uuid_Parse = (\<lambda>s. if s = [] \<or> \<not> list_all is_digit s \<or> 2 ^ 128 \<le> digits_to_nat s
                       then Inl (External ''invalid UUID'')
                       else Inr (word_of_nat (digits_to_nat s))),
     uuid_String = (\<lambda>u. show_nat (unat u)) \<rparr>"

lemma decimal_uuid_lib_ok: "uuid_lib_ok decimal_uuid_lib"
proof -
  have "uuid_Parse decimal_uuid_lib (uuid_String decimal_uuid_lib u) = Inr u" for u :: uuid
  proof -
    have "unat u < 2 ^ 128" using unsigned_less [of u] by simp
    then show ?thesis
      using show_nat_digits [of "unat u"]
      by (simp add: decimal_uuid_lib_def show_nat_nonempty digits_to_nat_show list_all_iff)
  qed
  then show ?thesis by (simp add: uuid_lib_ok_def)
qed

section \<open>The payload every job carries\<close>

text \<open>
  \<open>json.Marshal(map[string]string{"attempt_id": id.String()})\<close> on the enqueuing side, and on
  the handling side \<open>json.Unmarshal\<close> into a struct with the one field, then \<open>uuid.Parse\<close>.
\<close>

definition attempt_payload :: "uuid_lib \<Rightarrow> uuid \<Rightarrow> json" where
  "attempt_payload L u = JObj [(''attempt_id'', JStr (uuid_String L u))]"

definition decode_attempt_payload :: "json \<Rightarrow> string option" where
  "decode_attempt_payload v =
     decode_struct False [(''attempt_id'', into_string (\<lambda>s _. s))] '''' v"

definition parse_attempt_payload :: "uuid_lib \<Rightarrow> json \<Rightarrow> go_error + uuid" where
  "parse_attempt_payload L v = (case decode_attempt_payload v of
       None \<Rightarrow> Inl (wrap_err ''failed to unmarshal payload: '' (External ''json''))
     | Some s \<Rightarrow> (case uuid_Parse L s of
           Inl e \<Rightarrow> Inl (wrap_err ''invalid attempt_id: '' e)
         | Inr u \<Rightarrow> Inr u))"

lemma parse_attempt_payload [simp]:
  "uuid_lib_ok L \<Longrightarrow> parse_attempt_payload L (attempt_payload L u) = Inr u"
  by (simp add: parse_attempt_payload_def attempt_payload_def decode_attempt_payload_def
      decode_struct_def into_string_def key_matches_def uuid_lib_okD)

end
