(* ===== verification/Models.thy ===== *)
theory Models
  imports Json
begin

text \<open>
  The rows of the database (package \<open>internal/models\<close>) as records, one field per struct
  field, and the status, role and type names as datatypes with the strings they are stored as.
  An instant (\<open>time.Time\<close>) is its count of nanoseconds; a nullable column or pointer is an
  option.  Field names carry a prefix that says which record they belong to.
\<close>

section \<open>Statuses (status.go)\<close>

datatype attempt_status =
    Purchased | Available | AttemptRequested | EnvironmentProvisioning | EnvironmentReady
  | TerminalOpened | Running | Submitted | Expired | Grading | Scored | CleanupPending
  | Destroyed | ProvisionFailed | ExpiredBeforeStart | ExpiredRunning | CleanupFailed

fun attempt_status_string :: "attempt_status \<Rightarrow> string" where
  "attempt_status_string Purchased = ''purchased''"
| "attempt_status_string Available = ''available''"
| "attempt_status_string AttemptRequested = ''attempt_requested''"
| "attempt_status_string EnvironmentProvisioning = ''environment_provisioning''"
| "attempt_status_string EnvironmentReady = ''environment_ready''"
| "attempt_status_string TerminalOpened = ''terminal_opened''"
| "attempt_status_string Running = ''running''"
| "attempt_status_string Submitted = ''submitted''"
| "attempt_status_string Expired = ''expired''"
| "attempt_status_string Grading = ''grading''"
| "attempt_status_string Scored = ''scored''"
| "attempt_status_string CleanupPending = ''cleanup_pending''"
| "attempt_status_string Destroyed = ''destroyed''"
| "attempt_status_string ProvisionFailed = ''provision_failed''"
| "attempt_status_string ExpiredBeforeStart = ''expired_before_start''"
| "attempt_status_string ExpiredRunning = ''expired_running''"
| "attempt_status_string CleanupFailed = ''cleanup_failed''"

text \<open>The statuses are enumerable, so that a claim about all of them can be evaluated.\<close>

instantiation attempt_status :: enum
begin

definition enum_attempt_status :: "attempt_status list" where
  "enum_attempt_status =
     [Purchased, Available, AttemptRequested, EnvironmentProvisioning, EnvironmentReady,
      TerminalOpened, Running, Submitted, Expired, Grading, Scored, CleanupPending,
      Destroyed, ProvisionFailed, ExpiredBeforeStart, ExpiredRunning, CleanupFailed]"

definition enum_all_attempt_status :: "(attempt_status \<Rightarrow> bool) \<Rightarrow> bool" where
  "enum_all_attempt_status P \<longleftrightarrow> list_all P Enum.enum"

definition enum_ex_attempt_status :: "(attempt_status \<Rightarrow> bool) \<Rightarrow> bool" where
  "enum_ex_attempt_status P \<longleftrightarrow> list_ex P Enum.enum"

instance
proof
  show univ: "(UNIV :: attempt_status set) = set Enum.enum"
    by (auto simp: enum_attempt_status_def) (metis attempt_status.exhaust)
  show "distinct (Enum.enum :: attempt_status list)"
    by (simp add: enum_attempt_status_def)
  fix P :: "attempt_status \<Rightarrow> bool"
  show "Enum.enum_all P = Ball UNIV P"
    unfolding univ by (simp add: enum_all_attempt_status_def list_all_iff)
  show "Enum.enum_ex P = Bex UNIV P"
    unfolding univ by (simp add: enum_ex_attempt_status_def list_ex_iff)
qed

end

lemma attempt_status_string_inj [simp]:
  "attempt_status_string a = attempt_status_string b \<longleftrightarrow> a = b"
  by (cases a; cases b) simp_all

datatype environment_status =
    EnvProvisioning | EnvReady | EnvActive | EnvDestroying | EnvDestroyed | EnvFailed

datatype node_role = ControlPlane | Worker

fun node_role_string :: "node_role \<Rightarrow> string" where
  "node_role_string ControlPlane = ''control-plane''"
| "node_role_string Worker = ''worker''"

section \<open>Rows\<close>

record user =
  uID :: uuid
  uEmail :: string
  uPasswordHash :: string
  uIsAdmin :: bool
  uCreatedAt :: int

record product =
  pdID :: uuid
  pdStripePriceID :: "string option"
  pdTitle :: string
  pdDescription :: string
  pdIsFree :: bool
  pdCreatedAt :: int

record test =
  tID :: uuid
  tProductID :: uuid
  tScenarioVersionID :: uuid
  tDurationMinutes :: int
  tAccessWindowHours :: int
  tAttemptsAllowed :: int
  tCreatedAt :: int

record purchased_test =
  pID :: uuid
  pUserID :: uuid
  pTestID :: uuid
  pStripeSessionID :: "string option"
  pExpiresAt :: int
  pAttemptsRemaining :: int
  pCreatedAt :: int

record attempt =
  aID :: uuid
  aPurchasedTestID :: uuid
  aStatus :: attempt_status
  aScore :: "int option"
  aMaxScore :: "int option"
  aStartedAt :: "int option"
  aEndedAt :: "int option"
  aCreatedAt :: int

record environment =
  eID :: uuid
  eAttemptID :: uuid
  eStatus :: environment_status
  eWorkstationIP :: "string option"
  eProviderMetadata :: json
  eSSHPrivateKey :: string
  eCreatedAt :: int

record session =
  sID :: uuid
  sAttemptID :: uuid
  sEnvironmentID :: uuid
  sTerminalToken :: string
  sFirstOpenedAt :: "int option"
  sCreatedAt :: int

record scenario_version =
  vID :: uuid
  vExternalID :: string
  vTitle :: string
  vGitCommit :: string
  vDurationMinutes :: int
  vAccessWindowHours :: int
  vAttemptsAllowed :: int
  vTopologyJSON :: json
  vCreatedAt :: int

record task_row =
  tkID :: uuid
  tkScenarioVersionID :: uuid
  tkExternalID :: string
  tkClusterID :: string
  tkKubeContext :: string
  tkPoints :: int
  tkPrompt :: string
  tkCreatedAt :: int

record check_row =
  ckID :: uuid
  ckTaskID :: uuid
  ckExternalID :: string
  ckClusterID :: string
  ckType :: string
  ckCommand :: string
  ckPoints :: int
  ckCreatedAt :: int

text \<open>A test joined with its product (\<open>store.TestWithProduct\<close>).\<close>

record test_with_product =
  twTest :: test
  twProductTitle :: string
  twProductDescription :: string
  twProductStripePriceID :: "string option"
  twProductIsFree :: bool

section \<open>Jobs (jobs/types.go, GenericArgs)\<close>

datatype job_kind =
    ProvisionEnvironmentJob | GradeAttemptJob | CleanupEnvironmentJob | ExpireAttemptJob

record job =
  jKind :: job_kind
  jPayload :: json
  jScheduledAt :: "int option"

end
