(* ===== verification/Store.thy ===== *)
theory Store
  imports Models
begin

text \<open>
  The database and the other things outside the process, and package \<open>internal/store\<close>.

  A table is the list of its rows in the order they were inserted.  A statement first draws an
  outcome: \<open>Served\<close> (the server answers), \<open>Refused\<close> (the statement fails and changes nothing)
  or \<open>Lost\<close> (it takes effect, but the client sees an error, as after a dropped connection).
  The list of outcomes is part of the world, so a theorem about every world is a theorem about
  every pattern of failures; once the list is used up, statements are served.
  A served INSERT or UPDATE still fails on the constraints of \<open>migrations/\<close>: primary keys,
  UNIQUE columns, foreign keys and the range of INTEGER.  The remaining reasons to fail (the
  length of a VARCHAR, say) are among the drawn failures.

  \<open>time.Now()\<close> and \<open>uuid.New()\<close> read a sequence that the world holds, so nothing is assumed
  about the values they return.  Where a SELECT without ORDER BY matches several rows, the
  model returns the oldest one; PostgreSQL leaves the choice open.
\<close>

section \<open>The world\<close>

datatype outcome = Served | Refused | Lost

record 'p world =
  w_users :: "user list"
  w_products :: "product list"
  w_versions :: "scenario_version list"
  w_tasks :: "task_row list"
  w_checks :: "check_row list"
  w_tests :: "test list"
  w_purchases :: "purchased_test list"
  w_attempts :: "attempt list"
  w_environments :: "environment list"
  w_sessions :: "session list"
  w_jobs :: "job list"
  w_faults :: "outcome list"
  w_uuids :: "nat \<Rightarrow> uuid"
  w_uuid_pos :: nat
  w_clock :: "nat \<Rightarrow> int"
  w_clock_pos :: nat
  w_ext :: 'p

definition draw_outcome :: "('p world, outcome) prog" where
  "draw_outcome w = (case w_faults w of
       [] \<Rightarrow> (Served, w) | f # fs \<Rightarrow> (f, w\<lparr>w_faults := fs\<rparr>))"

definition uuid_New :: "('p world, uuid) prog" where
  "uuid_New w = (w_uuids w (w_uuid_pos w), w\<lparr>w_uuid_pos := Suc (w_uuid_pos w)\<rparr>)"

definition time_Now :: "('p world, int) prog" where
  "time_Now w = (w_clock w (w_clock_pos w), w\<lparr>w_clock_pos := Suc (w_clock_pos w)\<rparr>)"

text \<open>A program of an external system (a provider, say) run on its part of the world.\<close>

definition on_ext :: "('p, 'a) prog \<Rightarrow> ('p world, 'a) prog" where
  "on_ext m w = (case m (w_ext w) of (x, p) \<Rightarrow> (x, w\<lparr>w_ext := p\<rparr>))"

section \<open>Statements\<close>

type_synonym 'p stmt = "'p world \<Rightarrow> go_error + 'p world \<times> nat"

definition driver_error :: go_error where
  "driver_error = External ''driver''"

definition constraint_error :: go_error where
  "constraint_error = External ''constraint violation''"

definition sql_exec :: "'p stmt \<Rightarrow> ('p world, nat) eprog" where
  "sql_exec st w = (case draw_outcome w of (f, w1) \<Rightarrow>
     (case f of
        Refused \<Rightarrow> (Inl driver_error, w1)
      | Served \<Rightarrow> (case st w1 of Inl e \<Rightarrow> (Inl e, w1) | Inr (w2, n) \<Rightarrow> (Inr n, w2))
      | Lost \<Rightarrow> (case st w1 of Inl e \<Rightarrow> (Inl e, w1) | Inr (w2, n) \<Rightarrow> (Inl driver_error, w2))))"

definition exec_only :: "'p stmt \<Rightarrow> ('p world, unit) eprog" where
  "exec_only st = try_do (sql_exec st) fail (\<lambda>_. ok ())"

definition sql_select :: "('p world \<Rightarrow> 'a) \<Rightarrow> ('p world, 'a) eprog" where
  "sql_select q w = (case draw_outcome w of (f, w1) \<Rightarrow>
     (if f = Served then (Inr (q w1), w1) else (Inl driver_error, w1)))"

definition sql_get :: "('p world \<Rightarrow> 'a option) \<Rightarrow> ('p world, 'a) eprog" where
  "sql_get q = try_do (sql_select q) fail
     (\<lambda>r. case r of None \<Rightarrow> fail sql_ErrNoRows | Some x \<Rightarrow> ok x)"

abbreviation check_then :: "bool \<Rightarrow> 'p world \<times> nat \<Rightarrow> go_error + 'p world \<times> nat" where
  "check_then c r \<equiv> (if c then Inr r else Inl constraint_error)"

section \<open>Two-state relations on worlds\<close>

text \<open>
  A relation that does not look at the outcomes, the sequences or the external systems
  carries over from the statements to whole programs.
\<close>

locale world_effect = preorder_effect R for R :: "'p world \<Rightarrow> 'p world \<Rightarrow> bool" +
  assumes faults: "R w (w\<lparr>w_faults := fs\<rparr>)"
    and uuid_pos: "R w (w\<lparr>w_uuid_pos := n\<rparr>)"
    and clock_pos: "R w (w\<lparr>w_clock_pos := n\<rparr>)"
    and ext: "R w (w\<lparr>w_ext := p\<rparr>)"
begin

lemma draw_outcome_R: "draw_outcome w = (f, w') \<Longrightarrow> R w w'"
  by (auto simp: draw_outcome_def refl faults split: list.splits)

lemma obeys_uuid_New [intro!]: "obeys R uuid_New"
  by (simp add: obeys_def uuid_New_def uuid_pos)

lemma obeys_time_Now [intro!]: "obeys R time_Now"
  by (simp add: obeys_def time_Now_def clock_pos)

lemma obeys_on_ext [intro!]: "obeys R (on_ext m)"
  by (simp add: obeys_def on_ext_def ext split: prod.split)

lemma obeys_draw [intro!]: "obeys R draw_outcome"
  by (metis draw_outcome_R obeysI prod.collapse)

lemma obeys_sql_exec:
  assumes st: "\<And>w w' n. st w = Inr (w', n) \<Longrightarrow> R w w'"
  shows "obeys R (sql_exec st)"
proof (rule obeysI)
  fix w :: "'p world"
  obtain f w1 where d: "draw_outcome w = (f, w1)" by fastforce
  then have w1: "R w w1" by (rule draw_outcome_R)
  then have "st w1 = Inr (w2, n) \<Longrightarrow> R w w2" for w2 n
    by (blast intro: st trans)
  with d w1 show "R w (snd (sql_exec st w))"
    by (auto simp: sql_exec_def split: outcome.split sum.split)
qed

lemma obeys_exec_only:
  "(\<And>w w' n. st w = Inr (w', n) \<Longrightarrow> R w w') \<Longrightarrow> obeys R (exec_only st)"
  unfolding exec_only_def by (intro obeys_try obeys_sql_exec) auto

lemma obeys_sql_select [intro!]: "obeys R (sql_select q)"
proof (rule obeysI)
  fix w :: "'p world"
  obtain f w1 where d: "draw_outcome w = (f, w1)" by fastforce
  then have "R w w1" by (rule draw_outcome_R)
  with d show "R w (snd (sql_select q w))" by (simp add: sql_select_def)
qed

lemma obeys_sql_get [intro!]: "obeys R (sql_get q)"
  unfolding sql_get_def by auto

end

section \<open>What a statement returns\<close>

lemma draw_served [simp]: "w_faults w = [] \<Longrightarrow> draw_outcome w = (Served, w)"
  by (simp add: draw_outcome_def)

lemma draw_Cons: "w_faults w = f # fs \<Longrightarrow> draw_outcome w = (f, w\<lparr>w_faults := fs\<rparr>)"
  by (simp add: draw_outcome_def)

lemma sql_get_served [stmt_simps]:
  "w_faults w = [] \<Longrightarrow> sql_get q w =
     (case q w of None \<Rightarrow> (Inl sql_ErrNoRows, w) | Some x \<Rightarrow> (Inr x, w))"
  by (simp add: sql_get_def sql_select_def try_do_def split: option.split)

lemma sql_select_served [stmt_simps]: "w_faults w = [] \<Longrightarrow> sql_select q w = (Inr (q w), w)"
  by (simp add: sql_select_def)

lemma sql_exec_served [stmt_simps]:
  "w_faults w = [] \<Longrightarrow> sql_exec st w =
     (case st w of Inl e \<Rightarrow> (Inl e, w) | Inr (w', n) \<Rightarrow> (Inr n, w'))"
  by (simp add: sql_exec_def)

lemma exec_only_served [stmt_simps]:
  "w_faults w = [] \<Longrightarrow> exec_only st w =
     (case st w of Inl e \<Rightarrow> (Inl e, w) | Inr (w', n) \<Rightarrow> (Inr (), w'))"
  by (simp add: exec_only_def try_do_def sql_exec_served split: sum.split)

lemma sql_get_InrD: "sql_get q w = (Inr x, w') \<Longrightarrow> q w' = Some x \<and> snd (draw_outcome w) = w'"
  by (auto simp: sql_get_def sql_select_def try_do_def split: option.splits prod.splits if_splits)

lemma draw_outcome_tables:
  "draw_outcome w = (f, w') \<Longrightarrow> \<exists>fs. w' = w\<lparr>w_faults := fs\<rparr>"
  by (cases "w_faults w") (auto simp: draw_outcome_def intro: exI [of _ "[]"])

text \<open>A read leaves everything but the outcomes as it was.\<close>

lemma sql_get_state: "sql_get q w = (r, w') \<Longrightarrow> \<exists>fs. w' = w\<lparr>w_faults := fs\<rparr>"
proof -
  assume a: "sql_get q w = (r, w')"
  obtain f w1 where d: "draw_outcome w = (f, w1)" by fastforce
  with a have "w' = w1"
    by (auto simp: sql_get_def sql_select_def try_do_def split: option.splits if_splits)
  with draw_outcome_tables [OF d] show ?thesis by simp
qed

text \<open>What a statement may leave behind: nothing but a drawn outcome, or its effect.\<close>

lemma exec_only_state:
  assumes "exec_only st w = (r, w')"
  obtains (none) fs where "w' = w\<lparr>w_faults := fs\<rparr>"
  | (effect) fs n where "st (w\<lparr>w_faults := fs\<rparr>) = Inr (w', n)"
proof -
  obtain f w1 where d: "draw_outcome w = (f, w1)" by fastforce
  then obtain fs where w1: "w1 = w\<lparr>w_faults := fs\<rparr>" using draw_outcome_tables by blast
  have "w' = w1 \<or> (\<exists>n. st w1 = Inr (w', n))"
    using assms d
    by (cases f; cases "st w1") (auto simp: exec_only_def try_do_def sql_exec_def)
  with w1 that show thesis by blast
qed

lemma exec_only_done:
  assumes "exec_only st w = (Inr x, w')"
  obtains fs n where "st (w\<lparr>w_faults := fs\<rparr>) = Inr (w', n)"
proof -
  obtain f w1 where d: "draw_outcome w = (f, w1)" by fastforce
  then obtain fs where w1: "w1 = w\<lparr>w_faults := fs\<rparr>" using draw_outcome_tables by blast
  have "\<exists>n. st w1 = Inr (w', n)"
    using assms d
    by (cases f; cases "st w1") (auto simp: exec_only_def try_do_def sql_exec_def ok_def fail_def result_def)
  with w1 that show thesis by blast
qed

end
