(* ===== verification/Tables.thy ===== *)
theory Tables
  imports Store
begin

text \<open>
  The statements of \<open>internal/store/*_store.go\<close>, one definition per method, named
  \<open><Table>_<Method>\<close>: the rows a query selects, the rows and columns an INSERT, UPDATE or
  DELETE changes, the constraints of \<open>migrations/\<close> it can fail on, and what the method makes
  of the outcome (\<open>sql.ErrNoRows\<close>, \<open>ErrNoRowsAffected\<close>).
\<close>

definition fresh_in :: "('r \<Rightarrow> 'k) \<Rightarrow> 'k \<Rightarrow> 'r list \<Rightarrow> bool" where
  "fresh_in key k rs \<longleftrightarrow> k \<notin> set (map key rs)"

definition present_in :: "('r \<Rightarrow> 'k) \<Rightarrow> 'k \<Rightarrow> 'r list \<Rightarrow> bool" where
  "present_in key k rs \<longleftrightarrow> k \<in> set (map key rs)"

text \<open>A UNIQUE column that may be NULL: NULLs do not clash.\<close>

definition unique_opt :: "('r \<Rightarrow> string option) \<Rightarrow> string option \<Rightarrow> 'r list \<Rightarrow> bool" where
  "unique_opt key k rs \<longleftrightarrow> k = None \<or> k \<notin> set (map key rs)"

definition order_by :: "('r \<Rightarrow> int) \<Rightarrow> 'r list \<Rightarrow> 'r list" where
  "order_by key rs = sort_key key rs"

definition order_by_desc :: "('r \<Rightarrow> int) \<Rightarrow> 'r list \<Rightarrow> 'r list" where
  "order_by_desc key rs = sort_key (\<lambda>r. - key r) rs"

definition rows_matching :: "('r \<Rightarrow> bool) \<Rightarrow> 'r list \<Rightarrow> nat" where
  "rows_matching p rs = length (filter p rs)"

section \<open>users\<close>

definition Users_Create :: "user \<Rightarrow> ('p world, unit) eprog" where
  "Users_Create u = exec_only (\<lambda>w. check_then
     (fresh_in uID (uID u) (w_users w) \<and> fresh_in uEmail (uEmail u) (w_users w))
     (w\<lparr>w_users := w_users w @ [u]\<rparr>, 1))"

definition Users_GetByID :: "uuid \<Rightarrow> ('p world, user) eprog" where
  "Users_GetByID i = sql_get (\<lambda>w. find (\<lambda>u. uID u = i) (w_users w))"

definition Users_GetByEmail :: "string \<Rightarrow> ('p world, user) eprog" where
  "Users_GetByEmail e = sql_get (\<lambda>w. find (\<lambda>u. uEmail u = e) (w_users w))"

section \<open>products\<close>

definition insert_product :: "product \<Rightarrow> 'p stmt" where
  "insert_product p w = check_then
     (fresh_in pdID (pdID p) (w_products w) \<and>
      unique_opt pdStripePriceID (pdStripePriceID p) (w_products w))
     (w\<lparr>w_products := w_products w @ [p]\<rparr>, 1)"

definition Products_Create :: "product \<Rightarrow> ('p world, unit) eprog" where
  "Products_Create p = exec_only (insert_product p)"

definition Products_GetByID :: "uuid \<Rightarrow> ('p world, product) eprog" where
  "Products_GetByID i = sql_get (\<lambda>w. find (\<lambda>p. pdID p = i) (w_products w))"

definition Products_GetByStripePriceID :: "string \<Rightarrow> ('p world, product) eprog" where
  "Products_GetByStripePriceID s =
     sql_get (\<lambda>w. find (\<lambda>p. pdStripePriceID p = Some s) (w_products w))"

definition Products_GetByTitle :: "string \<Rightarrow> ('p world, product) eprog" where
  "Products_GetByTitle t = sql_get (\<lambda>w. find (\<lambda>p. pdTitle p = t) (w_products w))"

definition Products_List :: "('p world, product list) eprog" where
  "Products_List = sql_select (\<lambda>w. order_by pdCreatedAt (w_products w))"

definition Products_Update :: "product \<Rightarrow> ('p world, unit) eprog" where
  "Products_Update p = exec_only (\<lambda>w. check_then
     (\<not> present_in pdID (pdID p) (w_products w) \<or>
      unique_opt pdStripePriceID (pdStripePriceID p)
        (filter (\<lambda>r. pdID r \<noteq> pdID p) (w_products w)))
     (w\<lparr>w_products := update_rows (\<lambda>r. pdID r = pdID p)
          (\<lambda>r. r\<lparr>pdStripePriceID := pdStripePriceID p, pdTitle := pdTitle p,
                  pdDescription := pdDescription p, pdIsFree := pdIsFree p\<rparr>) (w_products w)\<rparr>,
      rows_matching (\<lambda>r. pdID r = pdID p) (w_products w)))"

definition delete_product :: "uuid \<Rightarrow> 'p stmt" where
  "delete_product i w = check_then
     (\<not> present_in tProductID i (w_tests w))
     (w\<lparr>w_products := filter (\<lambda>r. pdID r \<noteq> i) (w_products w)\<rparr>,
      rows_matching (\<lambda>r. pdID r = i) (w_products w))"

definition Products_Delete :: "uuid \<Rightarrow> ('p world, unit) eprog" where
  "Products_Delete i = exec_only (delete_product i)"

section \<open>tests\<close>

definition insert_test :: "test \<Rightarrow> 'p stmt" where
  "insert_test t w = check_then
     (fresh_in tID (tID t) (w_tests w) \<and>
      present_in pdID (tProductID t) (w_products w) \<and>
      present_in vID (tScenarioVersionID t) (w_versions w) \<and>
      int4 (tDurationMinutes t) \<and> int4 (tAccessWindowHours t) \<and> int4 (tAttemptsAllowed t))
     (w\<lparr>w_tests := w_tests w @ [t]\<rparr>, 1)"

definition Tests_Create :: "test \<Rightarrow> ('p world, unit) eprog" where
  "Tests_Create t = exec_only (insert_test t)"

definition Tests_GetByID :: "uuid \<Rightarrow> ('p world, test) eprog" where
  "Tests_GetByID i = sql_get (\<lambda>w. find (\<lambda>t. tID t = i) (w_tests w))"

definition join_product :: "test \<Rightarrow> product \<Rightarrow> test_with_product" where
  "join_product t p = \<lparr>twTest = t, twProductTitle = pdTitle p,
     twProductDescription = pdDescription p, twProductStripePriceID = pdStripePriceID p,
     twProductIsFree = pdIsFree p\<rparr>"

definition tests_joined :: "'p world \<Rightarrow> test_with_product list" where
  "tests_joined w =
     [join_product t p. t \<leftarrow> w_tests w, p \<leftarrow> w_products w, tProductID t = pdID p]"

definition Tests_GetWithProduct :: "uuid \<Rightarrow> ('p world, test_with_product) eprog" where
  "Tests_GetWithProduct i = sql_get (\<lambda>w. find (\<lambda>r. tID (twTest r) = i) (tests_joined w))"

definition Tests_List :: "('p world, test list) eprog" where
  "Tests_List = sql_select (\<lambda>w. order_by tCreatedAt (w_tests w))"

definition Tests_ListWithProduct :: "('p world, test_with_product list) eprog" where
  "Tests_ListWithProduct = sql_select (\<lambda>w. order_by (\<lambda>r. tCreatedAt (twTest r)) (tests_joined w))"

definition Tests_Update :: "test \<Rightarrow> ('p world, unit) eprog" where
  "Tests_Update t = exec_only (\<lambda>w. check_then
     (\<not> present_in tID (tID t) (w_tests w) \<or>
      int4 (tDurationMinutes t) \<and> int4 (tAccessWindowHours t) \<and> int4 (tAttemptsAllowed t))
     (w\<lparr>w_tests := update_rows (\<lambda>r. tID r = tID t)
          (\<lambda>r. r\<lparr>tDurationMinutes := tDurationMinutes t,
                  tAccessWindowHours := tAccessWindowHours t,
                  tAttemptsAllowed := tAttemptsAllowed t\<rparr>) (w_tests w)\<rparr>,
      rows_matching (\<lambda>r. tID r = tID t) (w_tests w)))"

definition delete_test :: "uuid \<Rightarrow> 'p stmt" where
  "delete_test i w = check_then
     (\<not> present_in pTestID i (w_purchases w))
     (w\<lparr>w_tests := filter (\<lambda>r. tID r \<noteq> i) (w_tests w)\<rparr>,
      rows_matching (\<lambda>r. tID r = i) (w_tests w))"

definition Tests_Delete :: "uuid \<Rightarrow> ('p world, unit) eprog" where
  "Tests_Delete i = exec_only (delete_test i)"

definition Tests_HasPurchases :: "uuid \<Rightarrow> ('p world, bool) eprog" where
  "Tests_HasPurchases i =
     try_do (sql_select (\<lambda>w. rows_matching (\<lambda>p. pTestID p = i) (w_purchases w)))
       fail (\<lambda>count. ok (0 < count))"

section \<open>purchased_tests\<close>

definition store_ErrNoRowsAffected :: go_error where
  "store_ErrNoRowsAffected = Sentinel ''store.ErrNoRowsAffected'' ''no rows affected''"

definition Purchases_Create :: "purchased_test \<Rightarrow> ('p world, unit) eprog" where
  "Purchases_Create p = exec_only (\<lambda>w. check_then
     (fresh_in pID (pID p) (w_purchases w) \<and>
      present_in uID (pUserID p) (w_users w) \<and> present_in tID (pTestID p) (w_tests w) \<and>
      unique_opt pStripeSessionID (pStripeSessionID p) (w_purchases w) \<and>
      int4 (pAttemptsRemaining p))
     (w\<lparr>w_purchases := w_purchases w @ [p]\<rparr>, 1))"

definition Purchases_GetByID :: "uuid \<Rightarrow> ('p world, purchased_test) eprog" where
  "Purchases_GetByID i = sql_get (\<lambda>w. find (\<lambda>p. pID p = i) (w_purchases w))"

definition Purchases_ListByUserID :: "uuid \<Rightarrow> ('p world, purchased_test list) eprog" where
  "Purchases_ListByUserID u =
     sql_select (\<lambda>w. order_by_desc pCreatedAt (filter (\<lambda>p. pUserID p = u) (w_purchases w)))"

definition add_attempts :: "int \<Rightarrow> purchased_test \<Rightarrow> purchased_test" where
  "add_attempts d p = p\<lparr>pAttemptsRemaining := pAttemptsRemaining p + d\<rparr>"

definition Purchases_DecrementAttemptsRemaining :: "uuid \<Rightarrow> ('p world, unit) eprog" where
  "Purchases_DecrementAttemptsRemaining i =
     try_do (sql_exec (\<lambda>w.
         let p = (\<lambda>r. pID r = i \<and> 0 < pAttemptsRemaining r)
         in Inr (w\<lparr>w_purchases := update_rows p (add_attempts (- 1)) (w_purchases w)\<rparr>,
                 rows_matching p (w_purchases w))))
       fail (\<lambda>rows. if rows = 0 then fail store_ErrNoRowsAffected else ok ())"

definition Purchases_IncrementAttemptsRemaining :: "uuid \<Rightarrow> ('p world, unit) eprog" where
  "Purchases_IncrementAttemptsRemaining i = exec_only (\<lambda>w. check_then
     (\<forall>r \<in> set (w_purchases w). pID r = i \<longrightarrow> int4 (pAttemptsRemaining r + 1))
     (w\<lparr>w_purchases := update_rows (\<lambda>r. pID r = i) (add_attempts 1) (w_purchases w)\<rparr>,
      rows_matching (\<lambda>r. pID r = i) (w_purchases w)))"

section \<open>attempts\<close>

definition Attempts_Create :: "attempt \<Rightarrow> ('p world, unit) eprog" where
  "Attempts_Create a = exec_only (\<lambda>w. check_then
     (fresh_in aID (aID a) (w_attempts w) \<and>
      present_in pID (aPurchasedTestID a) (w_purchases w))
     (w\<lparr>w_attempts := w_attempts w @ [a]\<rparr>, 1))"

definition Attempts_GetByID :: "uuid \<Rightarrow> ('p world, attempt) eprog" where
  "Attempts_GetByID i = sql_get (\<lambda>w. find (\<lambda>a. aID a = i) (w_attempts w))"

definition Attempts_UpdateStatus :: "uuid \<Rightarrow> attempt_status \<Rightarrow> ('p world, unit) eprog" where
  "Attempts_UpdateStatus i st = exec_only (\<lambda>w. Inr
     (w\<lparr>w_attempts := update_rows (\<lambda>a. aID a = i) (\<lambda>a. a\<lparr>aStatus := st\<rparr>) (w_attempts w)\<rparr>,
      rows_matching (\<lambda>a. aID a = i) (w_attempts w)))"

definition Attempts_UpdateScore :: "uuid \<Rightarrow> int \<Rightarrow> int \<Rightarrow> ('p world, unit) eprog" where
  "Attempts_UpdateScore i sc mx = exec_only (\<lambda>w. check_then
     (\<not> present_in aID i (w_attempts w) \<or> int4 sc \<and> int4 mx)
     (w\<lparr>w_attempts := update_rows (\<lambda>a. aID a = i)
          (\<lambda>a. a\<lparr>aScore := Some sc, aMaxScore := Some mx\<rparr>) (w_attempts w)\<rparr>,
      rows_matching (\<lambda>a. aID a = i) (w_attempts w)))"

definition Attempts_ListByPurchaseID :: "uuid \<Rightarrow> ('p world, attempt list) eprog" where
  "Attempts_ListByPurchaseID i = sql_select (\<lambda>w.
     order_by_desc aCreatedAt (filter (\<lambda>a. aPurchasedTestID a = i) (w_attempts w)))"

definition Attempts_ListByStatus :: "string \<Rightarrow> ('p world, attempt list) eprog" where
  "Attempts_ListByStatus st = sql_select (\<lambda>w.
     order_by aCreatedAt (filter (\<lambda>a. attempt_status_string (aStatus a) = st) (w_attempts w)))"

section \<open>environments\<close>

definition Environments_Create :: "environment \<Rightarrow> ('p world, unit) eprog" where
  "Environments_Create e = exec_only (\<lambda>w. check_then
     (fresh_in eID (eID e) (w_environments w) \<and> present_in aID (eAttemptID e) (w_attempts w))
     (w\<lparr>w_environments := w_environments w @ [e]\<rparr>, 1))"

definition Environments_GetByID :: "uuid \<Rightarrow> ('p world, environment) eprog" where
  "Environments_GetByID i = sql_get (\<lambda>w. find (\<lambda>e. eID e = i) (w_environments w))"

definition Environments_GetByAttemptID :: "uuid \<Rightarrow> ('p world, environment) eprog" where
  "Environments_GetByAttemptID i = sql_get (\<lambda>w. find (\<lambda>e. eAttemptID e = i) (w_environments w))"

definition Environments_UpdateStatus ::
  "uuid \<Rightarrow> environment_status \<Rightarrow> ('p world, unit) eprog"
where
  "Environments_UpdateStatus i st = exec_only (\<lambda>w. Inr
     (w\<lparr>w_environments := update_rows (\<lambda>e. eID e = i) (\<lambda>e. e\<lparr>eStatus := st\<rparr>)
          (w_environments w)\<rparr>,
      rows_matching (\<lambda>e. eID e = i) (w_environments w)))"

definition Environments_UpdateProviderMetadata :: "uuid \<Rightarrow> json \<Rightarrow> ('p world, unit) eprog" where
  "Environments_UpdateProviderMetadata i m = exec_only (\<lambda>w. Inr
     (w\<lparr>w_environments := update_rows (\<lambda>e. eID e = i) (\<lambda>e. e\<lparr>eProviderMetadata := m\<rparr>)
          (w_environments w)\<rparr>,
      rows_matching (\<lambda>e. eID e = i) (w_environments w)))"

section \<open>sessions\<close>

definition Sessions_Create :: "session \<Rightarrow> ('p world, unit) eprog" where
  "Sessions_Create s = exec_only (\<lambda>w. check_then
     (fresh_in sID (sID s) (w_sessions w) \<and>
      present_in aID (sAttemptID s) (w_attempts w) \<and>
      present_in eID (sEnvironmentID s) (w_environments w) \<and>
      fresh_in sTerminalToken (sTerminalToken s) (w_sessions w))
     (w\<lparr>w_sessions := w_sessions w @ [s]\<rparr>, 1))"

definition Sessions_GetByAttemptID :: "uuid \<Rightarrow> ('p world, session) eprog" where
  "Sessions_GetByAttemptID i = sql_get (\<lambda>w. find (\<lambda>s. sAttemptID s = i) (w_sessions w))"

definition Sessions_GetByTerminalToken :: "string \<Rightarrow> ('p world, session) eprog" where
  "Sessions_GetByTerminalToken t = sql_get (\<lambda>w. find (\<lambda>s. sTerminalToken s = t) (w_sessions w))"

definition Sessions_UpdateFirstOpenedAt :: "uuid \<Rightarrow> int \<Rightarrow> ('p world, unit) eprog" where
  "Sessions_UpdateFirstOpenedAt i t = exec_only (\<lambda>w. Inr
     (w\<lparr>w_sessions := update_rows (\<lambda>s. sID s = i) (\<lambda>s. s\<lparr>sFirstOpenedAt := Some t\<rparr>)
          (w_sessions w)\<rparr>,
      rows_matching (\<lambda>s. sID s = i) (w_sessions w)))"

section \<open>scenario_versions, tasks, checks\<close>

definition Scenarios_CreateVersion :: "scenario_version \<Rightarrow> ('p world, unit) eprog" where
  "Scenarios_CreateVersion v = exec_only (\<lambda>w. check_then
     (fresh_in vID (vID v) (w_versions w) \<and>
      fresh_in (\<lambda>r. (vExternalID r, vGitCommit r)) (vExternalID v, vGitCommit v) (w_versions w) \<and>
      int4 (vDurationMinutes v) \<and> int4 (vAccessWindowHours v) \<and> int4 (vAttemptsAllowed v))
     (w\<lparr>w_versions := w_versions w @ [v]\<rparr>, 1))"

definition Scenarios_GetVersion :: "uuid \<Rightarrow> ('p world, scenario_version) eprog" where
  "Scenarios_GetVersion i = sql_get (\<lambda>w. find (\<lambda>v. vID v = i) (w_versions w))"

definition Scenarios_GetVersionByExternalID ::
  "string \<Rightarrow> string \<Rightarrow> ('p world, scenario_version) eprog"
where
  "Scenarios_GetVersionByExternalID x g = sql_get (\<lambda>w.
     find (\<lambda>v. vExternalID v = x \<and> vGitCommit v = g) (w_versions w))"

definition Scenarios_ListVersions :: "('p world, scenario_version list) eprog" where
  "Scenarios_ListVersions = sql_select (\<lambda>w. order_by_desc vCreatedAt (w_versions w))"

definition Scenarios_CreateTask :: "task_row \<Rightarrow> ('p world, unit) eprog" where
  "Scenarios_CreateTask t = exec_only (\<lambda>w. check_then
     (fresh_in tkID (tkID t) (w_tasks w) \<and>
      present_in vID (tkScenarioVersionID t) (w_versions w) \<and> int4 (tkPoints t))
     (w\<lparr>w_tasks := w_tasks w @ [t]\<rparr>, 1))"

definition Scenarios_CreateCheck :: "check_row \<Rightarrow> ('p world, unit) eprog" where
  "Scenarios_CreateCheck c = exec_only (\<lambda>w. check_then
     (fresh_in ckID (ckID c) (w_checks w) \<and>
      present_in tkID (ckTaskID c) (w_tasks w) \<and> int4 (ckPoints c))
     (w\<lparr>w_checks := w_checks w @ [c]\<rparr>, 1))"

definition checks_of_version :: "uuid \<Rightarrow> 'p world \<Rightarrow> check_row list" where
  "checks_of_version v w =
     [c. c \<leftarrow> w_checks w, t \<leftarrow> w_tasks w, ckTaskID c = tkID t \<and> tkScenarioVersionID t = v]"

definition Scenarios_ListChecksByScenarioVersion ::
  "uuid \<Rightarrow> ('p world, check_row list) eprog"
where
  "Scenarios_ListChecksByScenarioVersion v =
     sql_select (\<lambda>w. order_by ckCreatedAt (checks_of_version v w))"

definition Scenarios_ListTasksByScenarioVersion ::
  "uuid \<Rightarrow> ('p world, task_row list) eprog"
where
  "Scenarios_ListTasksByScenarioVersion v = sql_select (\<lambda>w.
     order_by tkCreatedAt (filter (\<lambda>t. tkScenarioVersionID t = v) (w_tasks w)))"

lemmas table_defs [store_defs] =
  Users_Create_def Users_GetByID_def Users_GetByEmail_def
  Products_Create_def Products_GetByID_def Products_GetByStripePriceID_def
  Products_GetByTitle_def Products_List_def Products_Update_def Products_Delete_def
  Tests_Create_def Tests_GetByID_def Tests_GetWithProduct_def Tests_List_def
  Tests_ListWithProduct_def Tests_Update_def Tests_Delete_def Tests_HasPurchases_def
  Purchases_Create_def Purchases_GetByID_def Purchases_ListByUserID_def
  Purchases_DecrementAttemptsRemaining_def Purchases_IncrementAttemptsRemaining_def
  Attempts_Create_def Attempts_GetByID_def Attempts_UpdateStatus_def Attempts_UpdateScore_def
  Attempts_ListByPurchaseID_def Attempts_ListByStatus_def
  Environments_Create_def Environments_GetByID_def Environments_GetByAttemptID_def
  Environments_UpdateStatus_def Environments_UpdateProviderMetadata_def
  Sessions_Create_def Sessions_GetByAttemptID_def Sessions_GetByTerminalToken_def
  Sessions_UpdateFirstOpenedAt_def
  Scenarios_CreateVersion_def Scenarios_GetVersion_def Scenarios_GetVersionByExternalID_def
  Scenarios_ListVersions_def Scenarios_CreateTask_def Scenarios_CreateCheck_def
  Scenarios_ListChecksByScenarioVersion_def Scenarios_ListTasksByScenarioVersion_def

end
