(* ===== verification/Jobs.thy ===== *)
theory Jobs
  imports Tables
begin

text \<open>
  \<open>internal/jobs\<close>: the queue's \<open>Enqueue\<close> and the worker's dispatch.  The queue itself is
  River, a library on the same database: inserting a job appends a row, or fails like any other
  statement.  A handler is a program that may return an error; the worker returns \<open>nil\<close> for a
  kind nobody registered, so River drops such a job.
\<close>

section \<open>Enqueuing (queue.go)\<close>

text \<open>\<open>time.Time{}\<close>, the first instant of the year 1, which \<open>IsZero\<close> recognises.\<close>

definition time_zero :: int where
  "time_zero = - 62135596800000000000"

definition insert_opts :: "int option \<Rightarrow> int option" where
  "insert_opts opts = (case opts of
       None \<Rightarrow> None | Some runAt \<Rightarrow> (if runAt = time_zero then None else Some runAt))"

definition Enqueue :: "job_kind \<Rightarrow> json \<Rightarrow> int option \<Rightarrow> ('p world, unit) eprog" where
  "Enqueue kind payload opts = exec_only (\<lambda>w. Inr
     (w\<lparr>w_jobs := w_jobs w @
        [\<lparr>jKind = kind, jPayload = payload, jScheduledAt = insert_opts opts\<rparr>]\<rparr>, 1))"

definition EnqueueAt :: "job_kind \<Rightarrow> json \<Rightarrow> int \<Rightarrow> ('p world, unit) eprog" where
  "EnqueueAt kind payload runAt = Enqueue kind payload (Some runAt)"

lemma insert_opts_None [simp]: "insert_opts None = None"
  by (simp add: insert_opts_def)

section \<open>The worker (worker.go)\<close>

type_synonym 'p handler = "json \<Rightarrow> ('p world, unit) eprog"
type_synonym 'p worker = "job_kind \<rightharpoonup> 'p handler"

definition NewGenericWorker :: "'p worker" where
  "NewGenericWorker = Map.empty"

definition RegisterHandler :: "job_kind \<Rightarrow> 'p handler \<Rightarrow> 'p worker \<Rightarrow> 'p worker" where
  "RegisterHandler kind h wk = wk(kind \<mapsto> h)"

definition Work :: "'p worker \<Rightarrow> job \<Rightarrow> ('p world, unit) eprog" where
  "Work wk j = (case wk (jKind j) of
       None \<Rightarrow> ok ()
     | Some handler \<Rightarrow> try_do (handler (jPayload j)) fail (\<lambda>_. ok ()))"

lemma Work_unregistered: "wk (jKind j) = None \<Longrightarrow> Work wk j w = (Inr (), w)"
  by (simp add: Work_def)

lemma Work_registered: "wk (jKind j) = Some h \<Longrightarrow> Work wk j = h (jPayload j)"
  by (rule ext) (auto simp: Work_def try_do_def split: prod.split sum.split)

lemma RegisterHandler_same [simp]: "RegisterHandler k h wk k = Some h"
  by (simp add: RegisterHandler_def)

lemma RegisterHandler_other [simp]: "k \<noteq> k' \<Longrightarrow> RegisterHandler k h wk k' = wk k'"
  by (simp add: RegisterHandler_def)

lemma Enqueue_served [stmt_simps]:
  "w_faults w = [] \<Longrightarrow> Enqueue k p t w =
     (Inr (), w\<lparr>w_jobs := w_jobs w @ [\<lparr>jKind = k, jPayload = p, jScheduledAt = insert_opts t\<rparr>]\<rparr>)"
  by (simp add: Enqueue_def exec_only_served)

end
