(* ===== verification/Integrity.thy ===== *)
theory Integrity
  imports Jobs
begin

text \<open>
  Integrity of the database: keys are unique and references resolve.  Every statement of the
  store keeps it, whatever the outcomes, so every program made of them does
  (locale \<open>preorder_effect\<close>, instance \<open>integ\<close>).
\<close>

section \<open>Invariants as two-state relations\<close>

definition keeps :: "('s \<Rightarrow> bool) \<Rightarrow> 's \<Rightarrow> 's \<Rightarrow> bool" where
  "keeps I s t \<longleftrightarrow> (I s \<longrightarrow> I t)"

lemma keepsD: "keeps I s t \<Longrightarrow> I s \<Longrightarrow> I t"
  by (simp add: keeps_def)

lemma keeps_preorder: "preorder_effect (keeps I)"
  by unfold_locales (auto simp: keeps_def)

lemma obeys_keepsD: "obeys (keeps I) m \<Longrightarrow> I w \<Longrightarrow> I (snd (m w))"
  by (simp add: obeys_def keeps_def)

lemma obeys_keepsD': "obeys (keeps I) m \<Longrightarrow> I w \<Longrightarrow> m w = (x, w') \<Longrightarrow> I w'"
  by (metis obeys_keepsD snd_conv)

text \<open>
  \<open>yields I m V\<close>: \<open>m\<close> keeps the invariant, and what it returns under the invariant satisfies
  \<open>V\<close>.  A row that was read has the properties that the invariant gives to all rows.
\<close>

definition yields :: "('s \<Rightarrow> bool) \<Rightarrow> ('s, 'a) eprog \<Rightarrow> ('a \<Rightarrow> bool) \<Rightarrow> bool" where
  "yields I m V \<longleftrightarrow> (\<forall>s. I s \<longrightarrow> I (snd (m s)) \<and> (\<forall>x. fst (m s) = Inr x \<longrightarrow> V x))"

lemma yields_try:
  assumes "yields I m V" and "\<And>e. obeys (keeps I) (h e)" and "\<And>x. V x \<Longrightarrow> obeys (keeps I) (k x)"
  shows "obeys (keeps I) (try_do m h k)"
proof (rule obeysI)
  fix s
  obtain r s' where m: "m s = (r, s')" by fastforce
  show "keeps I s (snd (try_do m h k s))"
    unfolding keeps_def
  proof
    assume "I s"
    with assms(1) m have "I s'" and "\<And>x. r = Inr x \<Longrightarrow> V x"
      by (auto simp: yields_def dest!: spec [of _ s])
    then show "I (snd (try_do m h k s))"
      using m assms(2,3) by (cases r) (auto intro: obeys_keepsD)
  qed
qed

section \<open>Keys and references\<close>

definition unique_key :: "('r \<Rightarrow> 'k) \<Rightarrow> 'r list \<Rightarrow> bool" where
  "unique_key key rs \<longleftrightarrow> distinct (map key rs)"

definition refs :: "('r \<Rightarrow> 'k) \<Rightarrow> 'r list \<Rightarrow> ('t \<Rightarrow> 'k) \<Rightarrow> 't list \<Rightarrow> bool" where
  "refs f rs key ts \<longleftrightarrow> (\<forall>r \<in> set rs. present_in key (f r) ts)"

lemma unique_key_snoc [simp]:
  "unique_key key (rs @ [r]) \<longleftrightarrow> unique_key key rs \<and> fresh_in key (key r) rs"
  by (auto simp: unique_key_def fresh_in_def)

lemma unique_key_update [simp]:
  "(\<And>r. p r \<Longrightarrow> key (f r) = key r) \<Longrightarrow> unique_key key (update_rows p f rs) = unique_key key rs"
  by (simp add: unique_key_def map_update_rows)

lemma unique_key_filter [simp]: "unique_key key rs \<Longrightarrow> unique_key key (filter p rs)"
  by (simp add: unique_key_def distinct_map_filter)

lemma unique_keyD: "unique_key key rs \<Longrightarrow> r \<in> set rs \<Longrightarrow> s \<in> set rs \<Longrightarrow> key r = key s \<Longrightarrow> r = s"
  by (auto simp: unique_key_def distinct_map inj_on_def)

lemma present_in_snoc [simp]: "present_in key k (rs @ [r]) \<longleftrightarrow> present_in key k rs \<or> key r = k"
  by (auto simp: present_in_def)

lemma present_in_update [simp]:
  "(\<And>r. p r \<Longrightarrow> key (f r) = key r) \<Longrightarrow> present_in key k (update_rows p f rs) = present_in key k rs"
  by (simp add: present_in_def map_update_rows)

lemma refs_iff: "refs f rs key ts \<longleftrightarrow> set (map f rs) \<subseteq> set (map key ts)"
  by (auto simp: refs_def present_in_def)

lemma refs_snoc [simp]:
  "refs f (rs @ [r]) key ts \<longleftrightarrow> refs f rs key ts \<and> present_in key (f r) ts"
  by (auto simp: refs_def)

lemma refs_target_snoc [simp]: "refs f rs key ts \<Longrightarrow> refs f rs key (ts @ [t])"
  by (simp add: refs_def)

lemma refs_update [simp]:
  assumes "\<And>r. p r \<Longrightarrow> f (g r) = f r"
  shows "refs f (update_rows p g rs) key ts = refs f rs key ts"
proof -
  have "map f (update_rows p g rs) = map f rs" by (rule map_update_rows) (rule assms)
  then show ?thesis by (simp only: refs_iff)
qed

lemma refs_target_update [simp]:
  "(\<And>r. p r \<Longrightarrow> key (g r) = key r) \<Longrightarrow> refs f rs key (update_rows p g ts) = refs f rs key ts"
  by (simp add: refs_def)

lemma refs_filter [simp]: "refs f rs key ts \<Longrightarrow> refs f (filter p rs) key ts"
  by (simp add: refs_def)

lemma refs_target_delete [simp]:
  assumes "refs f rs key ts" and "\<not> present_in f k rs"
  shows "refs f rs key (filter (\<lambda>t. key t \<noteq> k) ts)"
  unfolding refs_def
proof
  fix r
  assume r: "r \<in> set rs"
  with assms(1) obtain t where t: "t \<in> set ts" "key t = f r"
    by (auto simp: refs_def present_in_def)
  with assms(2) r have "key t \<noteq> k" by (auto simp: present_in_def)
  with t show "present_in key (f r) (filter (\<lambda>t. key t \<noteq> k) ts)"
    by (force simp: present_in_def)
qed

lemma refs_self_snoc [simp]:
  "refs f rs key ts \<Longrightarrow> refs f (rs @ [r]) key ts = present_in key (f r) ts"
  by simp

text \<open>A UNIQUE column that may be NULL: the rows that have a value in it differ there.\<close>

definition unique_where_set :: "('r \<Rightarrow> string option) \<Rightarrow> 'r list \<Rightarrow> bool" where
  "unique_where_set key rs \<longleftrightarrow> unique_key key (filter (\<lambda>r. key r \<noteq> None) rs)"

lemma unique_where_set_simps [simp]:
  "unique_where_set key []"
  "unique_where_set key (r # rs) \<longleftrightarrow> unique_opt key (key r) rs \<and> unique_where_set key rs"
  by (auto simp: unique_where_set_def unique_key_def unique_opt_def image_iff)

lemma unique_where_set_snoc [simp]:
  "unique_where_set key (rs @ [r]) \<longleftrightarrow> unique_where_set key rs \<and> unique_opt key (key r) rs"
  by (auto simp: unique_where_set_def unique_opt_def fresh_in_def)

lemma unique_where_set_update [simp]:
  "(\<And>r. p r \<Longrightarrow> key (f r) = key r) \<Longrightarrow> unique_where_set key (update_rows p f rs) = unique_where_set key rs"
  by (induction rs) (simp_all add: unique_opt_def map_update_rows)

lemma unique_where_set_filter [simp]: "unique_where_set key rs \<Longrightarrow> unique_where_set key (filter p rs)"
  by (induction rs) (auto simp: unique_opt_def)

lemma rows_absent:
  assumes "\<not> present_in i k rs"
  shows "update_rows (\<lambda>r. i r = k) f rs = rs" and "filter (\<lambda>r. i r \<noteq> k) rs = rs"
  using assms by (induction rs) (auto simp: present_in_def)

text \<open>Giving one row a value that no other row has.\<close>

lemma unique_where_set_assign:
  assumes "unique_key i rs" and "unique_where_set key rs"
    and "\<not> present_in i k rs \<or> unique_opt key v (filter (\<lambda>r. i r \<noteq> k) rs)" and "\<And>r. key (f r) = v"
  shows "unique_where_set key (update_rows (\<lambda>r. i r = k) f rs)"
  using assms(1-3)
proof (induction rs)
  case Nil
  then show ?case by simp
next
  case (Cons r rs)
  have u: "unique_key i rs" "i r \<notin> i ` set rs" using Cons.prems(1) by (simp_all add: unique_key_def)
  show ?case
  proof (cases "i r = k")
    case True
    with u have "\<not> present_in i k rs" by (auto simp: present_in_def)
    with True Cons.prems assms(4) show ?thesis by (simp add: rows_absent present_in_def)
  next
    case False
    with Cons u(1) have "unique_where_set key (update_rows (\<lambda>r. i r = k) f rs)"
      by (intro Cons.IH) (auto simp: present_in_def unique_opt_def)
    moreover have "unique_opt key (key r) (update_rows (\<lambda>r. i r = k) f rs)"
    proof (cases "present_in i k rs")
      case True
      with False Cons.prems assms(4) show ?thesis by (auto simp: unique_opt_def present_in_def set_update_rows split: if_splits)
    next
      case absent: False
      with Cons.prems(2) show ?thesis by (simp add: rows_absent)
    qed
    ultimately show ?thesis using False by simp
  qed
qed

section \<open>Integrity\<close>

definition keys_ok :: "'p world \<Rightarrow> bool" where
  "keys_ok w \<longleftrightarrow>
     unique_key uID (w_users w) \<and> unique_key uEmail (w_users w) \<and>
     unique_key pdID (w_products w) \<and> unique_where_set pdStripePriceID (w_products w) \<and>
     unique_key vID (w_versions w) \<and>
     unique_key (\<lambda>v. (vExternalID v, vGitCommit v)) (w_versions w) \<and>
     unique_key tkID (w_tasks w) \<and> unique_key ckID (w_checks w) \<and>
     unique_key tID (w_tests w) \<and> unique_key pID (w_purchases w) \<and>
     unique_where_set pStripeSessionID (w_purchases w) \<and>
     unique_key aID (w_attempts w) \<and> unique_key eID (w_environments w) \<and>
     unique_key sID (w_sessions w) \<and> unique_key sTerminalToken (w_sessions w)"

definition refs_ok :: "'p world \<Rightarrow> bool" where
  "refs_ok w \<longleftrightarrow>
     refs tProductID (w_tests w) pdID (w_products w) \<and>
     refs tScenarioVersionID (w_tests w) vID (w_versions w) \<and>
     refs pUserID (w_purchases w) uID (w_users w) \<and>
     refs pTestID (w_purchases w) tID (w_tests w) \<and>
     refs aPurchasedTestID (w_attempts w) pID (w_purchases w) \<and>
     refs eAttemptID (w_environments w) aID (w_attempts w) \<and>
     refs sAttemptID (w_sessions w) aID (w_attempts w) \<and>
     refs sEnvironmentID (w_sessions w) eID (w_environments w) \<and>
     refs tkScenarioVersionID (w_tasks w) vID (w_versions w) \<and>
     refs ckTaskID (w_checks w) tkID (w_tasks w)"

definition db_ok :: "'p world \<Rightarrow> bool" where
  "db_ok w \<longleftrightarrow> keys_ok w \<and> refs_ok w"

lemmas db_ok_defs = db_ok_def keys_ok_def refs_ok_def

lemma db_okD:
  assumes "db_ok w"
  shows "unique_key aID (w_attempts w)" and "unique_key pID (w_purchases w)"
    and "unique_key eID (w_environments w)" and "unique_key sID (w_sessions w)"
    and "unique_key tID (w_tests w)" and "unique_key pdID (w_products w)"
  using assms by (simp_all add: db_ok_defs)

interpretation integ: world_effect "keeps db_ok :: 'p world \<Rightarrow> _"
  by unfold_locales (simp_all add: keeps_def db_ok_defs)

section \<open>Every statement keeps it\<close>

lemma check_then_InrD [dest!]: "check_then c r = Inr x \<Longrightarrow> c \<and> r = x"
  by (auto split: if_splits)

lemma users_integ: "obeys (keeps db_ok) (Users_Create u :: ('p world, unit) eprog)"
  unfolding store_defs
  by (rule integ.obeys_exec_only) (clarsimp simp: keeps_def db_ok_defs)

lemma products_integ:
  "obeys (keeps db_ok) (Products_Create p :: ('p world, unit) eprog)"
  "obeys (keeps db_ok) (Products_Update p :: ('p world, unit) eprog)"
  "obeys (keeps db_ok) (Products_Delete i :: ('p world, unit) eprog)"
  unfolding store_defs insert_product_def delete_product_def
  by (rule integ.obeys_exec_only;
      clarsimp simp: keeps_def db_ok_defs unique_where_set_assign)+

lemma tests_integ:
  "obeys (keeps db_ok) (Tests_Create t :: ('p world, unit) eprog)"
  "obeys (keeps db_ok) (Tests_Update t :: ('p world, unit) eprog)"
  "obeys (keeps db_ok) (Tests_Delete i :: ('p world, unit) eprog)"
  unfolding store_defs insert_test_def delete_test_def
  by (rule integ.obeys_exec_only;
      clarsimp simp: keeps_def db_ok_defs )+

lemma purchases_integ:
  "obeys (keeps db_ok) (Purchases_Create p :: ('p world, unit) eprog)"
  "obeys (keeps db_ok) (Purchases_IncrementAttemptsRemaining i :: ('p world, unit) eprog)"
  unfolding store_defs
  by (rule integ.obeys_exec_only;
      clarsimp simp: keeps_def db_ok_defs add_attempts_def)+

lemma decrement_integ:
  "obeys (keeps db_ok) (Purchases_DecrementAttemptsRemaining i :: ('p world, unit) eprog)"
  unfolding store_defs
  by (intro integ.obeys_try integ.obeys_sql_exec integ.obeys_if integ.obeys_fail integ.obeys_ok)
     (clarsimp simp: keeps_def db_ok_defs add_attempts_def Let_def)

lemma attempts_integ:
  "obeys (keeps db_ok) (Attempts_Create a :: ('p world, unit) eprog)"
  "obeys (keeps db_ok) (Attempts_UpdateStatus i st :: ('p world, unit) eprog)"
  "obeys (keeps db_ok) (Attempts_UpdateScore i sc mx :: ('p world, unit) eprog)"
  unfolding store_defs
  by (rule integ.obeys_exec_only;
      clarsimp simp: keeps_def db_ok_defs)+

lemma environments_integ:
  "obeys (keeps db_ok) (Environments_Create e :: ('p world, unit) eprog)"
  "obeys (keeps db_ok) (Environments_UpdateStatus i est :: ('p world, unit) eprog)"
  "obeys (keeps db_ok) (Environments_UpdateProviderMetadata i m :: ('p world, unit) eprog)"
  unfolding store_defs
  by (rule integ.obeys_exec_only;
      clarsimp simp: keeps_def db_ok_defs)+

lemma sessions_integ:
  "obeys (keeps db_ok) (Sessions_Create s :: ('p world, unit) eprog)"
  "obeys (keeps db_ok) (Sessions_UpdateFirstOpenedAt i t :: ('p world, unit) eprog)"
  unfolding store_defs
  by (rule integ.obeys_exec_only;
      clarsimp simp: keeps_def db_ok_defs)+

lemma scenarios_integ:
  "obeys (keeps db_ok) (Scenarios_CreateVersion v :: ('p world, unit) eprog)"
  "obeys (keeps db_ok) (Scenarios_CreateTask t :: ('p world, unit) eprog)"
  "obeys (keeps db_ok) (Scenarios_CreateCheck c :: ('p world, unit) eprog)"
  unfolding store_defs
  by (rule integ.obeys_exec_only; clarsimp simp: keeps_def db_ok_defs)+

lemma enqueue_integ: "obeys (keeps db_ok) (Enqueue k p t :: ('p world, unit) eprog)"
  unfolding Enqueue_def
  by (rule integ.obeys_exec_only) (clarsimp simp: keeps_def db_ok_defs)

lemmas statement_integ =
  users_integ products_integ tests_integ purchases_integ decrement_integ attempts_integ
  environments_integ sessions_integ scenarios_integ enqueue_integ

end
