(* ===== verification/StateMachine.thy ===== *)
theory StateMachine
  imports Models
begin

text \<open>
  \<open>internal/attempts/statemachine.go\<close>: the table of legal transitions of an attempt and the
  two functions that read it, with the reachability relation the table spans.
\<close>

fun validTransitions :: "attempt_status \<Rightarrow> attempt_status list option" where
  "validTransitions Purchased = Some [Available, ExpiredBeforeStart]"
| "validTransitions Available = Some [AttemptRequested, ExpiredBeforeStart]"
| "validTransitions AttemptRequested = Some [EnvironmentProvisioning, ProvisionFailed]"
| "validTransitions EnvironmentProvisioning = Some [EnvironmentReady, ProvisionFailed]"
| "validTransitions EnvironmentReady = Some [TerminalOpened, ExpiredBeforeStart]"
| "validTransitions TerminalOpened = Some [Running]"
| "validTransitions Running = Some [Submitted, Expired, ExpiredRunning]"
| "validTransitions Submitted = Some [Grading]"
| "validTransitions Expired = Some [Grading]"
| "validTransitions ExpiredRunning = Some [Grading]"
| "validTransitions Grading = Some [Scored]"
| "validTransitions Scored = Some [CleanupPending]"
| "validTransitions CleanupPending = Some [Destroyed, CleanupFailed]"
| "validTransitions ProvisionFailed = Some [CleanupPending, AttemptRequested]"
| "validTransitions ExpiredBeforeStart = Some [CleanupPending]"
| "validTransitions CleanupFailed = Some [CleanupPending]"
| "validTransitions Destroyed = None"

definition ValidTransition :: "attempt_status \<Rightarrow> attempt_status \<Rightarrow> bool" where
  "ValidTransition from to = (case validTransitions from of
       None \<Rightarrow> False
     | Some allowed \<Rightarrow> list_ex (\<lambda>status. status = to) allowed)"

fun CanTransition ::
  "attempt_status \<Rightarrow> attempt_status list \<Rightarrow> attempt_status option \<times> bool"
where
  "CanTransition from [] = (None, False)"
| "CanTransition from (target # to) =
     (if ValidTransition from target then (Some target, True) else CanTransition from to)"

section \<open>Where an attempt can get to\<close>

inductive reaches :: "attempt_status \<Rightarrow> attempt_status \<Rightarrow> bool" where
  refl [intro]: "reaches s s"
| step [intro]: "reaches s t \<Longrightarrow> ValidTransition t u \<Longrightarrow> reaches s u"

lemma reaches_trans: "reaches t u \<Longrightarrow> reaches s t \<Longrightarrow> reaches s u"
  by (induction rule: reaches.induct) auto

lemma reaches_edge: "ValidTransition s t \<Longrightarrow> reaches s t"
  by (rule reaches.step [OF reaches.refl])

text \<open>A set of statuses that no legal transition leaves is never left.\<close>

lemma reaches_closed:
  assumes "reaches s t" and "s \<in> A"
    and closed: "\<And>a b. a \<in> A \<Longrightarrow> ValidTransition a b \<Longrightarrow> b \<in> A"
  shows "t \<in> A"
  using assms(1,2) by induction (auto intro: closed)

text \<open>
  The order in which an attempt moves through its life: every transition goes up, but for the
  administrator's retry of a failed provisioning and the retry of a failed cleanup.
\<close>

fun stage :: "attempt_status \<Rightarrow> nat" where
  "stage Purchased = 0"
| "stage Available = 1"
| "stage AttemptRequested = 2"
| "stage EnvironmentProvisioning = 3"
| "stage ProvisionFailed = 4"
| "stage EnvironmentReady = 4"
| "stage TerminalOpened = 5"
| "stage Running = 6"
| "stage Submitted = 7"
| "stage Expired = 7"
| "stage ExpiredRunning = 7"
| "stage Grading = 8"
| "stage Scored = 9"
| "stage ExpiredBeforeStart = 9"
| "stage CleanupPending = 10"
| "stage CleanupFailed = 11"
| "stage Destroyed = 11"

definition retry_edge :: "attempt_status \<Rightarrow> attempt_status \<Rightarrow> bool" where
  "retry_edge from to \<longleftrightarrow>
     (from, to) \<in> {(ProvisionFailed, AttemptRequested), (CleanupFailed, CleanupPending)}"

lemma ValidTransition_stage:
  "ValidTransition from to \<Longrightarrow> retry_edge from to \<or> stage from < stage to"
  by (cases "from") (auto simp: ValidTransition_def retry_edge_def)

lemma ValidTransition_not_refl: "\<not> ValidTransition s s"
  by (cases s) (auto simp: ValidTransition_def)

lemma CanTransition_iff:
  "snd (CanTransition from to) \<longleftrightarrow> (\<exists>t \<in> set to. ValidTransition from t)"
  by (induction to) auto

lemma CanTransition_first:
  "CanTransition from to = (Some t, True) \<longleftrightarrow>
     (\<exists>pre post. to = pre @ t # post \<and> ValidTransition from t \<and>
        (\<forall>u \<in> set pre. \<not> ValidTransition from u))"
proof (induction to)
  case Nil
  then show ?case by simp
next
  case (Cons a to)
  show ?case
  proof (cases "ValidTransition from a")
    case True
    then show ?thesis
      by (auto simp: Cons_eq_append_conv)
  next
    case False
    then have "(\<exists>pre post. a # to = pre @ t # post \<and> ValidTransition from t \<and>
        (\<forall>u \<in> set pre. \<not> ValidTransition from u)) \<longleftrightarrow>
      (\<exists>pre post. to = pre @ t # post \<and> ValidTransition from t \<and>
        (\<forall>u \<in> set pre. \<not> ValidTransition from u))"
      by (auto simp: Cons_eq_append_conv) (metis set_ConsD)
    with False Cons.IH show ?thesis by simp
  qed
qed

text \<open>The edges out of each status, for rewriting.\<close>

lemma ValidTransition_simps [simp]:
  "ValidTransition Purchased t \<longleftrightarrow> t = Available \<or> t = ExpiredBeforeStart"
  "ValidTransition Available t \<longleftrightarrow> t = AttemptRequested \<or> t = ExpiredBeforeStart"
  "ValidTransition AttemptRequested t \<longleftrightarrow> t = EnvironmentProvisioning \<or> t = ProvisionFailed"
  "ValidTransition EnvironmentProvisioning t \<longleftrightarrow> t = EnvironmentReady \<or> t = ProvisionFailed"
  "ValidTransition EnvironmentReady t \<longleftrightarrow> t = TerminalOpened \<or> t = ExpiredBeforeStart"
  "ValidTransition TerminalOpened t \<longleftrightarrow> t = Running"
  "ValidTransition Running t \<longleftrightarrow> t = Submitted \<or> t = Expired \<or> t = ExpiredRunning"
  "ValidTransition Submitted t \<longleftrightarrow> t = Grading"
  "ValidTransition Expired t \<longleftrightarrow> t = Grading"
  "ValidTransition ExpiredRunning t \<longleftrightarrow> t = Grading"
  "ValidTransition Grading t \<longleftrightarrow> t = Scored"
  "ValidTransition Scored t \<longleftrightarrow> t = CleanupPending"
  "ValidTransition CleanupPending t \<longleftrightarrow> t = Destroyed \<or> t = CleanupFailed"
  "ValidTransition ProvisionFailed t \<longleftrightarrow> t = CleanupPending \<or> t = AttemptRequested"
  "ValidTransition ExpiredBeforeStart t \<longleftrightarrow> t = CleanupPending"
  "ValidTransition CleanupFailed t \<longleftrightarrow> t = CleanupPending"
  "ValidTransition Destroyed t \<longleftrightarrow> False"
  by (auto simp: ValidTransition_def)

lemma ValidTransition_into [simp]:
  "ValidTransition s Grading \<longleftrightarrow> s \<in> {Submitted, Expired, ExpiredRunning}"
  "ValidTransition s Destroyed \<longleftrightarrow> s = CleanupPending"
  "ValidTransition s Scored \<longleftrightarrow> s = Grading"
  "ValidTransition s Running \<longleftrightarrow> s = TerminalOpened"
  "ValidTransition s TerminalOpened \<longleftrightarrow> s = EnvironmentReady"
  "ValidTransition s ProvisionFailed \<longleftrightarrow> s \<in> {AttemptRequested, EnvironmentProvisioning}"
  "ValidTransition s EnvironmentReady \<longleftrightarrow> s = EnvironmentProvisioning"
  "ValidTransition s EnvironmentProvisioning \<longleftrightarrow> s = AttemptRequested"
  "ValidTransition s AttemptRequested \<longleftrightarrow> s \<in> {Available, ProvisionFailed}"
  "ValidTransition s Submitted \<longleftrightarrow> s = Running"
  "ValidTransition s Expired \<longleftrightarrow> s = Running"
  by (cases s; simp)+

section \<open>Properties\<close>

text \<open>\<open>CanTransition\<close> returns the first of the candidate targets that the table allows, and
  reports failure exactly when the table allows none of them.\<close>

lemma CanTransition_first_match:
  "(CanTransition from to = (Some t, True) \<longleftrightarrow>
      (\<exists>pre post. to = pre @ t # post \<and> ValidTransition from t \<and>
         (\<forall>u \<in> set pre. \<not> ValidTransition from u))) \<and>
   (CanTransition from to = (None, False) \<longleftrightarrow> (\<forall>u \<in> set to. \<not> ValidTransition from u))"
proof
  show "CanTransition from to = (None, False) \<longleftrightarrow> (\<forall>u \<in> set to. \<not> ValidTransition from u)"
    by (induction to) auto
qed (rule CanTransition_first)

lemma CanTransition_first_match_example:
  "CanTransition Running [Grading, Expired, Submitted] = (Some Expired, True) \<and>
   CanTransition Scored [Destroyed, Grading] = (None, False)"
  using CanTransition_first_match [of Running "[Grading, Expired, Submitted]" Expired]
    CanTransition_first_match [of Scored "[Destroyed, Grading]" Expired]
  by (auto intro!: exI [of _ "[Grading]"] exI [of _ "[Submitted]"])

end
