(* ===== verification/Httpx.thy ===== *)
theory Httpx
  imports Json
begin

text \<open>
  \<open>internal/httpx\<close> (json.go, errors.go): responses and request bodies.  A response is its
  status, its body and the cookies it sets.  A request body is the first JSON value it holds,
  or \<open>None\<close> when it holds none; \<open>ReadJSON\<close> decodes it strictly, so an unknown key is an error.
\<close>

datatype body = JsonBody json | TextBody string | EmptyBody

record cookie =
  ckName :: string
  ckValue :: string
  ckMaxAge :: int
  ckHttpOnly :: bool
  ckSecure :: bool
  ckSameSiteStrict :: bool

record response =
  rStatus :: nat
  rBody :: body
  rCookies :: "cookie list"

definition WriteJSON :: "nat \<Rightarrow> json \<Rightarrow> response" where
  "WriteJSON status v = \<lparr>rStatus = status, rBody = JsonBody v, rCookies = []\<rparr>"

definition WriteError :: "nat \<Rightarrow> string \<Rightarrow> response" where
  "WriteError status message = WriteJSON status (JObj [(''error'', JStr message)])"

definition BadRequest :: "string \<Rightarrow> response" where
  "BadRequest message = WriteError 400 message"

definition Unauthorized :: "string \<Rightarrow> response" where
  "Unauthorized message = WriteError 401 message"

definition Forbidden :: "string \<Rightarrow> response" where
  "Forbidden message = WriteError 403 message"

definition NotFound :: "string \<Rightarrow> response" where
  "NotFound message = WriteError 404 message"

definition InternalError :: "string \<Rightarrow> response" where
  "InternalError message = WriteError 500 message"

text \<open>\<open>http.Error\<close> of the standard library: a plain text body.\<close>

definition http_Error :: "string \<Rightarrow> nat \<Rightarrow> response" where
  "http_Error message status = \<lparr>rStatus = status, rBody = TextBody message, rCookies = []\<rparr>"

definition ReadJSON :: "'a field_decoder list \<Rightarrow> 'a \<Rightarrow> json option \<Rightarrow> 'a option" where
  "ReadJSON decs zero body = (case body of
       None \<Rightarrow> None | Some v \<Rightarrow> decode_struct True decs zero v)"

definition healthz :: response where
  "healthz = WriteJSON 200 (JObj [(''status'', JStr ''ok'')])"

lemma response_status [simp]:
  "rStatus (WriteJSON s v) = s"
  "rStatus (WriteError s m) = s"
  "rStatus (BadRequest m) = 400"
  "rStatus (Unauthorized m) = 401"
  "rStatus (Forbidden m) = 403"
  "rStatus (NotFound m) = 404"
  "rStatus (InternalError m) = 500"
  "rStatus (http_Error m s) = s"
  by (simp_all add: WriteJSON_def WriteError_def BadRequest_def Unauthorized_def Forbidden_def
      NotFound_def InternalError_def http_Error_def)

lemma ReadJSON_no_body [simp]: "ReadJSON decs zero None = None"
  by (simp add: ReadJSON_def)

text \<open>A key that is no field of the target makes the whole body invalid.\<close>

lemma decode_members_strict_unknown:
  assumes "(key, v) \<in> set ms" and "\<forall>d \<in> set decs. \<not> key_matches (fst d) key"
  shows "decode_members True decs ms acc = None"
  using assms(1)
proof (induction ms arbitrary: acc)
  case Nil
  then show ?case by simp
next
  case (Cons m ms)
  obtain k u where m: "m = (k, u)" by (cases m)
  have unknown: "find (\<lambda>d. key_matches (fst d) key) decs = None"
    using assms(2) by (fastforce simp: find_None_iff)
  show ?case
  proof (cases "m = (key, v)")
    case True
    with unknown show ?thesis by simp
  next
    case False
    with Cons have "decode_members True decs ms acc' = None" for acc' by auto
    with m show ?thesis by (simp split: option.split)
  qed
qed

end
