(* ===== verification/Attempts.thy ===== *)
theory Attempts
  imports StateMachine Jobs Httpx
begin

text \<open>
  \<open>internal/attempts\<close>: the service (service.go, submit.go, expire.go) and its HTTP handlers
  (handler.go).  Each function is one program over the world; the caller's identity is the
  user id the authentication middleware put into the request's context, if any.
\<close>

section \<open>The service (service.go)\<close>

definition ErrInvalidTransition :: go_error where
  "ErrInvalidTransition = Sentinel ''attempts.ErrInvalidTransition'' ''invalid state transition''"

definition ErrNoAttemptsRemaining :: go_error where
  "ErrNoAttemptsRemaining = Sentinel ''attempts.ErrNoAttemptsRemaining'' ''no attempts remaining''"

definition ErrPurchaseExpired :: go_error where
  "ErrPurchaseExpired = Sentinel ''attempts.ErrPurchaseExpired'' ''purchase has expired''"

definition invalid_transition :: "attempt_status \<Rightarrow> attempt_status \<Rightarrow> go_error" where
  "invalid_transition from to = Errorf '''' ErrInvalidTransition
     ('': '' @ attempt_status_string from @ '' -> '' @ attempt_status_string to)"

definition new_attempt :: "uuid \<Rightarrow> uuid \<Rightarrow> int \<Rightarrow> attempt" where
  "new_attempt i purchaseID now = \<lparr>aID = i, aPurchasedTestID = purchaseID,
     aStatus = AttemptRequested, aScore = None, aMaxScore = None, aStartedAt = None,
     aEndedAt = None, aCreatedAt = now\<rparr>"

text \<open>The end of \<open>RequestAttempt\<close>, once the purchase has passed its checks.\<close>

definition start_attempt :: "uuid_lib \<Rightarrow> purchased_test \<Rightarrow> ('p world, attempt) eprog" where
  "start_attempt L purchase =
     try_do (Purchases_DecrementAttemptsRemaining (pID purchase))
       (\<lambda>e. fail (wrap_err ''failed to decrement attempts: '' e)) (\<lambda>_.
     bind_do uuid_New (\<lambda>attemptID.
     bind_do time_Now (\<lambda>created.
     let attempt = new_attempt attemptID (pID purchase) created in
     try_do (Attempts_Create attempt)
       (\<lambda>e. ignore_do (Purchases_IncrementAttemptsRemaining (pID purchase))
              (fail (wrap_err ''failed to create attempt: '' e))) (\<lambda>_.
     try_do (Enqueue ProvisionEnvironmentJob (attempt_payload L (aID attempt)) None)
       (\<lambda>e. ignore_do (Purchases_IncrementAttemptsRemaining (pID purchase))
              (fail (wrap_err ''failed to enqueue provisioning job: '' e))) (\<lambda>_.
     ok attempt)))))"

definition RequestAttempt :: "uuid_lib \<Rightarrow> uuid \<Rightarrow> uuid \<Rightarrow> ('p world, attempt) eprog" where
  "RequestAttempt L userID purchasedTestID =
     try_do (Purchases_GetByID purchasedTestID)
       (\<lambda>e. fail (wrap_err ''purchase not found: '' e)) (\<lambda>purchase.
     if pUserID purchase \<noteq> userID then fail (Plain ''unauthorized'') else
     bind_do time_Now (\<lambda>now.
     if pExpiresAt purchase < now then fail ErrPurchaseExpired else
     if pAttemptsRemaining purchase \<le> 0 then fail ErrNoAttemptsRemaining else
     start_attempt L purchase))"

definition TransitionAttempt :: "uuid \<Rightarrow> attempt_status \<Rightarrow> ('p world, unit) eprog" where
  "TransitionAttempt attemptID to =
     try_do (Attempts_GetByID attemptID)
       (\<lambda>e. fail (wrap_err ''attempt not found: '' e)) (\<lambda>attempt.
     if \<not> ValidTransition (aStatus attempt) to
     then fail (invalid_transition (aStatus attempt) to) else
     try_do (Attempts_UpdateStatus attemptID to)
       (\<lambda>e. fail (wrap_err ''failed to update status: '' e)) (\<lambda>_.
     ok ()))"

definition GetAttempt :: "uuid \<Rightarrow> ('p world, attempt) eprog" where
  "GetAttempt attemptID = Attempts_GetByID attemptID"

definition RestoreAttemptCount :: "uuid \<Rightarrow> ('p world, unit) eprog" where
  "RestoreAttemptCount attemptID =
     try_do (Attempts_GetByID attemptID)
       (\<lambda>e. fail (wrap_err ''attempt not found: '' e)) (\<lambda>attempt.
     try_do (Purchases_IncrementAttemptsRemaining (aPurchasedTestID attempt))
       (\<lambda>e. fail (wrap_err ''failed to restore attempt count: '' e)) (\<lambda>_.
     ok ()))"

section \<open>Submission and expiry (submit.go, expire.go)\<close>

definition SubmitAttempt :: "uuid_lib \<Rightarrow> uuid \<Rightarrow> uuid \<Rightarrow> ('p world, unit) eprog" where
  "SubmitAttempt L userID attemptID =
     try_do (Attempts_GetByID attemptID)
       (\<lambda>e. fail (wrap_err ''attempt not found: '' e)) (\<lambda>attempt.
     try_do (Purchases_GetByID (aPurchasedTestID attempt))
       (\<lambda>e. fail (wrap_err ''purchase not found: '' e)) (\<lambda>purchase.
     if pUserID purchase \<noteq> userID then fail (Plain ''unauthorized'') else
     if aStatus attempt \<noteq> Running then fail (Plain ''attempt is not running'') else
     try_do (TransitionAttempt attemptID Submitted)
       (\<lambda>e. fail (wrap_err ''failed to submit attempt: '' e)) (\<lambda>_.
     try_do (Enqueue GradeAttemptJob (attempt_payload L attemptID) None)
       (\<lambda>e. fail (wrap_err ''failed to enqueue grading job: '' e)) (\<lambda>_.
     ok ()))))"

definition HandleExpireAttempt :: "uuid_lib \<Rightarrow> 'p handler" where
  "HandleExpireAttempt L payload =
     (case parse_attempt_payload L payload of Inl e \<Rightarrow> fail e | Inr attemptID \<Rightarrow>
     try_do (Attempts_GetByID attemptID)
       (\<lambda>e. fail (wrap_err ''attempt not found: '' e)) (\<lambda>attempt.
     if aStatus attempt \<noteq> Running then ok () else
     try_do (TransitionAttempt attemptID Expired)
       (\<lambda>e. fail (wrap_err ''failed to expire attempt: '' e)) (\<lambda>_.
     try_do (Enqueue GradeAttemptJob (attempt_payload L attemptID) None)
       (\<lambda>e. fail (wrap_err ''failed to enqueue grading job: '' e)) (\<lambda>_.
     ok ()))))"

section \<open>HTTP handlers (handler.go)\<close>

definition createAttempt ::
  "uuid_lib \<Rightarrow> uuid option \<Rightarrow> json option \<Rightarrow> ('p world, response) prog"
where
  "createAttempt L ctx_user body = (case ctx_user of
       None \<Rightarrow> result (Unauthorized ''unauthorized'')
     | Some userID \<Rightarrow>
     (case ReadJSON [(''purchased_test_id'', into_string (\<lambda>s _. s))] '''' body of
       None \<Rightarrow> result (BadRequest ''invalid request body'')
     | Some req \<Rightarrow>
     (case uuid_Parse L req of
       Inl e \<Rightarrow> result (BadRequest ''invalid purchased_test_id'')
     | Inr purchasedTestID \<Rightarrow>
     try_do (RequestAttempt L userID purchasedTestID)
       (\<lambda>err. if err = ErrPurchaseExpired then result (BadRequest ''purchase has expired'')
              else if err = ErrNoAttemptsRemaining then result (BadRequest ''no attempts remaining'')
              else result (InternalError ''failed to create attempt''))
       (\<lambda>attempt. result (WriteJSON 201 (JObj
          [(''id'', JStr (uuid_String L (aID attempt))),
           (''status'', JStr (attempt_status_string (aStatus attempt)))]))))))"

text \<open>Fields tagged \<open>omitempty\<close> are left out when they are nil.\<close>

definition omitempty :: "string \<Rightarrow> json option \<Rightarrow> (string \<times> json) list" where
  "omitempty key v = (case v of None \<Rightarrow> [] | Some j \<Rightarrow> [(key, j)])"

definition active_status :: "attempt_status \<Rightarrow> bool" where
  "active_status s \<longleftrightarrow> s = EnvironmentReady \<or> s = TerminalOpened \<or> s = Running"

definition attempt_response :: "uuid_lib \<Rightarrow> attempt \<Rightarrow> string option \<Rightarrow> json" where
  "attempt_response L a token = JObj
     ([(''id'', JStr (uuid_String L (aID a))),
       (''status'', JStr (attempt_status_string (aStatus a)))] @
      omitempty ''score'' (map_option JNum (aScore a)) @
      omitempty ''max_score'' (map_option JNum (aMaxScore a)) @
      omitempty ''terminal_token'' (map_option JStr token))"

definition getAttempt ::
  "uuid_lib \<Rightarrow> uuid option \<Rightarrow> string \<Rightarrow> ('p world, response) prog"
where
  "getAttempt L ctx_user attemptIDStr = (case ctx_user of
       None \<Rightarrow> result (Unauthorized ''unauthorized'')
     | Some userID \<Rightarrow>
     (case uuid_Parse L attemptIDStr of
       Inl e \<Rightarrow> result (BadRequest ''invalid attempt_id'')
     | Inr attemptID \<Rightarrow>
     try_do (GetAttempt attemptID) (\<lambda>_. result (NotFound ''attempt not found'')) (\<lambda>attempt.
     try_do (Purchases_GetByID (aPurchasedTestID attempt))
       (\<lambda>_. result (Forbidden ''forbidden'')) (\<lambda>purchase.
     if pUserID purchase \<noteq> userID then result (Forbidden ''forbidden'') else
     if active_status (aStatus attempt) then
       try_do (Sessions_GetByAttemptID attemptID)
         (\<lambda>_. result (WriteJSON 200 (attempt_response L attempt None)))
         (\<lambda>s. result (WriteJSON 200 (attempt_response L attempt (Some (sTerminalToken s)))))
     else result (WriteJSON 200 (attempt_response L attempt None))))))"

definition submitAttempt ::
  "uuid_lib \<Rightarrow> uuid option \<Rightarrow> string \<Rightarrow> ('p world, response) prog"
where
  "submitAttempt L ctx_user attemptIDStr = (case ctx_user of
       None \<Rightarrow> result (Unauthorized ''unauthorized'')
     | Some userID \<Rightarrow>
     (case uuid_Parse L attemptIDStr of
       Inl e \<Rightarrow> result (BadRequest ''invalid attempt_id'')
     | Inr attemptID \<Rightarrow>
     try_do (SubmitAttempt L userID attemptID)
       (\<lambda>err. if err_msg err = ''attempt is not running''
              then result (BadRequest ''attempt is not running'')
              else if err_msg err = ''unauthorized'' then result (Forbidden ''forbidden'')
              else result (InternalError ''failed to submit attempt''))
       (\<lambda>_. result (WriteJSON 200 (JObj [(''status'', JStr ''submitted'')])))))"

end
