(* ===== verification/Scenarios.thy ===== *)
theory Scenarios
  imports Json
begin

text \<open>
  \<open>internal/scenarios\<close>: the schema of a scenario (schema.go) and its validation (validate.go).
  The loops keep the set of names seen so far, as the maps of the source do, and stop at the
  first error.  \<open>valid_scenario\<close> and \<open>valid_checks\<close> say without loops what a valid file is;
  the validators accept exactly those.
\<close>

section \<open>The schema (schema.go)\<close>

record node =
  nName :: string
  nRole :: string
  nTemplate :: string

record cluster =
  cID :: string
  cDisplayName :: string
  cKubeContext :: string
  cNodes :: "node list"

record topology =
  tpClusters :: "cluster list"

record task =
  skID :: string
  skClusterID :: string
  skKubeContext :: string
  skPoints :: int
  skPromptFile :: string

record scenario =
  scID :: string
  scTitle :: string
  scDurationMinutes :: int
  scAccessWindowHours :: int
  scAttemptsAllowed :: int
  scTopology :: topology
  scTasks :: "task list"

record check =
  chID :: string
  chTaskID :: string
  chClusterID :: string
  chType :: string
  chCommand :: string
  chPoints :: int

record checks_file =
  cfChecks :: "check list"

section \<open>Validate\<close>

definition valid_role :: "string \<Rightarrow> bool" where
  "valid_role r \<longleftrightarrow> to_lower r = ''control-plane'' \<or> to_lower r = ''worker''"

fun validate_nodes :: "string \<Rightarrow> string set \<Rightarrow> node list \<Rightarrow> go_error option" where
  "validate_nodes cid nodeNames [] = None"
| "validate_nodes cid nodeNames (n # ns) =
     (if nName n = '''' then Some (Plain (''node name is required in cluster '' @ cid))
      else if nName n \<in> nodeNames
      then Some (Plain (''duplicate node name '' @ nName n @ '' in cluster '' @ cid))
      else if \<not> valid_role (nRole n)
      then Some (Plain (''node '' @ nName n @ '' in cluster '' @ cid @ '' has invalid role: '' @ nRole n))
      else if nTemplate n = ''''
      then Some (Plain (''node '' @ nName n @ '' in cluster '' @ cid @ '' requires a template''))
      else validate_nodes cid (insert (nName n) nodeNames) ns)"

text \<open>The clusters' loop leaves the set of cluster ids behind for the tasks' loop.\<close>

fun validate_clusters :: "string set \<Rightarrow> cluster list \<Rightarrow> go_error + string set" where
  "validate_clusters clusterIDs [] = Inr clusterIDs"
| "validate_clusters clusterIDs (c # cs) =
     (if cID c = '''' then Inl (Plain ''cluster id is required'')
      else if cID c \<in> clusterIDs then Inl (Plain (''duplicate cluster id: '' @ cID c))
      else if cNodes c = []
      then Inl (Plain (''cluster '' @ cID c @ '' must have at least one node''))
      else (case validate_nodes (cID c) {} (cNodes c) of
          Some e \<Rightarrow> Inl e
        | None \<Rightarrow> validate_clusters (insert (cID c) clusterIDs) cs))"

fun validate_tasks :: "string set \<Rightarrow> string set \<Rightarrow> task list \<Rightarrow> go_error option" where
  "validate_tasks clusterIDs taskIDs [] = None"
| "validate_tasks clusterIDs taskIDs (t # ts) =
     (if skID t = '''' then Some (Plain ''task id is required'')
      else if skID t \<in> taskIDs then Some (Plain (''duplicate task id: '' @ skID t))
      else if skClusterID t \<notin> clusterIDs
      then Some (Plain (''task '' @ skID t @ '' references unknown cluster: '' @ skClusterID t))
      else if skPoints t \<le> 0
      then Some (Plain (''task '' @ skID t @ '' points must be positive''))
      else if skPromptFile t = ''''
      then Some (Plain (''task '' @ skID t @ '' requires a prompt_file''))
      else validate_tasks clusterIDs (insert (skID t) taskIDs) ts)"

definition Validate :: "scenario \<Rightarrow> go_error option" where
  "Validate s =
     (if scID s = '''' then Some (Plain ''scenario id is required'')
      else if scTitle s = '''' then Some (Plain ''scenario title is required'')
      else if scDurationMinutes s \<le> 0 then Some (Plain ''duration_minutes must be positive'')
      else if scAccessWindowHours s \<le> 0 then Some (Plain ''access_window_hours must be positive'')
      else if scAttemptsAllowed s \<le> 0 then Some (Plain ''attempts_allowed must be positive'')
      else if tpClusters (scTopology s) = []
      then Some (Plain ''at least one cluster is required'')
      else (case validate_clusters {} (tpClusters (scTopology s)) of
          Inl e \<Rightarrow> Some e
        | Inr clusterIDs \<Rightarrow>
            if scTasks s = [] then Some (Plain ''at least one task is required'')
            else validate_tasks clusterIDs {} (scTasks s)))"

section \<open>ValidateChecks\<close>

fun validate_check_list ::
  "string set \<Rightarrow> string set \<Rightarrow> string set \<Rightarrow> check list \<Rightarrow> go_error option"
where
  "validate_check_list taskIDs clusterIDs checkIDs [] = None"
| "validate_check_list taskIDs clusterIDs checkIDs (c # cs) =
     (if chID c = '''' then Some (Plain ''check id is required'')
      else if chID c \<in> checkIDs then Some (Plain (''duplicate check id: '' @ chID c))
      else if chTaskID c \<notin> taskIDs
      then Some (Plain (''check '' @ chID c @ '' references unknown task: '' @ chTaskID c))
      else if chClusterID c \<notin> clusterIDs
      then Some (Plain (''check '' @ chID c @ '' references unknown cluster: '' @ chClusterID c))
      else if chType c = '''' then Some (Plain (''check '' @ chID c @ '' requires a type''))
      else if chCommand c = '''' then Some (Plain (''check '' @ chID c @ '' requires a command''))
      else if chPoints c \<le> 0
      then Some (Plain (''check '' @ chID c @ '' points must be positive''))
      else validate_check_list taskIDs clusterIDs (insert (chID c) checkIDs) cs)"

definition ValidateChecks :: "checks_file \<Rightarrow> scenario \<Rightarrow> go_error option" where
  "ValidateChecks cf s =
     (if cfChecks cf = [] then Some (Plain ''at least one check is required'')
      else validate_check_list (set (map skID (scTasks s)))
             (set (map cID (tpClusters (scTopology s)))) {} (cfChecks cf))"

section \<open>What the validators accept\<close>

definition valid_node :: "node \<Rightarrow> bool" where
  "valid_node n \<longleftrightarrow> nName n \<noteq> '''' \<and> valid_role (nRole n) \<and> nTemplate n \<noteq> ''''"

definition valid_cluster :: "cluster \<Rightarrow> bool" where
  "valid_cluster c \<longleftrightarrow> cID c \<noteq> '''' \<and> cNodes c \<noteq> [] \<and> list_all valid_node (cNodes c) \<and>
     distinct (map nName (cNodes c))"

definition valid_task :: "string set \<Rightarrow> task \<Rightarrow> bool" where
  "valid_task clusterIDs t \<longleftrightarrow> skID t \<noteq> '''' \<and> skClusterID t \<in> clusterIDs \<and> 0 < skPoints t \<and>
     skPromptFile t \<noteq> ''''"

definition valid_scenario :: "scenario \<Rightarrow> bool" where
  "valid_scenario s \<longleftrightarrow>
     scID s \<noteq> '''' \<and> scTitle s \<noteq> '''' \<and>
     0 < scDurationMinutes s \<and> 0 < scAccessWindowHours s \<and> 0 < scAttemptsAllowed s \<and>
     tpClusters (scTopology s) \<noteq> [] \<and> list_all valid_cluster (tpClusters (scTopology s)) \<and>
     distinct (map cID (tpClusters (scTopology s))) \<and>
     scTasks s \<noteq> [] \<and>
     list_all (valid_task (set (map cID (tpClusters (scTopology s))))) (scTasks s) \<and>
     distinct (map skID (scTasks s))"

definition valid_check :: "string set \<Rightarrow> string set \<Rightarrow> check \<Rightarrow> bool" where
  "valid_check taskIDs clusterIDs c \<longleftrightarrow>
     chID c \<noteq> '''' \<and> chTaskID c \<in> taskIDs \<and> chClusterID c \<in> clusterIDs \<and>
     chType c \<noteq> '''' \<and> chCommand c \<noteq> '''' \<and> 0 < chPoints c"

definition valid_checks :: "checks_file \<Rightarrow> scenario \<Rightarrow> bool" where
  "valid_checks cf s \<longleftrightarrow> cfChecks cf \<noteq> [] \<and>
     list_all (valid_check (set (map skID (scTasks s)))
                 (set (map cID (tpClusters (scTopology s))))) (cfChecks cf) \<and>
     distinct (map chID (cfChecks cf))"

lemma validate_nodes_iff:
  "validate_nodes cid seen ns = None \<longleftrightarrow>
     list_all valid_node ns \<and> distinct (map nName ns) \<and> nName ` set ns \<inter> seen = {}"
  by (induction ns arbitrary: seen) (auto simp: valid_node_def)

lemma validate_clusters_Inr:
  "validate_clusters seen cs = Inr ids \<longleftrightarrow>
     list_all valid_cluster cs \<and> distinct (map cID cs) \<and> cID ` set cs \<inter> seen = {} \<and>
     ids = seen \<union> cID ` set cs"
proof (induction cs arbitrary: seen)
  case Nil
  then show ?case by auto
next
  case (Cons c cs)
  show ?case
  proof (cases "validate_nodes (cID c) {} (cNodes c)")
    case None
    then have "list_all valid_node (cNodes c)" and "distinct (map nName (cNodes c))"
      using validate_nodes_iff [of "cID c" "{}" "cNodes c"] by auto
    with None show ?thesis by (auto simp: Cons.IH valid_cluster_def)
  next
    case (Some e)
    then have "\<not> (list_all valid_node (cNodes c) \<and> distinct (map nName (cNodes c)))"
      using validate_nodes_iff [of "cID c" "{}" "cNodes c"] by auto
    with Some show ?thesis by (auto simp: valid_cluster_def)
  qed
qed

lemma validate_tasks_iff:
  "validate_tasks ids seen ts = None \<longleftrightarrow>
     list_all (valid_task ids) ts \<and> distinct (map skID ts) \<and> skID ` set ts \<inter> seen = {}"
  by (induction ts arbitrary: seen) (auto simp: valid_task_def)

lemma validate_check_list_iff:
  "validate_check_list tids cids seen cs = None \<longleftrightarrow>
     list_all (valid_check tids cids) cs \<and> distinct (map chID cs) \<and> chID ` set cs \<inter> seen = {}"
  by (induction cs arbitrary: seen) (auto simp: valid_check_def)

lemma Validate_accepts: "Validate s = None \<longleftrightarrow> valid_scenario s"
proof (cases "validate_clusters {} (tpClusters (scTopology s))")
  case (Inl e)
  then have "\<not> (list_all valid_cluster (tpClusters (scTopology s)) \<and>
      distinct (map cID (tpClusters (scTopology s))))"
    using validate_clusters_Inr [of "{}" "tpClusters (scTopology s)"] by auto
  with Inl show ?thesis by (auto simp: Validate_def valid_scenario_def)
next
  case (Inr ids)
  then have "list_all valid_cluster (tpClusters (scTopology s))"
    and "distinct (map cID (tpClusters (scTopology s)))"
    and "ids = set (map cID (tpClusters (scTopology s)))"
    using validate_clusters_Inr [of "{}" "tpClusters (scTopology s)" ids] by auto
  with Inr show ?thesis by (auto simp: Validate_def valid_scenario_def validate_tasks_iff)
qed

lemma ValidateChecks_accepts: "ValidateChecks cf s = None \<longleftrightarrow> valid_checks cf s"
  by (simp add: ValidateChecks_def valid_checks_def validate_check_list_iff)

section \<open>Properties\<close>


end
