(* ===== verification/Provider.thy ===== *)
theory Provider
  imports Json
begin

text \<open>
  \<open>internal/provider\<close>: what the orchestrator asks an infrastructure provider for (types.go),
  the interface (provider.go) as a record of three programs over the provider's own state,
  and the contract an environment result has to meet: clusters and nodes answer the request
  one for one, in order, under the names that were asked for.
\<close>

record vm_request =
  vrHostname :: string
  vrRole :: string
  vrTemplate :: string
  vrNetwork :: string
  vrSSHPublicKey :: string
  vrCloudInitData :: "(string \<times> string) list"
  vrTags :: "(string \<times> string) list"

record vm_result =
  vmProviderVMID :: string
  vmIPAddress :: string
  vmHostname :: string

record cluster_request =
  crName :: string
  crNodes :: "vm_request list"

record environment_spec =
  esWorkstation :: vm_request
  esClusters :: "cluster_request list"

record cluster_result =
  clName :: string
  clNodes :: "vm_result list"

record environment_result =
  erWorkstation :: vm_result
  erClusters :: "cluster_result list"

record 'p provider =
  CreateEnvironment :: "environment_spec \<Rightarrow> ('p, environment_result) eprog"
  DestroyEnvironment :: "json \<Rightarrow> ('p, unit) eprog"
  GetVMStatus :: "string \<Rightarrow> ('p, string) eprog"

definition cluster_answers :: "cluster_request \<Rightarrow> cluster_result \<Rightarrow> bool" where
  "cluster_answers q r \<longleftrightarrow>
     clName r = crName q \<and> map vmHostname (clNodes r) = map vrHostname (crNodes q)"

definition answers :: "environment_spec \<Rightarrow> environment_result \<Rightarrow> bool" where
  "answers spec r \<longleftrightarrow>
     vmHostname (erWorkstation r) = vrHostname (esWorkstation spec) \<and>
     list_all2 cluster_answers (esClusters spec) (erClusters r)"

lemma answers_length: "answers spec r \<Longrightarrow> length (erClusters r) = length (esClusters spec)"
  by (auto simp: answers_def dest: list_all2_lengthD)

lemma answers_names: "answers spec r \<Longrightarrow> map clName (erClusters r) = map crName (esClusters spec)"
  unfolding answers_def
  by (induction "esClusters spec" "erClusters r" arbitrary: spec r rule: list_induct2')
     (auto simp: list_all2_conv_all_nth cluster_answers_def intro!: nth_equalityI)

locale provider_contract =
  fixes create :: "environment_spec \<Rightarrow> ('p, environment_result) eprog"
  assumes create_answers: "create spec p = (Inr r, p') \<Longrightarrow> answers spec r"
begin

lemma create_length:
  "create spec p = (Inr r, p') \<Longrightarrow> length (erClusters r) = length (esClusters spec)"
  by (rule answers_length [OF create_answers])

lemma create_names:
  "create spec p = (Inr r, p') \<Longrightarrow> map clName (erClusters r) = map crName (esClusters spec)"
  by (rule answers_names [OF create_answers])

end

end
