(* ===== verification/Provisioner.thy ===== *)
theory Provisioner
  imports Json
begin

text \<open>
  \<open>internal/provisioner\<close>: the specification a provisioner receives (types.go), the interface
  (provisioner.go), the no-op provisioner (noop/noop.go), and of the Ansible one the text of
  the inventory and the variables it writes (ansible/inventory.go, ansible/vars.go).
  \<open>yaml.Marshal\<close> is a library function and a parameter of \<open>GenerateVars\<close>.
\<close>

record node_spec =
  nsHostname :: string
  nsIP :: string
  nsRole :: string

record cluster_spec =
  csName :: string
  csKubeContext :: string
  csNodes :: "node_spec list"

record provision_spec =
  psWorkstationIP :: string
  psSSHPrivateKey :: string
  psClusters :: "cluster_spec list"
  psPlaybookPath :: string
  psScenarioVars :: "(string \<times> json) list"
  psProxyAddr :: string
  psProxyIPTScript :: string

record provision_result =
  prReady :: bool

type_synonym 'p provisioner = "provision_spec \<Rightarrow> ('p, provision_result) eprog"

definition noop_Provision :: "'p provisioner" where
  "noop_Provision spec = ok \<lparr>prReady = True\<rparr>"

section \<open>The inventory (ansible/inventory.go)\<close>

definition eol :: string where
  "eol = [CHR 0x0A]"

definition node_line :: "node_spec \<Rightarrow> string" where
  "node_line n = nsHostname n @ '' ansible_host='' @ nsIP n @ '' ansible_user=root'' @ eol"

definition role_lines :: "string \<Rightarrow> node_spec list \<Rightarrow> string" where
  "role_lines role ns = concat (map node_line (filter (\<lambda>n. nsRole n = role) ns))"

definition group_name :: "cluster_spec \<Rightarrow> string" where
  "group_name c = replace_char CHR ''-'' CHR ''_'' (csName c)"

definition cluster_section :: "cluster_spec \<Rightarrow> string" where
  "cluster_section c =
     ''['' @ group_name c @ ''_control_plane]'' @ eol @
     role_lines ''control-plane'' (csNodes c) @ eol @
     ''['' @ group_name c @ ''_workers]'' @ eol @
     role_lines ''worker'' (csNodes c) @ eol @
     ''['' @ group_name c @ '':children]'' @ eol @
     group_name c @ ''_control_plane'' @ eol @
     group_name c @ ''_workers'' @ eol @ eol"

definition GenerateInventory :: "provision_spec \<Rightarrow> string" where
  "GenerateInventory spec =
     ''[workstation]'' @ eol @
     psWorkstationIP spec @ '' ansible_user=root'' @ eol @ eol @
     concat (map cluster_section (psClusters spec)) @
     ''[all:vars]'' @ eol @
     ''ansible_ssh_private_key_file=/tmp/painkiller-ssh-key'' @ eol @
     ''ansible_ssh_common_args='' @ [CHR 0x27] @ ''-o StrictHostKeyChecking=no'' @ [CHR 0x27] @ eol"

text \<open>The hosts that the inventory puts under a cluster, whatever their group.\<close>

definition cluster_hosts :: "cluster_spec \<Rightarrow> node_spec list" where
  "cluster_hosts c =
     filter (\<lambda>n. nsRole n = ''control-plane'' \<or> nsRole n = ''worker'') (csNodes c)"

lemma role_lines_none: "\<forall>n \<in> set ns. nsRole n \<noteq> role \<Longrightarrow> role_lines role ns = ''''"
  by (simp add: role_lines_def)

section \<open>The variables (ansible/vars.go)\<close>

definition node_vars :: "node_spec \<Rightarrow> json" where
  "node_vars n = JObj [(''hostname'', JStr (nsHostname n)), (''ip'', JStr (nsIP n)),
     (''role'', JStr (nsRole n))]"

definition cluster_vars :: "cluster_spec \<Rightarrow> json" where
  "cluster_vars c = JObj [(''name'', JStr (csName c)), (''kube_context'', JStr (csKubeContext c)),
     (''nodes'', JArr (map node_vars (csNodes c)))]"

text \<open>\<open>vars[k] = v\<close> for every entry of the scenario's own variables, last one winning.\<close>

fun set_all :: "(string \<times> json) list \<Rightarrow> (string \<rightharpoonup> json) \<Rightarrow> (string \<rightharpoonup> json)" where
  "set_all [] m = m"
| "set_all ((k, v) # kvs) m = set_all kvs (m(k \<mapsto> v))"

definition vars_map :: "provision_spec \<Rightarrow> (string \<rightharpoonup> json)" where
  "vars_map spec =
     (let base = [''workstation_ip'' \<mapsto> JStr (psWorkstationIP spec),
                  ''clusters'' \<mapsto> JArr (map cluster_vars (psClusters spec))];
          proxyURL = JStr (''http://'' @ psProxyAddr spec);
          proxied = (if psProxyAddr spec \<noteq> '''' then base(
              ''http_proxy'' \<mapsto> proxyURL, ''https_proxy'' \<mapsto> proxyURL,
              ''no_proxy'' \<mapsto> JStr ''localhost,127.0.0.1,10.0.0.0/8,172.16.0.0/12,192.168.0.0/16'')
            else base);
          scripted = (if psProxyIPTScript spec \<noteq> '''' then
              proxied(''proxy_iptables_script'' \<mapsto> JStr (psProxyIPTScript spec)) else proxied)
      in set_all (psScenarioVars spec) scripted)"

definition GenerateVars ::
  "((string \<rightharpoonup> json) \<Rightarrow> go_error + string) \<Rightarrow> provision_spec \<Rightarrow> go_error + string"
where
  "GenerateVars yaml_Marshal spec = yaml_Marshal (vars_map spec)"

lemma set_all_map_add: "set_all kvs m = m ++ map_of (rev kvs)"
proof (induction kvs m rule: set_all.induct)
  case (1 m)
  show ?case by simp
next
  case (2 k v kvs m)
  show ?case
    by (simp only: set_all.simps "2.IH") (auto simp: fun_eq_iff map_add_def split: option.splits)
qed

end
