(* ===== verification/Orchestrator.thy ===== *)
theory Orchestrator
  imports Attempts Scenarios Provider Provisioner Proxy
begin

text \<open>
  \<open>internal/orchestrator\<close> (orchestrator.go, provision_job.go): the jobs that build and destroy
  the environment of an attempt.  The orchestrator is a record of what it was configured with;
  the provider and the provisioner run on the external part of the world, and so does the
  generation of an ed25519 key pair; \<open>oPublicKey\<close> (ssh.NewPublicKey and MarshalAuthorizedKey) and
  \<open>oPrivateKeyPEM\<close> (ssh.MarshalPrivateKey and pem.EncodeToMemory) encode its halves.  Go indexes \<open>topology.Clusters[i]\<close> by the provider's clusters, so a provider that
  returned more clusters than were asked for would make the job panic: \<open>cluster_specs\<close> has that
  branch.
\<close>

record 'p orchestrator =
  oProvider :: "'p provider"
  oProvisioner :: "'p provisioner"
  oProxyConfig :: "proxy_config option"
  oGenerateKey :: "('p, string \<times> string) eprog"
  oPublicKey :: "string \<Rightarrow> go_error + string"
  oPrivateKeyPEM :: "string \<Rightarrow> go_error + string"
  oUUID :: uuid_lib

section \<open>The topology document\<close>

definition decode_node :: "json \<Rightarrow> node option" where
  "decode_node v = decode_struct False
     [(''name'', into_string (\<lambda>s n. n\<lparr>nName := s\<rparr>)),
      (''role'', into_string (\<lambda>s n. n\<lparr>nRole := s\<rparr>)),
      (''template'', into_string (\<lambda>s n. n\<lparr>nTemplate := s\<rparr>))]
     \<lparr>nName = '''', nRole = '''', nTemplate = ''''\<rparr> v"

definition decode_cluster :: "json \<Rightarrow> cluster option" where
  "decode_cluster v = decode_struct False
     [(''id'', into_string (\<lambda>s c. c\<lparr>cID := s\<rparr>)),
      (''display_name'', into_string (\<lambda>s c. c\<lparr>cDisplayName := s\<rparr>)),
      (''kube_context'', into_string (\<lambda>s c. c\<lparr>cKubeContext := s\<rparr>)),
      (''nodes'', into_slice decode_node (\<lambda>ns c. c\<lparr>cNodes := ns\<rparr>))]
     \<lparr>cID = '''', cDisplayName = '''', cKubeContext = '''', cNodes = []\<rparr> v"

definition decode_topology :: "json \<Rightarrow> topology option" where
  "decode_topology v = decode_struct False
     [(''clusters'', into_slice decode_cluster (\<lambda>cs t. t\<lparr>tpClusters := cs\<rparr>))]
     \<lparr>tpClusters = []\<rparr> v"

section \<open>Requests to the provider and the provisioner\<close>

definition node_request :: "string \<Rightarrow> string \<Rightarrow> string \<Rightarrow> node \<Rightarrow> vm_request" where
  "node_request attemptID sshKey clusterID n = \<lparr>
     vrHostname = clusterID @ ''-'' @ nName n, vrRole = nRole n, vrTemplate = nTemplate n,
     vrNetwork = '''', vrSSHPublicKey = sshKey, vrCloudInitData = [],
     vrTags = [(''attempt_id'', attemptID), (''cluster_id'', clusterID)]\<rparr>"

definition cluster_request_of :: "string \<Rightarrow> string \<Rightarrow> cluster \<Rightarrow> cluster_request" where
  "cluster_request_of attemptID sshKey c = \<lparr>crName = cID c,
     crNodes = map (node_request attemptID sshKey (cID c)) (cNodes c)\<rparr>"

definition environment_spec_of ::
  "string \<Rightarrow> string \<Rightarrow> string \<Rightarrow> topology \<Rightarrow> environment_spec"
where
  "environment_spec_of attemptID environmentID sshKey t = \<lparr>
     esWorkstation = \<lparr>vrHostname = ''workstation-'' @ take 8 attemptID, vrRole = ''workstation'',
       vrTemplate = ''workstation'', vrNetwork = '''', vrSSHPublicKey = sshKey,
       vrCloudInitData = [],
       vrTags = [(''attempt_id'', attemptID), (''environment_id'', environmentID)]\<rparr>,
     esClusters = map (cluster_request_of attemptID sshKey) (tpClusters t)\<rparr>"

definition metadata_of :: "environment_result \<Rightarrow> json" where
  "metadata_of r = JObj
     [(''node_vm_ids'', JArr (map (\<lambda>n. JStr (vmProviderVMID n)) (concat (map clNodes (erClusters r))))),
      (''workstation_vm_id'', JStr (vmProviderVMID (erWorkstation r)))]"

text \<open>
  The source sets the host name and the address of each node, and leaves the role at its zero
  value.
\<close>

definition node_spec_of :: "vm_result \<Rightarrow> node_spec" where
  "node_spec_of n = \<lparr>nsHostname = vmHostname n, nsIP = vmIPAddress n, nsRole = ''''\<rparr>"

fun cluster_specs :: "cluster list \<Rightarrow> cluster_result list \<Rightarrow> go_error + cluster_spec list" where
  "cluster_specs cs [] = Inr []"
| "cluster_specs [] (r # rs) = Inl (Panic ''index out of range'')"
| "cluster_specs (c # cs) (r # rs) = (case cluster_specs cs rs of
       Inl e \<Rightarrow> Inl e
     | Inr specs \<Rightarrow> Inr (\<lparr>csName = clName r, csKubeContext = cKubeContext c,
                        csNodes = map node_spec_of (clNodes r)\<rparr> # specs))"

definition cluster_CIDRs :: "string list" where
  "cluster_CIDRs = [''10.0.0.0/8'', ''172.16.0.0/12'', ''192.168.0.0/16'']"

definition provision_spec_of ::
  "proxy_config option \<Rightarrow> string \<Rightarrow> string \<Rightarrow> topology \<Rightarrow> environment_result \<Rightarrow>
   go_error + provision_spec"
where
  "provision_spec_of proxyConfig privKey externalID t r =
     (case cluster_specs (tpClusters t) (erClusters r) of
       Inl e \<Rightarrow> Inl e
     | Inr specs \<Rightarrow>
         let base = \<lparr>psWorkstationIP = vmIPAddress (erWorkstation r), psSSHPrivateKey = privKey,
               psClusters = specs,
               psPlaybookPath = ''/app/scenarios/'' @ externalID @ ''/provision/playbook.yaml'',
               psScenarioVars = [], psProxyAddr = '''', psProxyIPTScript = ''''\<rparr>
         in Inr (case proxyConfig of
               None \<Rightarrow> base
             | Some cfg \<Rightarrow> (if pxAddr cfg = '''' then base else
                 base\<lparr>psProxyAddr := pxAddr cfg,
                      psProxyIPTScript := GenerateIPTablesScript cfg cluster_CIDRs\<rparr>)))"

section \<open>The provisioning job\<close>

definition enqueueCleanup :: "uuid_lib \<Rightarrow> uuid \<Rightarrow> ('p world, unit) eprog" where
  "enqueueCleanup L attemptID = Enqueue CleanupEnvironmentJob (attempt_payload L attemptID) None"

definition handleProvisionFailure :: "uuid_lib \<Rightarrow> uuid \<Rightarrow> ('p world, unit) prog" where
  "handleProvisionFailure L attemptID =
     try_do (TransitionAttempt attemptID ProvisionFailed) (\<lambda>_. result ()) (\<lambda>_.
     ignore_do (enqueueCleanup L attemptID)
     (ignore_do (RestoreAttemptCount attemptID) (result ())))"

text \<open>A failure that the job reports by moving the attempt to \<open>provision_failed\<close>.\<close>

definition provision_failed :: "uuid_lib \<Rightarrow> uuid \<Rightarrow> go_error \<Rightarrow> ('p world, unit) eprog" where
  "provision_failed L attemptID e = ignore_do (handleProvisionFailure L attemptID) (ok ())"

definition new_environment ::
  "uuid \<Rightarrow> uuid \<Rightarrow> environment_result \<Rightarrow> string \<Rightarrow> int \<Rightarrow> environment"
where
  "new_environment i attemptID r privKey now = \<lparr>eID = i, eAttemptID = attemptID,
     eStatus = EnvReady, eWorkstationIP = Some (vmIPAddress (erWorkstation r)),
     eProviderMetadata = metadata_of r, eSSHPrivateKey = privKey, eCreatedAt = now\<rparr>"

definition new_session :: "uuid \<Rightarrow> uuid \<Rightarrow> uuid \<Rightarrow> string \<Rightarrow> int \<Rightarrow> session" where
  "new_session i attemptID envID token now = \<lparr>sID = i, sAttemptID = attemptID,
     sEnvironmentID = envID, sTerminalToken = token, sFirstOpenedAt = None, sCreatedAt = now\<rparr>"

text \<open>From the provider's result on: record it, provision it, open a session, mark it ready.\<close>

definition record_and_provision ::
  "'p orchestrator \<Rightarrow> uuid \<Rightarrow> string \<Rightarrow> string \<Rightarrow> topology \<Rightarrow> environment_result \<Rightarrow>
   ('p world, unit) eprog"
where
  "record_and_provision oc attemptID privKey externalID t r =
     bind_do uuid_New (\<lambda>envID.
     bind_do time_Now (\<lambda>now.
     let env = new_environment envID attemptID r privKey now in
     try_do (Environments_Create env) (provision_failed (oUUID oc) attemptID) (\<lambda>_.
     (case provision_spec_of (oProxyConfig oc) privKey externalID t r of
       Inl e \<Rightarrow> fail e
     | Inr spec \<Rightarrow>
     try_do (on_ext (oProvisioner oc spec)) (provision_failed (oUUID oc) attemptID) (\<lambda>_.
     bind_do uuid_New (\<lambda>tokenID.
     bind_do uuid_New (\<lambda>sessionID.
     bind_do time_Now (\<lambda>now2.
     try_do (Sessions_Create
         (new_session sessionID attemptID envID (uuid_String (oUUID oc) tokenID) now2))
       (provision_failed (oUUID oc) attemptID) (\<lambda>_.
     try_do (TransitionAttempt attemptID EnvironmentReady)
       (\<lambda>e. fail (wrap_err ''failed to transition attempt to ready: '' e)) (\<lambda>_.
     ok ()))))))))))"

definition build_environment :: "'p orchestrator \<Rightarrow> uuid \<Rightarrow> attempt \<Rightarrow> ('p world, unit) eprog" where
  "build_environment oc attemptID attempt =
     try_do (on_ext (oGenerateKey oc))
       (\<lambda>e. fail (wrap_err ''failed to generate SSH key: '' e)) (\<lambda>keys.
     try_do (result (oPublicKey oc (fst keys)))
       (\<lambda>e. fail (wrap_err ''failed to create SSH public key: '' e)) (\<lambda>pubKey.
     try_do (result (oPrivateKeyPEM oc (snd keys)))
       (\<lambda>e. fail (wrap_err ''failed to marshal SSH private key: '' e)) (\<lambda>privKey.
     try_do (Purchases_GetByID (aPurchasedTestID attempt))
       (\<lambda>e. fail (wrap_err ''purchase not found: '' e)) (\<lambda>purchase.
     try_do (Tests_GetByID (pTestID purchase))
       (\<lambda>e. fail (wrap_err ''test not found: '' e)) (\<lambda>test.
     try_do (Scenarios_GetVersion (tScenarioVersionID test))
       (\<lambda>e. fail (wrap_err ''scenario version not found: '' e)) (\<lambda>version.
     (case decode_topology (vTopologyJSON version) of
       None \<Rightarrow> fail (wrap_err ''failed to unmarshal topology: '' (External ''json''))
     | Some t \<Rightarrow>
     bind_do uuid_New (\<lambda>tagID.
     try_do (on_ext (CreateEnvironment (oProvider oc)
         (environment_spec_of (uuid_String (oUUID oc) attemptID)
            (uuid_String (oUUID oc) tagID) pubKey t)))
       (provision_failed (oUUID oc) attemptID)
       (record_and_provision oc attemptID privKey (vExternalID version) t)))))))))"

definition handleProvisionEnvironment :: "'p orchestrator \<Rightarrow> 'p handler" where
  "handleProvisionEnvironment oc payload =
     (case parse_attempt_payload (oUUID oc) payload of Inl e \<Rightarrow> fail e | Inr attemptID \<Rightarrow>
     try_do (Attempts_GetByID attemptID)
       (\<lambda>e. fail (wrap_err ''attempt not found: '' e)) (\<lambda>attempt.
     if aStatus attempt \<noteq> AttemptRequested \<and> aStatus attempt \<noteq> EnvironmentProvisioning
     then ok () else
     if aStatus attempt = AttemptRequested then
       try_do (TransitionAttempt attemptID EnvironmentProvisioning)
         (\<lambda>e. fail (wrap_err ''failed to transition attempt: '' e))
         (\<lambda>_. build_environment oc attemptID attempt)
     else build_environment oc attemptID attempt))"

section \<open>The cleanup job\<close>

definition handleCleanupEnvironment :: "'p orchestrator \<Rightarrow> 'p handler" where
  "handleCleanupEnvironment oc payload =
     (case parse_attempt_payload (oUUID oc) payload of Inl e \<Rightarrow> fail e | Inr attemptID \<Rightarrow>
     try_do (Environments_GetByAttemptID attemptID) (\<lambda>_. ok ()) (\<lambda>env.
     try_do (Environments_UpdateStatus (eID env) EnvDestroying)
       (\<lambda>e. fail (wrap_err ''failed to update environment status: '' e)) (\<lambda>_.
     try_do (on_ext (DestroyEnvironment (oProvider oc) (eProviderMetadata env)))
       (\<lambda>e. ignore_do (Environments_UpdateStatus (eID env) EnvFailed)
              (fail (wrap_err ''failed to destroy environment: '' e))) (\<lambda>_.
     try_do (Environments_UpdateStatus (eID env) EnvDestroyed)
       (\<lambda>e. fail (wrap_err ''failed to update environment status: '' e)) (\<lambda>_.
     ignore_do (TransitionAttempt attemptID Destroyed)
     (ok ()))))))"

text \<open>\<open>RegisterJobs\<close>.\<close>

definition RegisterJobs :: "'p orchestrator \<Rightarrow> 'p worker \<Rightarrow> 'p worker" where
  "RegisterJobs oc wk =
     RegisterHandler CleanupEnvironmentJob (handleCleanupEnvironment oc)
       (RegisterHandler ProvisionEnvironmentJob (handleProvisionEnvironment oc) wk)"

end
