(* ===== verification/Reconciler.thy ===== *)
theory Reconciler
  imports Orchestrator
begin

text \<open>
  \<open>internal/orchestrator/reconciler.go\<close>: what one tick of the reconciler does.  Errors are
  logged and the loop goes on, so a tick always runs to its end.  \<open>run_ticks n\<close> is the loop of
  \<open>Run\<close> until its context is cancelled after \<open>n\<close> ticks.
\<close>

definition minutes :: "int \<Rightarrow> int" where
  "minutes n = n * 60000000000"

definition reconcile_enqueue :: "uuid_lib \<Rightarrow> uuid \<Rightarrow> ('p world, unit) prog" where
  "reconcile_enqueue L attemptID =
     try_do (Enqueue CleanupEnvironmentJob (attempt_payload L attemptID) None)
       (\<lambda>_. result ()) (\<lambda>_. result ())"

definition stale_step :: "uuid_lib \<Rightarrow> int \<Rightarrow> attempt \<Rightarrow> ('p world, unit) prog" where
  "stale_step L staleThreshold attempt =
     (if aCreatedAt attempt < staleThreshold then
        ignore_do (TransitionAttempt (aID attempt) ProvisionFailed)
          (reconcile_enqueue L (aID attempt))
      else result ())"

definition cleanupStaleProvisioning :: "uuid_lib \<Rightarrow> ('p world, unit) prog" where
  "cleanupStaleProvisioning L =
     try_do (Attempts_ListByStatus (attempt_status_string EnvironmentProvisioning))
       (\<lambda>_. result ()) (\<lambda>attempts.
     bind_do time_Now (\<lambda>now.
     let staleThreshold = now - minutes 30 in
     for_each attempts (stale_step L staleThreshold)))"

definition cleanupPendingAttempts :: "uuid_lib \<Rightarrow> ('p world, unit) prog" where
  "cleanupPendingAttempts L =
     try_do (Attempts_ListByStatus (attempt_status_string CleanupPending))
       (\<lambda>_. result ()) (\<lambda>attempts.
     for_each attempts (\<lambda>attempt. reconcile_enqueue L (aID attempt)))"

definition terminal_step :: "uuid_lib \<Rightarrow> attempt \<Rightarrow> ('p world, unit) prog" where
  "terminal_step L attempt =
     try_do (Environments_GetByAttemptID (aID attempt)) (\<lambda>_. result ()) (\<lambda>env.
     if eStatus env = EnvDestroyed then result () else reconcile_enqueue L (aID attempt))"

definition cleanupTerminalStates :: "uuid_lib \<Rightarrow> ('p world, unit) prog" where
  "cleanupTerminalStates L =
     for_each [Scored, ExpiredBeforeStart] (\<lambda>status.
       try_do (Attempts_ListByStatus (attempt_status_string status))
         (\<lambda>_. result ()) (\<lambda>attempts.
       for_each attempts (terminal_step L)))"

definition reconcile :: "uuid_lib \<Rightarrow> ('p world, unit) prog" where
  "reconcile L =
     ignore_do (cleanupStaleProvisioning L)
     (ignore_do (cleanupPendingAttempts L)
     (cleanupTerminalStates L))"

fun run_ticks :: "nat \<Rightarrow> uuid_lib \<Rightarrow> ('p world, unit) prog" where
  "run_ticks 0 L = result ()"
| "run_ticks (Suc n) L = ignore_do (reconcile L) (run_ticks n L)"

end
