(* ===== verification/Grader.thy ===== *)
theory Grader
  imports Attempts
begin

text \<open>
  \<open>internal/grading\<close> (runner.go, engine.go): running a check over SSH and grading an attempt.
  The SSH client (golang.org/x/crypto/ssh) is not part of the repository: it is the record
  \<open>ssh_lib\<close> of programs on the external part of the world; a client or session is a handle.
  \<open>Session.Run\<close> returns nil, an \<open>*ssh.ExitError\<close> with its status, or some other error.
\<close>

datatype run_outcome = RunOk | ExitError int | RunError go_error

record 'p ssh_lib =
  ssh_ParsePrivateKey :: "string \<Rightarrow> go_error + string"
  ssh_Dial :: "string \<Rightarrow> string \<Rightarrow> ('p, nat) eprog"
  ssh_NewSession :: "nat \<Rightarrow> ('p, nat) eprog"
  ssh_Run :: "nat \<Rightarrow> string \<Rightarrow> ('p, run_outcome \<times> string \<times> string) prog"
  ssh_CloseSession :: "nat \<Rightarrow> ('p, unit) prog"
  ssh_CloseClient :: "nat \<Rightarrow> ('p, unit) prog"

section \<open>One check (checks.go, runner.go)\<close>

record check_result =
  crCheckID :: uuid
  crPassed :: bool
  crStdout :: string
  crStderr :: string
  crExitCode :: int
  crPointsAwarded :: int
  crPointsPossible :: int
  crRanAt :: int

definition check_result_of :: "check_row \<Rightarrow> int \<Rightarrow> string \<Rightarrow> string \<Rightarrow> int \<Rightarrow> check_result" where
  "check_result_of check exitCode out err now =
     (let passed = (exitCode = 0)
      in \<lparr>crCheckID = ckID check, crPassed = passed, crStdout = out, crStderr = err,
          crExitCode = exitCode, crPointsAwarded = (if passed then ckPoints check else 0),
          crPointsPossible = ckPoints check, crRanAt = now\<rparr>)"

text \<open>The part of \<open>RunCheck\<close> that has a session: run the command, make the result.\<close>

definition run_in_session :: "'p ssh_lib \<Rightarrow> check_row \<Rightarrow> nat \<Rightarrow> ('p world, check_result) eprog" where
  "run_in_session S check session =
     bind_do (on_ext (ssh_Run S session (ckCommand check))) (\<lambda>r.
     case r of (oc, out, err) \<Rightarrow>
     (case oc of
       RunError e \<Rightarrow> fail (wrap_err ''failed to run command: '' e)
     | ExitError code \<Rightarrow> bind_do time_Now (\<lambda>now. ok (check_result_of check code out err now))
     | RunOk \<Rightarrow> bind_do time_Now (\<lambda>now. ok (check_result_of check 0 out err now))))"

definition RunCheck ::
  "'p ssh_lib \<Rightarrow> check_row \<Rightarrow> string \<Rightarrow> string \<Rightarrow> ('p world, check_result) eprog"
where
  "RunCheck S check workstationIP sshKey =
     (case ssh_ParsePrivateKey S sshKey of
       Inl e \<Rightarrow> fail (wrap_err ''failed to parse SSH key: '' e)
     | Inr signer \<Rightarrow>
     try_do (on_ext (ssh_Dial S (workstationIP @ '':22'') signer))
       (\<lambda>e. fail (wrap_err ''failed to dial SSH: '' e)) (\<lambda>client.
     deferred (on_ext (ssh_CloseClient S client))
      (try_do (on_ext (ssh_NewSession S client))
        (\<lambda>e. fail (wrap_err ''failed to create SSH session: '' e)) (\<lambda>session.
       deferred (on_ext (ssh_CloseSession S session))
         (run_in_session S check session)))))"

section \<open>An attempt (engine.go)\<close>

text \<open>
  The loop over the checks with its two counters.  \<open>*env.WorkstationIP\<close> panics when the
  column is NULL; an error of one check is logged and the loop goes on.
\<close>

fun grade_checks ::
  "'p ssh_lib \<Rightarrow> environment \<Rightarrow> check_row list \<Rightarrow> int \<Rightarrow> int \<Rightarrow> ('p world, int \<times> int) eprog"
where
  "grade_checks S env [] totalScore maxScore = ok (totalScore, maxScore)"
| "grade_checks S env (check # checks) totalScore maxScore =
     (let maxScore' = i64 (maxScore + ckPoints check)
      in (case eWorkstationIP env of
           None \<Rightarrow> fail (Panic ''nil pointer dereference'')
         | Some ip \<Rightarrow>
         try_do (RunCheck S check ip (eSSHPrivateKey env))
           (\<lambda>_. grade_checks S env checks totalScore maxScore') (\<lambda>r.
         grade_checks S env checks (i64 (totalScore + crPointsAwarded r)) maxScore')))"

definition GradeAttempt :: "uuid_lib \<Rightarrow> 'p ssh_lib \<Rightarrow> 'p handler" where
  "GradeAttempt L S payload =
     (case parse_attempt_payload L payload of Inl e \<Rightarrow> fail e | Inr attemptID \<Rightarrow>
     try_do (Attempts_GetByID attemptID)
       (\<lambda>e. fail (wrap_err ''attempt not found: '' e)) (\<lambda>attempt.
     try_do (TransitionAttempt attemptID Grading)
       (\<lambda>e. fail (wrap_err ''failed to transition to grading: '' e)) (\<lambda>_.
     try_do (Purchases_GetByID (aPurchasedTestID attempt))
       (\<lambda>e. fail (wrap_err ''purchase not found: '' e)) (\<lambda>purchase.
     try_do (Tests_GetByID (pTestID purchase))
       (\<lambda>e. fail (wrap_err ''test not found: '' e)) (\<lambda>test.
     try_do (Scenarios_ListChecksByScenarioVersion (tScenarioVersionID test))
       (\<lambda>e. fail (wrap_err ''failed to list checks: '' e)) (\<lambda>checks.
     try_do (Environments_GetByAttemptID attemptID)
       (\<lambda>e. fail (wrap_err ''environment not found: '' e)) (\<lambda>env.
     try_do (grade_checks S env checks 0 0) fail (\<lambda>scores.
     try_do (Attempts_UpdateScore attemptID (fst scores) (snd scores))
       (\<lambda>e. fail (wrap_err ''failed to update score: '' e)) (\<lambda>_.
     try_do (TransitionAttempt attemptID Scored)
       (\<lambda>e. fail (wrap_err ''failed to transition to scored: '' e)) (\<lambda>_.
     ignore_do (Enqueue CleanupEnvironmentJob (attempt_payload L attemptID) None)
     (ok ())))))))))))"

end
