(* ===== verification/Scoring.thy ===== *)
theory Scoring
  imports Attempts
begin

text \<open>\<open>internal/scoring\<close> (handler.go): the score of a graded attempt.\<close>

definition deref_or_zero :: "int option \<Rightarrow> int" where
  "deref_or_zero p = (case p of None \<Rightarrow> 0 | Some n \<Rightarrow> n)"

definition percentage_of :: "int \<Rightarrow> int \<Rightarrow> int" where
  "percentage_of totalScore maxScore =
     (if 0 < maxScore then go_div (i64 (totalScore * 100)) maxScore else 0)"

definition score_response :: "attempt \<Rightarrow> json" where
  "score_response a =
     (let totalScore = deref_or_zero (aScore a); maxScore = deref_or_zero (aMaxScore a)
      in JObj [(''total_score'', JNum totalScore),
               (''max_score'', JNum maxScore),
               (''percentage'', JNum (percentage_of totalScore maxScore)),
               (''status'', JStr (attempt_status_string (aStatus a)))])"

definition getScore ::
  "uuid_lib \<Rightarrow> uuid option \<Rightarrow> string \<Rightarrow> ('p world, response) prog"
where
  "getScore L ctx_user attemptIDStr = (case ctx_user of
       None \<Rightarrow> result (Unauthorized ''unauthorized'')
     | Some userID \<Rightarrow>
     (case uuid_Parse L attemptIDStr of
       Inl e \<Rightarrow> result (BadRequest ''invalid attempt_id'')
     | Inr attemptID \<Rightarrow>
     try_do (Attempts_GetByID attemptID)
       (\<lambda>_. result (NotFound ''attempt not found'')) (\<lambda>attempt.
     try_do (Purchases_GetByID (aPurchasedTestID attempt))
       (\<lambda>_. result (NotFound ''purchase not found'')) (\<lambda>purchase.
     if pUserID purchase \<noteq> userID then result (Forbidden ''forbidden'') else
     if aStatus attempt \<noteq> Scored then result (NotFound ''score not available'') else
     result (WriteJSON 200 (score_response attempt))))))"

lemma percentage_range:
  assumes "0 \<le> tot" and "tot \<le> mx" and "int4 mx"
  shows "0 \<le> percentage_of tot mx \<and> percentage_of tot mx \<le> 100"
proof (cases "0 < mx")
  case True
  from assms have "tot * 100 < 2 ^ 63" by (simp add: int4_def)
  with assms(1) have "i64 (tot * 100) = tot * 100" by (intro i64_id) auto
  with True assms(1) have p: "percentage_of tot mx = (tot * 100) div mx"
    by (simp add: percentage_of_def go_div_nonneg)
  have "(tot * 100) div mx \<le> (mx * 100) div mx"
    using assms(2) True by (intro zdiv_mono1) auto
  with p True assms(1) show ?thesis by (simp add: pos_imp_zdiv_nonneg_iff)
next
  case False
  then show ?thesis by (simp add: percentage_of_def)
qed

lemma percentage_full: "0 < mx \<Longrightarrow> int4 mx \<Longrightarrow> percentage_of mx mx = 100"
  by (simp add: percentage_of_def i64_id int4_def go_div_nonneg)

end
