(* ===== verification/Terminal.thy ===== *)
theory Terminal
  imports Attempts
begin

text \<open>
  \<open>internal/terminal\<close> (gateway.go, ssh.go, token.go): the browser's terminal.  The websocket and
  SSH libraries are the record \<open>term_lib\<close> of programs on the external part of the world, on
  handles.  Once the shell runs, three goroutines copy data until their source or their target
  fails; \<open>pump\<close> runs them on any interleaving of what the two sides send, one event at a time.
\<close>

record 'p term_lib =
  tl_Upgrade :: "('p, nat) eprog"
  tl_WriteMessage :: "nat \<Rightarrow> string \<Rightarrow> ('p, unit) eprog"
  tl_WriteClose :: "nat \<Rightarrow> string \<Rightarrow> ('p, unit) eprog"
  tl_WriteRaw :: "nat \<Rightarrow> string \<Rightarrow> ('p, unit) eprog"
  tl_CloseWS :: "nat \<Rightarrow> ('p, unit) prog"
  tl_ParsePrivateKey :: "string \<Rightarrow> go_error + string"
  tl_DialTimeout :: "string \<Rightarrow> int \<Rightarrow> ('p, nat) eprog"
  tl_NewClientConn :: "nat \<Rightarrow> string \<Rightarrow> string \<Rightarrow> string \<Rightarrow> ('p, nat) eprog"
  tl_CloseConn :: "nat \<Rightarrow> ('p, unit) prog"
  tl_CloseClient :: "nat \<Rightarrow> ('p, unit) prog"
  tl_NewSession :: "nat \<Rightarrow> ('p, nat) eprog"
  tl_RequestPty :: "nat \<Rightarrow> string \<Rightarrow> int \<Rightarrow> int \<Rightarrow> ('p, unit) eprog"
  tl_CloseSession :: "nat \<Rightarrow> ('p, unit) prog"
  tl_StdinPipe :: "nat \<Rightarrow> ('p, nat) eprog"
  tl_StdoutPipe :: "nat \<Rightarrow> ('p, nat) eprog"
  tl_StderrPipe :: "nat \<Rightarrow> ('p, nat) eprog"
  tl_Shell :: "nat \<Rightarrow> ('p, unit) eprog"
  tl_WindowChange :: "nat \<Rightarrow> int \<Rightarrow> int \<Rightarrow> ('p, unit) eprog"
  tl_Write :: "nat \<Rightarrow> string \<Rightarrow> ('p, unit) eprog"

section \<open>Dialling (ssh.go)\<close>

definition join_host_port :: "string \<Rightarrow> string \<Rightarrow> string" where
  "join_host_port host port =
     (if CHR '':'' \<in> set host then ''['' @ host @ '']:'' @ port else host @ '':'' @ port)"

definition DialSSH ::
  "'p term_lib \<Rightarrow> string \<Rightarrow> int \<Rightarrow> string \<Rightarrow> string \<Rightarrow> ('p, nat) eprog"
where
  "DialSSH T host port usr privateKey =
     try_do (result (tl_ParsePrivateKey T privateKey))
       (\<lambda>e. fail (wrap_err ''failed to parse private key: '' e)) (\<lambda>signer.
     let addr = join_host_port host (show_int port) in
     try_do (tl_DialTimeout T addr 10000000000)
       (\<lambda>e. fail (wrap_err ''failed to dial SSH: '' e)) (\<lambda>conn.
     try_do (tl_NewClientConn T conn addr usr signer)
       (\<lambda>e. ignore_do (tl_CloseConn T conn)
              (fail (wrap_err ''failed to create SSH client conn: '' e))) (\<lambda>client.
     ok client)))"

definition NewSSHSession :: "'p term_lib \<Rightarrow> nat \<Rightarrow> int \<Rightarrow> int \<Rightarrow> ('p, nat) eprog" where
  "NewSSHSession T client cols rows =
     try_do (tl_NewSession T client)
       (\<lambda>e. fail (wrap_err ''failed to create SSH session: '' e)) (\<lambda>session.
     try_do (tl_RequestPty T session ''xterm-256color'' rows cols)
       (\<lambda>e. ignore_do (tl_CloseSession T session)
              (fail (wrap_err ''failed to request PTY: '' e))) (\<lambda>_.
     ok session))"

section \<open>Copying (gateway.go)\<close>

text \<open>What a goroutine reads: some bytes, or an error (\<open>None\<close>), which ends it.\<close>

datatype pump_event =
    WsRead "string option" | StdoutRead "string option" | StderrRead "string option"

record pumps =
  stdin_open :: bool
  stdout_open :: bool
  stderr_open :: bool

record resize_message =
  rmType :: string
  rmCols :: int
  rmRows :: int

definition decode_resize :: "(string \<Rightarrow> json option) \<Rightarrow> string \<Rightarrow> resize_message option" where
  "decode_resize parse msg = (case parse msg of
       None \<Rightarrow> None
     | Some v \<Rightarrow> decode_struct False
         [(''type'', into_string (\<lambda>s m. m\<lparr>rmType := s\<rparr>)),
          (''cols'', into_int (\<lambda>n m. m\<lparr>rmCols := n\<rparr>)),
          (''rows'', into_int (\<lambda>n m. m\<lparr>rmRows := n\<rparr>))]
         \<lparr>rmType = '''', rmCols = 0, rmRows = 0\<rparr> v)"

definition is_resize :: "(string \<Rightarrow> json option) \<Rightarrow> string \<Rightarrow> resize_message option" where
  "is_resize parse msg = (case decode_resize parse msg of
       None \<Rightarrow> None | Some m \<Rightarrow> if rmType m = ''resize'' then Some m else None)"

definition pump_step ::
  "'p term_lib \<Rightarrow> (string \<Rightarrow> json option) \<Rightarrow> nat \<Rightarrow> nat \<Rightarrow> nat \<Rightarrow> pump_event \<Rightarrow> pumps \<Rightarrow>
   ('p, pumps) prog"
where
  "pump_step T parse ws session stdin ev ps = (case ev of
       WsRead None \<Rightarrow> result (ps\<lparr>stdin_open := False\<rparr>)
     | WsRead (Some msg) \<Rightarrow>
         (if \<not> stdin_open ps then result ps else
          (case is_resize parse msg of
             Some m \<Rightarrow> ignore_do (tl_WindowChange T session (rmRows m) (rmCols m)) (result ps)
           | None \<Rightarrow> try_do (tl_Write T stdin msg)
               (\<lambda>_. result (ps\<lparr>stdin_open := False\<rparr>)) (\<lambda>_. result ps)))
     | StdoutRead None \<Rightarrow> result (ps\<lparr>stdout_open := False\<rparr>)
     | StdoutRead (Some out) \<Rightarrow>
         (if \<not> stdout_open ps then result ps else
          try_do (tl_WriteMessage T ws out)
            (\<lambda>_. result (ps\<lparr>stdout_open := False\<rparr>)) (\<lambda>_. result ps))
     | StderrRead None \<Rightarrow> result (ps\<lparr>stderr_open := False\<rparr>)
     | StderrRead (Some out) \<Rightarrow>
         (if \<not> stderr_open ps then result ps else
          try_do (tl_WriteRaw T ws out)
            (\<lambda>_. result (ps\<lparr>stderr_open := False\<rparr>)) (\<lambda>_. result ps)))"

fun pump ::
  "'p term_lib \<Rightarrow> (string \<Rightarrow> json option) \<Rightarrow> nat \<Rightarrow> nat \<Rightarrow> nat \<Rightarrow> pump_event list \<Rightarrow> pumps \<Rightarrow>
   ('p, pumps) prog"
where
  "pump T parse ws session stdin [] ps = result ps"
| "pump T parse ws session stdin (ev # evs) ps =
     bind_do (pump_step T parse ws session stdin ev ps) (pump T parse ws session stdin evs)"

section \<open>The handler (gateway.go)\<close>

text \<open>
  \<open>HttpReply\<close>: refused before the upgrade; \<open>NotUpgraded\<close>: the library replied;
  \<open>Ended\<close>: the connection was upgraded and closed again; \<open>Crashed\<close>: the handler panicked.
\<close>

datatype ws_result = HttpReply response | NotUpgraded | Ended | Crashed

definition connectable :: "attempt_status \<Rightarrow> bool" where
  "connectable s \<longleftrightarrow> s = EnvironmentReady \<or> s = Running \<or> s = TerminalOpened"

definition first_open :: "session \<Rightarrow> ('p world, unit) prog" where
  "first_open session =
     (if sFirstOpenedAt session = None then
        bind_do time_Now (\<lambda>now.
        ignore_do (Sessions_UpdateFirstOpenedAt (sID session) now)
        (ignore_do (TransitionAttempt (sAttemptID session) TerminalOpened)
        (ignore_do (TransitionAttempt (sAttemptID session) Running)
        (result ()))))
      else result ())"

definition run_shell ::
  "'p term_lib \<Rightarrow> (string \<Rightarrow> json option) \<Rightarrow> pump_event list \<Rightarrow> nat \<Rightarrow> nat \<Rightarrow> ('p, ws_result) prog"
where
  "run_shell T parse events ws sshSession =
     try_do (tl_StdinPipe T sshSession) (\<lambda>_. result Ended) (\<lambda>stdin.
     try_do (tl_StdoutPipe T sshSession) (\<lambda>_. result Ended) (\<lambda>_.
     try_do (tl_StderrPipe T sshSession) (\<lambda>_. result Ended) (\<lambda>_.
     try_do (tl_Shell T sshSession) (\<lambda>_. result Ended) (\<lambda>_.
     bind_do (pump T parse ws sshSession stdin events
         \<lparr>stdin_open = True, stdout_open = True, stderr_open = True\<rparr>) (\<lambda>_.
     result Ended)))))"

definition open_shell ::
  "'p term_lib \<Rightarrow> (string \<Rightarrow> json option) \<Rightarrow> pump_event list \<Rightarrow> nat \<Rightarrow> string \<Rightarrow> string \<Rightarrow>
   ('p, ws_result) prog"
where
  "open_shell T parse events ws ip key =
     try_do (DialSSH T ip 22 ''root'' key)
       (\<lambda>_. ignore_do (tl_WriteClose T ws ''SSH connection failed'') (result Ended)) (\<lambda>client.
     deferred (tl_CloseClient T client)
      (try_do (NewSSHSession T client 80 24)
        (\<lambda>_. ignore_do (tl_WriteClose T ws ''SSH session failed'') (result Ended))
        (\<lambda>sshSession. deferred (tl_CloseSession T sshSession)
           (run_shell T parse events ws sshSession))))"

definition handleWebSocket ::
  "'p term_lib \<Rightarrow> (string \<Rightarrow> json option) \<Rightarrow> pump_event list \<Rightarrow> string \<Rightarrow>
   ('p world, ws_result) prog"
where
  "handleWebSocket T parse events token =
     try_do (Sessions_GetByTerminalToken token)
       (\<lambda>_. result (HttpReply (http_Error ''invalid token'' 401))) (\<lambda>session.
     try_do (Attempts_GetByID (sAttemptID session))
       (\<lambda>_. result (HttpReply (http_Error ''attempt not found'' 404))) (\<lambda>attempt.
     if \<not> connectable (aStatus attempt)
     then result (HttpReply (http_Error ''attempt not active'' 403)) else
     try_do (Environments_GetByID (sEnvironmentID session))
       (\<lambda>_. result (HttpReply (http_Error ''environment not found'' 404))) (\<lambda>env.
     try_do (on_ext (tl_Upgrade T)) (\<lambda>_. result NotUpgraded) (\<lambda>ws.
     deferred (on_ext (tl_CloseWS T ws))
      (ignore_do (first_open session)
      (case eWorkstationIP env of
         None \<Rightarrow> result Crashed
       | Some ip \<Rightarrow> on_ext (open_shell T parse events ws ip (eSSHPrivateKey env))))))))"

section \<open>Tokens (token.go)\<close>

definition hex_digit :: "nat \<Rightarrow> char" where
  "hex_digit n = (if n < 10 then char_of (48 + n) else char_of (87 + n))"

fun hex_EncodeToString :: "string \<Rightarrow> string" where
  "hex_EncodeToString [] = []"
| "hex_EncodeToString (b # bs) =
     hex_digit (of_char b div 16) # hex_digit (of_char b mod 16) # hex_EncodeToString bs"

text \<open>\<open>rand.Read\<close> fills the 32 bytes it is given, or fails.\<close>

definition GenerateToken :: "(nat \<Rightarrow> ('p, string) eprog) \<Rightarrow> ('p, string) eprog" where
  "GenerateToken rand_Read = try_do (rand_Read 32) fail (\<lambda>b. ok (hex_EncodeToString b))"

lemma length_hex [simp]: "length (hex_EncodeToString bs) = 2 * length bs"
  by (induction bs) auto

lemma of_hex_digit: "n < 16 \<Longrightarrow> (of_char (hex_digit n) :: nat) = (if n < 10 then 48 + n else 87 + n)"
  by (simp add: hex_digit_def)

lemma hex_digit_inj:
  assumes "m < 16" and "n < 16" and "hex_digit m = hex_digit n"
  shows "m = n"
proof -
  have "(if m < 10 then 48 + m else 87 + m) = (if n < 10 then 48 + n else 87 + n)"
    using assms(3) of_hex_digit [OF assms(1)] of_hex_digit [OF assms(2)] by presburger
  then show ?thesis using assms(1,2) by presburger
qed

lemma hex_inj: "hex_EncodeToString xs = hex_EncodeToString ys \<longleftrightarrow> xs = ys"
proof (induction xs arbitrary: ys)
  case Nil
  then show ?case by (cases ys) auto
next
  case (Cons x xs)
  show ?case
  proof (cases ys)
    case Nil
    then show ?thesis by simp
  next
    case (Cons y ys')
    have inj: "x = y"
      if "hex_digit (of_char x div 16) = hex_digit (of_char y div 16)"
        and "hex_digit (of_char x mod 16) = hex_digit (of_char y mod 16)"
    proof -
      have "(of_char x :: nat) div 16 = of_char y div 16"
        by (rule hex_digit_inj) (simp_all add: that less_mult_imp_div_less)
      moreover have "(of_char x :: nat) mod 16 = of_char y mod 16"
        by (rule hex_digit_inj) (simp_all add: that)
      ultimately have "(of_char x :: nat) = of_char y" by (metis div_mult_mod_eq)
      then show ?thesis by simp
    qed
    show ?thesis
      using Cons.IH Cons by (auto dest: inj)
  qed
qed

end
