(* ===== verification/Billing.thy ===== *)
theory Billing
  imports Attempts
begin

text \<open>
  \<open>internal/billing\<close> (service.go, webhook.go, handler.go).  Stripe's Go library is the record
  \<open>stripe_lib\<close>: \<open>session.New\<close> is a program on the external part of the world,
  \<open>webhook.ConstructEvent\<close> checks a signature, and the decoder of \<open>stripe.CheckoutSession\<close>
  yields the two fields that the program reads.
\<close>

record checkout_params =
  cpMode :: string
  cpLineItems :: "(string \<times> int) list"
  cpSuccessURL :: string
  cpCancelURL :: string
  cpMetadata :: "(string \<times> string) list"

record checkout_session =
  csID :: string
  csMetadata :: "string \<rightharpoonup> string"

record stripe_event =
  seType :: string
  seRaw :: json

record 'p stripe_lib =
  stripe_New :: "checkout_params \<Rightarrow> ('p, string) eprog"
  stripe_ConstructEvent :: "string \<Rightarrow> string \<Rightarrow> string \<Rightarrow> go_error + stripe_event"
  stripe_DecodeSession :: "json \<Rightarrow> checkout_session option"

record 'p billing_service =
  bsStripe :: "'p stripe_lib"
  bsUUID :: uuid_lib
  bsSuccessURL :: string
  bsCancelURL :: string

section \<open>The service (service.go)\<close>

definition checkout_params_of ::
  "'p billing_service \<Rightarrow> uuid \<Rightarrow> uuid \<Rightarrow> string \<Rightarrow> checkout_params"
where
  "checkout_params_of s userID testID price = \<lparr>
     cpMode = ''payment'', cpLineItems = [(price, 1)],
     cpSuccessURL = bsSuccessURL s, cpCancelURL = bsCancelURL s,
     cpMetadata = [(''user_id'', uuid_String (bsUUID s) userID),
                   (''test_id'', uuid_String (bsUUID s) testID)]\<rparr>"

definition CreateCheckoutSession ::
  "'p billing_service \<Rightarrow> uuid \<Rightarrow> uuid \<Rightarrow> ('p world, string) eprog"
where
  "CreateCheckoutSession s userID testID =
     try_do (Tests_GetByID testID)
       (\<lambda>e. fail (wrap_err ''test not found: '' e)) (\<lambda>test.
     try_do (Products_GetByID (tProductID test))
       (\<lambda>e. fail (wrap_err ''product not found: '' e)) (\<lambda>product.
     (case pdStripePriceID product of
        None \<Rightarrow> fail (Plain (''product '' @ uuid_String (bsUUID s) (pdID product) @
                           '' has no stripe_price_id configured''))
      | Some price \<Rightarrow>
        if price = '''' then fail (Plain (''product '' @ uuid_String (bsUUID s) (pdID product) @
                           '' has no stripe_price_id configured'')) else
        try_do (on_ext (stripe_New (bsStripe s) (checkout_params_of s userID testID price)))
          (\<lambda>e. fail (wrap_err ''failed to create checkout session: '' e)) (\<lambda>url. ok url))))"

text \<open>\<open>time.Duration(hours) * time.Hour\<close>, in 64 bits.\<close>

definition hours_duration :: "int \<Rightarrow> int" where
  "hours_duration hours = i64 (hours * 3600000000000)"

definition new_purchase :: "uuid \<Rightarrow> uuid \<Rightarrow> test \<Rightarrow> uuid \<Rightarrow> int \<Rightarrow> int \<Rightarrow> purchased_test" where
  "new_purchase i userID test testID expiresAt now = \<lparr>pID = i, pUserID = userID,
     pTestID = testID, pStripeSessionID = None, pExpiresAt = expiresAt,
     pAttemptsRemaining = tAttemptsAllowed test, pCreatedAt = now\<rparr>"

text \<open>The end that \<open>HandleCheckoutCompleted\<close> and \<open>CreateFreePurchase\<close> have in common.\<close>

definition create_purchase :: "uuid \<Rightarrow> uuid \<Rightarrow> test \<Rightarrow> ('p world, uuid) eprog" where
  "create_purchase userID testID test =
     bind_do time_Now (\<lambda>now.
     let expiresAt = now + hours_duration (tAccessWindowHours test) in
     bind_do uuid_New (\<lambda>i.
     bind_do time_Now (\<lambda>created.
     try_do (Purchases_Create (new_purchase i userID test testID expiresAt created))
       (\<lambda>e. fail (wrap_err ''failed to create purchase: '' e)) (\<lambda>_. ok i))))"

definition HandleCheckoutCompleted ::
  "uuid_lib \<Rightarrow> checkout_session \<Rightarrow> ('p world, unit) eprog"
where
  "HandleCheckoutCompleted L sess =
     (case csMetadata sess ''user_id'' of
       None \<Rightarrow> fail (Plain ''missing user_id in metadata'')
     | Some userIDStr \<Rightarrow>
     (case csMetadata sess ''test_id'' of
       None \<Rightarrow> fail (Plain ''missing test_id in metadata'')
     | Some testIDStr \<Rightarrow>
     (case uuid_Parse L userIDStr of
       Inl e \<Rightarrow> fail (wrap_err ''invalid user_id: '' e)
     | Inr userID \<Rightarrow>
     (case uuid_Parse L testIDStr of
       Inl e \<Rightarrow> fail (wrap_err ''invalid test_id: '' e)
     | Inr testID \<Rightarrow>
     try_do (Tests_GetByID testID)
       (\<lambda>e. fail (wrap_err ''test not found: '' e)) (\<lambda>test.
     try_do (create_purchase userID testID test) fail (\<lambda>_. ok ()))))))"

definition CreateFreePurchase :: "uuid \<Rightarrow> uuid \<Rightarrow> ('p world, uuid) eprog" where
  "CreateFreePurchase userID testID =
     try_do (Tests_GetByID testID)
       (\<lambda>e. fail (wrap_err ''test not found: '' e)) (\<lambda>test.
     try_do (Products_GetByID (tProductID test))
       (\<lambda>e. fail (wrap_err ''product not found: '' e)) (\<lambda>product.
     if \<not> pdIsFree product then fail (Plain ''test is not free'') else
     create_purchase userID testID test))"

section \<open>The webhook (webhook.go)\<close>

definition MaxBodyBytes :: nat where
  "MaxBodyBytes = 65536"

definition ok_response :: response where
  "ok_response = \<lparr>rStatus = 200, rBody = TextBody ''ok'', rCookies = []\<rparr>"

text \<open>The body is \<open>None\<close> when reading it fails before the limit is reached.\<close>

definition webhook_Handle ::
  "'p billing_service \<Rightarrow> string \<Rightarrow> string option \<Rightarrow> string \<Rightarrow> ('p world, response) prog"
where
  "webhook_Handle s webhookSecret body signature =
     (case body of
       None \<Rightarrow> result (http_Error ''failed to read body'' 400)
     | Some payload \<Rightarrow>
     if MaxBodyBytes < length payload then result (http_Error ''failed to read body'' 400) else
     (case stripe_ConstructEvent (bsStripe s) payload signature webhookSecret of
       Inl e \<Rightarrow> result (http_Error ''invalid signature'' 400)
     | Inr event \<Rightarrow>
     if seType event = ''checkout.session.completed'' then
       (case stripe_DecodeSession (bsStripe s) (seRaw event) of
         None \<Rightarrow> result (http_Error ''failed to parse event'' 400)
       | Some sess \<Rightarrow>
         try_do (HandleCheckoutCompleted (bsUUID s) sess)
           (\<lambda>_. result (http_Error ''processing failed'' 500)) (\<lambda>_. result ok_response))
     else result ok_response))"

section \<open>HTTP handlers (handler.go)\<close>

definition parse_test_request :: "uuid_lib \<Rightarrow> json option \<Rightarrow> response + uuid" where
  "parse_test_request L body =
     (case ReadJSON [(''test_id'', into_string (\<lambda>s _. s))] '''' body of
       None \<Rightarrow> Inl (BadRequest ''invalid request body'')
     | Some req \<Rightarrow> (case uuid_Parse L req of
         Inl e \<Rightarrow> Inl (BadRequest ''invalid test_id'')
       | Inr testID \<Rightarrow> Inr testID))"

definition checkout ::
  "'p billing_service \<Rightarrow> uuid option \<Rightarrow> json option \<Rightarrow> ('p world, response) prog"
where
  "checkout s ctx_user body = (case ctx_user of
       None \<Rightarrow> result (Unauthorized ''unauthorized'')
     | Some userID \<Rightarrow>
     (case parse_test_request (bsUUID s) body of
       Inl r \<Rightarrow> result r
     | Inr testID \<Rightarrow>
     try_do (CreateCheckoutSession s userID testID)
       (\<lambda>_. result (InternalError ''failed to create checkout session''))
       (\<lambda>url. result (WriteJSON 200 (JObj [(''url'', JStr url)])))))"

definition acquireFree ::
  "uuid_lib \<Rightarrow> uuid option \<Rightarrow> json option \<Rightarrow> ('p world, response) prog"
where
  "acquireFree L ctx_user body = (case ctx_user of
       None \<Rightarrow> result (Unauthorized ''unauthorized'')
     | Some userID \<Rightarrow>
     (case parse_test_request L body of
       Inl r \<Rightarrow> result r
     | Inr testID \<Rightarrow>
     try_do (CreateFreePurchase userID testID)
       (\<lambda>err. if err_msg err = ''test is not free''
              then result (BadRequest ''test is not free'')
              else result (InternalError ''failed to create free purchase''))
       (\<lambda>purchaseID. result (WriteJSON 200
          (JObj [(''purchase_id'', JStr (uuid_String L purchaseID))])))))"

end
