(* ===== verification/Catalog.thy ===== *)
theory Catalog
  imports Attempts
begin

text \<open>
  The read-only pages of a user: \<open>internal/catalog\<close> (what can be bought) and
  \<open>internal/entitlements\<close> (what was bought).  How an instant is written depends on the time
  zone of the database connection, so its text is the argument \<open>rfc3339\<close>.
\<close>

section \<open>catalog/handler.go\<close>

definition test_response :: "uuid_lib \<Rightarrow> test_with_product \<Rightarrow> json" where
  "test_response L t = JObj
     [(''id'', JStr (uuid_String L (tID (twTest t)))),
      (''title'', JStr (twProductTitle t)),
      (''description'', JStr (twProductDescription t)),
      (''duration_minutes'', JNum (tDurationMinutes (twTest t))),
      (''access_window_hours'', JNum (tAccessWindowHours (twTest t))),
      (''attempts_allowed'', JNum (tAttemptsAllowed (twTest t))),
      (''is_free'', JBool (twProductIsFree t))]"

definition catalog_listTests :: "uuid_lib \<Rightarrow> ('p world, response) prog" where
  "catalog_listTests L =
     try_do Tests_ListWithProduct (\<lambda>_. result (InternalError ''failed to list tests''))
       (\<lambda>tests. result (WriteJSON 200
          (JObj [(''tests'', JArr (map (test_response L) tests))])))"

section \<open>entitlements/handler.go\<close>

definition is_active :: "int \<Rightarrow> purchased_test \<Rightarrow> bool" where
  "is_active now p \<longleftrightarrow> now < pExpiresAt p \<and> 0 < pAttemptsRemaining p"

definition purchase_response :: "uuid_lib \<Rightarrow> (int \<Rightarrow> string) \<Rightarrow> int \<Rightarrow> purchased_test \<Rightarrow> json" where
  "purchase_response L rfc3339 now p = JObj
     [(''id'', JStr (uuid_String L (pID p))),
      (''test_id'', JStr (uuid_String L (pTestID p))),
      (''expires_at'', JStr (rfc3339 (pExpiresAt p))),
      (''attempts_remaining'', JNum (pAttemptsRemaining p)),
      (''is_active'', JBool (is_active now p))]"

definition dashboard ::
  "uuid_lib \<Rightarrow> (int \<Rightarrow> string) \<Rightarrow> uuid option \<Rightarrow> ('p world, response) prog"
where
  "dashboard L rfc3339 ctx_user = (case ctx_user of
       None \<Rightarrow> result (Unauthorized ''unauthorized'')
     | Some userID \<Rightarrow>
     try_do (Purchases_ListByUserID userID)
       (\<lambda>_. result (InternalError ''failed to list purchases'')) (\<lambda>purchases.
     bind_do time_Now (\<lambda>now.
     result (WriteJSON 200 (JObj
       [(''purchases'', JArr (map (purchase_response L rfc3339 now) purchases))])))))"

end
