(* ===== verification/Auth.thy ===== *)
theory Auth
  imports Attempts
begin

text \<open>
  \<open>internal/auth\<close> (jwt.go, service.go, middleware.go, handler.go).  The libraries for tokens
  (golang-jwt) and password hashes (x/crypto/bcrypt) are the record \<open>auth_lib\<close>: signing and
  checking a hash are functions, hashing draws a salt and so is a program on the external part
  of the world, and parsing a token depends on the clock, which it is given.
\<close>

record claims =
  clUserID :: uuid
  clExpiresAt :: int
  clIssuedAt :: int
  clNotBefore :: int
  clIssuer :: string
  clSubject :: string

record 'p auth_lib =
  jwt_SignedString :: "claims \<Rightarrow> string \<Rightarrow> go_error + string"
  jwt_ParseWithClaims :: "string \<Rightarrow> string \<Rightarrow> int \<Rightarrow> go_error + claims \<times> bool"
  bcrypt_GenerateFromPassword :: "string \<Rightarrow> ('p, string) eprog"
  bcrypt_CompareHashAndPassword :: "string \<Rightarrow> string \<Rightarrow> go_error + unit"

record 'p auth_config =
  acLib :: "'p auth_lib"
  acUUID :: uuid_lib
  acSecret :: string
  acExpiry :: int

section \<open>Tokens (jwt.go)\<close>

text \<open>\<open>jwt.NewNumericDate\<close> truncates to seconds.\<close>

definition numeric_date :: "int \<Rightarrow> int" where
  "numeric_date t = t div 1000000000"

definition claims_of :: "'p auth_config \<Rightarrow> uuid \<Rightarrow> int \<Rightarrow> claims" where
  "claims_of c userID now = \<lparr>clUserID = userID,
     clExpiresAt = numeric_date (now + acExpiry c), clIssuedAt = numeric_date now,
     clNotBefore = numeric_date now, clIssuer = ''painkiller-shell'',
     clSubject = uuid_String (acUUID c) userID\<rparr>"

definition auth_GenerateToken :: "'p auth_config \<Rightarrow> uuid \<Rightarrow> ('p world, string) eprog" where
  "auth_GenerateToken c userID =
     bind_do time_Now (\<lambda>now.
     result (jwt_SignedString (acLib c) (claims_of c userID now) (acSecret c)))"

definition jwt_ErrTokenInvalidClaims :: go_error where
  "jwt_ErrTokenInvalidClaims = External ''token has invalid claims''"

definition ValidateToken :: "'p auth_config \<Rightarrow> string \<Rightarrow> ('p world, uuid) eprog" where
  "ValidateToken c tokenString =
     bind_do time_Now (\<lambda>now.
     (case jwt_ParseWithClaims (acLib c) tokenString (acSecret c) now of
       Inl e \<Rightarrow> fail e
     | Inr r \<Rightarrow> (if \<not> snd r then fail jwt_ErrTokenInvalidClaims else ok (clUserID (fst r)))))"

section \<open>The service (service.go)\<close>

definition ErrEmailExists :: go_error where
  "ErrEmailExists = Sentinel ''auth.ErrEmailExists'' ''email already exists''"

definition ErrInvalidCredentials :: go_error where
  "ErrInvalidCredentials = Sentinel ''auth.ErrInvalidCredentials'' ''invalid credentials''"

definition Register :: "'p auth_config \<Rightarrow> string \<Rightarrow> string \<Rightarrow> ('p world, user) eprog" where
  "Register c email password =
     try_do (Users_GetByEmail email) (\<lambda>_.
       try_do (on_ext (bcrypt_GenerateFromPassword (acLib c) password))
         (\<lambda>e. fail (wrap_err ''failed to hash password: '' e)) (\<lambda>hash.
       bind_do uuid_New (\<lambda>i.
       bind_do time_Now (\<lambda>now.
       let user = \<lparr>uID = i, uEmail = email, uPasswordHash = hash, uIsAdmin = False,
                   uCreatedAt = now\<rparr> in
       try_do (Users_Create user)
         (\<lambda>e. fail (wrap_err ''failed to create user: '' e)) (\<lambda>_. ok user)))))
     (\<lambda>_. fail ErrEmailExists)"

definition Login :: "'p auth_config \<Rightarrow> string \<Rightarrow> string \<Rightarrow> ('p world, string) eprog" where
  "Login c email password =
     try_do (Users_GetByEmail email) (\<lambda>_. fail ErrInvalidCredentials) (\<lambda>user.
     try_do (result (bcrypt_CompareHashAndPassword (acLib c) (uPasswordHash user) password))
       (\<lambda>_. fail ErrInvalidCredentials) (\<lambda>_.
     try_do (auth_GenerateToken c (uID user))
       (\<lambda>e. fail (wrap_err ''failed to generate token: '' e)) (\<lambda>token. ok token)))"

section \<open>The middleware (middleware.go)\<close>

text \<open>A request's \<open>Authorization\<close> header, empty if absent, and its \<open>auth_token\<close> cookie.\<close>

record request_auth =
  raAuthorization :: string
  raCookie :: "string option"

definition extractToken :: "request_auth \<Rightarrow> string" where
  "extractToken r =
     (if has_prefix ''Bearer '' (raAuthorization r)
      then trim_prefix ''Bearer '' (raAuthorization r)
      else (case raCookie r of Some v \<Rightarrow> v | None \<Rightarrow> ''''))"

text \<open>The rest of the chain is run with the user id in its context, if the token is valid.\<close>

definition auth_Middleware ::
  "'p auth_config \<Rightarrow> request_auth \<Rightarrow> (uuid option \<Rightarrow> ('p world, response) prog) \<Rightarrow>
   ('p world, response) prog"
where
  "auth_Middleware c r nxt =
     (let token = extractToken r in
      if token = '''' then result (http_Error ''unauthorized'' 401) else
      try_do (ValidateToken c token)
        (\<lambda>_. result (http_Error ''unauthorized'' 401)) (\<lambda>userID. nxt (Some userID)))"

section \<open>HTTP handlers (handler.go)\<close>

record credentials =
  crEmail :: string
  crPassword :: string

definition read_credentials :: "json option \<Rightarrow> response + credentials" where
  "read_credentials body =
     (case ReadJSON [(''email'', into_string (\<lambda>s r. r\<lparr>crEmail := s\<rparr>)),
                     (''password'', into_string (\<lambda>s r. r\<lparr>crPassword := s\<rparr>))]
             \<lparr>crEmail = '''', crPassword = ''''\<rparr> body of
       None \<Rightarrow> Inl (BadRequest ''invalid request body'')
     | Some req \<Rightarrow>
       (if crEmail req = '''' \<or> crPassword req = ''''
        then Inl (BadRequest ''email and password are required'') else Inr req))"

definition register :: "'p auth_config \<Rightarrow> json option \<Rightarrow> ('p world, response) prog" where
  "register c body = (case read_credentials body of
       Inl r \<Rightarrow> result r
     | Inr req \<Rightarrow>
     try_do (Register c (crEmail req) (crPassword req))
       (\<lambda>err. if err = ErrEmailExists then result (BadRequest ''email already exists'')
              else result (InternalError ''registration failed''))
       (\<lambda>user. result (WriteJSON 201 (JObj
          [(''id'', JStr (uuid_String (acUUID c) (uID user))),
           (''email'', JStr (uEmail user))]))))"

definition auth_cookie :: "string \<Rightarrow> int \<Rightarrow> cookie" where
  "auth_cookie v maxAge = \<lparr>ckName = ''auth_token'', ckValue = v, ckMaxAge = maxAge,
     ckHttpOnly = True, ckSecure = True, ckSameSiteStrict = True\<rparr>"

definition SetCookie :: "cookie \<Rightarrow> response \<Rightarrow> response" where
  "SetCookie k r = r\<lparr>rCookies := rCookies r @ [k]\<rparr>"

definition login :: "'p auth_config \<Rightarrow> json option \<Rightarrow> ('p world, response) prog" where
  "login c body = (case read_credentials body of
       Inl r \<Rightarrow> result r
     | Inr req \<Rightarrow>
     try_do (Login c (crEmail req) (crPassword req))
       (\<lambda>err. if err = ErrInvalidCredentials then result (Unauthorized ''invalid credentials'')
              else result (InternalError ''login failed''))
       (\<lambda>token. result (SetCookie (auth_cookie token 86400)
          (WriteJSON 200 (JObj [(''token'', JStr token)])))))"

definition logout :: "('p world, response) prog" where
  "logout = result (SetCookie (auth_cookie '''' (- 1))
     (WriteJSON 200 (JObj [(''status'', JStr ''ok'')])))"

definition HandleMe :: "uuid_lib \<Rightarrow> uuid option \<Rightarrow> ('p world, response) prog" where
  "HandleMe L ctx_user = (case ctx_user of
       None \<Rightarrow> result (Unauthorized ''unauthorized'')
     | Some userID \<Rightarrow>
     try_do (Users_GetByID userID)
       (\<lambda>_. result (InternalError ''failed to fetch user'')) (\<lambda>user.
     result (WriteJSON 200 (JObj
       [(''id'', JStr (uuid_String L (uID user))),
        (''email'', JStr (uEmail user)),
        (''is_admin'', JBool (uIsAdmin user))]))))"

end
