(* ===== verification/Admin.thy ===== *)
theory Admin
  imports Attempts
begin

text \<open>
  \<open>internal/admin\<close> (middleware.go, handler.go): the operator's interface.  Creating and deleting
  a test each run two statements in one transaction: \<open>transaction\<close> begins it, runs the
  statements and commits; if any of this fails, \<open>defer tx.Rollback()\<close> leaves the tables as they
  were, except when the commit took effect and only its acknowledgement was lost.
\<close>

section \<open>Middleware (middleware.go)\<close>

definition admin_Middleware ::
  "(uuid option \<Rightarrow> ('p world, response) prog) \<Rightarrow> uuid option \<Rightarrow> ('p world, response) prog"
where
  "admin_Middleware nxt ctx_user = (case ctx_user of
       None \<Rightarrow> result (http_Error ''unauthorized'' 401)
     | Some userID \<Rightarrow>
     try_do (Users_GetByID userID)
       (\<lambda>_. result (http_Error ''unauthorized'' 401)) (\<lambda>user.
     if \<not> uIsAdmin user then result (http_Error ''forbidden'' 403) else nxt ctx_user))"

section \<open>Attempts and environments\<close>

definition status_response :: "string \<Rightarrow> response" where
  "status_response s = WriteJSON 200 (JObj [(''status'', JStr s)])"

definition retryProvision :: "uuid_lib \<Rightarrow> string \<Rightarrow> ('p world, response) prog" where
  "retryProvision L attemptIDStr = (case uuid_Parse L attemptIDStr of
       Inl e \<Rightarrow> result (BadRequest ''invalid attempt_id'')
     | Inr attemptID \<Rightarrow>
     try_do (Attempts_GetByID attemptID)
       (\<lambda>_. result (NotFound ''attempt not found'')) (\<lambda>attempt.
     if aStatus attempt \<noteq> ProvisionFailed
     then result (BadRequest ''attempt is not in provision_failed state'') else
     try_do (TransitionAttempt attemptID AttemptRequested)
       (\<lambda>_. result (InternalError ''failed to reset attempt'')) (\<lambda>_.
     try_do (Enqueue ProvisionEnvironmentJob (attempt_payload L attemptID) None)
       (\<lambda>_. result (InternalError ''failed to enqueue provisioning'')) (\<lambda>_.
     result (status_response ''retrying'')))))"

definition retryGrade :: "uuid_lib \<Rightarrow> string \<Rightarrow> ('p world, response) prog" where
  "retryGrade L attemptIDStr = (case uuid_Parse L attemptIDStr of
       Inl e \<Rightarrow> result (BadRequest ''invalid attempt_id'')
     | Inr attemptID \<Rightarrow>
     try_do (Enqueue GradeAttemptJob (attempt_payload L attemptID) None)
       (\<lambda>_. result (InternalError ''failed to enqueue grading'')) (\<lambda>_.
     result (status_response ''regrading'')))"

definition forceDestroy :: "uuid_lib \<Rightarrow> string \<Rightarrow> ('p world, response) prog" where
  "forceDestroy L envIDStr = (case uuid_Parse L envIDStr of
       Inl e \<Rightarrow> result (BadRequest ''invalid environment_id'')
     | Inr envID \<Rightarrow>
     try_do (Environments_GetByID envID)
       (\<lambda>_. result (NotFound ''environment not found'')) (\<lambda>env.
     try_do (Enqueue CleanupEnvironmentJob (attempt_payload L (eAttemptID env)) None)
       (\<lambda>_. result (InternalError ''failed to enqueue cleanup'')) (\<lambda>_.
     result (status_response ''destroying''))))"

definition attempt_item :: "uuid_lib \<Rightarrow> attempt \<Rightarrow> json" where
  "attempt_item L a = JObj [(''id'', JStr (uuid_String L (aID a))),
                            (''status'', JStr (attempt_status_string (aStatus a)))]"

definition listed_statuses :: "attempt_status list" where
  "listed_statuses = [AttemptRequested, EnvironmentProvisioning, EnvironmentReady, Running,
     ProvisionFailed, CleanupPending]"

text \<open>Without a filter: the lists of six statuses one after the other; a failing one is left out.\<close>

fun list_statuses :: "attempt_status list \<Rightarrow> attempt list \<Rightarrow> ('p world, attempt list) prog" where
  "list_statuses [] acc = result acc"
| "list_statuses (s # ss) acc =
     try_do (Attempts_ListByStatus (attempt_status_string s))
       (\<lambda>_. list_statuses ss acc) (\<lambda>attempts. list_statuses ss (acc @ attempts))"

definition admin_listAttempts :: "uuid_lib \<Rightarrow> string \<Rightarrow> ('p world, response) prog" where
  "admin_listAttempts L statusFilter =
     (let respond = (\<lambda>allAttempts. result (WriteJSON 200
            (JObj [(''attempts'', JArr (map (attempt_item L) allAttempts))]))) in
      if statusFilter \<noteq> '''' then
        try_do (Attempts_ListByStatus statusFilter)
          (\<lambda>_. result (InternalError ''failed to list attempts'')) respond
      else bind_do (list_statuses listed_statuses []) respond)"

definition admin_listEnvironments :: "('p world, response) prog" where
  "admin_listEnvironments = result (WriteJSON 200 (JObj [(''environments'', JArr [])]))"

section \<open>Reading tests\<close>

definition nullable :: "string option \<Rightarrow> json" where
  "nullable s = (case s of None \<Rightarrow> JNull | Some t \<Rightarrow> JStr t)"

definition testWithProductToResponse :: "uuid_lib \<Rightarrow> test_with_product \<Rightarrow> json" where
  "testWithProductToResponse L t = JObj
     [(''id'', JStr (uuid_String L (tID (twTest t)))),
      (''product_id'', JStr (uuid_String L (tProductID (twTest t)))),
      (''title'', JStr (twProductTitle t)),
      (''description'', JStr (twProductDescription t)),
      (''stripe_price_id'', nullable (twProductStripePriceID t)),
      (''is_free'', JBool (twProductIsFree t)),
      (''duration_minutes'', JNum (tDurationMinutes (twTest t))),
      (''access_window_hours'', JNum (tAccessWindowHours (twTest t))),
      (''attempts_allowed'', JNum (tAttemptsAllowed (twTest t)))]"

definition admin_listTests :: "uuid_lib \<Rightarrow> ('p world, response) prog" where
  "admin_listTests L =
     try_do Tests_ListWithProduct (\<lambda>_. result (InternalError ''failed to list tests'')) (\<lambda>tests.
     result (WriteJSON 200
       (JObj [(''tests'', JArr (map (testWithProductToResponse L) tests))])))"

definition admin_getTest :: "uuid_lib \<Rightarrow> string \<Rightarrow> ('p world, response) prog" where
  "admin_getTest L testIDStr = (case uuid_Parse L testIDStr of
       Inl e \<Rightarrow> result (BadRequest ''invalid test_id'')
     | Inr testID \<Rightarrow>
     try_do (Tests_GetWithProduct testID)
       (\<lambda>_. result (NotFound ''test not found'')) (\<lambda>test.
     result (WriteJSON 200 (testWithProductToResponse L test))))"

section \<open>Transactions\<close>

text \<open>\<open>Some message\<close> is the step that failed.\<close>

fun tx_steps :: "('p stmt \<times> string) list \<Rightarrow> ('p world, string option) prog" where
  "tx_steps [] = result None"
| "tx_steps ((st, msg) # steps) =
     try_do (sql_exec st) (\<lambda>_. result (Some msg)) (\<lambda>_. tx_steps steps)"

definition transaction :: "('p stmt \<times> string) list \<Rightarrow> ('p world, string option) prog" where
  "transaction steps w =
     (case draw_outcome w of (f, w1) \<Rightarrow>
      if f \<noteq> Served then (Some ''failed to begin transaction'', w1) else
      (case tx_steps steps w1 of (r, w2) \<Rightarrow>
       let rolled_back = w1\<lparr>w_faults := w_faults w2\<rparr> in
       (case r of
         Some msg \<Rightarrow> (Some msg, rolled_back)
       | None \<Rightarrow> (case draw_outcome w2 of (g, w3) \<Rightarrow>
           (case g of
             Served \<Rightarrow> (None, w3)
           | Refused \<Rightarrow> (Some ''failed to commit transaction'', rolled_back\<lparr>w_faults := w_faults w3\<rparr>)
           | Lost \<Rightarrow> (Some ''failed to commit transaction'', w3))))))"

section \<open>Creating a test\<close>

record create_test_request =
  ctTitle :: string
  ctDescription :: string
  ctStripePriceID :: "string option"
  ctIsFree :: bool
  ctDurationMinutes :: int
  ctAccessWindowHours :: int
  ctAttemptsAllowed :: int

definition read_create_request :: "json option \<Rightarrow> create_test_request option" where
  "read_create_request = ReadJSON
     [(''title'', into_string (\<lambda>s r. r\<lparr>ctTitle := s\<rparr>)),
      (''description'', into_string (\<lambda>s r. r\<lparr>ctDescription := s\<rparr>)),
      (''stripe_price_id'', into_string_ptr (\<lambda>s r. r\<lparr>ctStripePriceID := s\<rparr>)),
      (''is_free'', into_bool (\<lambda>b r. r\<lparr>ctIsFree := b\<rparr>)),
      (''duration_minutes'', into_int (\<lambda>n r. r\<lparr>ctDurationMinutes := n\<rparr>)),
      (''access_window_hours'', into_int (\<lambda>n r. r\<lparr>ctAccessWindowHours := n\<rparr>)),
      (''attempts_allowed'', into_int (\<lambda>n r. r\<lparr>ctAttemptsAllowed := n\<rparr>))]
     \<lparr>ctTitle = '''', ctDescription = '''', ctStripePriceID = None, ctIsFree = False,
      ctDurationMinutes = 0, ctAccessWindowHours = 0, ctAttemptsAllowed = 0\<rparr>"

definition no_price :: "string option \<Rightarrow> bool" where
  "no_price s \<longleftrightarrow> s = None \<or> s = Some ''''"

definition create_product_of :: "create_test_request \<Rightarrow> uuid \<Rightarrow> int \<Rightarrow> product" where
  "create_product_of req i now = \<lparr>pdID = i, pdStripePriceID = ctStripePriceID req,
     pdTitle = ctTitle req, pdDescription = ctDescription req, pdIsFree = ctIsFree req,
     pdCreatedAt = now\<rparr>"

text \<open>The source does not set \<open>ScenarioVersionID\<close>, so it is the zero UUID.\<close>

definition create_test_of :: "create_test_request \<Rightarrow> uuid \<Rightarrow> uuid \<Rightarrow> int \<Rightarrow> test" where
  "create_test_of req i productID now = \<lparr>tID = i, tProductID = productID,
     tScenarioVersionID = uuid_Nil, tDurationMinutes = ctDurationMinutes req,
     tAccessWindowHours = ctAccessWindowHours req, tAttemptsAllowed = ctAttemptsAllowed req,
     tCreatedAt = now\<rparr>"

definition createTest :: "uuid_lib \<Rightarrow> json option \<Rightarrow> ('p world, response) prog" where
  "createTest L body = (case read_create_request body of
       None \<Rightarrow> result (BadRequest ''invalid request body'')
     | Some req \<Rightarrow>
     if ctTitle req = '''' then result (BadRequest ''title is required'') else
     if ctDurationMinutes req \<le> 0 \<or> ctAccessWindowHours req \<le> 0 \<or> ctAttemptsAllowed req \<le> 0
     then result (BadRequest
       ''duration_minutes, access_window_hours, and attempts_allowed must be positive'') else
     if \<not> ctIsFree req \<and> no_price (ctStripePriceID req)
     then result (BadRequest ''stripe_price_id is required for paid tests'') else
     bind_do time_Now (\<lambda>now.
     bind_do uuid_New (\<lambda>productID.
     bind_do uuid_New (\<lambda>testID.
     bind_do (transaction
         [(insert_product (create_product_of req productID now), ''failed to create product''),
          (insert_test (create_test_of req testID productID now), ''failed to create test'')])
       (\<lambda>r. case r of
         Some msg \<Rightarrow> result (InternalError msg)
       | None \<Rightarrow>
         try_do (Tests_GetWithProduct testID)
           (\<lambda>_. result (InternalError ''failed to fetch created test''))
           (\<lambda>t. result (WriteJSON 201 (testWithProductToResponse L t))))))))"

section \<open>Updating a test\<close>

record update_test_request =
  utTitle :: "string option"
  utDescription :: "string option"
  utStripePriceID :: "string option"
  utIsFree :: "bool option"
  utDurationMinutes :: "int option"
  utAccessWindowHours :: "int option"
  utAttemptsAllowed :: "int option"

definition read_update_request :: "json option \<Rightarrow> update_test_request option" where
  "read_update_request = ReadJSON
     [(''title'', into_string_ptr (\<lambda>s r. r\<lparr>utTitle := s\<rparr>)),
      (''description'', into_string_ptr (\<lambda>s r. r\<lparr>utDescription := s\<rparr>)),
      (''stripe_price_id'', into_string_ptr (\<lambda>s r. r\<lparr>utStripePriceID := s\<rparr>)),
      (''is_free'', into_bool_ptr (\<lambda>b r. r\<lparr>utIsFree := b\<rparr>)),
      (''duration_minutes'', into_int_ptr (\<lambda>n r. r\<lparr>utDurationMinutes := n\<rparr>)),
      (''access_window_hours'', into_int_ptr (\<lambda>n r. r\<lparr>utAccessWindowHours := n\<rparr>)),
      (''attempts_allowed'', into_int_ptr (\<lambda>n r. r\<lparr>utAttemptsAllowed := n\<rparr>))]
     \<lparr>utTitle = None, utDescription = None, utStripePriceID = None, utIsFree = None,
      utDurationMinutes = None, utAccessWindowHours = None, utAttemptsAllowed = None\<rparr>"

definition or_else :: "'a option \<Rightarrow> 'a \<Rightarrow> 'a" where
  "or_else x d = (case x of None \<Rightarrow> d | Some v \<Rightarrow> v)"

definition patch_product :: "update_test_request \<Rightarrow> product \<Rightarrow> product" where
  "patch_product req p = p\<lparr>
     pdTitle := or_else (utTitle req) (pdTitle p),
     pdDescription := or_else (utDescription req) (pdDescription p),
     pdStripePriceID := (case utStripePriceID req of
        None \<Rightarrow> pdStripePriceID p | Some s \<Rightarrow> (if s = '''' then None else Some s)),
     pdIsFree := or_else (utIsFree req) (pdIsFree p)\<rparr>"

text \<open>A number that is given has to be positive.\<close>

definition positive :: "int option \<Rightarrow> bool" where
  "positive n = (case n of None \<Rightarrow> True | Some v \<Rightarrow> 0 < v)"

definition patch_test :: "update_test_request \<Rightarrow> test \<Rightarrow> response + test" where
  "patch_test req t =
     (if \<not> positive (utDurationMinutes req)
      then Inl (BadRequest ''duration_minutes must be positive'') else
      if \<not> positive (utAccessWindowHours req)
      then Inl (BadRequest ''access_window_hours must be positive'') else
      if \<not> positive (utAttemptsAllowed req)
      then Inl (BadRequest ''attempts_allowed must be positive'') else
      Inr (t\<lparr>tDurationMinutes := or_else (utDurationMinutes req) (tDurationMinutes t),
             tAccessWindowHours := or_else (utAccessWindowHours req) (tAccessWindowHours t),
             tAttemptsAllowed := or_else (utAttemptsAllowed req) (tAttemptsAllowed t)\<rparr>))"

definition updateTest :: "uuid_lib \<Rightarrow> string \<Rightarrow> json option \<Rightarrow> ('p world, response) prog" where
  "updateTest L testIDStr body = (case uuid_Parse L testIDStr of
       Inl e \<Rightarrow> result (BadRequest ''invalid test_id'')
     | Inr testID \<Rightarrow>
     (case read_update_request body of
       None \<Rightarrow> result (BadRequest ''invalid request body'')
     | Some req \<Rightarrow>
     try_do (Tests_GetWithProduct testID)
       (\<lambda>_. result (NotFound ''test not found'')) (\<lambda>existing.
     try_do (Products_GetByID (tProductID (twTest existing)))
       (\<lambda>_. result (InternalError ''failed to fetch product'')) (\<lambda>stored.
     let product = patch_product req stored in
     if \<not> pdIsFree product \<and> no_price (pdStripePriceID product)
     then result (BadRequest ''stripe_price_id is required for paid tests'') else
     try_do (Products_Update product)
       (\<lambda>_. result (InternalError ''failed to update product'')) (\<lambda>_.
     (case patch_test req (twTest existing) of
       Inl r \<Rightarrow> result r
     | Inr test \<Rightarrow>
     try_do (Tests_Update test)
       (\<lambda>_. result (InternalError ''failed to update test'')) (\<lambda>_.
     try_do (Tests_GetWithProduct testID)
       (\<lambda>_. result (InternalError ''failed to fetch updated test''))
       (\<lambda>t. result (WriteJSON 200 (testWithProductToResponse L t))))))))))"

section \<open>Deleting a test\<close>

definition deleteTest :: "uuid_lib \<Rightarrow> string \<Rightarrow> ('p world, response) prog" where
  "deleteTest L testIDStr = (case uuid_Parse L testIDStr of
       Inl e \<Rightarrow> result (BadRequest ''invalid test_id'')
     | Inr testID \<Rightarrow>
     try_do (Tests_GetByID testID)
       (\<lambda>_. result (NotFound ''test not found'')) (\<lambda>existing.
     try_do (Tests_HasPurchases testID)
       (\<lambda>_. result (InternalError ''failed to check purchases'')) (\<lambda>hasPurchases.
     if hasPurchases
     then result (BadRequest ''cannot delete test with existing purchases'') else
     bind_do (transaction
         [(delete_test testID, ''failed to delete test''),
          (delete_product (tProductID existing), ''failed to delete product'')])
       (\<lambda>r. case r of
         Some msg \<Rightarrow> result (InternalError msg)
       | None \<Rightarrow> result (status_response ''deleted'')))))"

end
