(* ===== verification/Paths.thy ===== *)
theory Paths
  imports Httpx
begin

text \<open>
  Paths and URLs as the program uses them: \<open>path.Clean\<close>, \<open>path.Join\<close>, \<open>filepath.Dir\<close>,
  \<open>url.PathEscape\<close> and \<open>url.QueryEscape\<close>, and on them the handler of the embedded frontend
  (\<open>internal/httpx/static.go\<close>).  A cleaned rooted path has no dot segments, so the handler never
  asks the file system for a path above its root.
\<close>

section \<open>path.Clean\<close>

definition slash :: char where
  "slash = CHR ''/''"

fun join_with :: "char \<Rightarrow> string list \<Rightarrow> string" where
  "join_with sep [] = []"
| "join_with sep [s] = s"
| "join_with sep (s # ss) = s @ sep # join_with sep ss"

text \<open>One segment onto the stack of kept segments (last one first).\<close>

definition clean_step :: "bool \<Rightarrow> string list \<Rightarrow> string \<Rightarrow> string list" where
  "clean_step rooted stack seg =
     (if seg = '''' \<or> seg = ''.'' then stack
      else if seg = ''..'' then
        (case stack of
           [] \<Rightarrow> (if rooted then [] else [''..''])
         | last_seg # rest \<Rightarrow> (if last_seg = ''..'' then ''..'' # stack else rest))
      else seg # stack)"

definition clean_segments :: "bool \<Rightarrow> string list \<Rightarrow> string list" where
  "clean_segments rooted segs = rev (foldl (clean_step rooted) [] segs)"

definition path_Clean :: "string \<Rightarrow> string" where
  "path_Clean p =
     (let rooted = has_prefix ''/'' p;
          body = join_with slash (clean_segments rooted (split_on slash p))
      in if rooted then slash # body else if body = '''' then ''.'' else body)"

definition path_Join :: "string \<Rightarrow> string \<Rightarrow> string" where
  "path_Join a b = (if a = '''' \<and> b = '''' then ''''
     else if a = '''' then path_Clean b
     else if b = '''' then path_Clean a
     else path_Clean (a @ slash # b))"

definition up_to_last_slash :: "string \<Rightarrow> string" where
  "up_to_last_slash p = rev (dropWhile (\<lambda>c. c \<noteq> slash) (rev p))"

definition filepath_Dir :: "string \<Rightarrow> string" where
  "filepath_Dir p = path_Clean (up_to_last_slash p)"

definition plain_segment :: "string \<Rightarrow> bool" where
  "plain_segment s \<longleftrightarrow> s \<noteq> '''' \<and> s \<noteq> ''.'' \<and> s \<noteq> ''..'' \<and> slash \<notin> set s"

lemma slash_split_on: "s \<in> set (split_on sep p) \<Longrightarrow> sep \<notin> set s"
  by (induction p arbitrary: s) (auto split: if_splits list.splits)

lemma clean_step_rooted:
  assumes "list_all plain_segment stack" and "slash \<notin> set seg"
  shows "list_all plain_segment (clean_step True stack seg)"
  using assms by (auto simp: clean_step_def plain_segment_def split: list.split)

lemma foldl_clean_rooted:
  assumes "list_all plain_segment stack" and "\<forall>s \<in> set segs. slash \<notin> set s"
  shows "list_all plain_segment (foldl (clean_step True) stack segs)"
  using assms by (induction segs arbitrary: stack) (auto simp: clean_step_rooted)

lemma clean_segments_rooted: "list_all plain_segment (clean_segments True (split_on slash p))"
  unfolding clean_segments_def
  using foldl_clean_rooted [of "[]" "split_on slash p"]
  by (auto simp: slash_split_on list_all_iff)

lemma split_on_join:
  assumes "ss \<noteq> []" and "\<forall>s \<in> set ss. sep \<notin> set s"
  shows "split_on sep (join_with sep ss) = ss"
  using assms
proof (induction sep ss rule: join_with.induct)
  case (1 sep)
  then show ?case by simp
next
  case (2 sep s)
  then show ?case by (simp add: split_on_absent)
next
  case (3 sep s t ss)
  then show ?case by (simp add: split_on_present)
qed

lemma path_Clean_rooted:
  assumes "has_prefix ''/'' p"
  obtains ss where "path_Clean p = slash # join_with slash ss" and "list_all plain_segment ss"
  using assms clean_segments_rooted [of p] that by (auto simp: path_Clean_def)

section \<open>Escaping\<close>

definition hex_upper :: "nat \<Rightarrow> char" where
  "hex_upper n = (if n < 10 then char_of (48 + n) else char_of (55 + n))"

definition is_alnum :: "char \<Rightarrow> bool" where
  "is_alnum c \<longleftrightarrow> (let n = of_char c :: nat in
     48 \<le> n \<and> n \<le> 57 \<or> 65 \<le> n \<and> n \<le> 90 \<or> 97 \<le> n \<and> n \<le> 122)"

definition unreserved :: "char \<Rightarrow> bool" where
  "unreserved c \<longleftrightarrow> is_alnum c \<or> c \<in> set ''-_.~''"

definition percent :: "char \<Rightarrow> string" where
  "percent c = [CHR ''%'', hex_upper (of_char c div 16), hex_upper (of_char c mod 16)]"

definition url_PathEscape :: "string \<Rightarrow> string" where
  "url_PathEscape s =
     concat (map (\<lambda>c. if unreserved c \<or> c \<in> set ''$&+=:@'' then [c] else percent c) s)"

definition url_QueryEscape :: "string \<Rightarrow> string" where
  "url_QueryEscape s =
     concat (map (\<lambda>c. if unreserved c then [c] else if c = CHR '' '' then ''+'' else percent c) s)"

lemma url_PathEscape_no_slash: "slash \<notin> set (url_PathEscape s)"
proof -
  have hex: "hex_upper n \<noteq> slash" if "n < 16" for n
    using that by (auto simp: hex_upper_def slash_def dest!: arg_cong [where f = "of_char :: char \<Rightarrow> nat"]
        split: if_splits)
  have "slash \<notin> set (percent c)" for c
  proof -
    have "of_char c div 16 < (16 :: nat)" and "of_char c mod 16 < (16 :: nat)"
      by (simp_all add: less_mult_imp_div_less)
    from hex [OF this(1)] hex [OF this(2)] show ?thesis
      by (auto simp: percent_def slash_def)
  qed
  moreover have "\<not> unreserved slash" and "slash \<notin> set ''$&+=:@''"
    by (simp_all add: unreserved_def is_alnum_def slash_def)
  ultimately show ?thesis by (auto simp: url_PathEscape_def)
qed

section \<open>The embedded frontend (static.go)\<close>

text \<open>
  A file system tells, for a path, whether it is there and whether it is a directory; what was
  opened is a file or a directory.  \<open>ServeFile\<close> hands the file to \<open>http.ServeContent\<close> with
  the given caching; a directory that is opened has no \<open>io.ReadSeeker\<close>, and the assertion panics.
\<close>

datatype file_kind = RegularFile | Directory

datatype static_reply = StaticNotFound | ServeFile string string | StaticPanic

definition static_path :: "(string \<rightharpoonup> file_kind) \<Rightarrow> string \<Rightarrow> string" where
  "static_path fsys urlPath =
     (let p = trim_prefix ''/'' (path_Clean urlPath);
          filePath = (if p = ''.'' \<or> p = '''' then ''index.html'' else p)
      in (case fsys filePath of
            None \<Rightarrow> ''index.html''
          | Some Directory \<Rightarrow> path_Join filePath ''index.html''
          | Some RegularFile \<Rightarrow> filePath))"

definition cache_control :: "string \<Rightarrow> string" where
  "cache_control filePath =
     (if has_prefix ''_next/static/'' filePath
      then ''public, max-age=31536000, immutable'' else ''no-cache'')"

definition staticHandler :: "(string \<rightharpoonup> file_kind) \<Rightarrow> string \<Rightarrow> static_reply" where
  "staticHandler fsys urlPath =
     (if has_prefix ''/api/'' urlPath then StaticNotFound
      else let filePath = static_path fsys urlPath in
        (case fsys filePath of
           None \<Rightarrow> StaticNotFound
         | Some RegularFile \<Rightarrow> ServeFile filePath (cache_control filePath)
         | Some Directory \<Rightarrow> StaticPanic))"

text \<open>Cleaning keeps plain segments as they are.\<close>

lemma clean_plain:
  "list_all plain_segment ss \<Longrightarrow> foldl (clean_step False) stack ss = rev ss @ stack"
  by (induction ss arbitrary: stack) (auto simp: clean_step_def plain_segment_def)

lemma path_Clean_plain:
  assumes "ss \<noteq> []" and "list_all plain_segment ss"
  shows "path_Clean (join_with slash ss) = join_with slash ss"
proof -
  have ns: "\<forall>s \<in> set ss. slash \<notin> set s" using assms(2) by (auto simp: list_all_iff plain_segment_def)
  obtain c t ts where ss: "ss = (c # t) # ts" and c: "c \<noteq> slash"
    using assms by (cases ss; cases "hd ss") (auto simp: plain_segment_def)
  have np: "\<not> has_prefix ''/'' (join_with slash ss)"
    using ss c by (cases ts) (auto simp: has_prefix_def slash_def)
  have ne: "join_with slash ss \<noteq> ''''" using ss by (cases ts) auto
  have "clean_segments False (split_on slash (join_with slash ss)) = ss"
    using split_on_join [OF assms(1) ns] clean_plain [OF assms(2), of "[]"]
    by (simp add: clean_segments_def)
  with np ne show ?thesis by (simp add: path_Clean_def Let_def)
qed

definition plain_path :: "string \<Rightarrow> bool" where
  "plain_path p \<longleftrightarrow> (\<exists>ss. ss \<noteq> [] \<and> list_all plain_segment ss \<and> p = join_with slash ss)"

lemma plain_pathI: "ss \<noteq> [] \<Longrightarrow> list_all plain_segment ss \<Longrightarrow> plain_path (join_with slash ss)"
  by (auto simp: plain_path_def)

lemma plain_segments_no_slash: "list_all plain_segment ss \<Longrightarrow> \<forall>s \<in> set ss. slash \<notin> set s"
  by (induction ss) (auto simp: plain_segment_def)

lemma plain_path_split:
  assumes "plain_path p"
  shows "list_all plain_segment (split_on slash p)"
proof -
  obtain ss where ss: "ss \<noteq> []" "list_all plain_segment ss" and p: "p = join_with slash ss"
    using assms by (auto simp: plain_path_def)
  have "split_on slash p = ss"
    unfolding p by (rule split_on_join [OF ss(1) plain_segments_no_slash [OF ss(2)]])
  with ss(2) show ?thesis by (simp only:)
qed

lemma index_segment: "plain_segment ''index.html''"
  by (simp add: plain_segment_def slash_def)

lemma plain_index: "plain_path ''index.html''"
  using plain_pathI [of "[''index.html'']"] index_segment by simp

lemma join_with_snoc: "ss \<noteq> [] \<Longrightarrow> join_with sep ss @ sep # x = join_with sep (ss @ [x])"
  by (induction sep ss rule: join_with.induct) auto

lemma plain_path_Join:
  assumes "plain_path p" and "p \<noteq> ''''"
  shows "plain_path (path_Join p ''index.html'')"
proof -
  obtain ss where ss: "ss \<noteq> []" "list_all plain_segment ss" and p: "p = join_with slash ss"
    using assms(1) by (auto simp: plain_path_def)
  have all: "list_all plain_segment (ss @ [''index.html''])" using ss index_segment by simp
  have "path_Join p ''index.html'' = path_Clean (join_with slash (ss @ [''index.html'']))"
    using assms(2) join_with_snoc [OF ss(1)] p by (simp add: path_Join_def)
  also have "\<dots> = join_with slash (ss @ [''index.html''])" using all by (intro path_Clean_plain) simp
  finally show ?thesis by (simp only:) (rule plain_pathI [OF _ all], simp)
qed

lemma static_path_plain:
  assumes "has_prefix ''/'' url"
  shows "plain_path (static_path fsys url)"
proof -
  obtain ss where clean: "path_Clean url = slash # join_with slash ss" and ss: "list_all plain_segment ss"
    using assms by (rule path_Clean_rooted)
  define p where "p = trim_prefix ''/'' (path_Clean url)"
  define q where "q = (if p = ''.'' \<or> p = '''' then ''index.html'' else p)"
  have p: "p = join_with slash ss"
    using clean by (simp add: p_def trim_prefix_def has_prefix_def slash_def)
  have q: "plain_path q" and ne: "q \<noteq> ''''"
    using plain_pathI [of ss] ss p plain_index by (cases "ss = []"; auto simp: q_def)+
  have path: "static_path fsys url = (case fsys q of
       None \<Rightarrow> ''index.html'' | Some Directory \<Rightarrow> path_Join q ''index.html'' | Some RegularFile \<Rightarrow> q)"
    by (simp only: static_path_def Let_def p_def q_def)
  show ?thesis
  proof (cases "fsys q")
    case None
    with path plain_index show ?thesis by simp
  next
    case (Some k)
    with path q plain_path_Join [OF q ne] show ?thesis by (cases k) simp_all
  qed
qed

section \<open>Properties\<close>

text \<open>The handler of the embedded frontend never serves a file outside its root: for a request
  path that starts with a slash, the file it serves has no empty, \<open>.\<close> or \<open>..\<close> segment, however
  the request path is written.\<close>

lemma static_stays_in_root:
  assumes "has_prefix ''/'' url" and "staticHandler fsys url = ServeFile f cc"
  shows "list_all plain_segment (split_on slash f)"
proof -
  have "f = static_path fsys url"
    using assms(2) by (auto simp: staticHandler_def Let_def split: if_splits option.splits file_kind.splits)
  with static_path_plain [OF assms(1)] show ?thesis by (simp add: plain_path_split)
qed

lemma static_stays_in_root_example:
  "staticHandler [''etc/passwd'' \<mapsto> RegularFile] ''/../a/.././etc//passwd'' =
     ServeFile ''etc/passwd'' ''no-cache'' \<and>
   list_all plain_segment (split_on slash ''etc/passwd'')"
proof -
  have "staticHandler [''etc/passwd'' \<mapsto> RegularFile] ''/../a/.././etc//passwd'' =
     ServeFile ''etc/passwd'' ''no-cache''"
    by (simp add: staticHandler_def static_path_def path_Clean_def clean_segments_def clean_step_def
        has_prefix_def trim_prefix_def cache_control_def slash_def)
  moreover from this have "list_all plain_segment (split_on slash ''etc/passwd'')"
    by (rule static_stays_in_root [rotated]) (simp add: has_prefix_def)
  ultimately show ?thesis by simp
qed

end
