(* ===== verification/Importer.thy ===== *)
theory Importer
  imports Scenarios Tables Paths
begin

text \<open>
  \<open>internal/importer\<close> (importer.go): reading the scenario repository into the database.  The
  file system, \<open>yaml.Unmarshal\<close> and \<open>git rev-parse\<close> are the record \<open>repo\<close>: a walk lists the paths
  it visits in order (or fails), and its entries say whether they are directories.

  The topology is stored as JSON made by \<open>json.Marshal\<close> of the schema's structs.  These carry
  yaml tags only, so the keys are the Go field names.
\<close>

record repo =
  rpWalk :: "string \<Rightarrow> go_error + (string \<times> string \<times> bool) list"
  rpReadFile :: "string \<Rightarrow> go_error + string"
  rpScenario :: "string \<Rightarrow> go_error + scenario"
  rpChecks :: "string \<Rightarrow> go_error + checks_file"
  rpGitRevParse :: "string \<Rightarrow> go_error + string"

record parsed_scenario =
  ipScenario :: scenario
  ipChecks :: checks_file
  ipPrompts :: "string \<rightharpoonup> string"
  ipDir :: string

section \<open>Discovery\<close>

definition resolveGitCommit :: "repo \<Rightarrow> string \<Rightarrow> string" where
  "resolveGitCommit r repoPath = (case rpGitRevParse r repoPath of
       Inl e \<Rightarrow> ''local'' | Inr out \<Rightarrow> trim_space out)"

fun read_prompts ::
  "repo \<Rightarrow> string \<Rightarrow> task list \<Rightarrow> (string \<rightharpoonup> string) \<Rightarrow> go_error + (string \<rightharpoonup> string)"
where
  "read_prompts r dir [] prompts = Inr prompts"
| "read_prompts r dir (t # ts) prompts =
     (case rpReadFile r (path_Join dir (skPromptFile t)) of
        Inl e \<Rightarrow> Inl (wrap_err (''reading prompt file '' @ skPromptFile t @ '': '') e)
      | Inr content \<Rightarrow> read_prompts r dir ts (prompts(skID t \<mapsto> content)))"

definition parseScenario :: "repo \<Rightarrow> string \<Rightarrow> go_error + parsed_scenario" where
  "parseScenario r scenarioFile =
     (let scenarioDir = filepath_Dir scenarioFile in
     case rpReadFile r scenarioFile of
       Inl e \<Rightarrow> Inl (wrap_err ''reading scenario.yaml: '' e)
     | Inr data \<Rightarrow>
     (case rpScenario r data of
       Inl e \<Rightarrow> Inl (wrap_err ''parsing scenario.yaml: '' e)
     | Inr s \<Rightarrow>
     (case Validate s of
       Some e \<Rightarrow> Inl (wrap_err (''validating scenario '' @ scID s @ '': '') e)
     | None \<Rightarrow>
     (case rpReadFile r (path_Join (path_Join scenarioDir ''checks'') ''checks.yaml'') of
       Inl e \<Rightarrow> Inl (wrap_err ''reading checks.yaml: '' e)
     | Inr checksData \<Rightarrow>
     (case rpChecks r checksData of
       Inl e \<Rightarrow> Inl (wrap_err ''parsing checks.yaml: '' e)
     | Inr cf \<Rightarrow>
     (case ValidateChecks cf s of
       Some e \<Rightarrow> Inl (wrap_err (''validating checks for '' @ scID s @ '': '') e)
     | None \<Rightarrow>
     (case read_prompts r scenarioDir (scTasks s) Map.empty of
       Inl e \<Rightarrow> Inl e
     | Inr prompts \<Rightarrow>
       Inr \<lparr>ipScenario = s, ipChecks = cf, ipPrompts = prompts, ipDir = scenarioDir\<rparr>)))))))"

fun parse_files :: "repo \<Rightarrow> string list \<Rightarrow> go_error + parsed_scenario list" where
  "parse_files r [] = Inr []"
| "parse_files r (sf # sfs) = (case parseScenario r sf of
       Inl e \<Rightarrow> Inl (wrap_err (''parsing '' @ sf @ '': '') e)
     | Inr ps \<Rightarrow> (case parse_files r sfs of Inl e \<Rightarrow> Inl e | Inr pss \<Rightarrow> Inr (ps # pss)))"

definition scenario_files :: "(string \<times> string \<times> bool) list \<Rightarrow> string list" where
  "scenario_files entries =
     [path. (path, name, isDir) \<leftarrow> entries, \<not> isDir \<and> name = ''scenario.yaml'']"

definition discoverScenarios :: "repo \<Rightarrow> string \<Rightarrow> go_error + parsed_scenario list" where
  "discoverScenarios r repoPath = (case rpWalk r repoPath of
       Inl e \<Rightarrow> Inl (wrap_err ''walking repo path: '' e)
     | Inr entries \<Rightarrow> parse_files r (scenario_files entries))"

section \<open>The stored topology\<close>

definition marshal_node :: "node \<Rightarrow> json" where
  "marshal_node n = JObj [(''Name'', JStr (nName n)), (''Role'', JStr (nRole n)),
     (''Template'', JStr (nTemplate n))]"

definition marshal_cluster :: "cluster \<Rightarrow> json" where
  "marshal_cluster c = JObj [(''ID'', JStr (cID c)), (''DisplayName'', JStr (cDisplayName c)),
     (''KubeContext'', JStr (cKubeContext c)), (''Nodes'', JArr (map marshal_node (cNodes c)))]"

definition marshal_topology :: "topology \<Rightarrow> json" where
  "marshal_topology t = JObj [(''Clusters'', JArr (map marshal_cluster (tpClusters t)))]"

section \<open>Importing\<close>

definition version_row :: "scenario \<Rightarrow> string \<Rightarrow> uuid \<Rightarrow> int \<Rightarrow> scenario_version" where
  "version_row s gitCommit svID now = \<lparr>vID = svID, vExternalID = scID s, vTitle = scTitle s,
     vGitCommit = gitCommit, vDurationMinutes = scDurationMinutes s,
     vAccessWindowHours = scAccessWindowHours s, vAttemptsAllowed = scAttemptsAllowed s,
     vTopologyJSON = marshal_topology (scTopology s), vCreatedAt = now\<rparr>"

definition task_row_of :: "(string \<rightharpoonup> string) \<Rightarrow> uuid \<Rightarrow> int \<Rightarrow> task \<Rightarrow> uuid \<Rightarrow> task_row" where
  "task_row_of prompts svID now t i = \<lparr>tkID = i, tkScenarioVersionID = svID,
     tkExternalID = skID t, tkClusterID = skClusterID t, tkKubeContext = skKubeContext t,
     tkPoints = skPoints t,
     tkPrompt = (case prompts (skID t) of None \<Rightarrow> '''' | Some p \<Rightarrow> p), tkCreatedAt = now\<rparr>"

definition check_row_of :: "int \<Rightarrow> check \<Rightarrow> uuid \<Rightarrow> uuid \<Rightarrow> check_row" where
  "check_row_of now c taskUUID i = \<lparr>ckID = i, ckTaskID = taskUUID, ckExternalID = chID c,
     ckClusterID = chClusterID c, ckType = chType c, ckCommand = chCommand c,
     ckPoints = chPoints c, ckCreatedAt = now\<rparr>"

fun import_tasks ::
  "(string \<rightharpoonup> string) \<Rightarrow> uuid \<Rightarrow> int \<Rightarrow> task list \<Rightarrow> (string \<rightharpoonup> uuid) \<Rightarrow>
   ('p world, string \<rightharpoonup> uuid) eprog"
where
  "import_tasks prompts svID now [] taskUUIDs = ok taskUUIDs"
| "import_tasks prompts svID now (t # ts) taskUUIDs =
     bind_do uuid_New (\<lambda>i.
     try_do (Scenarios_CreateTask (task_row_of prompts svID now t i))
       (\<lambda>e. fail (wrap_err (''creating task '' @ skID t @ '': '') e))
       (\<lambda>_. import_tasks prompts svID now ts (taskUUIDs(skID t \<mapsto> i))))"

fun import_checks :: "(string \<rightharpoonup> uuid) \<Rightarrow> int \<Rightarrow> check list \<Rightarrow> ('p world, unit) eprog" where
  "import_checks taskUUIDs now [] = ok ()"
| "import_checks taskUUIDs now (c # cs) = (case taskUUIDs (chTaskID c) of
       None \<Rightarrow> fail (Plain (''check '' @ chID c @ '' references unknown task '' @ chTaskID c))
     | Some taskUUID \<Rightarrow>
       bind_do uuid_New (\<lambda>i.
       try_do (Scenarios_CreateCheck (check_row_of now c taskUUID i))
         (\<lambda>e. fail (wrap_err (''creating check '' @ chID c @ '': '') e))
         (\<lambda>_. import_checks taskUUIDs now cs)))"

text \<open>
  \<open>GetByTitle\<close> returns a nil product with every error, so any error takes the branch that
  creates a product.
\<close>

definition find_or_create_product :: "string \<Rightarrow> int \<Rightarrow> ('p world, product) eprog" where
  "find_or_create_product title now =
     try_do (Products_GetByTitle title) (\<lambda>_.
       bind_do uuid_New (\<lambda>i.
       let product = \<lparr>pdID = i, pdStripePriceID = None, pdTitle = title,
             pdDescription = title, pdIsFree = False, pdCreatedAt = now\<rparr> in
       try_do (Products_Create product)
         (\<lambda>e. fail (wrap_err ''creating product: '' e)) (\<lambda>_. ok product)))
     (\<lambda>product. ok product)"

definition import_test :: "scenario \<Rightarrow> uuid \<Rightarrow> int \<Rightarrow> product \<Rightarrow> ('p world, unit) eprog" where
  "import_test s svID now product =
     bind_do uuid_New (\<lambda>i.
     try_do (Tests_Create \<lparr>tID = i, tProductID = pdID product, tScenarioVersionID = svID,
         tDurationMinutes = scDurationMinutes s, tAccessWindowHours = scAccessWindowHours s,
         tAttemptsAllowed = scAttemptsAllowed s, tCreatedAt = now\<rparr>)
       (\<lambda>e. fail (wrap_err ''creating test: '' e)) (\<lambda>_. ok ()))"

definition import_new_version :: "parsed_scenario \<Rightarrow> string \<Rightarrow> ('p world, unit) eprog" where
  "import_new_version ps gitCommit =
     (let s = ipScenario ps in
     bind_do time_Now (\<lambda>now.
     bind_do uuid_New (\<lambda>svID.
     try_do (Scenarios_CreateVersion (version_row s gitCommit svID now))
       (\<lambda>e. fail (wrap_err ''creating scenario version: '' e)) (\<lambda>_.
     try_do (import_tasks (ipPrompts ps) svID now (scTasks s) Map.empty) fail (\<lambda>taskUUIDs.
     try_do (import_checks taskUUIDs now (cfChecks (ipChecks ps))) fail (\<lambda>_.
     try_do (find_or_create_product (scTitle s) now) fail (\<lambda>product.
     import_test s svID now product)))))))"

definition importParsedScenario :: "parsed_scenario \<Rightarrow> string \<Rightarrow> ('p world, unit) eprog" where
  "importParsedScenario ps gitCommit =
     try_do (Scenarios_GetVersionByExternalID (scID (ipScenario ps)) gitCommit)
       (\<lambda>e. if e \<noteq> sql_ErrNoRows
            then fail (wrap_err ''checking existing scenario version: '' e)
            else import_new_version ps gitCommit)
       (\<lambda>existing. ok ())"

definition ImportAll :: "repo \<Rightarrow> string \<Rightarrow> ('p world, unit) eprog" where
  "ImportAll r repoPath =
     (if repoPath = '''' then fail (Plain ''scenario repo path is empty'') else
     (let gitCommit = resolveGitCommit r repoPath in
     (case discoverScenarios r repoPath of
       Inl e \<Rightarrow> fail e
     | Inr discovered \<Rightarrow>
       if discovered = [] then ok () else
       ignore_do (for_each discovered (\<lambda>ps. importParsedScenario ps gitCommit)) (ok ()))))"

section \<open>What is discovered is valid\<close>

lemma parseScenario_valid:
  "parseScenario r f = Inr ps \<Longrightarrow>
     valid_scenario (ipScenario ps) \<and> valid_checks (ipChecks ps) (ipScenario ps)"
  unfolding parseScenario_def Let_def Validate_accepts [symmetric] ValidateChecks_accepts [symmetric]
  by (auto split: sum.splits option.splits)

lemma parse_files_valid:
  "parse_files r fs = Inr pss \<Longrightarrow> ps \<in> set pss \<Longrightarrow> \<exists>f \<in> set fs. parseScenario r f = Inr ps"
  by (induction fs arbitrary: pss) (auto split: sum.splits)

lemma read_prompts_dom:
  "read_prompts r dir ts m = Inr prompts \<Longrightarrow> dom prompts = dom m \<union> set (map skID ts)"
  by (induction ts arbitrary: m) (auto split: sum.splits)

lemma import_tasks_dom:
  "import_tasks prompts svID now ts m w = (Inr ids, w') \<Longrightarrow> dom ids = dom m \<union> set (map skID ts)"
proof (induction ts arbitrary: m w)
  case Nil
  then show ?case by simp
next
  case (Cons t ts)
  obtain i w1 where u: "uuid_New w = (i, w1)" by fastforce
  with Cons.prems obtain w2 where
    "import_tasks prompts svID now ts (m(skID t \<mapsto> i)) w2 = (Inr ids, w')"
    by (auto elim!: try_do_cases)
  from Cons.IH [OF this] show ?case by auto
qed

end
