(* ===== verification/Effects.thy ===== *)
theory Effects
  imports Integrity Reconciler Grader Scoring Terminal Billing Catalog Auth Admin Importer
begin

text \<open>
  What whole programs do to the world, from what their operations do.  \<open>operation_effect\<close> is the
  contract of a two-state relation that the operations which write the database respect; under
  it every HTTP handler, every job and a tick of the reconciler respects it.
  \<open>table_effect\<close> asks more (every single statement respects the relation), and gives the
  former.  \<open>expiry_effect\<close> adds the one job that nothing enqueues.

  \<open>live_targets\<close> are the statuses the code, without that job, passes to \<open>TransitionAttempt\<close>.
\<close>

definition live_targets :: "attempt_status set" where
  "live_targets = {AttemptRequested, EnvironmentProvisioning, EnvironmentReady, TerminalOpened,
     Running, Submitted, Grading, Scored, Destroyed, ProvisionFailed}"

definition live_kinds :: "job_kind set" where
  "live_kinds = {ProvisionEnvironmentJob, GradeAttemptJob, CleanupEnvironmentJob}"

section \<open>Programs that only read\<close>

context world_effect
begin

lemma reads:
  "obeys R (Users_GetByID i)" "obeys R (Users_GetByEmail em)"
  "obeys R (Products_GetByID i)" "obeys R (Products_GetByTitle ti)"
  "obeys R (Tests_GetByID i)" "obeys R (Tests_GetWithProduct i)" "obeys R Tests_ListWithProduct"
  "obeys R (Tests_HasPurchases i)"
  "obeys R (Purchases_GetByID i)" "obeys R (Purchases_ListByUserID i)"
  "obeys R (Attempts_GetByID i)" "obeys R (Attempts_ListByStatus st)"
  "obeys R (Environments_GetByID i)" "obeys R (Environments_GetByAttemptID i)"
  "obeys R (Sessions_GetByAttemptID i)" "obeys R (Sessions_GetByTerminalToken tok)"
  "obeys R (Scenarios_GetVersion i)" "obeys R (Scenarios_GetVersionByExternalID x g)"
  "obeys R (Scenarios_ListChecksByScenarioVersion i)"
  unfolding store_defs by auto

lemmas read_rules =
  reads obeys_result obeys_ok obeys_fail obeys_bind obeys_try obeys_ignore obeys_deferred obeys_if
  obeys_option obeys_sum obeys_prod obeys_for_each obeys_uuid_New obeys_time_Now obeys_on_ext

lemma list_statuses_R: "obeys R (list_statuses ss acc)"
  by (induction ss arbitrary: acc) (auto intro!: read_rules)

lemma ValidateToken_R: "obeys R (ValidateToken c tok)"
  unfolding ValidateToken_def by (intro read_rules)

text \<open>The pages, and what else asks the database without telling it anything.\<close>

lemma read_pages:
  "obeys R (admin_listAttempts L filt)" "obeys R admin_listEnvironments" "obeys R (admin_listTests L)"
  "obeys R (admin_getTest L str)" "obeys R (HandleMe L ctx)" "obeys R (checkout s ctx body)"
  "obeys R (dashboard L fmt ctx)" "obeys R (login c body)" "obeys R logout"
  "obeys R (catalog_listTests L)" "obeys R (getScore L ctx str)"
  unfolding admin_listAttempts_def Let_def admin_listEnvironments_def admin_listTests_def admin_getTest_def
    HandleMe_def checkout_def CreateCheckoutSession_def dashboard_def login_def Login_def
    auth_GenerateToken_def logout_def catalog_listTests_def getScore_def
  by (intro read_rules list_statuses_R)+

end

section \<open>The contract of the operations\<close>

locale operation_effect = world_effect R for R :: "'p world \<Rightarrow> 'p world \<Rightarrow> bool" +
  assumes user_create: "uIsAdmin u = False \<Longrightarrow> obeys R (Users_Create u)"
    and decrement: "obeys R (Purchases_DecrementAttemptsRemaining i)"
    and increment: "obeys R (Purchases_IncrementAttemptsRemaining i)"
    and attempt_create: "obeys R (Attempts_Create (new_attempt i p now))"
    and transition: "to \<in> live_targets \<Longrightarrow> obeys R (TransitionAttempt i to)"
    and update_score: "obeys R (Attempts_UpdateScore i sc mx)"
    and environment_create: "obeys R (Environments_Create e)"
    and environment_status: "obeys R (Environments_UpdateStatus i es)"
    and session_create: "obeys R (Sessions_Create s)"
    and session_opened: "obeys R (Sessions_UpdateFirstOpenedAt i t)"
    and enqueue: "k \<in> live_kinds \<Longrightarrow> obeys R (Enqueue k payload opts)"
    and checkout_completed: "obeys R (HandleCheckoutCompleted L sess)"
    and free_purchase: "obeys R (CreateFreePurchase usr tst)"
    and create_test: "obeys R (createTest L body)"
    and update_test: "obeys R (updateTest L str body)"
    and delete_test: "obeys R (deleteTest L str)"
    and import_all: "obeys R (ImportAll rp path)"
begin

lemmas op_rules = read_rules
  decrement increment attempt_create update_score environment_create environment_status
  session_create session_opened checkout_completed free_purchase create_test update_test
  delete_test import_all

lemma transitions [simp]:
  "obeys R (TransitionAttempt i AttemptRequested)"
  "obeys R (TransitionAttempt i EnvironmentProvisioning)"
  "obeys R (TransitionAttempt i EnvironmentReady)"
  "obeys R (TransitionAttempt i TerminalOpened)"
  "obeys R (TransitionAttempt i Running)"
  "obeys R (TransitionAttempt i Submitted)"
  "obeys R (TransitionAttempt i Grading)"
  "obeys R (TransitionAttempt i Scored)"
  "obeys R (TransitionAttempt i Destroyed)"
  "obeys R (TransitionAttempt i ProvisionFailed)"
  by (simp_all add: transition live_targets_def)

lemma enqueues [simp]:
  "obeys R (Enqueue ProvisionEnvironmentJob payload opts)"
  "obeys R (Enqueue GradeAttemptJob payload opts)"
  "obeys R (Enqueue CleanupEnvironmentJob payload opts)"
  by (simp_all add: enqueue live_kinds_def)

text \<open>The attempts service and its handlers.\<close>

lemma RequestAttempt_R: "obeys R (RequestAttempt L usr p)"
  unfolding RequestAttempt_def start_attempt_def Let_def by (intro op_rules enqueues)

lemma RestoreAttemptCount_R: "obeys R (RestoreAttemptCount i)"
  unfolding RestoreAttemptCount_def by (intro op_rules)

lemma SubmitAttempt_R: "obeys R (SubmitAttempt L usr i)"
  unfolding SubmitAttempt_def by (intro op_rules transitions enqueues)

lemma attempts_handlers_R:
  "obeys R (createAttempt L ctx body)" "obeys R (getAttempt L ctx str)"
  "obeys R (submitAttempt L ctx str)"
  unfolding createAttempt_def getAttempt_def submitAttempt_def GetAttempt_def
  by (intro op_rules RequestAttempt_R SubmitAttempt_R)+

text \<open>The orchestrator.\<close>

lemma handleProvisionFailure_R: "obeys R (handleProvisionFailure L i)"
  unfolding handleProvisionFailure_def enqueueCleanup_def
  by (intro op_rules transitions enqueues RestoreAttemptCount_R)

lemma provision_failed_R: "obeys R (provision_failed L i e)"
  unfolding provision_failed_def by (intro op_rules handleProvisionFailure_R)

lemma record_and_provision_R: "obeys R (record_and_provision oc i key ext t r)"
  unfolding record_and_provision_def Let_def by (intro op_rules transitions provision_failed_R)

lemma build_environment_R: "obeys R (build_environment oc i a)"
  unfolding build_environment_def
  by (intro op_rules provision_failed_R record_and_provision_R)

lemma handleProvisionEnvironment_R: "obeys R (handleProvisionEnvironment oc payload)"
  unfolding handleProvisionEnvironment_def by (intro op_rules transitions build_environment_R)

lemma handleCleanupEnvironment_R: "obeys R (handleCleanupEnvironment oc payload)"
  unfolding handleCleanupEnvironment_def by (intro op_rules transitions)

lemma reconcile_enqueue_R: "obeys R (reconcile_enqueue L i)"
  unfolding reconcile_enqueue_def by (intro op_rules enqueues)

lemma reconcile_R: "obeys R (reconcile L)"
  unfolding reconcile_def cleanupStaleProvisioning_def cleanupPendingAttempts_def
    cleanupTerminalStates_def stale_step_def terminal_step_def Let_def
  by (intro op_rules transitions reconcile_enqueue_R)

text \<open>Grading, terminal, billing, authentication, administration.\<close>

lemma RunCheck_R: "obeys R (RunCheck S check ip key)"
proof -
  have "obeys R (run_in_session S check session)" for session
    unfolding run_in_session_def
    by (intro op_rules) (auto split: run_outcome.split intro!: op_rules)
  then show ?thesis unfolding RunCheck_def by (intro op_rules)
qed

lemma grade_checks_R: "obeys R (grade_checks S env checks ts ms)"
  by (induction checks arbitrary: ts ms)
     (auto simp: Let_def split: option.split intro!: op_rules RunCheck_R)

lemma GradeAttempt_R: "obeys R (GradeAttempt L S payload)"
  unfolding GradeAttempt_def by (intro op_rules transitions enqueues grade_checks_R)

lemma handleWebSocket_R: "obeys R (handleWebSocket T parse events token)"
proof -
  have "obeys R (first_open s)" for s
    unfolding first_open_def by (intro op_rules transitions)
  then show ?thesis unfolding handleWebSocket_def by (intro op_rules)
qed

lemma billing_R:
  "obeys R (webhook_Handle s secret raw sig)" "obeys R (acquireFree L ctx body)"
  unfolding webhook_Handle_def acquireFree_def
  by (intro op_rules)+

lemma register_R: "obeys R (register c body)"
proof -
  have "obeys R (Register c email password)" for email password
    unfolding Register_def Let_def by (intro op_rules user_create) simp
  then show ?thesis unfolding register_def by (intro op_rules)
qed

lemma auth_Middleware_R: "(\<And>u. obeys R (nxt u)) \<Longrightarrow> obeys R (auth_Middleware c r nxt)"
  unfolding auth_Middleware_def Let_def by (intro op_rules ValidateToken_R)

lemma admin_Middleware_R: "(\<And>u. obeys R (nxt u)) \<Longrightarrow> obeys R (admin_Middleware nxt ctx)"
  unfolding admin_Middleware_def by (intro op_rules)

lemma admin_R:
  "obeys R (retryProvision L str)" "obeys R (retryGrade L str)" "obeys R (forceDestroy L str)"
  unfolding retryProvision_def retryGrade_def forceDestroy_def
  by (intro op_rules transitions enqueues)+

end

locale expiry_effect = operation_effect R for R :: "'p world \<Rightarrow> 'p world \<Rightarrow> bool" +
  assumes expire: "obeys R (TransitionAttempt i Expired)"
begin

lemma HandleExpireAttempt_R: "obeys R (HandleExpireAttempt L payload)"
  unfolding HandleExpireAttempt_def by (intro op_rules expire enqueues)

end

section \<open>From statements to operations\<close>

text \<open>A transaction is as good as its statements.\<close>

lemma transaction_effect:
  fixes steps :: "('p stmt \<times> string) list"
  assumes "world_effect R" and "\<And>st msg. (st, msg) \<in> set steps \<Longrightarrow> obeys R (sql_exec st)"
  shows "obeys R (transaction steps)"
proof -
  note rules = preorder_effect.obeys_result preorder_effect.obeys_try
  have p: "preorder_effect R" using assms(1) by (rule world_effect.axioms)
  have steps: "obeys R (tx_steps steps)"
    using assms(2)
  proof (induction steps)
    case Nil
    show ?case by (simp only: tx_steps.simps preorder_effect.obeys_result [OF p])
  next
    case (Cons s steps)
    then have "obeys R (sql_exec (fst s))" and "obeys R (tx_steps steps)"
      by (metis list.set_intros(1) prod.collapse, metis list.set_intros(2))
    then show ?case
      by (cases s)
         (simp only: tx_steps.simps fst_conv preorder_effect.obeys_try [OF p]
           preorder_effect.obeys_result [OF p])
  qed
  show ?thesis
  proof (rule obeysI)
    fix w :: "'p world"
    obtain f w1 where d: "draw_outcome w = (f, w1)" by fastforce
    obtain r w2 where t: "tx_steps steps w1 = (r, w2)" by fastforce
    obtain g w3 where d3: "draw_outcome w2 = (g, w3)" by fastforce
    have 1: "R w w1" by (rule world_effect.draw_outcome_R [OF assms(1) d])
    have 2: "R w1 w2" using steps t by (rule obeysD')
    have 3: "R w2 w3" by (rule world_effect.draw_outcome_R [OF assms(1) d3])
    have 4: "R w w3" by (rule preorder_effect.trans [OF p 1 preorder_effect.trans [OF p 2 3]])
    have 5: "R w (w1\<lparr>w_faults := fs\<rparr>)" for fs
      by (rule preorder_effect.trans [OF p 1 world_effect.faults [OF assms(1)]])
    show "R w (snd (transaction steps w))"
      by (cases f; cases r; cases g)
         (simp_all add: transaction_def Let_def d t d3 1 4 5)
  qed
qed

locale table_effect = world_effect R for R :: "'p world \<Rightarrow> 'p world \<Rightarrow> bool" +
  assumes st_user: "uIsAdmin u = False \<Longrightarrow> obeys R (Users_Create u)"
    and st_insert_product: "obeys R (sql_exec (insert_product pd))"
    and st_delete_product: "obeys R (sql_exec (delete_product i))"
    and st_update_product: "obeys R (Products_Update pd)"
    and st_insert_test: "obeys R (sql_exec (insert_test t))"
    and st_delete_test: "obeys R (sql_exec (delete_test i))"
    and st_update_test: "obeys R (Tests_Update t)"
    and st_purchase: "obeys R (Purchases_Create pu)"
    and st_decrement: "obeys R (Purchases_DecrementAttemptsRemaining i)"
    and st_increment: "obeys R (Purchases_IncrementAttemptsRemaining i)"
    and st_attempt: "obeys R (Attempts_Create (new_attempt i p now))"
    and st_transition: "to \<in> live_targets \<Longrightarrow> obeys R (TransitionAttempt i to)"
    and st_score: "obeys R (Attempts_UpdateScore i sc mx)"
    and st_environment: "obeys R (Environments_Create e)"
    and st_environment_status: "obeys R (Environments_UpdateStatus i es)"
    and st_session: "obeys R (Sessions_Create s)"
    and st_opened: "obeys R (Sessions_UpdateFirstOpenedAt i now)"
    and st_version: "obeys R (Scenarios_CreateVersion v)"
    and st_task: "obeys R (Scenarios_CreateTask tk)"
    and st_check: "obeys R (Scenarios_CreateCheck ck)"
    and st_enqueue: "k \<in> live_kinds \<Longrightarrow> obeys R (Enqueue k payload opts)"
begin

lemma t_reads:
  "obeys R (Products_GetByID i)" "obeys R (Products_GetByTitle ti)" "obeys R (Tests_GetByID i)"
  "obeys R (Tests_GetWithProduct i)" "obeys R (Tests_HasPurchases i)"
  "obeys R (Scenarios_GetVersionByExternalID x g)"
  unfolding store_defs by auto

lemma t_exec_only: "obeys R (sql_exec st) \<Longrightarrow> obeys R (exec_only st)"
  unfolding exec_only_def by auto

lemma t_creates:
  "obeys R (Products_Create pd)" "obeys R (Tests_Create t)"
  unfolding Products_Create_def Tests_Create_def
  by (intro t_exec_only st_insert_product st_insert_test)+

lemmas t_rules = t_reads t_creates obeys_result obeys_ok obeys_fail obeys_bind obeys_try
  obeys_ignore obeys_if obeys_option obeys_sum obeys_for_each obeys_uuid_New obeys_time_Now
  obeys_on_ext

lemma t_create_purchase: "obeys R (create_purchase usr tst t)"
  unfolding create_purchase_def Let_def by (intro t_rules st_purchase)

lemma t_checkout: "obeys R (HandleCheckoutCompleted L sess)"
  unfolding HandleCheckoutCompleted_def by (intro t_rules t_create_purchase)

lemma t_free: "obeys R (CreateFreePurchase usr tst)"
  unfolding CreateFreePurchase_def by (intro t_rules t_create_purchase)

lemma t_createTest: "obeys R (createTest L body)"
  unfolding createTest_def
  by (intro t_rules transaction_effect)
     (auto intro!: world_effect_axioms st_insert_product st_insert_test)

lemma t_updateTest: "obeys R (updateTest L str body)"
  unfolding updateTest_def Let_def by (intro t_rules st_update_product st_update_test)

lemma t_deleteTest: "obeys R (deleteTest L str)"
  unfolding deleteTest_def
  by (intro t_rules transaction_effect)
     (auto intro!: world_effect_axioms st_delete_product st_delete_test)

lemma t_import_tasks: "obeys R (import_tasks prompts sv now ts ids)"
  by (induction ts arbitrary: ids) (auto intro!: t_rules st_task)

lemma t_import_checks: "obeys R (import_checks ids now cs)"
  by (induction cs) (simp_all only: import_checks.simps, (intro t_rules st_check; assumption?)+)

lemma t_importParsedScenario: "obeys R (importParsedScenario ps g)"
  unfolding importParsedScenario_def import_new_version_def find_or_create_product_def
    import_test_def Let_def
  by (intro t_rules st_version t_import_tasks t_import_checks)

lemma t_ImportAll: "obeys R (ImportAll rp path)"
  unfolding ImportAll_def Let_def by (intro t_rules t_importParsedScenario)

end

sublocale table_effect \<subseteq> operation_effect R
  by unfold_locales
     (auto intro!: st_user st_decrement st_increment st_attempt st_transition st_score
       st_environment st_environment_status st_session st_opened st_enqueue t_checkout t_free
       t_createTest t_updateTest t_deleteTest t_ImportAll)

end
