(* ===== verification/Lifecycle.thy ===== *)
theory Lifecycle
  imports Effects
begin

text \<open>
  The life of an attempt across whole programs.  \<open>lifecycle\<close> relates two worlds when no attempt
  was lost, each moved along legal transitions only, and new ones started as requested; every
  operation respects it, whatever fails.  \<open>working\<close> is the set of statuses that are ever
  stored: \<open>expired\<close>, \<open>cleanup_pending\<close>, \<open>destroyed\<close> and what would follow them is not among them.
  \<open>balances_ok\<close> is the invariant of the numbers: limits of tests are positive and no purchase
  has a negative number of attempts left.
\<close>

section \<open>Evolution of the attempts\<close>

definition attempt_evolves :: "attempt \<Rightarrow> attempt \<Rightarrow> bool" where
  "attempt_evolves a b \<longleftrightarrow> aID b = aID a \<and> aPurchasedTestID b = aPurchasedTestID a \<and>
     aCreatedAt b = aCreatedAt a \<and> reaches (aStatus a) (aStatus b)"

definition evolved :: "attempt list \<Rightarrow> attempt list \<Rightarrow> bool" where
  "evolved as bs \<longleftrightarrow> (\<exists>old new. bs = old @ new \<and> list_all2 attempt_evolves as old \<and>
     (\<forall>a \<in> set new. reaches AttemptRequested (aStatus a)))"

definition lifecycle :: "'p world \<Rightarrow> 'p world \<Rightarrow> bool" where
  "lifecycle w w' \<longleftrightarrow> (unique_key aID (w_attempts w) \<longrightarrow>
     unique_key aID (w_attempts w') \<and> evolved (w_attempts w) (w_attempts w'))"

lemma attempt_evolves_refl [simp]: "attempt_evolves a a"
  by (auto simp: attempt_evolves_def)

lemma evolvedI:
  "list_all2 attempt_evolves as old \<Longrightarrow> (\<And>a. a \<in> set new \<Longrightarrow> reaches AttemptRequested (aStatus a)) \<Longrightarrow>
   evolved as (old @ new)"
  by (auto simp: evolved_def)

lemma attempt_evolves_trans: "attempt_evolves a b \<Longrightarrow> attempt_evolves b c \<Longrightarrow> attempt_evolves a c"
  by (auto simp: attempt_evolves_def intro: reaches_trans)

lemma evolved_refl [simp]: "evolved as as"
  using evolvedI [of as as "[]"] by (simp add: list.rel_refl)

lemma evolved_trans:
  assumes "evolved as bs" and "evolved bs cs"
  shows "evolved as cs"
proof -
  obtain old new where 1: "bs = old @ new" "list_all2 attempt_evolves as old"
    "\<forall>a \<in> set new. reaches AttemptRequested (aStatus a)"
    using assms(1) by (auto simp: evolved_def)
  obtain old2 new2 where 2: "cs = old2 @ new2" "list_all2 attempt_evolves bs old2"
    "\<forall>a \<in> set new2. reaches AttemptRequested (aStatus a)"
    using assms(2) by (auto simp: evolved_def)
  obtain o3 n3 where 3: "old2 = o3 @ n3" "list_all2 attempt_evolves old o3"
    "list_all2 attempt_evolves new n3"
    using 1(1) 2(2) by (auto simp: list_all2_append1)
  have "list_all2 attempt_evolves as o3"
    using 1(2) 3(2) by (rule list_all2_trans [rotated]) (rule attempt_evolves_trans)
  moreover have "\<forall>a \<in> set n3. reaches AttemptRequested (aStatus a)"
  proof
    fix b
    assume "b \<in> set n3"
    with 3(3) obtain a where "a \<in> set new" and "attempt_evolves a b"
      by (blast dest: list_all2_partner_left)
    with 1(3) show "reaches AttemptRequested (aStatus b)"
      by (auto simp: attempt_evolves_def intro: reaches_trans)
  qed
  moreover have "cs = o3 @ (n3 @ new2)" using 2(1) 3(1) by simp
  moreover have "evolved as (o3 @ (n3 @ new2))"
    using calculation(1,2) 2(3) by (intro evolvedI) auto
  ultimately show ?thesis by simp
qed

lemma lifecycle_same: "w_attempts w' = w_attempts w \<Longrightarrow> lifecycle w w'"
  by (simp add: lifecycle_def)

lemma evolved_update:
  assumes "\<And>a. a \<in> set as \<Longrightarrow> p a \<Longrightarrow> attempt_evolves a (f a)"
  shows "evolved as (update_rows p f as)"
proof -
  have "list_all2 attempt_evolves as (update_rows p f as)"
    using assms by (induction as) auto
  then show ?thesis using evolvedI [of as _ "[]"] by simp
qed

lemma evolved_append: "aStatus a = AttemptRequested \<Longrightarrow> evolved as (as @ [a])"
  by (rule evolvedI) (auto simp: list.rel_refl)

lemma evolved_lookup:
  assumes "evolved as bs" and "a \<in> set as"
  obtains b where "b \<in> set bs" and "attempt_evolves a b"
proof -
  obtain old new where "bs = old @ new" and "list_all2 attempt_evolves as old"
    using assms(1) by (auto simp: evolved_def)
  with assms(2) that show thesis
    by (auto dest: list_all2_partner_right)
qed

lemma TransitionAttempt_lifecycle: "obeys lifecycle (TransitionAttempt i to)"
proof (rule obeysI)
  fix w :: "'p world"
  show "lifecycle w (snd (TransitionAttempt i to w))"
  proof (cases "Attempts_GetByID i w")
    case (Pair r w1)
    then obtain fs where w1: "w1 = w\<lparr>w_faults := fs\<rparr>"
      unfolding store_defs using sql_get_state by blast
    show ?thesis
    proof (cases r)
      case (Inl e)
      with Pair w1 show ?thesis by (simp add: TransitionAttempt_def lifecycle_same)
    next
      case (Inr a)
      with Pair have found: "find (\<lambda>b. aID b = i) (w_attempts w1) = Some a"
        unfolding store_defs by (auto dest: sql_get_InrD)
      show ?thesis
      proof (cases "ValidTransition (aStatus a) to")
        case False
        with Pair Inr w1 show ?thesis by (simp add: TransitionAttempt_def lifecycle_same)
      next
        case valid: True
        obtain u w2 where upd: "Attempts_UpdateStatus i to w1 = (u, w2)" by fastforce
        then have "snd (TransitionAttempt i to w) = w2"
          using Pair Inr valid by (cases u) (simp_all add: TransitionAttempt_def)
        moreover have "lifecycle w w2"
          using upd unfolding Attempts_UpdateStatus_def
        proof (cases rule: exec_only_state)
          case (none fs)
          with w1 show ?thesis by (simp add: lifecycle_same)
        next
          case (effect fs n)
          show ?thesis
            unfolding lifecycle_def
          proof (intro impI conjI)
            assume u: "unique_key aID (w_attempts w)"
            from effect w1 have w2: "w_attempts w2 =
                update_rows (\<lambda>a. aID a = i) (\<lambda>a. a\<lparr>aStatus := to\<rparr>) (w_attempts w)"
              by auto
            from u w2 show "unique_key aID (w_attempts w2)" by simp
            from found w1 have a: "a \<in> set (w_attempts w)" "aID a = i" by (auto dest: find_SomeD)
            have "b = a" if "b \<in> set (w_attempts w)" "aID b = i" for b
              using unique_keyD [OF u] a that by metis
            with valid show "evolved (w_attempts w) (w_attempts w2)"
              unfolding w2 by (intro evolved_update) (auto simp: attempt_evolves_def reaches_edge)
          qed
        qed
        ultimately show ?thesis by simp
      qed
    qed
  qed
qed

interpretation life: world_effect "lifecycle :: 'p world \<Rightarrow> _"
proof
  fix w t u :: "'p world"
  show "lifecycle w w" by (simp add: lifecycle_def)
  show "lifecycle w t \<Longrightarrow> lifecycle t u \<Longrightarrow> lifecycle w u"
    by (auto simp: lifecycle_def intro: evolved_trans)
qed (simp_all add: lifecycle_def)

text \<open>Statements on other tables.\<close>

lemma lifecycle_others:
  "obeys lifecycle (Users_Create u :: ('p world, unit) eprog)"
  "obeys lifecycle (sql_exec (insert_product pd) :: ('p world, nat) eprog)"
  "obeys lifecycle (sql_exec (delete_product i) :: ('p world, nat) eprog)"
  "obeys lifecycle (Products_Update pd :: ('p world, unit) eprog)"
  "obeys lifecycle (sql_exec (insert_test t) :: ('p world, nat) eprog)"
  "obeys lifecycle (sql_exec (delete_test i) :: ('p world, nat) eprog)"
  "obeys lifecycle (Tests_Update t :: ('p world, unit) eprog)"
  "obeys lifecycle (Purchases_Create pu :: ('p world, unit) eprog)"
  "obeys lifecycle (Purchases_IncrementAttemptsRemaining i :: ('p world, unit) eprog)"
  "obeys lifecycle (Environments_Create e :: ('p world, unit) eprog)"
  "obeys lifecycle (Environments_UpdateStatus i es :: ('p world, unit) eprog)"
  "obeys lifecycle (Sessions_Create s :: ('p world, unit) eprog)"
  "obeys lifecycle (Sessions_UpdateFirstOpenedAt i now :: ('p world, unit) eprog)"
  "obeys lifecycle (Scenarios_CreateVersion v :: ('p world, unit) eprog)"
  "obeys lifecycle (Scenarios_CreateTask tk :: ('p world, unit) eprog)"
  "obeys lifecycle (Scenarios_CreateCheck ck :: ('p world, unit) eprog)"
  "obeys lifecycle (Enqueue k payload opts :: ('p world, unit) eprog)"
  unfolding store_defs insert_product_def delete_product_def insert_test_def delete_test_def
    Enqueue_def
  by ((rule life.obeys_exec_only life.obeys_sql_exec), rule lifecycle_same, force split: if_splits)+

lemma lifecycle_decrement:
  "obeys lifecycle (Purchases_DecrementAttemptsRemaining i :: ('p world, unit) eprog)"
  unfolding store_defs Let_def
  by (intro life.obeys_try life.obeys_sql_exec life.obeys_if life.obeys_fail life.obeys_ok
      lifecycle_same) auto

lemma lifecycle_attempts:
  "obeys lifecycle (Attempts_Create (new_attempt i p now) :: ('p world, unit) eprog)"
  "obeys lifecycle (Attempts_UpdateScore i sc mx :: ('p world, unit) eprog)"
proof -
  show "obeys lifecycle (Attempts_Create (new_attempt i p now) :: ('p world, unit) eprog)"
    unfolding store_defs
    by (rule life.obeys_exec_only)
       (auto simp: lifecycle_def new_attempt_def intro!: evolved_append split: if_splits)
  show "obeys lifecycle (Attempts_UpdateScore i sc mx :: ('p world, unit) eprog)"
    unfolding store_defs
    by (rule life.obeys_exec_only)
       (auto simp: lifecycle_def attempt_evolves_def reaches.refl intro!: evolved_update split: if_splits)
qed

interpretation life: table_effect "lifecycle :: 'p world \<Rightarrow> _"
  by unfold_locales
     (rule lifecycle_others lifecycle_decrement lifecycle_attempts TransitionAttempt_lifecycle)+

interpretation life: expiry_effect "lifecycle :: 'p world \<Rightarrow> _"
  by unfold_locales (rule TransitionAttempt_lifecycle)


interpretation integ: table_effect "keeps db_ok :: 'p world \<Rightarrow> _"
proof
  show "obeys (keeps db_ok) (sql_exec (insert_product pd) :: ('p world, nat) eprog)"
    and "obeys (keeps db_ok) (sql_exec (insert_test t) :: ('p world, nat) eprog)"
    and "obeys (keeps db_ok) (sql_exec (delete_product i) :: ('p world, nat) eprog)"
    and "obeys (keeps db_ok) (sql_exec (delete_test i) :: ('p world, nat) eprog)" for pd t i
    unfolding insert_product_def insert_test_def delete_product_def delete_test_def
    by (rule integ.obeys_sql_exec; clarsimp simp: keeps_def db_ok_defs)+
  show "obeys (keeps db_ok) (TransitionAttempt i to :: ('p world, unit) eprog)" for i to
    unfolding TransitionAttempt_def Attempts_GetByID_def
    by (intro integ.obeys_try integ.obeys_sql_get integ.obeys_if integ.obeys_fail integ.obeys_ok
        statement_integ)
qed (rule statement_integ)+

interpretation integ: expiry_effect "keeps db_ok :: 'p world \<Rightarrow> _"
  by unfold_locales
     (unfold TransitionAttempt_def Attempts_GetByID_def,
      intro integ.obeys_try integ.obeys_sql_get integ.obeys_if integ.obeys_fail integ.obeys_ok
        statement_integ)

section \<open>The statuses that are ever stored\<close>

definition working_statuses :: "attempt_status set" where
  "working_statuses = {AttemptRequested, EnvironmentProvisioning, EnvironmentReady,
     TerminalOpened, Running, Submitted, Grading, Scored, ProvisionFailed}"

definition working :: "'p world \<Rightarrow> bool" where
  "working w \<longleftrightarrow> (\<forall>a \<in> set (w_attempts w). aStatus a \<in> working_statuses) \<and>
     (\<forall>j \<in> set (w_jobs w). jKind j \<in> live_kinds)"

lemma working_target:
  "s \<in> working_statuses \<Longrightarrow> to \<in> live_targets \<Longrightarrow> ValidTransition s to \<Longrightarrow> to \<in> working_statuses"
  by (auto simp: working_statuses_def live_targets_def)

lemma keeps_working_same:
  "w_attempts w' = w_attempts w \<Longrightarrow> w_jobs w' = w_jobs w \<Longrightarrow> keeps working w w'"
  by (simp add: keeps_def working_def)

interpretation work: world_effect "keeps working :: 'p world \<Rightarrow> _"
  by unfold_locales
     (simp add: keeps_def, simp add: keeps_def, (rule keeps_working_same; simp)+)

lemma TransitionAttempt_working:
  assumes to: "to \<in> live_targets"
  shows "obeys (keeps working) (TransitionAttempt i to :: ('p world, unit) eprog)"
proof -
  have "yields (\<lambda>w :: 'p world. working w) (Attempts_GetByID i) (\<lambda>a. aStatus a \<in> working_statuses)"
    unfolding yields_def
  proof (intro allI impI conjI)
    fix w :: "'p world" and a
    assume w: "working w"
    obtain r w1 where g: "Attempts_GetByID i w = (r, w1)" by fastforce
    then obtain fs where w1: "w1 = w\<lparr>w_faults := fs\<rparr>"
      unfolding store_defs using sql_get_state by blast
    with w g show "working (snd (Attempts_GetByID i w))" by (simp add: working_def)
    assume "fst (Attempts_GetByID i w) = Inr a"
    with g have "find (\<lambda>b. aID b = i) (w_attempts w1) = Some a"
      unfolding store_defs by (auto dest: sql_get_InrD)
    with w w1 show "aStatus a \<in> working_statuses" by (auto simp: working_def dest: find_SomeD)
  qed
  then show ?thesis
    unfolding TransitionAttempt_def
  proof (rule yields_try)
    fix a :: attempt
    assume a: "aStatus a \<in> working_statuses"
    have "obeys (keeps working) (Attempts_UpdateStatus i to :: ('p world, unit) eprog)"
      if "ValidTransition (aStatus a) to"
      using working_target [OF a to that] unfolding store_defs
      by (intro work.obeys_exec_only) (auto simp: keeps_def working_def set_update_rows)
    then show "obeys (keeps working)
       (if \<not> ValidTransition (aStatus a) to then fail (invalid_transition (aStatus a) to)
        else try_do (Attempts_UpdateStatus i to)
               (\<lambda>e. fail (wrap_err ''failed to update status: '' e)) (\<lambda>_. ok ()) :: ('p world, unit) eprog)"
      by (intro work.obeys_if work.obeys_try work.obeys_fail work.obeys_ok) simp
  qed (rule work.obeys_fail)
qed

lemma working_others:
  "obeys (keeps working) (Users_Create u :: ('p world, unit) eprog)"
  "obeys (keeps working) (sql_exec (insert_product pd) :: ('p world, nat) eprog)"
  "obeys (keeps working) (sql_exec (delete_product i) :: ('p world, nat) eprog)"
  "obeys (keeps working) (Products_Update pd :: ('p world, unit) eprog)"
  "obeys (keeps working) (sql_exec (insert_test t) :: ('p world, nat) eprog)"
  "obeys (keeps working) (sql_exec (delete_test i) :: ('p world, nat) eprog)"
  "obeys (keeps working) (Tests_Update t :: ('p world, unit) eprog)"
  "obeys (keeps working) (Purchases_Create pu :: ('p world, unit) eprog)"
  "obeys (keeps working) (Purchases_IncrementAttemptsRemaining i :: ('p world, unit) eprog)"
  "obeys (keeps working) (Environments_Create e :: ('p world, unit) eprog)"
  "obeys (keeps working) (Environments_UpdateStatus i es :: ('p world, unit) eprog)"
  "obeys (keeps working) (Sessions_Create s :: ('p world, unit) eprog)"
  "obeys (keeps working) (Sessions_UpdateFirstOpenedAt i now :: ('p world, unit) eprog)"
  "obeys (keeps working) (Scenarios_CreateVersion v :: ('p world, unit) eprog)"
  "obeys (keeps working) (Scenarios_CreateTask tk :: ('p world, unit) eprog)"
  "obeys (keeps working) (Scenarios_CreateCheck ck :: ('p world, unit) eprog)"
  unfolding store_defs insert_product_def delete_product_def insert_test_def delete_test_def
  by ((rule work.obeys_exec_only work.obeys_sql_exec), rule keeps_working_same; force split: if_splits)+

lemma working_decrement:
  "obeys (keeps working) (Purchases_DecrementAttemptsRemaining i :: ('p world, unit) eprog)"
  unfolding store_defs Let_def
  by (intro work.obeys_try work.obeys_sql_exec work.obeys_if work.obeys_fail work.obeys_ok
      keeps_working_same) auto

lemma working_attempts:
  "obeys (keeps working) (Attempts_Create (new_attempt i p now) :: ('p world, unit) eprog)"
  "obeys (keeps working) (Attempts_UpdateScore i sc mx :: ('p world, unit) eprog)"
  "k \<in> live_kinds \<Longrightarrow> obeys (keeps working) (Enqueue k payload opts :: ('p world, unit) eprog)"
  unfolding store_defs Enqueue_def
  by (rule work.obeys_exec_only;
      force simp: keeps_def working_def new_attempt_def working_statuses_def set_update_rows
        split: if_splits)+

interpretation work: table_effect "keeps working :: 'p world \<Rightarrow> _"
  by unfold_locales
     (rule working_others working_decrement working_attempts TransitionAttempt_working; assumption)+

end
