(* ===== verification/Balances.thy ===== *)
theory Balances
  imports Lifecycle
begin

text \<open>
  The invariant of the numbers: the limits of every test are positive, and no purchase has a
  negative number of attempts left.  It is not an invariant of the single statements (a row
  with any numbers could be inserted); it is one of the operations, because they validate what
  they are given and because what they copy was read under the invariant (\<open>yields\<close>).
\<close>

definition sellable :: "test \<Rightarrow> bool" where
  "sellable t \<longleftrightarrow> 0 < tDurationMinutes t \<and> 0 < tAccessWindowHours t \<and> 0 < tAttemptsAllowed t"

definition balances_ok :: "'p world \<Rightarrow> bool" where
  "balances_ok w \<longleftrightarrow> (\<forall>t \<in> set (w_tests w). sellable t) \<and>
     (\<forall>p \<in> set (w_purchases w). 0 \<le> pAttemptsRemaining p)"

lemma keeps_balances_same:
  "w_tests w' = w_tests w \<Longrightarrow> w_purchases w' = w_purchases w \<Longrightarrow> keeps balances_ok w w'"
  by (simp add: keeps_def balances_ok_def)

interpretation bal: world_effect "keeps balances_ok :: 'p world \<Rightarrow> _"
  by unfold_locales
     (simp add: keeps_def, simp add: keeps_def, (rule keeps_balances_same; simp)+)

section \<open>Statements\<close>

lemma balances_others:
  "obeys (keeps balances_ok) (Users_Create u :: ('p world, unit) eprog)"
  "obeys (keeps balances_ok) (sql_exec (insert_product pd) :: ('p world, nat) eprog)"
  "obeys (keeps balances_ok) (sql_exec (delete_product i) :: ('p world, nat) eprog)"
  "obeys (keeps balances_ok) (Products_Create pd :: ('p world, unit) eprog)"
  "obeys (keeps balances_ok) (Products_Update pd :: ('p world, unit) eprog)"
  "obeys (keeps balances_ok) (Attempts_Create a :: ('p world, unit) eprog)"
  "obeys (keeps balances_ok) (Attempts_UpdateStatus i st :: ('p world, unit) eprog)"
  "obeys (keeps balances_ok) (Attempts_UpdateScore i sc mx :: ('p world, unit) eprog)"
  "obeys (keeps balances_ok) (Environments_Create e :: ('p world, unit) eprog)"
  "obeys (keeps balances_ok) (Environments_UpdateStatus i es :: ('p world, unit) eprog)"
  "obeys (keeps balances_ok) (Sessions_Create s :: ('p world, unit) eprog)"
  "obeys (keeps balances_ok) (Sessions_UpdateFirstOpenedAt i now :: ('p world, unit) eprog)"
  "obeys (keeps balances_ok) (Scenarios_CreateVersion v :: ('p world, unit) eprog)"
  "obeys (keeps balances_ok) (Scenarios_CreateTask tk :: ('p world, unit) eprog)"
  "obeys (keeps balances_ok) (Scenarios_CreateCheck ck :: ('p world, unit) eprog)"
  "obeys (keeps balances_ok) (Enqueue k payload opts :: ('p world, unit) eprog)"
  unfolding store_defs insert_product_def delete_product_def Enqueue_def
  by ((rule bal.obeys_exec_only bal.obeys_sql_exec), rule keeps_balances_same; force split: if_splits)+

lemma balances_delete_test:
  "obeys (keeps balances_ok) (sql_exec (delete_test i) :: ('p world, nat) eprog)"
  unfolding delete_test_def
  by (rule bal.obeys_sql_exec) (auto simp: keeps_def balances_ok_def)

lemma balances_insert_test:
  "sellable t \<Longrightarrow> obeys (keeps balances_ok) (sql_exec (insert_test t) :: ('p world, nat) eprog)"
  unfolding insert_test_def
  by (rule bal.obeys_sql_exec) (auto simp: keeps_def balances_ok_def)

lemma balances_tests:
  "sellable t \<Longrightarrow> obeys (keeps balances_ok) (Tests_Create t :: ('p world, unit) eprog)"
  "sellable t \<Longrightarrow> obeys (keeps balances_ok) (Tests_Update t :: ('p world, unit) eprog)"
  unfolding store_defs insert_test_def
  by (rule bal.obeys_exec_only;
      auto simp: keeps_def balances_ok_def set_update_rows sellable_def)+

lemma balances_purchases:
  "0 \<le> pAttemptsRemaining p \<Longrightarrow>
     obeys (keeps balances_ok) (Purchases_Create p :: ('p world, unit) eprog)"
  "obeys (keeps balances_ok) (Purchases_IncrementAttemptsRemaining i :: ('p world, unit) eprog)"
  unfolding store_defs
  by (rule bal.obeys_exec_only;
      auto simp: keeps_def balances_ok_def set_update_rows add_attempts_def)+

lemma balances_decrement:
  "obeys (keeps balances_ok) (Purchases_DecrementAttemptsRemaining i :: ('p world, unit) eprog)"
  unfolding store_defs Let_def
  by (intro bal.obeys_try bal.obeys_sql_exec bal.obeys_if bal.obeys_fail bal.obeys_ok)
     (auto simp: keeps_def balances_ok_def set_update_rows add_attempts_def)

lemma balances_transition:
  "obeys (keeps balances_ok) (TransitionAttempt i to :: ('p world, unit) eprog)"
  unfolding TransitionAttempt_def Attempts_GetByID_def
  by (intro bal.obeys_try bal.obeys_sql_get bal.obeys_if bal.obeys_fail bal.obeys_ok
      balances_others)

section \<open>What is read\<close>

lemma yields_get:
  fixes q :: "'p world \<Rightarrow> 'a option"
  assumes "\<And>w x. balances_ok w \<Longrightarrow> q w = Some x \<Longrightarrow> V x"
  shows "yields balances_ok (sql_get q) V"
  unfolding yields_def
proof (intro allI impI conjI)
  fix w :: "'p world" and x
  assume w: "balances_ok w"
  obtain r w1 where g: "sql_get q w = (r, w1)" by fastforce
  have w1: "balances_ok w1" using bal.obeys_sql_get w g by (rule obeys_keepsD')
  with g show "balances_ok (snd (sql_get q w))" by simp
  assume "fst (sql_get q w) = Inr x"
  with g have "q w1 = Some x" by (auto dest: sql_get_InrD)
  with w1 show "V x" by (rule assms)
qed

lemma yields_test: "yields balances_ok (Tests_GetByID i :: ('p world, test) eprog) sellable"
  unfolding store_defs
  by (rule yields_get) (auto simp: balances_ok_def dest: find_SomeD)

lemma tests_joined_D: "r \<in> set (tests_joined w) \<Longrightarrow> twTest r \<in> set (w_tests w)"
  by (auto simp: tests_joined_def join_product_def split: if_splits)

lemma yields_joined:
  "yields balances_ok (Tests_GetWithProduct i :: ('p world, test_with_product) eprog)
     (\<lambda>r. sellable (twTest r))"
  unfolding store_defs
  by (rule yields_get) (auto simp: balances_ok_def dest!: find_SomeD tests_joined_D)

section \<open>Operations\<close>

lemma balances_reads:
  "obeys (keeps balances_ok) (Products_GetByID i :: ('p world, product) eprog)"
  "obeys (keeps balances_ok) (Products_GetByTitle ti :: ('p world, product) eprog)"
  "obeys (keeps balances_ok) (Tests_GetByID i :: ('p world, test) eprog)"
  "obeys (keeps balances_ok) (Tests_GetWithProduct i :: ('p world, test_with_product) eprog)"
  "obeys (keeps balances_ok) (Tests_HasPurchases i :: ('p world, bool) eprog)"
  "obeys (keeps balances_ok) (Scenarios_GetVersionByExternalID x g :: ('p world, scenario_version) eprog)"
  unfolding store_defs by auto

lemmas bal_rules = balances_reads bal.obeys_result bal.obeys_ok bal.obeys_fail bal.obeys_bind
  bal.obeys_try bal.obeys_ignore bal.obeys_if bal.obeys_option bal.obeys_sum
  bal.obeys_uuid_New bal.obeys_time_Now bal.obeys_on_ext

lemma create_purchase_balances:
  "sellable t \<Longrightarrow> obeys (keeps balances_ok) (create_purchase usr tst t :: ('p world, uuid) eprog)"
  unfolding create_purchase_def Let_def
  by (intro bal_rules balances_purchases) (simp add: new_purchase_def sellable_def)

lemma HandleCheckoutCompleted_balances:
  "obeys (keeps balances_ok) (HandleCheckoutCompleted L sess :: ('p world, unit) eprog)"
  unfolding HandleCheckoutCompleted_def
  by (intro bal.obeys_option bal.obeys_sum bal.obeys_fail yields_try [OF yields_test]
      bal.obeys_try create_purchase_balances bal.obeys_ok)

lemma CreateFreePurchase_balances:
  "obeys (keeps balances_ok) (CreateFreePurchase usr tst :: ('p world, uuid) eprog)"
  unfolding CreateFreePurchase_def
  by (intro yields_try [OF yields_test] bal.obeys_try bal.obeys_if bal.obeys_fail balances_reads
      create_purchase_balances)

lemma createTest_balances:
  "obeys (keeps balances_ok) (createTest L body :: ('p world, response) prog)"
  unfolding createTest_def
  by (intro bal_rules transaction_effect)
     (auto simp: sellable_def create_test_of_def
       intro!: bal.world_effect_axioms balances_others balances_insert_test)

lemma patch_test_sellable: "patch_test req t = Inr t' \<Longrightarrow> sellable t \<Longrightarrow> sellable t'"
  by (auto simp: patch_test_def sellable_def or_else_def positive_def split: if_splits option.splits)

lemma updateTest_balances:
  "obeys (keeps balances_ok) (updateTest L str body :: ('p world, response) prog)"
  unfolding updateTest_def Let_def
proof (intro bal.obeys_sum bal.obeys_option bal.obeys_result yields_try [OF yields_joined])
  fix testID req existing
  assume ex: "sellable (twTest existing)"
  show "obeys (keeps balances_ok)
     (try_do (Products_GetByID (tProductID (twTest existing)))
       (\<lambda>_. result (InternalError ''failed to fetch product''))
       (\<lambda>stored.
           if \<not> pdIsFree (patch_product req stored) \<and> no_price (pdStripePriceID (patch_product req stored))
           then result (BadRequest ''stripe_price_id is required for paid tests'')
           else try_do (Products_Update (patch_product req stored))
                 (\<lambda>_. result (InternalError ''failed to update product''))
                 (\<lambda>_. case patch_test req (twTest existing) of Inl r \<Rightarrow> result r
                     | Inr test \<Rightarrow>
                         try_do (Tests_Update test)
                          (\<lambda>_. result (InternalError ''failed to update test''))
                          (\<lambda>_. try_do (Tests_GetWithProduct testID)
                                (\<lambda>_. result (InternalError ''failed to fetch updated test''))
                                (\<lambda>t. result (WriteJSON 200 (testWithProductToResponse L t)))))) :: ('p world, response) prog)"
    by (intro bal_rules balances_others balances_tests) (rule patch_test_sellable [OF _ ex])
qed

lemma deleteTest_balances:
  "obeys (keeps balances_ok) (deleteTest L str :: ('p world, response) prog)"
  unfolding deleteTest_def
  by (intro bal_rules transaction_effect)
     (auto intro!: bal.world_effect_axioms balances_others balances_delete_test)

lemma import_tasks_balances:
  "obeys (keeps balances_ok) (import_tasks prompts sv now ts ids :: ('p world, string \<rightharpoonup> uuid) eprog)"
  by (induction ts arbitrary: ids) (auto intro!: bal_rules balances_others)

lemma import_checks_balances:
  "obeys (keeps balances_ok) (import_checks ids now cs :: ('p world, unit) eprog)"
  by (induction cs) (simp_all only: import_checks.simps, (intro bal_rules balances_others; assumption?)+)

lemma importParsedScenario_balances:
  assumes "valid_scenario (ipScenario ps)"
  shows "obeys (keeps balances_ok) (importParsedScenario ps g :: ('p world, unit) eprog)"
  unfolding importParsedScenario_def import_new_version_def find_or_create_product_def
    import_test_def Let_def
  by (intro bal_rules import_tasks_balances import_checks_balances balances_others balances_tests)
     (use assms in \<open>simp add: sellable_def valid_scenario_def\<close>)

lemma discoverScenarios_valid:
  "discoverScenarios rp path = Inr pss \<Longrightarrow> ps \<in> set pss \<Longrightarrow> valid_scenario (ipScenario ps)"
  by (auto simp: discoverScenarios_def dest!: parse_files_valid parseScenario_valid split: sum.splits)

lemma ImportAll_balances:
  "obeys (keeps balances_ok) (ImportAll rp path :: ('p world, unit) eprog)"
  unfolding ImportAll_def Let_def
  by (intro bal_rules bal.obeys_for_each importParsedScenario_balances)
     (rule discoverScenarios_valid)

interpretation bal: expiry_effect "keeps balances_ok :: 'p world \<Rightarrow> _"
  by unfold_locales
     (rule balances_others balances_decrement balances_purchases balances_transition
        HandleCheckoutCompleted_balances CreateFreePurchase_balances createTest_balances
        updateTest_balances deleteTest_balances ImportAll_balances)+

end
