(* ===== verification/ProxmoxConfig.thy ===== *)
theory ProxmoxConfig
  imports Provider
begin

text \<open>
  \<open>internal/provider/proxmox/config.go\<close> and the template rendering of provider.go: clone
  profiles, their validation, and the substitution of the placeholders in their values.  The
  two loops walk the same string; \<open>accepted_remaining_renders\<close> says what they agree on.
  A Go map that is ranged over is the list of its entries in the order of the iteration.
\<close>

record clone_profile =
  clpTemplateVMID :: int
  clpCloneMode :: string
  clpConfig :: "(string \<times> string) list"

record proxmox_config =
  pcAPIURL :: string
  pcTokenID :: string
  pcTokenSecret :: string
  pcNode :: string
  pcStoragePool :: string
  pcNetworkBridge :: string
  pcVLANID :: int
  pcProfiles :: "string \<rightharpoonup> clone_profile"
  pcSkipTLSVerify :: bool

text \<open>\<open>%q\<close>, for printable ASCII.\<close>

definition go_quote :: "string \<Rightarrow> string" where
  "go_quote s = ''\"'' @ concat (map (\<lambda>c.
     if c = CHR 0x22 then [CHR 0x5C, c] else if c = CHR 0x5C then [c, c] else [c]) s) @ ''\"''"

section \<open>Placeholders\<close>

text \<open>
  One turn of either loop: no \<open>{{\<close>; one that is not closed, after \<open>start\<close> bytes; or a
  placeholder, with the text before it, the text between the braces, and the rest.
\<close>

datatype scan = NoOpening | Unclosed string string | Found string string string

definition scan_placeholder :: "string \<Rightarrow> scan" where
  "scan_placeholder remaining = (case str_index ''{{'' remaining of
       None \<Rightarrow> NoOpening
     | Some start \<Rightarrow> (case str_index ''}}'' (drop (start + 2) remaining) of
           None \<Rightarrow> Unclosed (take start remaining) (drop start remaining)
         | Some fin \<Rightarrow> Found (take start remaining)
             (take fin (drop (start + 2) remaining)) (drop (start + 2 + fin + 2) remaining)))"

lemma scan_FoundD:
  assumes "scan_placeholder s = Found pre inner post"
  shows "s = pre @ ''{{'' @ inner @ ''}}'' @ post"
proof -
  obtain i where i: "str_index ''{{'' s = Some i" and pre: "pre = take i s"
    using assms by (auto simp: scan_placeholder_def split: option.splits)
  obtain j where j: "str_index ''}}'' (drop (i + 2) s) = Some j"
    and inner: "inner = take j (drop (i + 2) s)" and post: "post = drop (i + 2 + j + 2) s"
    using assms i by (auto simp: scan_placeholder_def split: option.splits)
  have "s = pre @ ''{{'' @ drop (i + 2) s"
    using str_index_SomeD [OF i] pre by simp
  also have "drop (i + 2) s = inner @ ''}}'' @ post"
    using str_index_SomeD [OF j] inner post by (simp add: add.commute add.left_commute)
  finally show ?thesis .
qed

lemma scan_Found_length:
  "scan_placeholder s = Found pre inner post \<Longrightarrow> length post < length s"
  by (drule scan_FoundD) simp

lemma scan_Found_pre:
  assumes "scan_placeholder s = Found pre inner post"
  shows "str_index ''{{'' pre = None"
proof -
  obtain i where i: "str_index ''{{'' s = Some i" and pre: "pre = take i s"
    using assms by (auto simp: scan_placeholder_def split: option.splits)
  have "str_index ''{{'' s = Some i \<Longrightarrow> str_index ''{{'' (take i s) = None" for i s
  proof (induction s arbitrary: i)
    case Nil
    then show ?case by simp
  next
    case (Cons c s)
    show ?case
    proof (cases i)
      case 0
      then show ?thesis by simp
    next
      case (Suc j)
      with Cons.prems have np: "\<not> has_prefix ''{{'' (c # s)" and ij: "str_index ''{{'' s = Some j"
        by (auto split: if_splits)
      have "\<not> has_prefix ''{{'' (c # take j s)"
        using np by (cases j; cases s) (auto simp: has_prefix_def)
      with Cons.IH [OF ij] Suc show ?thesis by simp
    qed
  qed
  with i pre show ?thesis by simp
qed

definition placeholder_error :: "string \<Rightarrow> string \<Rightarrow> string \<Rightarrow> go_error" where
  "placeholder_error profileName key placeholder = Plain
     (''proxmox profile '' @ go_quote profileName @ '' config key '' @ go_quote key @
      '' uses unsupported placeholder '' @ go_quote (''{{ '' @ placeholder @ '' }}'') @
      ''; supported placeholders are {{ ssh_public_key }} and {{ hostname }}'')"

definition unterminated_error :: "string \<Rightarrow> string \<Rightarrow> string \<Rightarrow> go_error" where
  "unterminated_error profileName key value = Plain
     (''proxmox profile '' @ go_quote profileName @ '' config key '' @ go_quote key @
      '' has unterminated placeholder in value '' @ go_quote value)"

function validate_remaining :: "string \<Rightarrow> string \<Rightarrow> string \<Rightarrow> string \<Rightarrow> go_error option" where
  "validate_remaining profileName key value remaining = (case scan_placeholder remaining of
       NoOpening \<Rightarrow> None
     | Unclosed pre rest \<Rightarrow> Some (unterminated_error profileName key value)
     | Found pre inner post \<Rightarrow>
         (let placeholder = trim_space inner in
          if placeholder \<noteq> ''ssh_public_key'' \<and> placeholder \<noteq> ''hostname''
          then Some (placeholder_error profileName key placeholder)
          else validate_remaining profileName key value post))"
  by pat_completeness auto
termination
  by (relation "measure (\<lambda>(p, k, v, r). length r)") (auto dest: scan_Found_length)

declare validate_remaining.simps [simp del]

definition validatePlaceholders :: "string \<Rightarrow> string \<Rightarrow> string \<Rightarrow> go_error option" where
  "validatePlaceholders profileName key value = validate_remaining profileName key value value"

function renderProfileValue :: "string \<Rightarrow> vm_request \<Rightarrow> string" where
  "renderProfileValue remaining vm = (case scan_placeholder remaining of
       NoOpening \<Rightarrow> remaining
     | Unclosed pre rest \<Rightarrow> pre @ rest
     | Found pre inner post \<Rightarrow>
         (let placeholder = trim_space inner in
          pre @
          (if placeholder = ''ssh_public_key'' then trim_space (vrSSHPublicKey vm)
           else if placeholder = ''hostname'' then vrHostname vm
           else ''{{'' @ inner @ ''}}'') @
          renderProfileValue post vm))"
  by pat_completeness auto
termination
  by (relation "measure (\<lambda>(r, vm). length r)") (auto dest: scan_Found_length)

declare renderProfileValue.simps [simp del]

definition renderProfileConfig :: "clone_profile \<Rightarrow> vm_request \<Rightarrow> (string \<times> string) list" where
  "renderProfileConfig profile vm =
     map (\<lambda>kv. (fst kv, renderProfileValue (snd kv) vm)) (clpConfig profile)"

section \<open>Validation (config.go)\<close>

definition unsupported_key :: "string \<Rightarrow> string \<Rightarrow> go_error option" where
  "unsupported_key profileName key =
     (if key = ''cipublickey'' then Some (Plain (''proxmox profile '' @ go_quote profileName @
         '' uses unsupported config key '' @ go_quote key @ ''; use '' @ go_quote ''sshkeys'' @
         '' instead''))
      else if key = ''ciname'' then Some (Plain (''proxmox profile '' @ go_quote profileName @
         '' uses unsupported config key '' @ go_quote key @ ''; VM hostname is set during clone''))
      else None)"

fun validateProfileConfig :: "string \<Rightarrow> (string \<times> string) list \<Rightarrow> go_error option" where
  "validateProfileConfig profileName [] = None"
| "validateProfileConfig profileName ((key, value) # kvs) =
     (case unsupported_key profileName key of Some e \<Rightarrow> Some e | None \<Rightarrow>
      if has_prefix ''ipconfig'' key \<and> str_contains ''bridge='' value
      then Some (Plain (''proxmox profile '' @ go_quote profileName @ '' has invalid '' @ key @
        '' value '' @ go_quote value @ ''; bridge belongs in net0/template NIC config, not '' @ key))
      else (case validatePlaceholders profileName key value of
          Some e \<Rightarrow> Some e | None \<Rightarrow> validateProfileConfig profileName kvs))"

definition default_mode :: "clone_profile \<Rightarrow> clone_profile" where
  "default_mode p = (if clpCloneMode p = '''' then p\<lparr>clpCloneMode := ''linked''\<rparr> else p)"

fun check_profiles ::
  "(string \<times> clone_profile) list \<Rightarrow> go_error + (string \<times> clone_profile) list"
where
  "check_profiles [] = Inr []"
| "check_profiles ((name, raw) # rest) =
     (let profile = default_mode raw in
      if trim_space name = '''' then Inl (Plain ''proxmox profile name cannot be empty'')
      else if clpTemplateVMID raw \<le> 0
      then Inl (Plain (''proxmox profile '' @ go_quote name @
                       '' requires template_vmid greater than 0''))
      else if clpCloneMode profile \<noteq> ''full'' \<and> clpCloneMode profile \<noteq> ''linked''
      then Inl (Plain (''proxmox profile '' @ go_quote name @ '' has invalid clone_mode '' @
                       go_quote (clpCloneMode profile) @ ''; must be 'full' or 'linked'' @ [CHR 0x27]))
      else (case validateProfileConfig name (clpConfig profile) of
          Some e \<Rightarrow> Inl e
        | None \<Rightarrow> (case check_profiles rest of
              Inl e \<Rightarrow> Inl e | Inr ps \<Rightarrow> Inr ((name, profile) # ps))))"

text \<open>Reading the file and \<open>yaml.Unmarshal\<close> are library calls, and arguments here.\<close>

definition LoadCloneProfiles ::
  "(string \<Rightarrow> go_error + string) \<Rightarrow> (string \<Rightarrow> go_error + (string \<times> clone_profile) list) \<Rightarrow>
   string \<Rightarrow> go_error + (string \<rightharpoonup> clone_profile)"
where
  "LoadCloneProfiles read_file yaml_Unmarshal path = (case read_file path of
       Inl e \<Rightarrow> Inl (wrap_err ''reading proxmox profiles file: '' e)
     | Inr text \<Rightarrow> (case yaml_Unmarshal text of
         Inl e \<Rightarrow> Inl (wrap_err ''parsing proxmox profiles file: '' e)
       | Inr profiles \<Rightarrow>
         if profiles = []
         then Inl (Plain ''proxmox profiles file must define at least one profile'')
         else (case check_profiles profiles of
             Inl e \<Rightarrow> Inl e | Inr ps \<Rightarrow> Inr (map_of ps))))"

section \<open>What a loaded profile is\<close>

definition sound_entry :: "string \<times> string \<Rightarrow> bool" where
  "sound_entry kv \<longleftrightarrow> fst kv \<noteq> ''cipublickey'' \<and> fst kv \<noteq> ''ciname'' \<and>
     \<not> (has_prefix ''ipconfig'' (fst kv) \<and> str_contains ''bridge='' (snd kv)) \<and>
     validatePlaceholders '''' (fst kv) (snd kv) = None"

definition sound_profile :: "clone_profile \<Rightarrow> bool" where
  "sound_profile p \<longleftrightarrow> 0 < clpTemplateVMID p \<and> clpCloneMode p \<in> {''full'', ''linked''} \<and>
     list_all sound_entry (clpConfig p)"

text \<open>Whether a value is accepted does not depend on the names that appear in the messages.\<close>

lemma validate_remaining_names:
  "validate_remaining p k v r = None \<longleftrightarrow> validate_remaining p' k' v' r = None"
proof (induction r rule: length_induct)
  case (1 r)
  show ?case
  proof (cases "scan_placeholder r")
    case (Found pre inner post)
    then have "length post < length r" by (rule scan_Found_length)
    with 1 have "validate_remaining p k v post = None \<longleftrightarrow> validate_remaining p' k' v' post = None"
      by blast
    with Found show ?thesis
      by (simp add: validate_remaining.simps [of _ _ _ r] Let_def)
  qed (simp_all add: validate_remaining.simps [of _ _ _ r])
qed

lemma validatePlaceholders_names:
  "validatePlaceholders p k v = None \<longleftrightarrow> validatePlaceholders [] k v = None"
  unfolding validatePlaceholders_def by (rule validate_remaining_names)

lemma validateProfileConfig_sound:
  "validateProfileConfig name kvs = None \<longleftrightarrow> list_all sound_entry kvs"
proof (induction name kvs rule: validateProfileConfig.induct)
  case (1 name)
  then show ?case by simp
next
  case (2 name key val kvs)
  then show ?case
    using validatePlaceholders_names [of name key val]
    by (auto simp: unsupported_key_def sound_entry_def split: option.splits if_splits)
qed

lemma default_mode_simps [simp]:
  "clpTemplateVMID (default_mode p) = clpTemplateVMID p"
  "clpConfig (default_mode p) = clpConfig p"
  by (simp_all add: default_mode_def)

lemma check_profiles_sound:
  "check_profiles raw = Inr ps \<Longrightarrow> (name, p) \<in> set ps \<Longrightarrow> sound_profile p \<and> trim_space name \<noteq> ''''"
proof (induction raw arbitrary: ps)
  case Nil
  then show ?case by simp
next
  case (Cons entry raw)
  obtain nm q where entry: "entry = (nm, q)" by (cases entry)
  with Cons.prems(1) obtain rest where rest: "check_profiles raw = Inr rest"
    and ps: "ps = (nm, default_mode q) # rest" and nm: "trim_space nm \<noteq> ''''"
    and q: "sound_profile (default_mode q)"
    by (auto simp: Let_def sound_profile_def validateProfileConfig_sound
        split: if_splits option.splits sum.splits)
  from Cons.prems(2) ps consider "(name, p) = (nm, default_mode q)" | "(name, p) \<in> set rest"
    by auto
  then show ?case
    by cases (use nm q Cons.IH [OF rest] in auto)
qed

section \<open>Rendering an accepted value\<close>

text \<open>
  Reference: a value is a sequence of literal text and placeholders, each rendered on its own.
\<close>

datatype segment = Literal string | SshKeyHole string | HostnameHole string

fun segment_source :: "segment \<Rightarrow> string" where
  "segment_source (Literal s) = s"
| "segment_source (SshKeyHole inner) = ''{{'' @ inner @ ''}}''"
| "segment_source (HostnameHole inner) = ''{{'' @ inner @ ''}}''"

fun segment_ok :: "segment \<Rightarrow> bool" where
  "segment_ok (Literal s) \<longleftrightarrow> \<not> str_contains ''{{'' s"
| "segment_ok (SshKeyHole inner) \<longleftrightarrow> trim_space inner = ''ssh_public_key''"
| "segment_ok (HostnameHole inner) \<longleftrightarrow> trim_space inner = ''hostname''"

fun segment_text :: "vm_request \<Rightarrow> segment \<Rightarrow> string" where
  "segment_text vm (Literal s) = s"
| "segment_text vm (SshKeyHole inner) = trim_space (vrSSHPublicKey vm)"
| "segment_text vm (HostnameHole inner) = vrHostname vm"

lemma accepted_remaining_renders:
  assumes "validate_remaining p k v r = None"
  shows "\<exists>segs. r = concat (map segment_source segs) \<and> list_all segment_ok segs \<and>
    renderProfileValue r vm = concat (map (segment_text vm) segs)"
  using assms
proof (induction r rule: length_induct)
  case (1 r)
  show ?case
  proof (cases "scan_placeholder r")
    case NoOpening
    then have "\<not> str_contains ''{{'' r"
      by (auto simp: scan_placeholder_def str_contains_def split: option.splits)
    with NoOpening show ?thesis
      by (intro exI [of _ "[Literal r]"]) (simp add: renderProfileValue.simps)
  next
    case (Unclosed pre rest)
    with "1.prems" show ?thesis by (simp add: validate_remaining.simps)
  next
    case (Found pre inner post)
    then have pre: "\<not> str_contains ''{{'' pre"
      using scan_Found_pre by (simp add: str_index_None_iff)
    have ok: "trim_space inner = ''ssh_public_key'' \<or> trim_space inner = ''hostname''"
      and post: "validate_remaining p k v post = None"
      using "1.prems" Found
      by (auto simp: validate_remaining.simps [of _ _ _ r] Let_def split: if_splits)
    obtain segs where segs: "post = concat (map segment_source segs)" "list_all segment_ok segs"
      "renderProfileValue post vm = concat (map (segment_text vm) segs)"
      using "1.IH" scan_Found_length [OF Found] post by blast
    define hole where
      "hole = (if trim_space inner = ''hostname'' then HostnameHole inner else SshKeyHole inner)"
    have "r = concat (map segment_source (Literal pre # hole # segs))"
      using scan_FoundD [OF Found] segs(1) by (simp add: hole_def)
    moreover have "list_all segment_ok (Literal pre # hole # segs)"
      using pre ok segs(2) by (auto simp: hole_def)
    moreover have "renderProfileValue r vm = concat (map (segment_text vm) (Literal pre # hole # segs))"
      using Found ok segs(3) by (auto simp: renderProfileValue.simps [of r] hole_def)
    ultimately show ?thesis by blast
  qed
qed

end
