(* ===== verification/Startup.thy ===== *)
theory Startup
  imports ProxmoxConfig
begin

text \<open>
  Starting the programs: \<open>internal/config\<close> (config.go) reads the environment, \<open>internal/log\<close>
  (log.go) picks the level, \<open>cmd/migrate\<close> (main.go) decides which migrations to run and in which
  order.  The environment is a function from names to values, empty when unset; the migration
  libraries are arguments.
\<close>

section \<open>Reading variables (config.go)\<close>

definition getEnv :: "(string \<Rightarrow> string) \<Rightarrow> string \<Rightarrow> string \<Rightarrow> string" where
  "getEnv env key fallback = (let v = env key in if v \<noteq> '''' then v else fallback)"

definition getDurationEnv :: "(string \<Rightarrow> string) \<Rightarrow> string \<Rightarrow> int \<Rightarrow> int" where
  "getDurationEnv env key fallback =
     (let v = env key in
      if v = '''' then fallback
      else (case atoi v of None \<Rightarrow> fallback | Some secs \<Rightarrow> i64 (secs * 1000000000)))"

definition getBoolEnv :: "(string \<Rightarrow> string) \<Rightarrow> string \<Rightarrow> bool \<Rightarrow> bool" where
  "getBoolEnv env key fallback =
     (let v = env key in
      if v = '''' then fallback
      else (case parse_bool v of None \<Rightarrow> fallback | Some b \<Rightarrow> b))"

definition getIntEnv :: "(string \<Rightarrow> string) \<Rightarrow> string \<Rightarrow> int \<Rightarrow> int" where
  "getIntEnv env key fallback =
     (let v = env key in
      if v = '''' then fallback
      else (case atoi v of None \<Rightarrow> fallback | Some n \<Rightarrow> n))"

record app_config =
  cfDatabaseURL :: string
  cfHTTPAddr :: string
  cfJWTSecret :: string
  cfStripeSecretKey :: string
  cfStripeWebhookSecret :: string
  cfStripeSuccessURL :: string
  cfStripeCancelURL :: string
  cfProvider :: string
  cfProxmoxURL :: string
  cfProxmoxTokenID :: string
  cfProxmoxTokenSecret :: string
  cfProxmoxNode :: string
  cfProxmoxStoragePool :: string
  cfProxmoxNetworkBridge :: string
  cfProxmoxVLANID :: int
  cfProxmoxProfilesFile :: string
  cfProxmoxProfiles :: "string \<rightharpoonup> clone_profile"
  cfProxmoxSkipTLSVerify :: bool
  cfProvisionerMode :: string
  cfProxyAddr :: string
  cfScenarioRepoPath :: string
  cfLogLevel :: string
  cfJWTExpiry :: int

definition read_config :: "(string \<Rightarrow> string) \<Rightarrow> app_config" where
  "read_config env = \<lparr>
     cfDatabaseURL = getEnv env ''DATABASE_URL'' ''postgres://localhost:5432/painkiller?sslmode=disable'',
     cfHTTPAddr = getEnv env ''HTTP_ADDR'' '':8080'',
     cfJWTSecret = getEnv env ''JWT_SECRET'' '''',
     cfStripeSecretKey = getEnv env ''STRIPE_SECRET_KEY'' '''',
     cfStripeWebhookSecret = getEnv env ''STRIPE_WEBHOOK_SECRET'' '''',
     cfStripeSuccessURL = getEnv env ''STRIPE_SUCCESS_URL'' ''http://localhost:3000/success'',
     cfStripeCancelURL = getEnv env ''STRIPE_CANCEL_URL'' ''http://localhost:3000/cancel'',
     cfProvider = getEnv env ''PROVIDER'' ''mock'',
     cfProxmoxURL = getEnv env ''PROXMOX_URL'' '''',
     cfProxmoxTokenID = getEnv env ''PROXMOX_TOKEN_ID'' '''',
     cfProxmoxTokenSecret = getEnv env ''PROXMOX_TOKEN_SECRET'' '''',
     cfProxmoxNode = getEnv env ''PROXMOX_NODE'' '''',
     cfProxmoxStoragePool = getEnv env ''PROXMOX_STORAGE_POOL'' ''local-lvm'',
     cfProxmoxNetworkBridge = getEnv env ''PROXMOX_NETWORK_BRIDGE'' ''vmbr0'',
     cfProxmoxVLANID = getIntEnv env ''PROXMOX_VLAN_ID'' 0,
     cfProxmoxProfilesFile = getEnv env ''PROXMOX_PROFILES_FILE'' '''',
     cfProxmoxProfiles = Map.empty,
     cfProxmoxSkipTLSVerify = getBoolEnv env ''PROXMOX_SKIP_TLS_VERIFY'' False,
     cfProvisionerMode = getEnv env ''PROVISIONER_MODE'' ''ansible'',
     cfProxyAddr = getEnv env ''PROXY_ADDR'' '''',
     cfScenarioRepoPath = getEnv env ''SCENARIO_REPO_PATH'' '''',
     cfLogLevel = getEnv env ''LOG_LEVEL'' ''info'',
     cfJWTExpiry = getDurationEnv env ''JWT_EXPIRY'' (24 * 3600000000000)\<rparr>"

definition proxmox_incomplete :: "app_config \<Rightarrow> bool" where
  "proxmox_incomplete c \<longleftrightarrow> cfProxmoxURL c = '''' \<or> cfProxmoxTokenID c = '''' \<or>
     cfProxmoxTokenSecret c = '''' \<or> cfProxmoxNode c = '''' \<or> cfProxmoxProfilesFile c = ''''"

definition config_Load ::
  "(string \<Rightarrow> go_error + (string \<rightharpoonup> clone_profile)) \<Rightarrow> (string \<Rightarrow> string) \<Rightarrow> go_error + app_config"
where
  "config_Load load_profiles env =
     (let cfg = read_config env in
      if cfJWTSecret cfg = '''' then Inl (Plain ''JWT_SECRET is required'')
      else if cfProvider cfg \<noteq> ''mock'' \<and> cfProvider cfg \<noteq> ''proxmox''
      then Inl (Plain (''PROVIDER must be 'mock' or 'proxmox', got '' @ go_quote (cfProvider cfg)))
      else if cfProvider cfg = ''proxmox'' then
        (if proxmox_incomplete cfg
         then Inl (Plain (''PROXMOX_URL, PROXMOX_TOKEN_ID, PROXMOX_TOKEN_SECRET, PROXMOX_NODE, '' @
                          ''and PROXMOX_PROFILES_FILE are required when PROVIDER=proxmox''))
         else (case load_profiles (cfProxmoxProfilesFile cfg) of
             Inl e \<Rightarrow> Inl e
           | Inr profiles \<Rightarrow> Inr (cfg\<lparr>cfProxmoxProfiles := profiles\<rparr>)))
      else Inr cfg)"

text \<open>What the server passes on to the Proxmox provider (cmd/server/main.go).\<close>

definition proxmox_config_of :: "app_config \<Rightarrow> proxmox_config" where
  "proxmox_config_of c = \<lparr>pcAPIURL = cfProxmoxURL c, pcTokenID = cfProxmoxTokenID c,
     pcTokenSecret = cfProxmoxTokenSecret c, pcNode = cfProxmoxNode c,
     pcStoragePool = cfProxmoxStoragePool c, pcNetworkBridge = cfProxmoxNetworkBridge c,
     pcVLANID = cfProxmoxVLANID c, pcProfiles = cfProxmoxProfiles c,
     pcSkipTLSVerify = cfProxmoxSkipTLSVerify c\<rparr>"

section \<open>Log level (log.go)\<close>

datatype log_level = LevelDebug | LevelInfo | LevelWarn | LevelError

definition log_level_of :: "string \<Rightarrow> log_level" where
  "log_level_of level =
     (let l = to_lower level in
      if l = ''debug'' then LevelDebug else if l = ''warn'' then LevelWarn
      else if l = ''error'' then LevelError else LevelInfo)"

section \<open>Migrations (cmd/migrate/main.go)\<close>

text \<open>The calls to the migration libraries; a target version of -1 removes River's tables.\<close>

datatype app_migration = MigrateUp | MigrateDown | MigrateSteps int

record river_opts =
  roDown :: bool
  roMaxSteps :: int
  roTargetVersion :: int

definition app_migration_of :: "string \<Rightarrow> int \<Rightarrow> go_error + app_migration" where
  "app_migration_of direction steps =
     (if direction = ''up'' then Inr (if 0 < steps then MigrateSteps steps else MigrateUp)
      else if direction = ''down'' then Inr (if 0 < steps then MigrateSteps (- steps) else MigrateDown)
      else Inl (Plain (''invalid direction: '' @ direction)))"

definition river_opts_of :: "string \<Rightarrow> int \<Rightarrow> go_error + river_opts" where
  "river_opts_of direction steps =
     (if direction = ''down'' then
        Inr (if 0 < steps then \<lparr>roDown = True, roMaxSteps = steps, roTargetVersion = 0\<rparr>
             else \<lparr>roDown = True, roMaxSteps = 0, roTargetVersion = - 1\<rparr>)
      else if direction \<noteq> ''up'' then Inl (Plain (''invalid direction: '' @ direction))
      else Inr \<lparr>roDown = False, roMaxSteps = (if 0 < steps then steps else 0), roTargetVersion = 0\<rparr>)"

text \<open>\<open>main\<close>: the program exits at the first failure; an unknown direction runs nothing.\<close>

datatype migration_call = AppMigration app_migration | RiverMigration river_opts

definition migrate_calls :: "string \<Rightarrow> int \<Rightarrow> go_error + migration_call list" where
  "migrate_calls direction steps =
     (case app_migration_of direction steps of Inl e \<Rightarrow> Inl e | Inr a \<Rightarrow>
     (case river_opts_of direction steps of Inl e \<Rightarrow> Inl e | Inr r \<Rightarrow>
       Inr (if direction = ''up'' then [AppMigration a, RiverMigration r]
            else [RiverMigration r, AppMigration a])))"

section \<open>What a loaded configuration is\<close>

lemma config_Load_InrD:
  assumes "config_Load load_profiles env = Inr cfg"
  shows "cfJWTSecret cfg \<noteq> ''''" and "cfProvider cfg = ''mock'' \<or> cfProvider cfg = ''proxmox''"
    and "cfProvider cfg = ''proxmox'' \<Longrightarrow> \<not> proxmox_incomplete cfg \<and>
      load_profiles (cfProxmoxProfilesFile cfg) = Inr (cfProxmoxProfiles cfg)"
  using assms
  by (auto simp: config_Load_def Let_def proxmox_incomplete_def split: if_splits sum.splits)

end
