(* ===== verification/Ansible.thy ===== *)
theory Ansible
  imports Provisioner Paths
begin

text \<open>
  \<open>internal/provisioner/ansible/ansible.go\<close>: running a playbook.  The file system and the child
  process are the record \<open>ansible_env\<close> of programs on the external part of the world.  The
  temporary directory with the private key is removed on every path.
\<close>

record 'p ansible_env =
  anMkdirTemp :: "string \<Rightarrow> ('p, string) eprog"
  anWriteFile :: "string \<Rightarrow> string \<Rightarrow> nat \<Rightarrow> ('p, unit) eprog"
  anRemoveAll :: "string \<Rightarrow> ('p, unit) prog"
  anRun :: "string list \<Rightarrow> string list \<Rightarrow> ('p, unit) eprog"
  anMarshal :: "(string \<rightharpoonup> json) \<Rightarrow> go_error + string"

definition playbook_command :: "string \<Rightarrow> string \<Rightarrow> string \<Rightarrow> string \<Rightarrow> string list" where
  "playbook_command inventoryPath varsPath keyPath playbook =
     [''ansible-playbook'', ''-i'', inventoryPath, ''-e'', CHR ''@'' # varsPath,
      ''--private-key'', keyPath, playbook]"

definition mode_0600 :: nat where
  "mode_0600 = 384"

definition mode_0644 :: nat where
  "mode_0644 = 420"

definition ansible_in_dir ::
  "'p ansible_env \<Rightarrow> provision_spec \<Rightarrow> string \<Rightarrow> ('p, provision_result) eprog"
where
  "ansible_in_dir A spec tmpDir =
     (let keyPath = path_Join tmpDir ''ssh-key'';
          inventoryPath = path_Join tmpDir ''inventory.ini'';
          varsPath = path_Join tmpDir ''vars.yaml'' in
     try_do (anWriteFile A keyPath (psSSHPrivateKey spec) mode_0600)
       (\<lambda>e. fail (wrap_err ''failed to write SSH key: '' e)) (\<lambda>_.
     try_do (anWriteFile A inventoryPath (GenerateInventory spec) mode_0644)
       (\<lambda>e. fail (wrap_err ''failed to write inventory: '' e)) (\<lambda>_.
     try_do (result (GenerateVars (anMarshal A) spec))
       (\<lambda>e. fail (wrap_err ''failed to generate vars: '' e)) (\<lambda>vars.
     try_do (anWriteFile A varsPath vars mode_0644)
       (\<lambda>e. fail (wrap_err ''failed to write vars: '' e)) (\<lambda>_.
     try_do (anRun A (playbook_command inventoryPath varsPath keyPath (psPlaybookPath spec))
         [''ANSIBLE_ROLES_PATH=/app/ansible/roles''])
       (\<lambda>e. fail (wrap_err ''ansible-playbook failed: '' e)) (\<lambda>_.
     ok \<lparr>prReady = True\<rparr>))))))"

definition ansible_Provision :: "'p ansible_env \<Rightarrow> 'p provisioner" where
  "ansible_Provision A spec =
     try_do (anMkdirTemp A ''painkiller-ansible-*'')
       (\<lambda>e. fail (wrap_err ''failed to create temp dir: '' e)) (\<lambda>tmpDir.
     deferred (anRemoveAll A tmpDir) (ansible_in_dir A spec tmpDir))"

text \<open>Whatever happens in it, the last thing done to the directory is its removal.\<close>

lemma ansible_removes_dir:
  assumes "anMkdirTemp A ''painkiller-ansible-*'' p = (Inr tmpDir, p1)"
  obtains r p2 where "ansible_in_dir A spec tmpDir p1 = (r, p2)"
    and "ansible_Provision A spec p = (r, snd (anRemoveAll A tmpDir p2))"
proof -
  obtain r p2 where b: "ansible_in_dir A spec tmpDir p1 = (r, p2)" by fastforce
  with assms have "ansible_Provision A spec p = (r, snd (anRemoveAll A tmpDir p2))"
    by (simp add: ansible_Provision_def deferred_def bind_do_def ignore_do_def)
  with b that show thesis by blast
qed

end
