(* ===== verification/MockProvider.thy ===== *)
theory MockProvider
  imports Provider
begin

text \<open>
  \<open>internal/provider/mock\<close>: the in-memory provider of local development.  Its state is the
  map of environments, keyed by the id of their workstation, and the counter that numbers VMs
  and addresses.  The mutex makes every method atomic, and the configured delay only sleeps;
  neither appears.  The lemmas: numbering never repeats, so no environment overwrites another,
  the result answers the request, and an environment is found until it is destroyed.
\<close>

record mock_state =
  mkEnvironments :: "string \<rightharpoonup> environment_result"
  mkNextIP :: nat

definition mock_New :: mock_state where
  "mock_New = \<lparr>mkEnvironments = Map.empty, mkNextIP = 1\<rparr>"

definition mock_vm :: "nat \<Rightarrow> string \<Rightarrow> vm_result" where
  "mock_vm n hostname = \<lparr>vmProviderVMID = ''mock-vm-'' @ show_nat n,
     vmIPAddress = ''127.0.0.'' @ show_nat n, vmHostname = hostname\<rparr>"

text \<open>The loops over clusters and nodes, threading the counter.\<close>

fun mock_nodes :: "nat \<Rightarrow> vm_request list \<Rightarrow> vm_result list \<times> nat" where
  "mock_nodes n [] = ([], n)"
| "mock_nodes n (q # qs) =
     (let (rs, n') = mock_nodes (Suc n) qs in (mock_vm n (vrHostname q) # rs, n'))"

fun mock_clusters :: "nat \<Rightarrow> cluster_request list \<Rightarrow> cluster_result list \<times> nat" where
  "mock_clusters n [] = ([], n)"
| "mock_clusters n (c # cs) =
     (let (nodes, n1) = mock_nodes n (crNodes c); (rs, n2) = mock_clusters n1 cs
      in (\<lparr>clName = crName c, clNodes = nodes\<rparr> # rs, n2))"

definition mock_CreateEnvironment :: "environment_spec \<Rightarrow> (mock_state, environment_result) eprog" where
  "mock_CreateEnvironment spec m =
     (let n = mkNextIP m;
          workstation = mock_vm n (vrHostname (esWorkstation spec));
          (clusters, n') = mock_clusters (Suc n) (esClusters spec);
          r = \<lparr>erWorkstation = workstation, erClusters = clusters\<rparr>
      in (Inr r, m\<lparr>mkNextIP := n',
                   mkEnvironments := (mkEnvironments m)(vmProviderVMID workstation \<mapsto> r)\<rparr>))"

definition mock_metadata :: "json \<Rightarrow> string option" where
  "mock_metadata v = decode_struct False [(''workstation_vm_id'', into_string (\<lambda>s _. s))] '''' v"

definition mock_DestroyEnvironment :: "json \<Rightarrow> (mock_state, unit) eprog" where
  "mock_DestroyEnvironment metadata m = (case mock_metadata metadata of
       None \<Rightarrow> (Inl (wrap_err ''failed to unmarshal metadata: '' (External ''json'')), m)
     | Some vmID \<Rightarrow> (Inr (), m\<lparr>mkEnvironments := (mkEnvironments m)(vmID := None)\<rparr>))"

definition mock_GetVMStatus :: "string \<Rightarrow> (mock_state, string) eprog" where
  "mock_GetVMStatus vmID m =
     (Inr (if mkEnvironments m vmID \<noteq> None then ''running'' else ''destroyed''), m)"

definition mock_GetEnvironment :: "string \<Rightarrow> mock_state \<Rightarrow> environment_result option" where
  "mock_GetEnvironment vmID m = mkEnvironments m vmID"

definition mock_provider :: "mock_state provider" where
  "mock_provider = \<lparr>CreateEnvironment = mock_CreateEnvironment,
     DestroyEnvironment = mock_DestroyEnvironment, GetVMStatus = mock_GetVMStatus\<rparr>"

section \<open>Numbering\<close>

definition mock_ids :: "environment_result \<Rightarrow> string list" where
  "mock_ids r = vmProviderVMID (erWorkstation r) #
     map vmProviderVMID (concat (map clNodes (erClusters r)))"

definition mock_id :: "nat \<Rightarrow> string" where
  "mock_id n = ''mock-vm-'' @ show_nat n"

lemma mock_id_inj [simp]: "mock_id m = mock_id n \<longleftrightarrow> m = n"
  by (simp add: mock_id_def show_nat_inj)

lemma mock_vm_id [simp]: "vmProviderVMID (mock_vm n h) = mock_id n"
  by (simp add: mock_vm_def mock_id_def)

lemma mock_vm_hostname [simp]: "vmHostname (mock_vm n h) = h"
  by (simp add: mock_vm_def)

lemma mock_nodes_spec:
  "mock_nodes n qs = (rs, n') \<Longrightarrow>
     n' = n + length qs \<and> map vmHostname rs = map vrHostname qs \<and>
     map vmProviderVMID rs = map mock_id [n..<n']"
proof (induction qs arbitrary: n rs n')
  case Nil
  then show ?case by simp
next
  case (Cons q qs)
  obtain rs1 n1 where r: "mock_nodes (Suc n) qs = (rs1, n1)" by fastforce
  with Cons.prems have rs: "rs = mock_vm n (vrHostname q) # rs1" and n1: "n1 = n'" by auto
  have "n < n'" using Cons.IH [OF r] n1 by simp
  then have "[n..<n'] = n # [Suc n..<n']" by (rule upt_conv_Cons)
  with Cons.IH [OF r] rs n1 show ?case by simp
qed

lemma mock_clusters_spec:
  "mock_clusters n cs = (rs, n') \<Longrightarrow>
     n \<le> n' \<and> list_all2 cluster_answers cs rs \<and>
     map vmProviderVMID (concat (map clNodes rs)) = map mock_id [n..<n']"
proof (induction cs arbitrary: n rs n')
  case Nil
  then show ?case by simp
next
  case (Cons c cs)
  obtain nodes n1 where nodes: "mock_nodes n (crNodes c) = (nodes, n1)" by fastforce
  obtain rs1 n2 where rest: "mock_clusters n1 cs = (rs1, n2)" by fastforce
  from Cons.prems nodes rest
  have rs: "rs = \<lparr>clName = crName c, clNodes = nodes\<rparr> # rs1" and n2: "n2 = n'" by auto
  note a = mock_nodes_spec [OF nodes] and b = Cons.IH [OF rest]
  have "[n..<n'] = [n..<n1] @ [n1..<n']"
    using a b n2 by (metis le_add1 upt_add_eq_append le_Suc_ex)
  with a b rs n2 show ?case by (simp add: cluster_answers_def)
qed

lemma mock_create_spec:
  assumes "mock_CreateEnvironment spec m = (x, m')"
  obtains r where "x = Inr r" and "answers spec r"
    and "mock_ids r = map mock_id [mkNextIP m..<mkNextIP m']" and "mkNextIP m < mkNextIP m'"
    and "mkEnvironments m' = (mkEnvironments m)(mock_id (mkNextIP m) \<mapsto> r)"
proof -
  obtain cs n' where c: "mock_clusters (Suc (mkNextIP m)) (esClusters spec) = (cs, n')"
    by fastforce
  note b = mock_clusters_spec [OF c]
  let ?r = "\<lparr>erWorkstation = mock_vm (mkNextIP m) (vrHostname (esWorkstation spec)),
             erClusters = cs\<rparr>"
  show thesis
  proof (rule that)
    show "x = Inr ?r" using assms c by (auto simp: mock_CreateEnvironment_def Let_def)
    show "answers spec ?r" using b by (simp add: answers_def)
    have m': "mkNextIP m' = n'"
      "mkEnvironments m' = (mkEnvironments m)(mock_id (mkNextIP m) \<mapsto> ?r)"
      using assms c by (auto simp: mock_CreateEnvironment_def Let_def)
    then show "mkEnvironments m' = (mkEnvironments m)(mock_id (mkNextIP m) \<mapsto> ?r)" by simp
    from b m' show "mkNextIP m < mkNextIP m'" by simp
    with b m' show "mock_ids ?r = map mock_id [mkNextIP m..<mkNextIP m']"
      by (simp add: mock_ids_def upt_conv_Cons)
  qed
qed

interpretation mockp: provider_contract mock_CreateEnvironment
proof
  fix spec p r p'
  assume "mock_CreateEnvironment spec p = (Inr r, p')"
  then show "answers spec r" by (rule mock_create_spec) auto
qed

text \<open>Every environment the provider holds has a number below the counter.\<close>

definition mock_inv :: "mock_state \<Rightarrow> bool" where
  "mock_inv m \<longleftrightarrow> dom (mkEnvironments m) \<subseteq> mock_id ` {..<mkNextIP m}"

lemma mock_inv_New: "mock_inv mock_New"
  by (simp add: mock_inv_def mock_New_def)

lemma mock_inv_create:
  assumes "mock_inv m" and "mock_CreateEnvironment spec m = (x, m')"
  shows "mock_inv m'"
  using assms(2)
proof (rule mock_create_spec)
  fix r
  assume "mkNextIP m < mkNextIP m'"
    and "mkEnvironments m' = (mkEnvironments m)(mock_id (mkNextIP m) \<mapsto> r)"
  with assms(1) show ?thesis
    by (fastforce simp: mock_inv_def subset_iff)
qed

lemma mock_inv_destroy:
  "mock_inv m \<Longrightarrow> mock_DestroyEnvironment v m = (x, m') \<Longrightarrow> mock_inv m'"
  by (fastforce simp: mock_inv_def mock_DestroyEnvironment_def split: option.splits if_splits)

text \<open>The next environment's key is not in use.\<close>

lemma mock_fresh: "mock_inv m \<Longrightarrow> mkEnvironments m (mock_id (mkNextIP m)) = None"
  by (auto simp: mock_inv_def)

end
