(* ===== verification/ProxmoxClient.thy ===== *)
theory ProxmoxClient
  imports ProxmoxConfig Paths "HOL-Library.List_Lexorder" "HOL-Library.Char_ord"
begin

text \<open>
  \<open>internal/provider/proxmox/client.go\<close>: the client of the Proxmox API.  The record \<open>px_env\<close> is
  what it runs on: \<open>pxDo\<close> sends a request (its error: no request, no response or no body),
  \<open>pxNow\<close> reads the clock, \<open>pxWait\<close> is the \<open>select\<close> on a timer and the context.  A response body
  is its text and the JSON value it holds, if it is one.

  The polling loops end by the clock, so they run on fuel; \<open>poll_until_fuel\<close> shows that under a
  clock that does not go back and a timer that waits, more fuel than the quotient of time limit
  and interval changes nothing.
\<close>

section \<open>Requests\<close>

datatype payload = NoPayload | JsonPayload json | FormPayload string

record http_request =
  hqMethod :: string
  hqURL :: string
  hqAuthorization :: string
  hqContentType :: "string option"
  hqPayload :: payload

record http_response =
  hpStatus :: int
  hpText :: string
  hpJson :: "json option"

record 'p px_env =
  pxDo :: "http_request \<Rightarrow> ('p, http_response) eprog"
  pxNow :: "('p, int) prog"
  pxWait :: "int \<Rightarrow> ('p, unit) eprog"

definition api_request ::
  "proxmox_config \<Rightarrow> string \<Rightarrow> string \<Rightarrow> string option \<Rightarrow> payload \<Rightarrow> http_request"
where
  "api_request cfg meth path ctype body = \<lparr>hqMethod = meth,
     hqURL = pcAPIURL cfg @ ''/api2/json'' @ path,
     hqAuthorization = ''PVEAPIToken='' @ pcTokenID cfg @ ''='' @ pcTokenSecret cfg,
     hqContentType = ctype, hqPayload = body\<rparr>"

definition send_request :: "'p px_env \<Rightarrow> http_request \<Rightarrow> ('p, http_response) eprog" where
  "send_request E req =
     try_do (pxDo E req) fail (\<lambda>resp.
     if 400 \<le> hpStatus resp then fail (ApiError (hpStatus resp) (hpText resp)) else ok resp)"

definition doRequest ::
  "proxmox_config \<Rightarrow> 'p px_env \<Rightarrow> string \<Rightarrow> string \<Rightarrow> json option \<Rightarrow> ('p, http_response) eprog"
where
  "doRequest cfg E meth path body = send_request E (case body of
       None \<Rightarrow> api_request cfg meth path None NoPayload
     | Some v \<Rightarrow> api_request cfg meth path (Some ''application/json'') (JsonPayload v))"

text \<open>\<open>url.Values.Encode\<close>: sorted by key.\<close>

definition form_encode :: "(string \<times> string) list \<Rightarrow> string" where
  "form_encode kvs = join_with CHR ''&''
     (map (\<lambda>kv. url_QueryEscape (fst kv) @ ''='' @ url_QueryEscape (snd kv)) (sort_key fst kvs))"

definition doFormRequest ::
  "proxmox_config \<Rightarrow> 'p px_env \<Rightarrow> string \<Rightarrow> string \<Rightarrow> (string \<times> string) list \<Rightarrow>
   ('p, http_response) eprog"
where
  "doFormRequest cfg E meth path form = send_request E
     (api_request cfg meth path (Some ''application/x-www-form-urlencoded'')
        (FormPayload (form_encode form)))"

text \<open>\<open>json.Unmarshal(resp, &result)\<close>.\<close>

definition unmarshal :: "(json \<Rightarrow> 'a option) \<Rightarrow> http_response \<Rightarrow> go_error + 'a" where
  "unmarshal decode resp = (case hpJson resp of
       None \<Rightarrow> Inl (External ''json'')
     | Some v \<Rightarrow> (case decode v of None \<Rightarrow> Inl (External ''json'') | Some x \<Rightarrow> Inr x))"

section \<open>Polling\<close>

definition seconds :: "int \<Rightarrow> int" where
  "seconds n = n * 1000000000"

text \<open>\<open>Some r\<close> from the body ends the loop with \<open>r\<close>.\<close>

fun poll_until ::
  "nat \<Rightarrow> 'p px_env \<Rightarrow> int \<Rightarrow> int \<Rightarrow> go_error \<Rightarrow> ('p, (go_error + 'a) option) prog \<Rightarrow> ('p, 'a) eprog"
where
  "poll_until 0 E interval deadline timeout body = fail (Panic ''out of fuel'')"
| "poll_until (Suc n) E interval deadline timeout body =
     bind_do (pxNow E) (\<lambda>now.
     if now < deadline then
       bind_do body (\<lambda>r. case r of
         Some x \<Rightarrow> result x
       | None \<Rightarrow> try_do (pxWait E interval) fail
           (\<lambda>_. poll_until n E interval deadline timeout body))
     else fail timeout)"

text \<open>Documented behaviour of the clock: it does not go back, and a timer waits its time.\<close>

definition clock_ok :: "'p px_env \<Rightarrow> ('p \<Rightarrow> int) \<Rightarrow> bool" where
  "clock_ok E time \<longleftrightarrow>
     (\<forall>p t p'. pxNow E p = (t, p') \<longrightarrow> time p \<le> t \<and> t \<le> time p') \<and>
     (\<forall>d p p'. pxWait E d p = (Inr (), p') \<longrightarrow> time p + d \<le> time p') \<and>
     (\<forall>q p r p'. pxDo E q p = (r, p') \<longrightarrow> time p \<le> time p')"

definition keeps_time :: "('p \<Rightarrow> int) \<Rightarrow> ('p, 'a) prog \<Rightarrow> bool" where
  "keeps_time time m \<longleftrightarrow> obeys (\<lambda>p p'. time p \<le> time p') m"

lemma poll_until_fuel:
  assumes clock: "clock_ok E time" and body: "keeps_time time body"
    and "deadline \<le> time p + int n * interval" and "0 \<le> interval"
  shows "poll_until (Suc n + k) E interval deadline timeout body p =
    poll_until (Suc n) E interval deadline timeout body p"
  using assms(3)
proof (induction n arbitrary: p)
  case 0
  obtain t p1 where now: "pxNow E p = (t, p1)" by fastforce
  with clock have "time p \<le> t" by (auto simp: clock_ok_def)
  with 0 now show ?case by simp
next
  case (Suc n)
  obtain t p1 where now: "pxNow E p = (t, p1)" by fastforce
  with clock have t: "time p \<le> time p1" by (fastforce simp: clock_ok_def)
  obtain r p2 where b: "body p1 = (r, p2)" by fastforce
  with body have t2: "time p1 \<le> time p2" by (auto simp: keeps_time_def dest: obeysD')
  have step: "poll_until (Suc n + k) E interval deadline timeout body p3 =
      poll_until (Suc n) E interval deadline timeout body p3"
    if "pxWait E interval p2 = (Inr (), p3)" for p3
  proof -
    from that clock have "time p2 + interval \<le> time p3" by (auto simp: clock_ok_def)
    with t t2 Suc.prems show ?thesis by (intro Suc.IH) (simp add: algebra_simps)
  qed
  obtain w p3 where w: "pxWait E interval p2 = (w, p3)" by fastforce
  show ?case
    using now b w step
    by (cases r; cases w) (simp_all del: poll_until.simps add: poll_until.simps(2) add_Suc)
qed

record task_status =
  tsStatus :: string
  tsExitCode :: string

definition decode_task_status :: "json \<Rightarrow> task_status option" where
  "decode_task_status v = decode_struct False
     [(''data'', \<lambda>d acc. decode_struct False
        [(''status'', into_string (\<lambda>s t. t\<lparr>tsStatus := s\<rparr>)),
         (''exitstatus'', into_string (\<lambda>s t. t\<lparr>tsExitCode := s\<rparr>))] acc d)]
     \<lparr>tsStatus = '''', tsExitCode = ''''\<rparr> v"

definition poll_task ::
  "proxmox_config \<Rightarrow> 'p px_env \<Rightarrow> string \<Rightarrow> string \<Rightarrow> ('p, (go_error + unit) option) prog"
where
  "poll_task cfg E node upid =
     try_do (doRequest cfg E ''GET''
         (''/nodes/'' @ node @ ''/tasks/'' @ url_PathEscape upid @ ''/status'') None)
       (\<lambda>e. result (Some (Inl (wrap_err ''failed to poll task status: '' e)))) (\<lambda>resp.
     (case unmarshal decode_task_status resp of
        Inl e \<Rightarrow> result (Some (Inl (wrap_err ''failed to parse task status: '' e)))
      | Inr st \<Rightarrow>
        if tsStatus st = ''stopped'' then
          if tsExitCode st \<noteq> ''OK''
          then result (Some (Inl (Plain (''task failed with exit status: '' @ tsExitCode st))))
          else result (Some (Inr ()))
        else result None))"

definition waitForTask ::
  "nat \<Rightarrow> proxmox_config \<Rightarrow> 'p px_env \<Rightarrow> string \<Rightarrow> ('p, unit) eprog"
where
  "waitForTask fuel cfg E upid = (case split_on CHR '':'' upid of
       p0 # node # ps \<Rightarrow>
         bind_do (pxNow E) (\<lambda>now.
         poll_until fuel E (seconds 2) (now + seconds 300)
           (Plain (''timed out waiting for task '' @ upid)) (poll_task cfg E node upid))
     | _ \<Rightarrow> fail (Plain (''invalid UPID: '' @ upid)))"

text \<open>300 s in steps of 2 s are 150 waits, hence at most 151 readings of the clock.\<close>

definition poll_fuel :: nat where
  "poll_fuel = 151"

section \<open>Virtual machine ids\<close>

definition decode_data :: "json \<Rightarrow> json option option" where
  "decode_data v = decode_struct False [(''data'', \<lambda>d _. Some (Some d))] None v"

text \<open>A raw \<open>data\<close> decoded as an int, else as a string that holds one.\<close>

definition vmid_of :: "json option \<Rightarrow> go_error + int" where
  "vmid_of data = (case data of
       Some JNull \<Rightarrow> Inr 0
     | Some (JNum n) \<Rightarrow> (if int64_range n then Inr n
         else Inl (wrap_err ''failed to parse next VMID value: '' (External ''json'')))
     | Some (JStr s) \<Rightarrow> (case atoi s of
           None \<Rightarrow> Inl (wrap_err ''failed to parse next VMID value: '' (External ''strconv.Atoi''))
         | Some n \<Rightarrow> Inr n)
     | _ \<Rightarrow> Inl (wrap_err ''failed to parse next VMID value: '' (External ''json'')))"

definition NextVMID :: "proxmox_config \<Rightarrow> 'p px_env \<Rightarrow> ('p, int) eprog" where
  "NextVMID cfg E =
     try_do (doRequest cfg E ''GET'' ''/cluster/nextid'' None) fail (\<lambda>resp.
     (case unmarshal decode_data resp of
        Inl e \<Rightarrow> fail (wrap_err ''failed to parse next VMID response: '' e)
      | Inr data \<Rightarrow> result (vmid_of data)))"

section \<open>Cloning\<close>

definition decode_upid :: "json \<Rightarrow> string option" where
  "decode_upid v = decode_struct False [(''data'', into_string (\<lambda>s _. s))] '''' v"

definition clone_body :: "proxmox_config \<Rightarrow> int \<Rightarrow> string \<Rightarrow> bool \<Rightarrow> json" where
  "clone_body cfg newVMID name full = JObj
     ([(''full'', JNum (if full then 1 else 0)), (''name'', JStr name), (''newid'', JNum newVMID)] @
      (if full then [(''storage'', JStr (pcStoragePool cfg))] else []))"

definition cloneVMWithID ::
  "proxmox_config \<Rightarrow> 'p px_env \<Rightarrow> int \<Rightarrow> int \<Rightarrow> string \<Rightarrow> bool \<Rightarrow> ('p, unit) eprog"
where
  "cloneVMWithID cfg E templateVMID newVMID name full =
     try_do (doRequest cfg E ''POST''
         (''/nodes/'' @ pcNode cfg @ ''/qemu/'' @ show_int templateVMID @ ''/clone'')
         (Some (clone_body cfg newVMID name full))) fail (\<lambda>resp.
     (case unmarshal decode_upid resp of
        Inl e \<Rightarrow> fail (wrap_err ''failed to parse clone response: '' e)
      | Inr upid \<Rightarrow>
        if upid = '''' then fail (Plain ''missing clone task UPID'') else
        try_do (waitForTask poll_fuel cfg E upid)
          (\<lambda>e. fail (wrap_err ''clone task failed: '' e)) (\<lambda>_. ok ())))"

definition messageLooksLikeVMIDConflict :: "string \<Rightarrow> bool" where
  "messageLooksLikeVMIDConflict message =
     (let m = to_lower message in
      str_contains ''already exists'' m \<or> str_contains ''vmid'' m \<and> str_contains ''exists'' m)"

text \<open>\<open>errors.As\<close>: the first API error on the chain of wrapped errors.\<close>

fun as_APIError :: "go_error \<Rightarrow> string option" where
  "as_APIError (ApiError code body) = Some body"
| "as_APIError (Errorf pre e post) = as_APIError e"
| "as_APIError _ = None"

definition isVMIDConflict :: "go_error \<Rightarrow> bool" where
  "isVMIDConflict e = (case as_APIError e of
       Some body \<Rightarrow> messageLooksLikeVMIDConflict body
     | None \<Rightarrow> messageLooksLikeVMIDConflict (err_msg e))"

definition cloneVMIDAttempts :: nat where
  "cloneVMIDAttempts = 5"

text \<open>\<open>n\<close> attempts are left; \<open>lastErr\<close> is nil before the first.\<close>

fun clone_loop ::
  "nat \<Rightarrow> proxmox_config \<Rightarrow> 'p px_env \<Rightarrow> int \<Rightarrow> string \<Rightarrow> bool \<Rightarrow> go_error \<Rightarrow> ('p, int) eprog"
where
  "clone_loop 0 cfg E templateVMID name full lastErr =
     fail (wrap_err (''failed to clone VM after '' @ show_nat cloneVMIDAttempts @
                     '' VMID allocation attempts: '') lastErr)"
| "clone_loop (Suc n) cfg E templateVMID name full lastErr =
     try_do (NextVMID cfg E)
       (\<lambda>e. fail (wrap_err ''failed to get next VMID: '' e)) (\<lambda>vmID.
     try_do (cloneVMWithID cfg E templateVMID vmID name full)
       (\<lambda>e. if \<not> isVMIDConflict e then fail e
            else clone_loop n cfg E templateVMID name full e)
       (\<lambda>_. ok vmID))"

definition CloneVM ::
  "proxmox_config \<Rightarrow> 'p px_env \<Rightarrow> int \<Rightarrow> string \<Rightarrow> bool \<Rightarrow> ('p, int) eprog"
where
  "CloneVM cfg E templateVMID name full =
     clone_loop cloneVMIDAttempts cfg E templateVMID name full (Plain ''%!w(<nil>)'')"

section \<open>Configuring, starting, stopping, deleting\<close>

definition vm_path :: "proxmox_config \<Rightarrow> int \<Rightarrow> string \<Rightarrow> string" where
  "vm_path cfg vmID rest = ''/nodes/'' @ pcNode cfg @ ''/qemu/'' @ show_int vmID @ rest"

definition ConfigureVM ::
  "proxmox_config \<Rightarrow> 'p px_env \<Rightarrow> int \<Rightarrow> (string \<times> string) list \<Rightarrow> ('p, unit) eprog"
where
  "ConfigureVM cfg E vmID config =
     try_do (doFormRequest cfg E ''PUT'' (vm_path cfg vmID ''/config'') config) fail (\<lambda>_. ok ())"

text \<open>\<open>StartVM\<close> and \<open>StopVM\<close> differ in the last segment of their path.\<close>

definition power_request ::
  "proxmox_config \<Rightarrow> 'p px_env \<Rightarrow> int \<Rightarrow> string \<Rightarrow> ('p, unit) eprog"
where
  "power_request cfg E vmID rest =
     try_do (doRequest cfg E ''POST'' (vm_path cfg vmID rest) None) fail (\<lambda>resp.
     (case unmarshal decode_upid resp of
        Inl e \<Rightarrow> ok ()
      | Inr upid \<Rightarrow> if upid \<noteq> '''' then waitForTask poll_fuel cfg E upid else ok ()))"

definition StartVM :: "proxmox_config \<Rightarrow> 'p px_env \<Rightarrow> int \<Rightarrow> ('p, unit) eprog" where
  "StartVM cfg E vmID = power_request cfg E vmID ''/status/start''"

definition StopVM :: "proxmox_config \<Rightarrow> 'p px_env \<Rightarrow> int \<Rightarrow> ('p, unit) eprog" where
  "StopVM cfg E vmID = power_request cfg E vmID ''/status/stop''"

definition DeleteVM :: "proxmox_config \<Rightarrow> 'p px_env \<Rightarrow> int \<Rightarrow> ('p, unit) eprog" where
  "DeleteVM cfg E vmID =
     try_do (doRequest cfg E ''DELETE'' (vm_path cfg vmID '''') None) fail (\<lambda>_. ok ())"

section \<open>Status and address\<close>

definition decode_vm_status :: "json \<Rightarrow> string option" where
  "decode_vm_status v = decode_struct False
     [(''data'', \<lambda>d acc. decode_struct False [(''status'', into_string (\<lambda>s _. s))] acc d)] '''' v"

definition client_GetVMStatus :: "proxmox_config \<Rightarrow> 'p px_env \<Rightarrow> int \<Rightarrow> ('p, string) eprog" where
  "client_GetVMStatus cfg E vmID =
     try_do (doRequest cfg E ''GET'' (vm_path cfg vmID ''/status/current'') None) fail
       (\<lambda>resp. result (unmarshal decode_vm_status resp))"

record ip_address =
  iaAddress :: string
  iaPrefix :: int
  iaType :: string

record network_interface =
  niName :: string
  niIPAddresses :: "ip_address list"
  niHardwareAddress :: string

definition decode_ip_address :: "json \<Rightarrow> ip_address option" where
  "decode_ip_address v = decode_struct False
     [(''ip-address'', into_string (\<lambda>s a. a\<lparr>iaAddress := s\<rparr>)),
      (''prefix'', into_int (\<lambda>n a. a\<lparr>iaPrefix := n\<rparr>)),
      (''ip-address-type'', into_string (\<lambda>s a. a\<lparr>iaType := s\<rparr>))]
     \<lparr>iaAddress = '''', iaPrefix = 0, iaType = ''''\<rparr> v"

definition decode_interface :: "json \<Rightarrow> network_interface option" where
  "decode_interface v = decode_struct False
     [(''name'', into_string (\<lambda>s i. i\<lparr>niName := s\<rparr>)),
      (''ip-addresses'', into_slice decode_ip_address (\<lambda>xs i. i\<lparr>niIPAddresses := xs\<rparr>)),
      (''hardware-address'', into_string (\<lambda>s i. i\<lparr>niHardwareAddress := s\<rparr>))]
     \<lparr>niName = '''', niIPAddresses = [], niHardwareAddress = ''''\<rparr> v"

definition decode_interfaces :: "json \<Rightarrow> network_interface list option" where
  "decode_interfaces v = decode_struct False
     [(''data'', \<lambda>d acc. decode_struct False
        [(''result'', into_slice decode_interface (\<lambda>xs _. xs))] acc d)] [] v"

definition usable_address :: "ip_address \<Rightarrow> bool" where
  "usable_address a \<longleftrightarrow> iaType a = ''ipv4'' \<and> iaAddress a \<noteq> '''' \<and> iaAddress a \<noteq> ''127.0.0.1''"

fun first_address :: "network_interface list \<Rightarrow> string option" where
  "first_address [] = None"
| "first_address (i # is) =
     (if niName i = ''lo'' then first_address is
      else (case find usable_address (niIPAddresses i) of
          Some a \<Rightarrow> Some (iaAddress a) | None \<Rightarrow> first_address is))"

definition GetVMIPAddress :: "proxmox_config \<Rightarrow> 'p px_env \<Rightarrow> int \<Rightarrow> ('p, string) eprog" where
  "GetVMIPAddress cfg E vmID =
     try_do (doRequest cfg E ''GET'' (vm_path cfg vmID ''/agent/network-get-interfaces'') None)
       (\<lambda>e. fail (wrap_err ''guest agent query failed: '' e)) (\<lambda>resp.
     (case unmarshal decode_interfaces resp of
        Inl e \<Rightarrow> fail (wrap_err ''failed to parse guest agent response: '' e)
      | Inr ifaces \<Rightarrow> (case first_address ifaces of
            Some ip \<Rightarrow> ok ip
          | None \<Rightarrow> fail (Plain (''no IPv4 address found for VM '' @ show_int vmID)))))"

lemma first_address_SomeD:
  "first_address is = Some ip \<Longrightarrow>
     \<exists>i \<in> set is. niName i \<noteq> ''lo'' \<and> (\<exists>a \<in> set (niIPAddresses i). usable_address a \<and> iaAddress a = ip)"
  by (induction "is") (auto split: if_splits option.splits dest!: find_SomeD)

section \<open>Time\<close>

lemma time_preorder: "preorder_effect (\<lambda>p p'. time p \<le> (time p' :: int))"
  by unfold_locales auto

lemmas time_intro =
  preorder_effect.obeys_result [OF time_preorder] preorder_effect.obeys_ok [OF time_preorder]
  preorder_effect.obeys_fail [OF time_preorder] preorder_effect.obeys_bind [OF time_preorder]
  preorder_effect.obeys_try [OF time_preorder] preorder_effect.obeys_if [OF time_preorder]
  preorder_effect.obeys_sum [OF time_preorder]

lemma pxDo_time: "clock_ok E time \<Longrightarrow> keeps_time time (pxDo E req)"
  unfolding keeps_time_def by (rule obeysI) (metis clock_ok_def prod.collapse)

lemma doRequest_time: "clock_ok E time \<Longrightarrow> keeps_time time (doRequest cfg E meth path body)"
  unfolding doRequest_def send_request_def keeps_time_def
  by (intro time_intro pxDo_time [unfolded keeps_time_def])

lemma poll_task_time: "clock_ok E time \<Longrightarrow> keeps_time time (poll_task cfg E node upid)"
  unfolding poll_task_def keeps_time_def
  by (intro time_intro doRequest_time [unfolded keeps_time_def])

lemma GetVMIPAddress_time: "clock_ok E time \<Longrightarrow> keeps_time time (GetVMIPAddress cfg E vmID)"
  unfolding GetVMIPAddress_def keeps_time_def
  by (intro time_intro preorder_effect.obeys_option [OF time_preorder]
      doRequest_time [unfolded keeps_time_def])

text \<open>The fuel of \<open>waitForTask\<close> is enough: giving it more makes no difference.\<close>

lemma waitForTask_more_fuel:
  assumes clock: "clock_ok E time"
  shows "waitForTask (poll_fuel + k) cfg E upid = waitForTask poll_fuel cfg E upid"
proof (rule ext)
  fix p
  obtain t p1 where now: "pxNow E p = (t, p1)" by fastforce
  with clock have t: "t \<le> time p1" by (auto simp: clock_ok_def)
  have "poll_until (Suc 150 + k) E (seconds 2) (t + seconds 300) timeout (poll_task cfg E node upid) p1 =
      poll_until (Suc 150) E (seconds 2) (t + seconds 300) timeout (poll_task cfg E node upid) p1"
    for timeout node
    by (rule poll_until_fuel [OF clock poll_task_time [OF clock]]) (use t in \<open>simp_all add: seconds_def\<close>)
  then show "waitForTask (poll_fuel + k) cfg E upid p = waitForTask poll_fuel cfg E upid p"
    using now by (simp add: waitForTask_def poll_fuel_def del: poll_until.simps split: list.split)
qed

end
