(* ===== verification/ProxmoxProvider.thy ===== *)
theory ProxmoxProvider
  imports ProxmoxClient
begin

text \<open>
  \<open>internal/provider/proxmox/provider.go\<close>: building and destroying an environment with the
  client.  The provider meets the contract of \<open>Provider\<close> whatever the API answers.
\<close>

section \<open>Waiting for an address\<close>

definition poll_ip ::
  "proxmox_config \<Rightarrow> 'p px_env \<Rightarrow> int \<Rightarrow> ('p, (go_error + string) option) prog"
where
  "poll_ip cfg E vmID =
     try_do (GetVMIPAddress cfg E vmID) (\<lambda>_. result None)
       (\<lambda>ip. result (if ip \<noteq> '''' then Some (Inr ip) else None))"

definition waitForIP :: "nat \<Rightarrow> proxmox_config \<Rightarrow> 'p px_env \<Rightarrow> int \<Rightarrow> ('p, string) eprog" where
  "waitForIP fuel cfg E vmID =
     bind_do (pxNow E) (\<lambda>now.
     poll_until fuel E (seconds 5) (now + seconds 120)
       (Plain (''timed out waiting for IP on VM '' @ show_int vmID)) (poll_ip cfg E vmID))"

text \<open>120 s in steps of 5 s are 24 waits, hence at most 25 readings of the clock.\<close>

definition ip_fuel :: nat where
  "ip_fuel = 25"

section \<open>Creating\<close>

definition profileFor :: "proxmox_config \<Rightarrow> string \<Rightarrow> go_error + clone_profile" where
  "profileFor cfg template = (case pcProfiles cfg template of
       None \<Rightarrow> Inl (Plain (''unknown proxmox clone profile: '' @ template))
     | Some profile \<Rightarrow> Inr profile)"

text \<open>
  The four calls that make a machine, for the workstation and for a node; they differ in the
  name that the error messages give it (\<open>who\<close>, \<open>whose_ip\<close>).
\<close>

definition create_vm ::
  "proxmox_config \<Rightarrow> 'p px_env \<Rightarrow> clone_profile \<Rightarrow> vm_request \<Rightarrow> string \<Rightarrow> string \<Rightarrow>
   ('p, vm_result) eprog"
where
  "create_vm cfg E profile q who whose_ip =
     try_do (CloneVM cfg E (clpTemplateVMID profile) (vrHostname q) (clpCloneMode profile = ''full''))
       (\<lambda>e. fail (wrap_err (''failed to clone '' @ who @ '': '') e)) (\<lambda>vmID.
     try_do (ConfigureVM cfg E vmID (renderProfileConfig profile q))
       (\<lambda>e. fail (wrap_err (''failed to configure '' @ who @ '': '') e)) (\<lambda>_.
     try_do (StartVM cfg E vmID)
       (\<lambda>e. fail (wrap_err (''failed to start '' @ who @ '': '') e)) (\<lambda>_.
     try_do (waitForIP ip_fuel cfg E vmID)
       (\<lambda>e. fail (wrap_err (''failed to get '' @ whose_ip @ '': '') e)) (\<lambda>ip.
     ok \<lparr>vmProviderVMID = show_int vmID, vmIPAddress = ip, vmHostname = vrHostname q\<rparr>))))"

fun prox_nodes ::
  "proxmox_config \<Rightarrow> 'p px_env \<Rightarrow> vm_request list \<Rightarrow> vm_result list \<Rightarrow> ('p, vm_result list) eprog"
where
  "prox_nodes cfg E [] acc = ok acc"
| "prox_nodes cfg E (q # qs) acc =
     (case profileFor cfg (vrTemplate q) of
        Inl e \<Rightarrow> fail e
      | Inr profile \<Rightarrow>
        try_do (create_vm cfg E profile q (''node '' @ vrHostname q) (''IP for node '' @ vrHostname q))
          fail (\<lambda>r. prox_nodes cfg E qs (acc @ [r])))"

fun prox_clusters ::
  "proxmox_config \<Rightarrow> 'p px_env \<Rightarrow> cluster_request list \<Rightarrow> cluster_result list \<Rightarrow>
   ('p, cluster_result list) eprog"
where
  "prox_clusters cfg E [] acc = ok acc"
| "prox_clusters cfg E (c # cs) acc =
     try_do (prox_nodes cfg E (crNodes c) []) fail
       (\<lambda>nodes. prox_clusters cfg E cs (acc @ [\<lparr>clName = crName c, clNodes = nodes\<rparr>]))"

text \<open>The check of all templates before the first machine is made.\<close>

fun check_templates :: "proxmox_config \<Rightarrow> vm_request list \<Rightarrow> go_error option" where
  "check_templates cfg [] = None"
| "check_templates cfg (q # qs) = (case profileFor cfg (vrTemplate q) of
       Inl e \<Rightarrow> Some e | Inr profile \<Rightarrow> check_templates cfg qs)"

definition prox_CreateEnvironment ::
  "proxmox_config \<Rightarrow> 'p px_env \<Rightarrow> environment_spec \<Rightarrow> ('p, environment_result) eprog"
where
  "prox_CreateEnvironment cfg E spec =
     (case profileFor cfg (vrTemplate (esWorkstation spec)) of
        Inl e \<Rightarrow> fail e
      | Inr profile \<Rightarrow>
     (case check_templates cfg (concat (map crNodes (esClusters spec))) of
        Some e \<Rightarrow> fail e
      | None \<Rightarrow>
     try_do (create_vm cfg E profile (esWorkstation spec) ''workstation'' ''workstation IP'')
       fail (\<lambda>workstation.
     try_do (prox_clusters cfg E (esClusters spec) []) fail (\<lambda>clusters.
     ok \<lparr>erWorkstation = workstation, erClusters = clusters\<rparr>))))"

section \<open>Destroying\<close>

record prox_metadata =
  pmWorkstationVMID :: string
  pmNodeVMIDs :: "string list"

definition decode_metadata :: "json \<Rightarrow> prox_metadata option" where
  "decode_metadata v = decode_struct False
     [(''workstation_vm_id'', into_string (\<lambda>s m. m\<lparr>pmWorkstationVMID := s\<rparr>)),
      (''node_vm_ids'', into_slice (\<lambda>v. into_string (\<lambda>s _. s) v '''') (\<lambda>xs m. m\<lparr>pmNodeVMIDs := xs\<rparr>))]
     \<lparr>pmWorkstationVMID = '''', pmNodeVMIDs = []\<rparr> v"

text \<open>\<open>vmID := 0; fmt.Sscanf(s, "%d", &vmID)\<close>.\<close>

definition scan_vmid :: "string \<Rightarrow> int" where
  "scan_vmid s = (case sscanf_d s of None \<Rightarrow> 0 | Some n \<Rightarrow> n)"

definition destroy_vm :: "proxmox_config \<Rightarrow> 'p px_env \<Rightarrow> string \<Rightarrow> ('p, unit) prog" where
  "destroy_vm cfg E vmIDStr =
     (let vmID = scan_vmid vmIDStr in
      if 0 < vmID
      then ignore_do (StopVM cfg E vmID) (ignore_do (DeleteVM cfg E vmID) (result ()))
      else result ())"

definition prox_DestroyEnvironment :: "proxmox_config \<Rightarrow> 'p px_env \<Rightarrow> json \<Rightarrow> ('p, unit) eprog" where
  "prox_DestroyEnvironment cfg E metadata = (case decode_metadata metadata of
       None \<Rightarrow> fail (wrap_err ''failed to unmarshal metadata: '' (External ''json''))
     | Some m \<Rightarrow>
       ignore_do (for_each (pmNodeVMIDs m) (destroy_vm cfg E))
       (if pmWorkstationVMID m \<noteq> ''''
        then ignore_do (destroy_vm cfg E (pmWorkstationVMID m)) (ok ()) else ok ()))"

definition prox_GetVMStatus :: "proxmox_config \<Rightarrow> 'p px_env \<Rightarrow> string \<Rightarrow> ('p, string) eprog" where
  "prox_GetVMStatus cfg E providerVMID =
     (let vmID = scan_vmid providerVMID in
      if vmID = 0 then fail (Plain (''invalid VM ID: '' @ providerVMID))
      else client_GetVMStatus cfg E vmID)"

definition prox_provider :: "proxmox_config \<Rightarrow> 'p px_env \<Rightarrow> 'p provider" where
  "prox_provider cfg E = \<lparr>CreateEnvironment = prox_CreateEnvironment cfg E,
     DestroyEnvironment = prox_DestroyEnvironment cfg E, GetVMStatus = prox_GetVMStatus cfg E\<rparr>"

section \<open>The contract\<close>

lemma create_vm_hostname:
  "create_vm cfg E profile q who ip p = (Inr r, p') \<Longrightarrow> vmHostname r = vrHostname q"
  unfolding create_vm_def by (auto elim!: try_do_InrD)

lemma prox_nodes_answers:
  "prox_nodes cfg E qs acc p = (Inr rs, p') \<Longrightarrow>
     map vmHostname rs = map vmHostname acc @ map vrHostname qs"
proof (induction qs arbitrary: acc p)
  case Nil
  then show ?case by simp
next
  case (Cons q qs)
  then obtain profile r p1 where
    "create_vm cfg E profile q (''node '' @ vrHostname q) (''IP for node '' @ vrHostname q) p = (Inr r, p1)"
    and "prox_nodes cfg E qs (acc @ [r]) p1 = (Inr rs, p')"
    by (auto split: sum.splits elim!: try_do_cases)
  with Cons.IH [of "acc @ [r]" p1] show ?case by (simp add: create_vm_hostname)
qed

lemma prox_clusters_answers:
  "prox_clusters cfg E qs acc p = (Inr rs, p') \<Longrightarrow>
     \<exists>new. rs = acc @ new \<and> list_all2 cluster_answers qs new"
proof (induction qs arbitrary: acc p)
  case Nil
  then show ?case by simp
next
  case (Cons q qs)
  then obtain nodes p1 where n: "prox_nodes cfg E (crNodes q) [] p = (Inr nodes, p1)"
    and c: "prox_clusters cfg E qs (acc @ [\<lparr>clName = crName q, clNodes = nodes\<rparr>]) p1 = (Inr rs, p')"
    by (auto elim!: try_do_cases)
  from prox_nodes_answers [OF n]
  have "cluster_answers q \<lparr>clName = crName q, clNodes = nodes\<rparr>" by (simp add: cluster_answers_def)
  with Cons.IH [OF c] show ?case by auto
qed

interpretation prox: provider_contract "prox_CreateEnvironment cfg E"
  for cfg :: proxmox_config and E :: "'p px_env"
proof
  fix spec p r p'
  assume "prox_CreateEnvironment cfg E spec p = (Inr r, p')"
  then obtain profile ws p1 clusters where
    w: "create_vm cfg E profile (esWorkstation spec) ''workstation'' ''workstation IP'' p = (Inr ws, p1)"
    and c: "prox_clusters cfg E (esClusters spec) [] p1 = (Inr clusters, p')"
    and r: "r = \<lparr>erWorkstation = ws, erClusters = clusters\<rparr>"
    unfolding prox_CreateEnvironment_def
    by (auto split: sum.splits option.splits elim!: try_do_cases)
  from create_vm_hostname [OF w] prox_clusters_answers [OF c] r
  show "answers spec r" by (auto simp: answers_def)
qed

text \<open>An unknown template is reported before anything is created.\<close>

lemma check_templates_None:
  "check_templates cfg qs = None \<longleftrightarrow> (\<forall>q \<in> set qs. pcProfiles cfg (vrTemplate q) \<noteq> None)"
  by (induction qs) (auto simp: profileFor_def split: option.splits)

lemma scan_vmid_show: "0 \<le> n \<Longrightarrow> n < 2 ^ 63 \<Longrightarrow> scan_vmid (show_int n) = n"
  by (simp add: scan_vmid_def sscanf_d_show_int)

lemma poll_ip_time: "clock_ok E time \<Longrightarrow> keeps_time time (poll_ip cfg E vmID)"
  unfolding poll_ip_def keeps_time_def
  by (intro time_intro GetVMIPAddress_time [unfolded keeps_time_def])

lemma waitForIP_more_fuel:
  assumes clock: "clock_ok E time"
  shows "waitForIP (ip_fuel + k) cfg E vmID = waitForIP ip_fuel cfg E vmID"
proof (rule ext)
  fix p
  obtain t p1 where now: "pxNow E p = (t, p1)" by fastforce
  with clock have t: "t \<le> time p1" by (auto simp: clock_ok_def)
  have "poll_until (Suc 24 + k) E (seconds 5) (t + seconds 120) timeout (poll_ip cfg E vmID) p1 =
      poll_until (Suc 24) E (seconds 5) (t + seconds 120) timeout (poll_ip cfg E vmID) p1"
    for timeout
    by (rule poll_until_fuel [OF clock poll_ip_time [OF clock]]) (use t in \<open>simp_all add: seconds_def\<close>)
  then show "waitForIP (ip_fuel + k) cfg E vmID p = waitForIP ip_fuel cfg E vmID p"
    using now by (simp add: waitForIP_def ip_fuel_def del: poll_until.simps)
qed

end
