(* ===== verification/System.thy ===== *)
theory System
  imports Balances Startup Ansible MockProvider ProxmoxProvider
begin

text \<open>
  The server as a whole (\<open>cmd/server/main.go\<close>): which handler answers which route behind which
  middleware, which handler runs which job, and the step relation of everything that happens to
  the database.  A step is one request, one run of a job, one tick of the reconciler, one
  import at start-up, or something outside (the outcomes of coming statements, the state of the
  external systems, the queue dropping a job that is done).  A job may be run again after it
  ended, as River does when its completion is lost.  Handlers are atomic steps here; theory
  Server_Threads lets them interleave at their statements.
\<close>

section \<open>Routes\<close>

record 'p server =
  svUUID :: uuid_lib
  svAuth :: "'p auth_config"
  svBilling :: "'p billing_service"
  svWebhookSecret :: string
  svOrchestrator :: "'p orchestrator"
  svSSH :: "'p ssh_lib"
  svTerm :: "'p term_lib"
  svParseJSON :: "string \<Rightarrow> json option"
  svRFC3339 :: "int \<Rightarrow> string"
  svRepo :: repo
  svRepoPath :: string
  svFrontend :: "string \<rightharpoonup> file_kind"
  svServeContent :: "string \<Rightarrow> string \<Rightarrow> string \<Rightarrow> response"

datatype admin_endpoint =
    RetryProvision string | RetryGrade string | ForceDestroy string | AdminListAttempts string
  | AdminListEnvironments | AdminListTests | AdminGetTest string | AdminCreateTest "json option"
  | AdminUpdateTest string "json option" | AdminDeleteTest string

datatype user_endpoint =
    Me | Checkout "json option" | AcquireFree "json option" | Dashboard
  | CreateAttempt "json option" | GetAttemptById string | SubmitAttemptById string
  | GetScore string | OpenTerminal string "pump_event list" | AdminRoute admin_endpoint

datatype endpoint =
    Healthz | RegisterUser "json option" | LoginUser "json option" | LogoutUser
  | StripeWebhook "string option" string | CatalogTests
  | Protected request_auth user_endpoint
  | Frontend string string

text \<open>What the client of the terminal route sees: a reply, or the switch to a websocket.\<close>

definition terminal_reply :: "ws_result \<Rightarrow> response" where
  "terminal_reply r = (case r of
       HttpReply resp \<Rightarrow> resp
     | NotUpgraded \<Rightarrow> \<lparr>rStatus = 400, rBody = EmptyBody, rCookies = []\<rparr>
     | _ \<Rightarrow> \<lparr>rStatus = 101, rBody = EmptyBody, rCookies = []\<rparr>)"

text \<open>
  What \<open>ServeStatic\<close> puts behind every other path: the frontend's files.  \<open>http.ServeContent\<close>, which
  heeds the headers of the request, is a library; a panic becomes chi's 500.
\<close>

definition frontend :: "'p server \<Rightarrow> string \<Rightarrow> string \<Rightarrow> response" where
  "frontend sv urlPath headers = (case staticHandler (svFrontend sv) urlPath of
       StaticNotFound \<Rightarrow> http_Error ''404 page not found'' 404
     | ServeFile filePath cacheControl \<Rightarrow> svServeContent sv headers filePath cacheControl
     | StaticPanic \<Rightarrow> \<lparr>rStatus = 500, rBody = EmptyBody, rCookies = []\<rparr>)"

fun admin_route :: "'p server \<Rightarrow> admin_endpoint \<Rightarrow> ('p world, response) prog" where
  "admin_route sv (RetryProvision s) = retryProvision (svUUID sv) s"
| "admin_route sv (RetryGrade s) = retryGrade (svUUID sv) s"
| "admin_route sv (ForceDestroy s) = forceDestroy (svUUID sv) s"
| "admin_route sv (AdminListAttempts s) = admin_listAttempts (svUUID sv) s"
| "admin_route sv AdminListEnvironments = admin_listEnvironments"
| "admin_route sv AdminListTests = admin_listTests (svUUID sv)"
| "admin_route sv (AdminGetTest s) = admin_getTest (svUUID sv) s"
| "admin_route sv (AdminCreateTest b) = createTest (svUUID sv) b"
| "admin_route sv (AdminUpdateTest s b) = updateTest (svUUID sv) s b"
| "admin_route sv (AdminDeleteTest s) = deleteTest (svUUID sv) s"

fun user_route :: "'p server \<Rightarrow> user_endpoint \<Rightarrow> uuid option \<Rightarrow> ('p world, response) prog" where
  "user_route sv Me ctx = HandleMe (svUUID sv) ctx"
| "user_route sv (Checkout b) ctx = checkout (svBilling sv) ctx b"
| "user_route sv (AcquireFree b) ctx = acquireFree (svUUID sv) ctx b"
| "user_route sv Dashboard ctx = dashboard (svUUID sv) (svRFC3339 sv) ctx"
| "user_route sv (CreateAttempt b) ctx = createAttempt (svUUID sv) ctx b"
| "user_route sv (GetAttemptById s) ctx = getAttempt (svUUID sv) ctx s"
| "user_route sv (SubmitAttemptById s) ctx = submitAttempt (svUUID sv) ctx s"
| "user_route sv (GetScore s) ctx = getScore (svUUID sv) ctx s"
| "user_route sv (OpenTerminal tok evs) ctx =
     bind_do (handleWebSocket (svTerm sv) (svParseJSON sv) evs tok) (\<lambda>r. result (terminal_reply r))"
| "user_route sv (AdminRoute e) ctx = admin_Middleware (\<lambda>_. admin_route sv e) ctx"

fun serve :: "'p server \<Rightarrow> endpoint \<Rightarrow> ('p world, response) prog" where
  "serve sv Healthz = result healthz"
| "serve sv (RegisterUser b) = register (svAuth sv) b"
| "serve sv (LoginUser b) = login (svAuth sv) b"
| "serve sv LogoutUser = logout"
| "serve sv (StripeWebhook b sig) = webhook_Handle (svBilling sv) (svWebhookSecret sv) b sig"
| "serve sv CatalogTests = catalog_listTests (svUUID sv)"
| "serve sv (Protected ra e) = auth_Middleware (svAuth sv) ra (user_route sv e)"
| "serve sv (Frontend urlPath headers) = result (frontend sv urlPath headers)"

section \<open>Jobs\<close>

text \<open>\<open>orchestrator.New\<close> registers two handlers, \<open>main\<close> the other two.\<close>

definition server_worker :: "'p server \<Rightarrow> 'p worker" where
  "server_worker sv =
     RegisterHandler ExpireAttemptJob (HandleExpireAttempt (svUUID sv))
      (RegisterHandler GradeAttemptJob (GradeAttempt (svUUID sv) (svSSH sv))
       (RegisterJobs (svOrchestrator sv) NewGenericWorker))"

lemma server_worker_simps [simp]:
  "server_worker sv ProvisionEnvironmentJob = Some (handleProvisionEnvironment (svOrchestrator sv))"
  "server_worker sv CleanupEnvironmentJob = Some (handleCleanupEnvironment (svOrchestrator sv))"
  "server_worker sv GradeAttemptJob = Some (GradeAttempt (svUUID sv) (svSSH sv))"
  "server_worker sv ExpireAttemptJob = Some (HandleExpireAttempt (svUUID sv))"
  by (simp_all add: server_worker_def RegisterJobs_def RegisterHandler_def)

section \<open>Steps\<close>

inductive system_step :: "'p server \<Rightarrow> 'p world \<Rightarrow> 'p world \<Rightarrow> bool" for sv :: "'p server" where
  request: "serve sv e w = (r, w') \<Longrightarrow> system_step sv w w'"
| job: "j \<in> set (w_jobs w) \<Longrightarrow> Work (server_worker sv) j w = (r, w') \<Longrightarrow> system_step sv w w'"
| tick: "reconcile (oUUID (svOrchestrator sv)) w = (r, w') \<Longrightarrow> system_step sv w w'"
| startup: "ImportAll (svRepo sv) (svRepoPath sv) w = (r, w') \<Longrightarrow> system_step sv w w'"
| job_done: "system_step sv w (w\<lparr>w_jobs := nths (w_jobs w) kept\<rparr>)"
| outcomes: "system_step sv w (w\<lparr>w_faults := fs\<rparr>)"
| outside: "system_step sv w (w\<lparr>w_ext := p\<rparr>)"

inductive_cases system_stepE: "system_step sv w w'"

text \<open>A new installation: users and tests may be there, nothing was bought yet.\<close>

definition fresh_install :: "'p world \<Rightarrow> bool" where
  "fresh_install w \<longleftrightarrow> db_ok w \<and> (\<forall>t \<in> set (w_tests w). sellable t) \<and> w_purchases w = [] \<and>
     w_attempts w = [] \<and> w_environments w = [] \<and> w_sessions w = [] \<and> w_jobs w = []"

inductive reachable :: "'p server \<Rightarrow> 'p world \<Rightarrow> bool" for sv :: "'p server" where
  start: "fresh_install w \<Longrightarrow> reachable sv w"
| step: "reachable sv w \<Longrightarrow> system_step sv w w' \<Longrightarrow> reachable sv w'"

section \<open>Every step respects what the operations respect\<close>

context operation_effect
begin

lemma admin_route_R: "obeys R (admin_route sv e)"
  by (cases e) (simp_all add: admin_R read_pages create_test update_test delete_test)

lemma user_route_R: "obeys R (user_route sv e ctx)"
  by (cases e)
     (auto simp: billing_R read_pages attempts_handlers_R
       intro!: obeys_bind obeys_result handleWebSocket_R admin_Middleware_R admin_route_R)

lemma serve_R: "obeys R (serve sv e)"
  by (cases e)
     (simp_all only: serve.simps,
      auto simp: billing_R register_R read_pages intro!: obeys_result auth_Middleware_R user_route_R)

lemma Work_R: "jKind j \<noteq> ExpireAttemptJob \<Longrightarrow> obeys R (Work (server_worker sv) j)"
  by (cases "jKind j")
     (simp_all add: Work_registered handleProvisionEnvironment_R handleCleanupEnvironment_R
       GradeAttempt_R)

lemma step_R:
  assumes "system_step sv w w'" and "\<And>j. j \<in> set (w_jobs w) \<Longrightarrow> jKind j \<noteq> ExpireAttemptJob"
    and "\<And>w kept. R w (w\<lparr>w_jobs := nths (w_jobs w) kept\<rparr>)"
  shows "R w w'"
  using assms(1)
proof cases
  case (request e r)
  with serve_R show ?thesis by (rule obeysD')
next
  case (job j r)
  with assms(2) show ?thesis by (blast intro: obeysD' [OF Work_R])
next
  case (tick r)
  with reconcile_R show ?thesis by (rule obeysD')
next
  case (startup r)
  with import_all show ?thesis by (rule obeysD')
next
  case (job_done kept)
  with assms(3) show ?thesis by simp
next
  case (outcomes fs)
  with faults show ?thesis by simp
next
  case (outside p)
  with ext show ?thesis by simp
qed

end

context expiry_effect
begin

lemma Work_any_R: "obeys R (Work (server_worker sv) j)"
  by (cases "jKind j = ExpireAttemptJob") (simp_all add: Work_R Work_registered HandleExpireAttempt_R)

lemma any_step_R:
  assumes "system_step sv w w'" and "\<And>w kept. R w (w\<lparr>w_jobs := nths (w_jobs w) kept\<rparr>)"
  shows "R w w'"
  using assms(1)
proof cases
  case (job j r)
  from job(2) show ?thesis by (rule obeysD' [OF Work_any_R])
qed (use assms(2) faults ext in
     \<open>auto intro: obeysD' [OF serve_R] obeysD' [OF reconcile_R] obeysD' [OF import_all]\<close>)

end

section \<open>Invariants of reachable worlds\<close>

lemma step_db_ok: "system_step sv w w' \<Longrightarrow> db_ok w \<Longrightarrow> db_ok w'"
  by (rule keepsD [OF integ.any_step_R]) (auto simp: keeps_def db_ok_defs)

lemma step_balances: "system_step sv w w' \<Longrightarrow> balances_ok w \<Longrightarrow> balances_ok w'"
  by (rule keepsD [OF bal.any_step_R]) (auto simp: keeps_def balances_ok_def)

lemma step_working:
  assumes "system_step sv w w'" and "working w"
  shows "working w'"
proof (rule keepsD [OF work.step_R [OF assms(1)] assms(2)])
  show "jKind j \<noteq> ExpireAttemptJob" if "j \<in> set (w_jobs w)" for j
    using assms(2) that by (auto simp: working_def live_kinds_def)
qed (auto simp: keeps_def working_def dest: in_set_nthsD)

lemma step_lifecycle: "system_step sv w w' \<Longrightarrow> lifecycle w w'"
  by (rule life.any_step_R) (auto simp: lifecycle_same)

definition system_inv :: "'p world \<Rightarrow> bool" where
  "system_inv w \<longleftrightarrow> db_ok w \<and> balances_ok w \<and> working w"

lemma reachable_inv: "reachable sv w \<Longrightarrow> system_inv w"
proof (induction rule: reachable.induct)
  case (start w)
  then show ?case
    by (simp add: fresh_install_def system_inv_def balances_ok_def working_def)
next
  case (step w w')
  then show ?case
    by (auto simp: system_inv_def intro: step_db_ok step_balances step_working)
qed

end
