(* ===== verification/Records.thy ===== *)
theory Records
  imports System
begin

text \<open>
  What no part of the program ever takes back.  \<open>append_only\<close> relates two worlds when users,
  scenario versions, tasks and checks were only added, no added user is an administrator, and
  the columns of purchases, environments and sessions that say whom and what they belong to
  are as they were.  Every step of the system respects it.
\<close>

definition grows :: "('r \<Rightarrow> 'k) \<Rightarrow> ('k \<Rightarrow> bool) \<Rightarrow> 'r list \<Rightarrow> 'r list \<Rightarrow> bool" where
  "grows f P rs rs' \<longleftrightarrow> (\<exists>new. map f rs' = map f rs @ new \<and> list_all P new)"

definition any_row :: "'k \<Rightarrow> bool" where
  "any_row r = True"

definition not_admin :: "user \<Rightarrow> bool" where
  "not_admin u \<longleftrightarrow> \<not> uIsAdmin u"

definition purchase_terms :: "purchased_test \<Rightarrow> uuid \<times> uuid \<times> uuid \<times> string option \<times> int \<times> int" where
  "purchase_terms p = (pID p, pUserID p, pTestID p, pStripeSessionID p, pExpiresAt p, pCreatedAt p)"

definition environment_facts ::
  "environment \<Rightarrow> uuid \<times> uuid \<times> string option \<times> json \<times> string \<times> int"
where
  "environment_facts e =
     (eID e, eAttemptID e, eWorkstationIP e, eProviderMetadata e, eSSHPrivateKey e, eCreatedAt e)"

definition session_facts :: "session \<Rightarrow> uuid \<times> uuid \<times> uuid \<times> string \<times> int" where
  "session_facts s = (sID s, sAttemptID s, sEnvironmentID s, sTerminalToken s, sCreatedAt s)"

definition append_only :: "'p world \<Rightarrow> 'p world \<Rightarrow> bool" where
  "append_only w w' \<longleftrightarrow>
     grows id not_admin (w_users w) (w_users w') \<and>
     grows id any_row (w_versions w) (w_versions w') \<and>
     grows id any_row (w_tasks w) (w_tasks w') \<and>
     grows id any_row (w_checks w) (w_checks w') \<and>
     grows purchase_terms any_row (w_purchases w) (w_purchases w') \<and>
     grows environment_facts any_row (w_environments w) (w_environments w') \<and>
     grows session_facts any_row (w_sessions w) (w_sessions w')"

lemma any_row [simp]: "any_row r"
  by (simp add: any_row_def)

lemma grows_refl [simp]: "grows f P rs rs"
  by (simp add: grows_def)

lemma grows_trans: "grows f P rs ss \<Longrightarrow> grows f P ss ts \<Longrightarrow> grows f P rs ts"
  by (auto simp: grows_def)

lemma grows_snoc [simp]: "P (f r) \<Longrightarrow> grows f P rs (rs @ [r])"
  by (simp add: grows_def)

lemma grows_update [simp]: "(\<And>r. p r \<Longrightarrow> f (g r) = f r) \<Longrightarrow> grows f P rs (update_rows p g rs)"
  by (simp add: grows_def map_update_rows)

lemma growsD: "grows f P rs ss \<Longrightarrow> s \<in> set ss \<Longrightarrow> f s \<in> f ` set rs \<or> P (f s)"
proof -
  assume "grows f P rs ss" and s: "s \<in> set ss"
  then obtain new where m: "map f ss = map f rs @ new" and "list_all P new" by (auto simp: grows_def)
  from s have "f s \<in> set (map f ss)" by simp
  with m \<open>list_all P new\<close> show ?thesis by (auto simp: list_all_iff)
qed

lemma grows_keeps: "grows f P rs ss \<Longrightarrow> r \<in> set rs \<Longrightarrow> \<exists>s \<in> set ss. f s = f r"
proof -
  assume "grows f P rs ss" and r: "r \<in> set rs"
  then obtain new where "map f ss = map f rs @ new" by (auto simp: grows_def)
  with r have "f r \<in> set (map f ss)" by simp
  then show ?thesis by auto
qed

lemma append_only_refl: "append_only w w"
  by (simp add: append_only_def)

lemma append_only_trans: "append_only w t \<Longrightarrow> append_only t u \<Longrightarrow> append_only w u"
  unfolding append_only_def by (blast intro: grows_trans)

interpretation rec: world_effect "append_only :: 'p world \<Rightarrow> _"
  by unfold_locales
     (rule append_only_refl, erule append_only_trans, assumption, simp_all add: append_only_def)

section \<open>Statements\<close>

lemma append_only_statements:
  "uIsAdmin u = False \<Longrightarrow> obeys append_only (Users_Create u :: ('p world, unit) eprog)"
  "obeys append_only (sql_exec (insert_product pd) :: ('p world, nat) eprog)"
  "obeys append_only (sql_exec (delete_product i) :: ('p world, nat) eprog)"
  "obeys append_only (Products_Update pd :: ('p world, unit) eprog)"
  "obeys append_only (sql_exec (insert_test t) :: ('p world, nat) eprog)"
  "obeys append_only (sql_exec (delete_test i) :: ('p world, nat) eprog)"
  "obeys append_only (Tests_Update t :: ('p world, unit) eprog)"
  "obeys append_only (Purchases_Create pu :: ('p world, unit) eprog)"
  "obeys append_only (Purchases_IncrementAttemptsRemaining i :: ('p world, unit) eprog)"
  "obeys append_only (Attempts_Create a :: ('p world, unit) eprog)"
  "obeys append_only (Attempts_UpdateStatus i st :: ('p world, unit) eprog)"
  "obeys append_only (Attempts_UpdateScore i sc mx :: ('p world, unit) eprog)"
  "obeys append_only (Environments_Create e :: ('p world, unit) eprog)"
  "obeys append_only (Environments_UpdateStatus i es :: ('p world, unit) eprog)"
  "obeys append_only (Sessions_Create s :: ('p world, unit) eprog)"
  "obeys append_only (Sessions_UpdateFirstOpenedAt i now :: ('p world, unit) eprog)"
  "obeys append_only (Scenarios_CreateVersion v :: ('p world, unit) eprog)"
  "obeys append_only (Scenarios_CreateTask tk :: ('p world, unit) eprog)"
  "obeys append_only (Scenarios_CreateCheck ck :: ('p world, unit) eprog)"
  "obeys append_only (Enqueue k payload opts :: ('p world, unit) eprog)"
  unfolding store_defs insert_product_def delete_product_def insert_test_def delete_test_def
    Enqueue_def
  by ((rule rec.obeys_exec_only rec.obeys_sql_exec),
      clarsimp simp: append_only_def not_admin_def purchase_terms_def environment_facts_def
        session_facts_def add_attempts_def)+

lemma append_only_decrement:
  "obeys append_only (Purchases_DecrementAttemptsRemaining i :: ('p world, unit) eprog)"
  unfolding store_defs Let_def
  by (intro rec.obeys_try rec.obeys_sql_exec rec.obeys_if rec.obeys_fail rec.obeys_ok)
     (clarsimp simp: append_only_def purchase_terms_def add_attempts_def)

lemma append_only_transition:
  "obeys append_only (TransitionAttempt i to :: ('p world, unit) eprog)"
  unfolding TransitionAttempt_def Attempts_GetByID_def
  by (intro rec.obeys_try rec.obeys_sql_get rec.obeys_if rec.obeys_fail rec.obeys_ok
      append_only_statements)

interpretation rec: table_effect "append_only :: 'p world \<Rightarrow> _"
  by unfold_locales
     (rule append_only_statements append_only_decrement append_only_transition; assumption?)+

interpretation rec: expiry_effect "append_only :: 'p world \<Rightarrow> _"
  by unfold_locales (rule append_only_transition)

lemma step_append_only: "system_step sv w w' \<Longrightarrow> append_only w w'"
  by (erule rec.any_step_R) (simp add: append_only_def)

lemma steps_append_only: "(system_step sv)\<^sup>*\<^sup>* w w' \<Longrightarrow> append_only w w'"
  by (induction rule: rtranclp_induct) (auto intro: append_only_refl append_only_trans step_append_only)

end
