(* ===== verification/Samples.thy ===== *)
theory Samples
  imports System
begin

text \<open>
  A small concrete installation, at which the properties of the other theories are evaluated:
  two users, a free and a paid product, one scenario with two checks, one purchase.  Times are
  counted from zero and UUIDs are small numbers.
\<close>

definition sample_topology :: topology where
  "sample_topology = \<lparr>tpClusters = [\<lparr>cID = ''main'', cDisplayName = ''Main'', cKubeContext = ''kind-main'',
     cNodes = [\<lparr>nName = ''cp'', nRole = ''control-plane'', nTemplate = ''k8s''\<rparr>]\<rparr>]\<rparr>"

definition sample_scenario :: scenario where
  "sample_scenario = \<lparr>scID = ''pods'', scTitle = ''Pods'', scDurationMinutes = 60,
     scAccessWindowHours = 24, scAttemptsAllowed = 3, scTopology = sample_topology,
     scTasks = [\<lparr>skID = ''t1'', skClusterID = ''main'', skKubeContext = ''kind-main'', skPoints = 5,
                skPromptFile = ''t1.md''\<rparr>]\<rparr>"

definition sample_checks :: checks_file where
  "sample_checks = \<lparr>cfChecks = [\<lparr>chID = ''c1'', chTaskID = ''t1'', chClusterID = ''main'',
     chType = ''exec'', chCommand = ''true'', chPoints = 5\<rparr>]\<rparr>"

definition sample_attempt :: "attempt_status \<Rightarrow> attempt" where
  "sample_attempt st = \<lparr>aID = 70, aPurchasedTestID = 60, aStatus = st, aScore = None,
     aMaxScore = None, aStartedAt = None, aEndedAt = None, aCreatedAt = 0\<rparr>"

definition sample_environment :: environment where
  "sample_environment = \<lparr>eID = 80, eAttemptID = 70, eStatus = EnvReady,
     eWorkstationIP = Some ''10.0.0.5'',
     eProviderMetadata = JObj [(''node_vm_ids'', JArr []), (''workstation_vm_id'', JStr ''7'')],
     eSSHPrivateKey = ''key'', eCreatedAt = 0\<rparr>"

definition sample_session :: session where
  "sample_session = \<lparr>sID = 90, sAttemptID = 70, sEnvironmentID = 80, sTerminalToken = ''tok'',
     sFirstOpenedAt = None, sCreatedAt = 0\<rparr>"

definition sample_test :: test where
  "sample_test = \<lparr>tID = 50, tProductID = 10, tScenarioVersionID = 20, tDurationMinutes = 60,
     tAccessWindowHours = 24, tAttemptsAllowed = 3, tCreatedAt = 0\<rparr>"

definition sample_purchase :: purchased_test where
  "sample_purchase = \<lparr>pID = 60, pUserID = 1, pTestID = 50, pStripeSessionID = None,
     pExpiresAt = 1000, pAttemptsRemaining = 2, pCreatedAt = 0\<rparr>"

definition sample_shop :: "'p \<Rightarrow> 'p world" where
  "sample_shop p = \<lparr>
     w_users = [\<lparr>uID = 1, uEmail = ''ada'', uPasswordHash = ''secret'', uIsAdmin = False, uCreatedAt = 0\<rparr>,
                \<lparr>uID = 2, uEmail = ''root'', uPasswordHash = ''toor'', uIsAdmin = True, uCreatedAt = 0\<rparr>],
     w_products = [\<lparr>pdID = 10, pdStripePriceID = None, pdTitle = ''Pods'', pdDescription = ''Pods'',
                    pdIsFree = True, pdCreatedAt = 0\<rparr>],
     w_versions = [\<lparr>vID = 20, vExternalID = ''pods'', vTitle = ''Pods'', vGitCommit = ''c0'',
                    vDurationMinutes = 60, vAccessWindowHours = 24, vAttemptsAllowed = 3,
                    vTopologyJSON = marshal_topology sample_topology, vCreatedAt = 0\<rparr>],
     w_tasks = [\<lparr>tkID = 30, tkScenarioVersionID = 20, tkExternalID = ''t1'', tkClusterID = ''main'',
                 tkKubeContext = ''kind-main'', tkPoints = 5, tkPrompt = '''', tkCreatedAt = 0\<rparr>],
     w_checks = [\<lparr>ckID = 40, ckTaskID = 30, ckExternalID = ''c1'', ckClusterID = ''main'',
                  ckType = ''exec'', ckCommand = ''true'', ckPoints = 3, ckCreatedAt = 0\<rparr>,
                 \<lparr>ckID = 41, ckTaskID = 30, ckExternalID = ''c2'', ckClusterID = ''main'',
                  ckType = ''exec'', ckCommand = ''false'', ckPoints = 2, ckCreatedAt = 0\<rparr>],
     w_tests = [sample_test], w_purchases = [], w_attempts = [], w_environments = [],
     w_sessions = [], w_jobs = [], w_faults = [],
     w_uuids = (\<lambda>n. word_of_nat (1000 + n)), w_uuid_pos = 0,
     w_clock = int, w_clock_pos = 0, w_ext = p\<rparr>"

text \<open>The same with a purchase, and with an attempt of it in a given status.\<close>

definition sample_bought :: "'p \<Rightarrow> 'p world" where
  "sample_bought p = (sample_shop p)\<lparr>w_purchases := [sample_purchase]\<rparr>"

definition sample_world :: "attempt_status \<Rightarrow> 'p \<Rightarrow> 'p world" where
  "sample_world st p = (sample_bought p)\<lparr>w_attempts := [sample_attempt st],
     w_environments := [sample_environment], w_sessions := [sample_session]\<rparr>"

lemmas sample_defs = sample_topology_def sample_scenario_def sample_checks_def sample_attempt_def
  sample_environment_def sample_session_def sample_test_def sample_purchase_def sample_shop_def
  sample_bought_def sample_world_def

lemma sample_ok: "db_ok (sample_shop p)" "db_ok (sample_bought p)" "db_ok (sample_world st p)"
  by (simp_all add: sample_defs db_ok_defs unique_key_def unique_opt_def refs_def present_in_def)

lemma fresh_install_sample: "fresh_install (sample_shop p)"
  using sample_ok(1) [of p] by (simp add: fresh_install_def sample_shop_def sample_test_def sellable_def)

section \<open>A server\<close>

text \<open>
  Libraries that do the simplest thing: a token is the text of the user's id, a hash is the
  password, Stripe accepts a signature that equals the secret, a shell command passes when it
  is \<open>true\<close>; the mock provider and the no-op provisioner build the environments.
\<close>

definition sample_claims :: "uuid \<Rightarrow> claims" where
  "sample_claims u = \<lparr>clUserID = u, clExpiresAt = 0, clIssuedAt = 0, clNotBefore = 0,
     clIssuer = '''', clSubject = ''''\<rparr>"

definition sample_auth :: "'p auth_config" where
  "sample_auth = \<lparr>acLib = \<lparr>
       jwt_SignedString = (\<lambda>c key. Inr (uuid_String decimal_uuid_lib (clUserID c))),
       jwt_ParseWithClaims = (\<lambda>token key now. case uuid_Parse decimal_uuid_lib token of
          Inl e \<Rightarrow> Inl e | Inr u \<Rightarrow> Inr (sample_claims u, True)),
       bcrypt_GenerateFromPassword = (\<lambda>pw. ok pw),
       bcrypt_CompareHashAndPassword = (\<lambda>h pw. if h = pw then Inr () else Inl (External ''bcrypt''))\<rparr>,
     acUUID = decimal_uuid_lib, acSecret = ''s'', acExpiry = 86400000000000\<rparr>"

definition sample_billing :: "'p billing_service" where
  "sample_billing = \<lparr>bsStripe = \<lparr>
       stripe_New = (\<lambda>params. ok ''https://pay''),
       stripe_ConstructEvent = (\<lambda>payload sig secret. if sig = secret
          then Inr \<lparr>seType = ''checkout.session.completed'', seRaw = JNull\<rparr>
          else Inl (External ''signature'')),
       stripe_DecodeSession = (\<lambda>v. Some \<lparr>csID = ''cs'', csMetadata =
          [''user_id'' \<mapsto> uuid_String decimal_uuid_lib 1, ''test_id'' \<mapsto> uuid_String decimal_uuid_lib 50]\<rparr>)\<rparr>,
     bsUUID = decimal_uuid_lib, bsSuccessURL = '''', bsCancelURL = ''''\<rparr>"

definition sample_orchestrator :: "mock_state orchestrator" where
  "sample_orchestrator = \<lparr>oProvider = mock_provider, oProvisioner = noop_Provision,
     oProxyConfig = Some \<lparr>pxAddr = ''10.9.9.9:3128''\<rparr>, oGenerateKey = ok (''pub'', ''priv''),
     oPublicKey = (\<lambda>k. Inr k), oPrivateKeyPEM = (\<lambda>k. Inr k), oUUID = decimal_uuid_lib\<rparr>"

definition sample_ssh :: "'p ssh_lib" where
  "sample_ssh = \<lparr>ssh_ParsePrivateKey = (\<lambda>k. Inr k), ssh_Dial = (\<lambda>addr signer. ok 0),
     ssh_NewSession = (\<lambda>c. ok 0),
     ssh_Run = (\<lambda>s cmd. result (if cmd = ''true'' then RunOk else ExitError 1, '''', '''')),
     ssh_CloseSession = (\<lambda>s. result ()), ssh_CloseClient = (\<lambda>c. result ())\<rparr>"

definition sample_term :: "'p term_lib" where
  "sample_term = \<lparr>tl_Upgrade = ok 0, tl_WriteMessage = (\<lambda>ws m. ok ()), tl_WriteClose = (\<lambda>ws m. ok ()),
     tl_WriteRaw = (\<lambda>ws m. ok ()), tl_CloseWS = (\<lambda>ws. result ()), tl_ParsePrivateKey = (\<lambda>k. Inr k),
     tl_DialTimeout = (\<lambda>a t. ok 0), tl_NewClientConn = (\<lambda>c a u s. ok 0),
     tl_CloseConn = (\<lambda>c. result ()), tl_CloseClient = (\<lambda>c. result ()), tl_NewSession = (\<lambda>c. ok 0),
     tl_RequestPty = (\<lambda>s t r c. ok ()), tl_CloseSession = (\<lambda>s. result ()), tl_StdinPipe = (\<lambda>s. ok 0),
     tl_StdoutPipe = (\<lambda>s. ok 0), tl_StderrPipe = (\<lambda>s. ok 0), tl_Shell = (\<lambda>s. ok ()),
     tl_WindowChange = (\<lambda>s r c. ok ()), tl_Write = (\<lambda>s m. ok ())\<rparr>"

definition sample_repo :: repo where
  "sample_repo = \<lparr>rpWalk = (\<lambda>p. Inr [(''r/pods/scenario.yaml'', ''scenario.yaml'', False)]),
     rpReadFile = (\<lambda>p. Inr ''text''), rpScenario = (\<lambda>t. Inr sample_scenario),
     rpChecks = (\<lambda>t. Inr sample_checks), rpGitRevParse = (\<lambda>p. Inr ''c1'')\<rparr>"

definition sample_server :: "mock_state server" where
  "sample_server = \<lparr>svUUID = decimal_uuid_lib, svAuth = sample_auth, svBilling = sample_billing,
     svWebhookSecret = ''w'', svOrchestrator = sample_orchestrator, svSSH = sample_ssh,
     svTerm = sample_term, svParseJSON = (\<lambda>s. None), svRFC3339 = show_int, svRepo = sample_repo,
     svRepoPath = ''r'', svFrontend = [''index.html'' \<mapsto> RegularFile],
     svServeContent = (\<lambda>headers f cc. \<lparr>rStatus = 200, rBody = TextBody f, rCookies = []\<rparr>)\<rparr>"

text \<open>What the server has made of the sample installation after some requests.\<close>

fun after_requests :: "'p server \<Rightarrow> endpoint list \<Rightarrow> 'p world \<Rightarrow> 'p world" where
  "after_requests sv [] w = w"
| "after_requests sv (e # es) w = after_requests sv es (snd (serve sv e w))"

lemma sample_steps: "(system_step sv)\<^sup>*\<^sup>* w (after_requests sv es w)"
proof (induction sv es w rule: after_requests.induct)
  case (1 sv w)
  show ?case by simp
next
  case (2 sv e es w)
  have "system_step sv w (snd (serve sv e w))" by (rule system_step.request) (rule surjective_pairing)
  with 2 show ?case by (simp add: converse_rtranclp_into_rtranclp)
qed

lemma reachable_after: "reachable sv w \<Longrightarrow> reachable sv (after_requests sv es w)"
proof (induction sv es w rule: after_requests.induct)
  case (1 sv w)
  then show ?case by simp
next
  case (2 sv e es w)
  have "system_step sv w (snd (serve sv e w))" by (rule system_step.request) (rule surjective_pairing)
  with "2.prems" have "reachable sv (snd (serve sv e w))" by (rule reachable.step)
  then show ?case using "2.IH" by simp
qed

lemma sample_reachable: "reachable sv (after_requests sv es (sample_shop p))"
  by (rule reachable_after) (rule reachable.start, rule fresh_install_sample)

text \<open>User 1 takes the free test and starts an attempt.\<close>

definition sample_requests :: "endpoint list" where
  "sample_requests =
     [Protected \<lparr>raAuthorization = ''Bearer 1'', raCookie = None\<rparr>
        (AcquireFree (Some (JObj [(''test_id'', JStr ''50'')]))),
      Protected \<lparr>raAuthorization = '''', raCookie = Some ''1''\<rparr>
        (CreateAttempt (Some (JObj [(''purchased_test_id'', JStr ''1000'')])))]"

definition sample_history :: "mock_state world" where
  "sample_history = after_requests sample_server sample_requests (sample_shop mock_New)"

lemma reachable_history: "reachable sample_server sample_history"
  unfolding sample_history_def by (rule sample_reachable)

lemma sample_parse [simp]:
  "uuid_Parse decimal_uuid_lib ''1'' = Inr 1" "uuid_Parse decimal_uuid_lib ''50'' = Inr 50"
  "uuid_Parse decimal_uuid_lib ''1000'' = Inr 1000"
  by (simp_all add: decimal_uuid_lib_def is_digit_def digits_to_nat_def digit_val_def)

lemmas sample_run_defs = sample_server_def sample_auth_def sample_claims_def auth_Middleware_def
  ValidateToken_def extractToken_def has_prefix_def trim_prefix_def Let_def acquireFree_def
  parse_test_request_def ReadJSON_def decode_struct_def key_matches_def to_lower_def lower_char_def
  into_string_def try_do_def bind_do_def time_Now_def uuid_New_def store_defs stmt_simps
  CreateFreePurchase_def create_purchase_def new_purchase_def hours_duration_def i64_def
  createAttempt_def RequestAttempt_def start_attempt_def new_attempt_def fresh_in_def present_in_def
  unique_opt_def int4_def rows_matching_def add_attempts_def

lemma sample_history_tables:
  "w_purchases sample_history = [\<lparr>pID = 1000, pUserID = 1, pTestID = 50, pStripeSessionID = None,
     pExpiresAt = 86400000000001, pAttemptsRemaining = 2, pCreatedAt = 2\<rparr>]"
  "w_attempts sample_history = [new_attempt 1001 1000 5]"
  by (simp_all add: sample_history_def sample_requests_def sample_run_defs sample_defs)

end
