(* ===== verification/System_Properties.thy ===== *)
theory System_Properties
  imports Records Samples
begin

text \<open>
  Properties of the running system: invariants of every world that can be reached by requests,
  jobs, ticks of the reconciler, imports, failing statements and external events, in any order,
  and what every sequence of such steps preserves.
\<close>

section \<open>Invariants\<close>

text \<open>The database stays consistent: in every reachable world all primary keys and UNIQUE columns
  are unique and every reference resolves (a purchase to its user and test, an attempt to its
  purchase, an environment and a session to their attempt, a check to its task), whatever
  statements failed or took effect without acknowledgement on the way.\<close>

lemma reachable_integrity: "reachable sv w \<Longrightarrow> db_ok w"
  using reachable_inv by (auto simp: system_inv_def)

lemma reachable_integrity_example:
  "w_attempts sample_history = [new_attempt 1001 1000 5] \<and> db_ok sample_history"
  using reachable_integrity [OF reachable_history] sample_history_tables(2) by simp

text \<open>Nobody overdraws a purchase: in every reachable world no purchase has a negative number of
  attempts left, and every test on sale has a positive duration, access window and number of
  attempts.\<close>

lemma reachable_balances:
  assumes "reachable sv w"
  shows "(\<forall>p \<in> set (w_purchases w). 0 \<le> pAttemptsRemaining p) \<and>
    (\<forall>t \<in> set (w_tests w). 0 < tDurationMinutes t \<and> 0 < tAccessWindowHours t \<and> 0 < tAttemptsAllowed t)"
  using reachable_inv [OF assms] by (auto simp: system_inv_def balances_ok_def sellable_def)

lemma reachable_balances_example:
  "map pAttemptsRemaining (w_purchases sample_history) = [2] \<and>
   0 \<le> pAttemptsRemaining (hd (w_purchases sample_history))"
  using reachable_balances [OF reachable_history] by (simp add: sample_history_tables)

text \<open>Nothing expires and nothing is marked destroyed: in every reachable world no attempt is in
  one of the statuses \<open>expired\<close>, \<open>expired_before_start\<close>, \<open>expired_running\<close>, \<open>cleanup_pending\<close>,
  \<open>cleanup_failed\<close> or \<open>destroyed\<close>, and no expiry job is queued, because no part of the program
  moves an attempt to \<open>cleanup_pending\<close> or queues such a job.\<close>

lemma reachable_statuses:
  assumes "reachable sv w"
  shows "(\<forall>a \<in> set (w_attempts w). aStatus a \<notin> {Expired, ExpiredBeforeStart, ExpiredRunning,
      CleanupPending, CleanupFailed, Destroyed}) \<and>
    (\<forall>j \<in> set (w_jobs w). jKind j \<noteq> ExpireAttemptJob)"
  using reachable_inv [OF assms]
  by (auto simp: system_inv_def working_def working_statuses_def live_kinds_def)

lemma reachable_statuses_example:
  "w_attempts sample_history \<noteq> [] \<and>
   Expired \<notin> aStatus ` set (w_attempts sample_history) \<and>
   ExpireAttemptJob \<notin> jKind ` set (w_jobs sample_history)"
  using reachable_statuses [OF reachable_history] by (auto simp: sample_history_tables)

section \<open>Histories\<close>

lemma steps_lifecycle: "(system_step sv)\<^sup>*\<^sup>* w w' \<Longrightarrow> lifecycle w w'"
  by (induction rule: rtranclp_induct) (auto intro: life.refl life.trans step_lifecycle)

lemma reachable_steps: "(system_step sv)\<^sup>*\<^sup>* w w' \<Longrightarrow> reachable sv w \<Longrightarrow> reachable sv w'"
  by (induction rule: rtranclp_induct) (auto intro: reachable.step)

text \<open>C3: The life of an attempt follows the state machine: from a reachable world on, through any
  sequence of requests, jobs and failures, an attempt is never lost or given to another
  purchase, its status moves along legal transitions only, and once it is scored it stays
  scored.\<close>

theorem attempts_follow_state_machine:
  assumes "reachable sv w" and "(system_step sv)\<^sup>*\<^sup>* w w'" and "a \<in> set (w_attempts w)"
  shows "\<exists>b \<in> set (w_attempts w'). aID b = aID a \<and> aPurchasedTestID b = aPurchasedTestID a \<and>
    aCreatedAt b = aCreatedAt a \<and> reaches (aStatus a) (aStatus b) \<and>
    (aStatus a = Scored \<longrightarrow> aStatus b = Scored)"
proof -
  from assms(1) have "unique_key aID (w_attempts w)"
    using reachable_inv db_okD(1) by (auto simp: system_inv_def)
  with steps_lifecycle [OF assms(2)] have "evolved (w_attempts w) (w_attempts w')"
    by (simp add: lifecycle_def)
  then obtain b where b: "b \<in> set (w_attempts w')" and e: "attempt_evolves a b"
    using assms(3) by (rule evolved_lookup)
  from reachable_inv [OF reachable_steps [OF assms(2,1)]] b
  have work: "aStatus b \<in> working_statuses" by (simp add: system_inv_def working_def)
  have "aStatus b \<in> {Scored, CleanupPending, CleanupFailed, Destroyed}" if "aStatus a = Scored"
    using e that by (intro reaches_closed [of "aStatus a" "aStatus b"]) (auto simp: attempt_evolves_def)
  with work have "aStatus a = Scored \<longrightarrow> aStatus b = Scored" by (auto simp: working_statuses_def)
  with b e show ?thesis by (auto simp: attempt_evolves_def)
qed

text \<open>The sample history, and what became of it when the owner asked for the attempt.\<close>

definition later_history :: "mock_state world" where
  "later_history = after_requests sample_server
     [Protected \<lparr>raAuthorization = ''Bearer 1'', raCookie = None\<rparr> (GetAttemptById ''1001'')]
     sample_history"

theorem attempts_follow_state_machine_witness:
  "\<exists>b \<in> set (w_attempts later_history). aID b = 1001 \<and> aPurchasedTestID b = 1000 \<and>
     reaches AttemptRequested (aStatus b)"
proof -
  have "\<exists>b \<in> set (w_attempts later_history). aID b = aID (new_attempt 1001 1000 5) \<and>
      aPurchasedTestID b = aPurchasedTestID (new_attempt 1001 1000 5) \<and>
      aCreatedAt b = aCreatedAt (new_attempt 1001 1000 5) \<and>
      reaches (aStatus (new_attempt 1001 1000 5)) (aStatus b) \<and>
      (aStatus (new_attempt 1001 1000 5) = Scored \<longrightarrow> aStatus b = Scored)"
    unfolding later_history_def
    by (rule attempts_follow_state_machine [OF reachable_history sample_steps])
       (simp add: sample_history_tables)
  then show ?thesis by (simp add: new_attempt_def) blast
qed

text \<open>Nobody becomes an administrator and nobody's purchase changes hands: through any sequence of
  steps every administrator was one before, and every purchase, environment and session keeps
  the user, the test, the expiry, the attempt and the token it was created with.\<close>

lemma nothing_changes_hands:
  assumes "(system_step sv)\<^sup>*\<^sup>* w w'"
  shows "(\<forall>u \<in> set (w_users w'). uIsAdmin u \<longrightarrow> u \<in> set (w_users w)) \<and>
    (\<forall>p \<in> set (w_purchases w). \<exists>q \<in> set (w_purchases w'). purchase_terms q = purchase_terms p) \<and>
    (\<forall>e \<in> set (w_environments w). \<exists>f \<in> set (w_environments w'). environment_facts f = environment_facts e) \<and>
    (\<forall>s \<in> set (w_sessions w). \<exists>t \<in> set (w_sessions w'). session_facts t = session_facts s)"
proof -
  have "append_only w w'" using assms by (rule steps_append_only)
  then show ?thesis
    by (auto simp: append_only_def not_admin_def dest: growsD grows_keeps)
qed

lemma nothing_changes_hands_example:
  "uID ` {u \<in> set (w_users sample_history). uIsAdmin u} \<subseteq> {2} \<and>
   (\<exists>q \<in> set (w_purchases later_history). pUserID q = 1 \<and> pExpiresAt q = 86400000000001)"
proof -
  have "\<forall>u \<in> set (w_users sample_history). uIsAdmin u \<longrightarrow> u \<in> set (w_users (sample_shop mock_New))"
    using nothing_changes_hands [OF sample_steps [of sample_server "sample_shop mock_New" sample_requests]]
    unfolding sample_history_def by blast
  then have "\<forall>u \<in> set (w_users sample_history). uIsAdmin u \<longrightarrow> uID u = 2"
    by (auto simp: sample_shop_def)
  moreover have "\<exists>q \<in> set (w_purchases later_history). purchase_terms q = (1000, 1, 50, None, 86400000000001, 2)"
    using nothing_changes_hands [OF sample_steps [of sample_server sample_history
      "[Protected \<lparr>raAuthorization = ''Bearer 1'', raCookie = None\<rparr> (GetAttemptById ''1001'')]"]]
    unfolding later_history_def [symmetric] by (simp add: sample_history_tables purchase_terms_def)
  ultimately show ?thesis by (auto simp: purchase_terms_def)
qed

section \<open>Access\<close>

text \<open>Without a valid token nothing is served and nothing changes: a request to a protected route
  that carries no token, or one that does not validate, is answered 401, and the tables, the
  queue and the external systems are untouched.\<close>

lemma unauthenticated_refused:
  assumes "extractToken ra = '''' \<or>
    (\<exists>e. jwt_ParseWithClaims (acLib (svAuth sv)) (extractToken ra) (acSecret (svAuth sv))
       (w_clock w (w_clock_pos w)) = Inl e)"
  shows "\<exists>n. serve sv (Protected ra e) w = (http_Error ''unauthorized'' 401, w\<lparr>w_clock_pos := n\<rparr>)"
proof (cases "extractToken ra = ''''")
  case True
  then have "serve sv (Protected ra e) w = (http_Error ''unauthorized'' 401, w)"
    by (simp add: auth_Middleware_def)
  then show ?thesis by (intro exI [of _ "w_clock_pos w"]) simp
next
  case False
  with assms obtain err where
    "jwt_ParseWithClaims (acLib (svAuth sv)) (extractToken ra) (acSecret (svAuth sv))
       (w_clock w (w_clock_pos w)) = Inl err" by blast
  then have "ValidateToken (svAuth sv) (extractToken ra) w = (Inl err, w\<lparr>w_clock_pos := Suc (w_clock_pos w)\<rparr>)"
    by (simp add: ValidateToken_def bind_do_def time_Now_def)
  with False show ?thesis
    by (intro exI [of _ "Suc (w_clock_pos w)"]) (simp add: auth_Middleware_def Let_def)
qed

lemma unauthenticated_refused_example:
  "\<exists>n. serve sample_server (Protected \<lparr>raAuthorization = ''Basic x'', raCookie = None\<rparr>
      (AdminRoute (AdminDeleteTest ''50''))) (sample_shop mock_New) =
    (http_Error ''unauthorized'' 401, (sample_shop mock_New)\<lparr>w_clock_pos := n\<rparr>)"
  by (rule unauthenticated_refused) (simp add: extractToken_def has_prefix_def)

text \<open>The operator's routes are for administrators: a request with a valid token of a user who is
  not an administrator, or who is not in the database, is answered 401 or 403, and the tables,
  the queue and the external systems are untouched, whatever route it names.\<close>

lemma non_admin_refused:
  assumes "jwt_ParseWithClaims (acLib (svAuth sv)) (extractToken ra) (acSecret (svAuth sv))
      (w_clock w (w_clock_pos w)) = Inr (c, True)"
    and "\<forall>u \<in> set (w_users w). uID u = clUserID c \<longrightarrow> \<not> uIsAdmin u"
    and "serve sv (Protected ra (AdminRoute e)) w = (r, w')"
  shows "rStatus r \<in> {401, 403} \<and> (\<exists>fs n. w' = w\<lparr>w_faults := fs, w_clock_pos := n\<rparr>)"
proof (cases "extractToken ra = ''''")
  case True
  with assms(3) have "r = http_Error ''unauthorized'' 401" and "w' = w"
    by (simp_all add: auth_Middleware_def)
  then show ?thesis by (auto intro!: exI [of _ "w_faults w"] exI [of _ "w_clock_pos w"])
next
  case False
  let ?w1 = "w\<lparr>w_clock_pos := Suc (w_clock_pos w)\<rparr>"
  have "ValidateToken (svAuth sv) (extractToken ra) w = (Inr (clUserID c), ?w1)"
    using assms(1) by (simp add: ValidateToken_def bind_do_def time_Now_def)
  with assms(3) False have k: "admin_Middleware (\<lambda>_. admin_route sv e) (Some (clUserID c)) ?w1 = (r, w')"
    by (simp add: auth_Middleware_def Let_def)
  obtain x w2 where g: "Users_GetByID (clUserID c) ?w1 = (x, w2)" by fastforce
  then obtain fs where w2: "w2 = ?w1\<lparr>w_faults := fs\<rparr>"
    unfolding store_defs using sql_get_state by blast
  have "rStatus r \<in> {401, 403} \<and> w' = w2"
  proof (cases x)
    case (Inl err)
    with g k show ?thesis by (auto simp: admin_Middleware_def)
  next
    case (Inr u)
    with g have "find (\<lambda>u. uID u = clUserID c) (w_users w2) = Some u"
      unfolding store_defs by (auto dest: sql_get_InrD)
    with assms(2) w2 have "\<not> uIsAdmin u" by (auto dest!: find_SomeD)
    with g k Inr show ?thesis by (auto simp: admin_Middleware_def)
  qed
  with w2 have "w' = w\<lparr>w_faults := fs, w_clock_pos := Suc (w_clock_pos w)\<rparr>" by simp
  with \<open>rStatus r \<in> {401, 403} \<and> w' = w2\<close> show ?thesis by blast
qed

lemma non_admin_refused_example:
  "rStatus (fst (serve sample_server (Protected \<lparr>raAuthorization = ''Bearer 1'', raCookie = None\<rparr>
      (AdminRoute (AdminDeleteTest ''50''))) (sample_shop mock_New))) \<in> {401, 403}"
proof -
  obtain r w' where s: "serve sample_server (Protected \<lparr>raAuthorization = ''Bearer 1'', raCookie = None\<rparr>
      (AdminRoute (AdminDeleteTest ''50''))) (sample_shop mock_New) = (r, w')" by fastforce
  have "rStatus r \<in> {401, 403} \<and> (\<exists>fs n. w' = (sample_shop mock_New)\<lparr>w_faults := fs, w_clock_pos := n\<rparr>)"
    by (rule non_admin_refused [OF _ _ s, where c = "sample_claims 1"])
       (simp_all add: sample_server_def sample_auth_def extractToken_def has_prefix_def
         trim_prefix_def sample_claims_def sample_shop_def)
  with s show ?thesis by simp
qed

end
