(* ===== verification/Routes.thy ===== *)
theory Routes
  imports System
begin

text \<open>
  The routing table (\<open>cmd/server/main.go\<close>, httpx/server.go and the \<open>RegisterRoutes\<close> methods of the
  handlers).  A route is a method, a pattern, the middleware that was in use where it was
  registered, and the handler.  chi's \<open>Route\<close> prefixes the patterns of a group and \<open>Use\<close> puts
  middleware in front of them; which route chi picks for a path is chi's and not modelled, nor
  are chi's own four middlewares of every request.

  \<open>routes_served\<close> connects the table with \<open>serve\<close> of theory System, on which the step relation
  rests: running a route's handler inside its middleware is serving its endpoint.
\<close>

section \<open>Routes\<close>

datatype middleware = JWTMiddleware | AdminMiddleware

datatype route_handler =
    H_healthz | H_register | H_login | H_logout | H_me | H_webhook | H_listTests
  | H_checkout | H_acquireFree | H_dashboard | H_createAttempt | H_getAttempt | H_submitAttempt
  | H_getScore | H_terminal
  | H_retryProvision | H_retryGrade | H_forceDestroy | H_adminListAttempts
  | H_adminListEnvironments | H_adminListTests | H_adminGetTest | H_adminCreateTest
  | H_adminUpdateTest | H_adminDeleteTest | H_static

record route =
  rtMethod :: string
  rtPattern :: string
  rtUses :: "middleware list"
  rtHandler :: route_handler

definition chi_on :: "string \<Rightarrow> string \<Rightarrow> route_handler \<Rightarrow> route" where
  "chi_on meth pattern h = \<lparr>rtMethod = meth, rtPattern = pattern, rtUses = [], rtHandler = h\<rparr>"

text \<open>\<open>Handle\<close> registers for every method, written \<open>*\<close>.\<close>

definition chi_Handle :: "string \<Rightarrow> route_handler \<Rightarrow> route" where
  "chi_Handle pattern h = chi_on ''*'' pattern h"

definition chi_Route :: "string \<Rightarrow> route list \<Rightarrow> route list" where
  "chi_Route prefix rs = map (\<lambda>r. r\<lparr>rtPattern := prefix @ rtPattern r\<rparr>) rs"

definition chi_Use :: "middleware \<Rightarrow> route list \<Rightarrow> route list" where
  "chi_Use m rs = map (\<lambda>r. r\<lparr>rtUses := m # rtUses r\<rparr>) rs"

section \<open>What the packages register\<close>

definition auth_RegisterRoutes :: "route list" where
  "auth_RegisterRoutes =
     [chi_on ''POST'' ''/register'' H_register, chi_on ''POST'' ''/login'' H_login,
      chi_on ''POST'' ''/logout'' H_logout]"

definition catalog_RegisterRoutes :: "route list" where
  "catalog_RegisterRoutes = [chi_on ''GET'' ''/tests'' H_listTests]"

definition billing_RegisterRoutes :: "route list" where
  "billing_RegisterRoutes =
     [chi_on ''POST'' ''/checkout'' H_checkout, chi_on ''POST'' ''/acquire-free'' H_acquireFree]"

definition entitlements_RegisterRoutes :: "route list" where
  "entitlements_RegisterRoutes = [chi_on ''GET'' ''/dashboard'' H_dashboard]"

definition attempts_RegisterRoutes :: "route list" where
  "attempts_RegisterRoutes =
     [chi_on ''POST'' ''/'' H_createAttempt, chi_on ''GET'' ''/{attemptID}'' H_getAttempt,
      chi_on ''POST'' ''/{attemptID}/submit'' H_submitAttempt]"

definition scoring_RegisterRoutes :: "route list" where
  "scoring_RegisterRoutes = [chi_on ''GET'' ''/attempts/{attemptID}/score'' H_getScore]"

definition terminal_RegisterRoutes :: "route list" where
  "terminal_RegisterRoutes = [chi_on ''GET'' ''/{token}'' H_terminal]"

definition admin_RegisterRoutes :: "route list" where
  "admin_RegisterRoutes =
     [chi_on ''POST'' ''/attempts/{attemptID}/retry-provision'' H_retryProvision,
      chi_on ''POST'' ''/attempts/{attemptID}/retry-grade'' H_retryGrade,
      chi_on ''POST'' ''/environments/{environmentID}/destroy'' H_forceDestroy,
      chi_on ''GET'' ''/attempts'' H_adminListAttempts,
      chi_on ''GET'' ''/environments'' H_adminListEnvironments,
      chi_on ''GET'' ''/tests'' H_adminListTests,
      chi_on ''GET'' ''/tests/{testID}'' H_adminGetTest,
      chi_on ''POST'' ''/tests'' H_adminCreateTest,
      chi_on ''PUT'' ''/tests/{testID}'' H_adminUpdateTest,
      chi_on ''DELETE'' ''/tests/{testID}'' H_adminDeleteTest]"

section \<open>The table of the server\<close>

definition protected_routes :: "route list" where
  "protected_routes = chi_Use JWTMiddleware
     ([chi_on ''GET'' ''/auth/me'' H_me] @
      chi_Route ''/billing'' billing_RegisterRoutes @
      chi_Route ''/entitlements'' entitlements_RegisterRoutes @
      chi_Route ''/attempts'' attempts_RegisterRoutes @
      chi_Route ''/scoring'' scoring_RegisterRoutes @
      chi_Route ''/terminal'' terminal_RegisterRoutes @
      chi_Route ''/admin'' (chi_Use AdminMiddleware admin_RegisterRoutes))"

definition api_routes :: "route list" where
  "api_routes = chi_Route ''/api/v1''
     (chi_Route ''/auth'' auth_RegisterRoutes @
      [chi_on ''POST'' ''/webhooks/stripe'' H_webhook] @
      chi_Route ''/catalog'' catalog_RegisterRoutes @
      protected_routes)"

definition ServeStatic_routes :: "route list" where
  "ServeStatic_routes = [chi_Handle ''/*'' H_static]"

text \<open>\<open>NewServer\<close> registers the health check before \<open>main\<close> adds the rest.\<close>

definition server_routes :: "route list" where
  "server_routes = [chi_on ''GET'' ''/healthz'' H_healthz] @ api_routes @ ServeStatic_routes"

section \<open>Running a route\<close>

text \<open>
  A request as the handlers see it: its credentials, the value chi found for the parameter of
  the pattern, the \<open>status\<close> of the query, the body as the first JSON value it holds, the raw
  body and its signature for the webhook, what the websocket will bring, and for the frontend the
  path of the URL and the headers.
\<close>

record http_call =
  hcAuth :: request_auth
  hcParam :: string
  hcStatus :: string
  hcJson :: "json option"
  hcRaw :: "string option"
  hcSignature :: string
  hcEvents :: "pump_event list"
  hcPath :: string
  hcHeaders :: string

fun run_handler :: "'p server \<Rightarrow> http_call \<Rightarrow> route_handler \<Rightarrow> uuid option \<Rightarrow> ('p world, response) prog"
where
  "run_handler sv c H_healthz ctx = result healthz"
| "run_handler sv c H_register ctx = register (svAuth sv) (hcJson c)"
| "run_handler sv c H_login ctx = login (svAuth sv) (hcJson c)"
| "run_handler sv c H_logout ctx = logout"
| "run_handler sv c H_me ctx = HandleMe (svUUID sv) ctx"
| "run_handler sv c H_webhook ctx =
     webhook_Handle (svBilling sv) (svWebhookSecret sv) (hcRaw c) (hcSignature c)"
| "run_handler sv c H_listTests ctx = catalog_listTests (svUUID sv)"
| "run_handler sv c H_checkout ctx = checkout (svBilling sv) ctx (hcJson c)"
| "run_handler sv c H_acquireFree ctx = acquireFree (svUUID sv) ctx (hcJson c)"
| "run_handler sv c H_dashboard ctx = dashboard (svUUID sv) (svRFC3339 sv) ctx"
| "run_handler sv c H_createAttempt ctx = createAttempt (svUUID sv) ctx (hcJson c)"
| "run_handler sv c H_getAttempt ctx = getAttempt (svUUID sv) ctx (hcParam c)"
| "run_handler sv c H_submitAttempt ctx = submitAttempt (svUUID sv) ctx (hcParam c)"
| "run_handler sv c H_getScore ctx = getScore (svUUID sv) ctx (hcParam c)"
| "run_handler sv c H_terminal ctx =
     bind_do (handleWebSocket (svTerm sv) (svParseJSON sv) (hcEvents c) (hcParam c))
       (\<lambda>r. result (terminal_reply r))"
| "run_handler sv c H_retryProvision ctx = retryProvision (svUUID sv) (hcParam c)"
| "run_handler sv c H_retryGrade ctx = retryGrade (svUUID sv) (hcParam c)"
| "run_handler sv c H_forceDestroy ctx = forceDestroy (svUUID sv) (hcParam c)"
| "run_handler sv c H_adminListAttempts ctx = admin_listAttempts (svUUID sv) (hcStatus c)"
| "run_handler sv c H_adminListEnvironments ctx = admin_listEnvironments"
| "run_handler sv c H_adminListTests ctx = admin_listTests (svUUID sv)"
| "run_handler sv c H_adminGetTest ctx = admin_getTest (svUUID sv) (hcParam c)"
| "run_handler sv c H_adminCreateTest ctx = createTest (svUUID sv) (hcJson c)"
| "run_handler sv c H_adminUpdateTest ctx = updateTest (svUUID sv) (hcParam c) (hcJson c)"
| "run_handler sv c H_adminDeleteTest ctx = deleteTest (svUUID sv) (hcParam c)"
| "run_handler sv c H_static ctx = result (frontend sv (hcPath c) (hcHeaders c))"

fun run_middleware ::
  "'p server \<Rightarrow> http_call \<Rightarrow> middleware \<Rightarrow> (uuid option \<Rightarrow> ('p world, response) prog) \<Rightarrow>
   uuid option \<Rightarrow> ('p world, response) prog"
where
  "run_middleware sv c JWTMiddleware nxt ctx = auth_Middleware (svAuth sv) (hcAuth c) nxt"
| "run_middleware sv c AdminMiddleware nxt ctx = admin_Middleware nxt ctx"

definition run_route :: "'p server \<Rightarrow> http_call \<Rightarrow> route \<Rightarrow> ('p world, response) prog" where
  "run_route sv c r =
     foldr (run_middleware sv c) (rtUses r) (run_handler sv c (rtHandler r)) None"

text \<open>The endpoint of theory System that a route stands for.\<close>

fun endpoint_of :: "http_call \<Rightarrow> route_handler \<Rightarrow> endpoint" where
  "endpoint_of c H_healthz = Healthz"
| "endpoint_of c H_register = RegisterUser (hcJson c)"
| "endpoint_of c H_login = LoginUser (hcJson c)"
| "endpoint_of c H_logout = LogoutUser"
| "endpoint_of c H_me = Protected (hcAuth c) Me"
| "endpoint_of c H_webhook = StripeWebhook (hcRaw c) (hcSignature c)"
| "endpoint_of c H_listTests = CatalogTests"
| "endpoint_of c H_checkout = Protected (hcAuth c) (Checkout (hcJson c))"
| "endpoint_of c H_acquireFree = Protected (hcAuth c) (AcquireFree (hcJson c))"
| "endpoint_of c H_dashboard = Protected (hcAuth c) Dashboard"
| "endpoint_of c H_createAttempt = Protected (hcAuth c) (CreateAttempt (hcJson c))"
| "endpoint_of c H_getAttempt = Protected (hcAuth c) (GetAttemptById (hcParam c))"
| "endpoint_of c H_submitAttempt = Protected (hcAuth c) (SubmitAttemptById (hcParam c))"
| "endpoint_of c H_getScore = Protected (hcAuth c) (GetScore (hcParam c))"
| "endpoint_of c H_terminal = Protected (hcAuth c) (OpenTerminal (hcParam c) (hcEvents c))"
| "endpoint_of c H_retryProvision = Protected (hcAuth c) (AdminRoute (RetryProvision (hcParam c)))"
| "endpoint_of c H_retryGrade = Protected (hcAuth c) (AdminRoute (RetryGrade (hcParam c)))"
| "endpoint_of c H_forceDestroy = Protected (hcAuth c) (AdminRoute (ForceDestroy (hcParam c)))"
| "endpoint_of c H_adminListAttempts = Protected (hcAuth c) (AdminRoute (AdminListAttempts (hcStatus c)))"
| "endpoint_of c H_adminListEnvironments = Protected (hcAuth c) (AdminRoute AdminListEnvironments)"
| "endpoint_of c H_adminListTests = Protected (hcAuth c) (AdminRoute AdminListTests)"
| "endpoint_of c H_adminGetTest = Protected (hcAuth c) (AdminRoute (AdminGetTest (hcParam c)))"
| "endpoint_of c H_adminCreateTest = Protected (hcAuth c) (AdminRoute (AdminCreateTest (hcJson c)))"
| "endpoint_of c H_adminUpdateTest = Protected (hcAuth c) (AdminRoute (AdminUpdateTest (hcParam c) (hcJson c)))"
| "endpoint_of c H_adminDeleteTest = Protected (hcAuth c) (AdminRoute (AdminDeleteTest (hcParam c)))"
| "endpoint_of c H_static = Frontend (hcPath c) (hcHeaders c)"

lemmas route_defs = server_routes_def ServeStatic_routes_def chi_Handle_def api_routes_def protected_routes_def auth_RegisterRoutes_def
  catalog_RegisterRoutes_def billing_RegisterRoutes_def entitlements_RegisterRoutes_def
  attempts_RegisterRoutes_def scoring_RegisterRoutes_def terminal_RegisterRoutes_def
  admin_RegisterRoutes_def chi_on_def chi_Route_def chi_Use_def

lemma run_handler_user:
  "endpoint_of c h = Protected ra e \<Longrightarrow> \<forall>a. e \<noteq> AdminRoute a \<Longrightarrow> run_handler sv c h = user_route sv e"
  by (cases h) (auto simp: fun_eq_iff)

lemma run_handler_admin:
  "endpoint_of c h = Protected ra (AdminRoute a) \<Longrightarrow> run_handler sv c h = (\<lambda>_. admin_route sv a)"
  by (cases h) (auto simp: fun_eq_iff)

text \<open>A handler inside its middleware is its endpoint, for the three ways a route can be guarded.\<close>

fun guard_of :: "endpoint \<Rightarrow> middleware list" where
  "guard_of (Protected ra (AdminRoute a)) = [JWTMiddleware, AdminMiddleware]"
| "guard_of (Protected ra e) = [JWTMiddleware]"
| "guard_of _ = []"

lemma run_route_serve:
  assumes "rtUses r = guard_of (endpoint_of c (rtHandler r))"
  shows "run_route sv c r = serve sv (endpoint_of c (rtHandler r))"
proof (cases "endpoint_of c (rtHandler r)")
  case (Protected ra e)
  then have ra: "ra = hcAuth c" by (cases "rtHandler r") auto
  show ?thesis
  proof (cases "\<exists>a. e = AdminRoute a")
    case True
    then obtain a where e: "e = AdminRoute a" by blast
    have "run_middleware sv c AdminMiddleware (\<lambda>_. admin_route sv a) = user_route sv e"
      by (simp add: e fun_eq_iff)
    with assms Protected ra e show ?thesis
      by (simp add: run_route_def run_handler_admin [where ra = ra])
  next
    case False
    then have "guard_of (Protected ra e) = [JWTMiddleware]" by (cases e) auto
    with assms Protected ra False show ?thesis
      by (simp add: run_route_def run_handler_user [where ra = ra and e = e])
  qed
qed (use assms in \<open>cases "rtHandler r"; simp add: run_route_def\<close>)+

lemma routes_guards: "list_all (\<lambda>r. rtUses r = guard_of (endpoint_of c (rtHandler r))) server_routes"
  by (simp add: route_defs)

lemma routes_served: "r \<in> set server_routes \<Longrightarrow> run_route sv c r = serve sv (endpoint_of c (rtHandler r))"
  using routes_guards by (auto simp: list_all_iff intro: run_route_serve)

lemma routes_guarded:
  "list_all (\<lambda>r. rtUses r = [] \<longleftrightarrow> rtHandler r \<in>
     {H_healthz, H_register, H_login, H_logout, H_webhook, H_listTests, H_static}) server_routes"
  "list_all (\<lambda>r. has_prefix ''/api/v1/admin'' (rtPattern r) \<longleftrightarrow>
     rtUses r = [JWTMiddleware, AdminMiddleware]) server_routes"
  "list_all (\<lambda>r. rtUses r \<in> {[], [JWTMiddleware], [JWTMiddleware, AdminMiddleware]}) server_routes"
  "distinct (map (\<lambda>r. (rtMethod r, rtPattern r)) server_routes)"
  by (simp_all add: route_defs has_prefix_def)

end
