(* ===== verification/Access_Properties.thy ===== *)
theory Access_Properties
  imports System_Properties Routes
begin

text \<open>
  Who gets through to a handler, stated for the routing table of the server rather than for the
  endpoints: the patterns that are open to everybody, those that need a valid token, and those
  that need an administrator's.
\<close>

definition public_patterns :: "string list" where
  "public_patterns = [''/healthz'', ''/api/v1/auth/register'', ''/api/v1/auth/login'',
     ''/api/v1/auth/logout'', ''/api/v1/webhooks/stripe'', ''/api/v1/catalog/tests'', ''/*'']"

lemma routes_by_pattern:
  assumes "r \<in> set server_routes"
  shows "rtPattern r \<in> set public_patterns \<or>
    (\<exists>e. endpoint_of c (rtHandler r) = Protected (hcAuth c) e \<and>
       (has_prefix ''/api/v1/admin'' (rtPattern r) \<longrightarrow> (\<exists>a. e = AdminRoute a)))"
proof -
  have "list_all (\<lambda>r. rtPattern r \<in> set public_patterns \<or>
    (\<exists>e. endpoint_of c (rtHandler r) = Protected (hcAuth c) e \<and>
       (has_prefix ''/api/v1/admin'' (rtPattern r) \<longrightarrow> (\<exists>a. e = AdminRoute a)))) server_routes"
    by (simp add: route_defs public_patterns_def has_prefix_def)
  with assms show ?thesis by (simp add: list_all_iff)
qed

lemma catch_all: "r \<in> set server_routes \<Longrightarrow> rtPattern r = ''/*'' \<Longrightarrow> rtHandler r = H_static"
proof -
  have "list_all (\<lambda>r. rtPattern r = ''/*'' \<longrightarrow> rtHandler r = H_static) server_routes"
    by (simp add: route_defs)
  then show "r \<in> set server_routes \<Longrightarrow> rtPattern r = ''/*'' \<Longrightarrow> rtHandler r = H_static"
    by (simp add: list_all_iff)
qed

lemma invalid_claims_refused:
  assumes "jwt_ParseWithClaims (acLib (svAuth sv)) (extractToken ra) (acSecret (svAuth sv))
      (w_clock w (w_clock_pos w)) = Inr (cl, False)"
  shows "\<exists>n. serve sv (Protected ra e) w = (http_Error ''unauthorized'' 401, w\<lparr>w_clock_pos := n\<rparr>)"
proof (cases "extractToken ra = ''''")
  case True
  then show ?thesis by (blast intro: unauthenticated_refused)
next
  case False
  with assms show ?thesis
    by (intro exI [of _ "Suc (w_clock_pos w)"])
      (simp add: auth_Middleware_def Let_def ValidateToken_def try_do_def bind_do_def time_Now_def
        fail_def result_def)
qed

lemma protected_access:
  assumes "serve sv (Protected ra e) w = (resp, w')"
  shows "rStatus resp \<in> {401, 403} \<and> (\<exists>fs n. w' = w\<lparr>w_faults := fs, w_clock_pos := n\<rparr>) \<or>
    (\<exists>cl. jwt_ParseWithClaims (acLib (svAuth sv)) (extractToken ra) (acSecret (svAuth sv))
        (w_clock w (w_clock_pos w)) = Inr (cl, True) \<and>
      ((\<exists>a. e = AdminRoute a) \<longrightarrow> (\<exists>u \<in> set (w_users w). uID u = clUserID cl \<and> uIsAdmin u)))"
    (is "?refused \<or> ?let_in")
proof -
  let ?parse = "jwt_ParseWithClaims (acLib (svAuth sv)) (extractToken ra) (acSecret (svAuth sv))
         (w_clock w (w_clock_pos w))"
  have refusedI: ?refused if "\<exists>n. serve sv (Protected ra e) w = (http_Error ''unauthorized'' 401, w\<lparr>w_clock_pos := n\<rparr>)"
    using that assms by (auto intro!: exI [of _ "w_faults w"])
  consider (error) err where "?parse = Inl err" | (invalid) cl where "?parse = Inr (cl, False)"
    | (valid) cl where "?parse = Inr (cl, True)"
  proof (cases ?parse)
    case (Inr x)
    with invalid [of "fst x"] valid [of "fst x"] show thesis by (cases x, cases "snd x") simp_all
  qed (rule error)
  then show ?thesis
  proof cases
    case error
    have ?refused by (rule refusedI, rule unauthenticated_refused, use error in blast)
    then show ?thesis ..
  next
    case invalid
    have ?refused by (rule refusedI, rule invalid_claims_refused [OF invalid])
    then show ?thesis ..
  next
    case (valid cl)
    show ?thesis
    proof (cases "(\<exists>a. e = AdminRoute a) \<and> (\<forall>u \<in> set (w_users w). uID u = clUserID cl \<longrightarrow> \<not> uIsAdmin u)")
      case True
      then obtain a where a: "e = AdminRoute a" by blast
      have ?refused
        by (rule non_admin_refused [OF valid _ assms [unfolded a]]) (use True in blast)
      then show ?thesis ..
    next
      case False
      have ?let_in by (intro exI [of _ cl] conjI valid) (use False in blast)
      then show ?thesis ..
    qed
  qed
qed

text \<open>C7: Nobody gets past the doors of the server: every route runs its handler as the system's
  steps have it, and apart from the health check, registration, login, logout, the webhook, the
  catalogue and the catch-all for the frontend's files, which touches nothing at all, a request
  is either answered 401 or 403 with all tables, the queue and the external systems untouched, or
  it carries a token that validates; and behind \<open>/api/v1/admin\<close> the token is that of a user who is
  marked as administrator in the database.\<close>

theorem routes_access:
  assumes "r \<in> set server_routes" and "run_route sv c r w = (resp, w')"
  shows "(resp, w') = serve sv (endpoint_of c (rtHandler r)) w \<and>
    (rtPattern r = ''/*'' \<longrightarrow> w' = w) \<and>
    (rtPattern r \<in> set public_patterns \<or>
     rStatus resp \<in> {401, 403} \<and> (\<exists>fs n. w' = w\<lparr>w_faults := fs, w_clock_pos := n\<rparr>) \<or>
     (\<exists>cl. jwt_ParseWithClaims (acLib (svAuth sv)) (extractToken (hcAuth c)) (acSecret (svAuth sv))
         (w_clock w (w_clock_pos w)) = Inr (cl, True) \<and>
       (has_prefix ''/api/v1/admin'' (rtPattern r) \<longrightarrow>
          (\<exists>u \<in> set (w_users w). uID u = clUserID cl \<and> uIsAdmin u))))"
proof (cases "rtPattern r \<in> set public_patterns")
  case True
  with routes_served [OF assms(1), of sv c] assms(2) catch_all [OF assms(1)] show ?thesis
    by (auto simp: result_def)
next
  case False
  then have other: "rtPattern r \<noteq> ''/*''" by (auto simp: public_patterns_def)
  have s: "serve sv (endpoint_of c (rtHandler r)) w = (resp, w')"
    using routes_served [OF assms(1), of sv c] assms(2) by simp
  from False routes_by_pattern [OF assms(1), of c] obtain e where
    e: "endpoint_of c (rtHandler r) = Protected (hcAuth c) e"
    and admin: "has_prefix ''/api/v1/admin'' (rtPattern r) \<longrightarrow> (\<exists>a. e = AdminRoute a)" by blast
  from s e have "serve sv (Protected (hcAuth c) e) w = (resp, w')" by simp
  from protected_access [OF this] show ?thesis
  proof (elim disjE)
    assume "rStatus resp \<in> {401, 403} \<and> (\<exists>fs n. w' = w\<lparr>w_faults := fs, w_clock_pos := n\<rparr>)"
    with s other show ?thesis by simp
  next
    assume "\<exists>cl. jwt_ParseWithClaims (acLib (svAuth sv)) (extractToken (hcAuth c)) (acSecret (svAuth sv))
        (w_clock w (w_clock_pos w)) = Inr (cl, True) \<and>
      ((\<exists>a. e = AdminRoute a) \<longrightarrow> (\<exists>u \<in> set (w_users w). uID u = clUserID cl \<and> uIsAdmin u))"
    with admin s other show ?thesis by (intro conjI disjI2) auto
  qed
qed

definition sample_call :: http_call where
  "sample_call = \<lparr>hcAuth = \<lparr>raAuthorization = ''Bearer 1'', raCookie = None\<rparr>, hcParam = ''50'',
     hcStatus = '''', hcJson = None, hcRaw = None, hcSignature = '''', hcEvents = [],
     hcPath = '''', hcHeaders = ''''\<rparr>"

theorem routes_access_witness:
  "rStatus (fst (run_route sample_server sample_call (server_routes ! 24) (sample_shop mock_New))) \<in> {401, 403} \<and>
   rtPattern (server_routes ! 24) = ''/api/v1/admin/tests/{testID}''"
proof -
  let ?r = "server_routes ! 24" and ?w = "sample_shop mock_New"
  have r: "?r \<in> set server_routes" and p: "rtPattern ?r = ''/api/v1/admin/tests/{testID}''"
    and pub: "rtPattern ?r \<notin> set public_patterns" and pre: "has_prefix ''/api/v1/admin'' (rtPattern ?r)"
    by (simp_all add: route_defs public_patterns_def has_prefix_def)
  obtain resp w' where run: "run_route sample_server sample_call ?r ?w = (resp, w')" by fastforce
  have "jwt_ParseWithClaims (acLib (svAuth sample_server)) (extractToken (hcAuth sample_call))
      (acSecret (svAuth sample_server)) (w_clock ?w (w_clock_pos ?w)) = Inr (sample_claims 1, True)"
    by (simp add: sample_server_def sample_auth_def extractToken_def has_prefix_def trim_prefix_def
        sample_call_def)
  moreover have "\<not> (\<exists>u \<in> set (w_users ?w). uID u = clUserID (sample_claims 1) \<and> uIsAdmin u)"
    by (simp add: sample_shop_def sample_claims_def)
  ultimately have "rStatus resp \<in> {401, 403}"
    using routes_access [OF r run] pub pre by auto
  with run p show ?thesis by simp
qed

end
