(* ===== verification/Programs.thy ===== *)
theory Programs
  imports System
begin

text \<open>
  The programs \<open>cmd/server\<close> and \<open>cmd/import-scenarios\<close> from their first line to their exit, with
  the queue's construction (\<open>internal/jobs\<close>, queue.go) and the HTTP server's (\<open>internal/httpx\<close>,
  server.go).  The libraries are the fields of a record; the state outside the database is the
  mock provider's together with whatever the libraries keep.  While it serves, the program
  answers what arrives, runs what the queue hands to its worker, and ticks (\<open>server_events\<close>); in
  which order is the argument \<open>evs\<close>, one whole event after the other.

  \<open>server_main_runs\<close> closes the gap between the programs and the step relation of theory System:
  from the start to the exit the database only takes steps of the server that was built from
  the configuration, so what is proved of reachable worlds holds of this program.
\<close>

type_synonym 'q platform = "mock_state \<times> 'q"

section \<open>Services\<close>

record 'p main_lib =
  maConnect :: "string \<Rightarrow> ('p, nat) eprog"
  maCloseDB :: "nat \<Rightarrow> ('p, unit) prog"
  maNewPool :: "string \<Rightarrow> ('p, nat) eprog"
  maClosePool :: "nat \<Rightarrow> ('p, unit) prog"
  maAddWorker :: "('p, unit) eprog"
  maNewClient :: "nat \<Rightarrow> string \<Rightarrow> nat \<Rightarrow> ('p, nat) eprog"
  maStartClient :: "nat \<Rightarrow> ('p, unit) eprog"
  maStopClient :: "nat \<Rightarrow> int \<Rightarrow> ('p, unit) eprog"
  maStaticFS :: "go_error + (string \<rightharpoonup> file_kind)"
  maServeContent :: "string \<Rightarrow> string \<Rightarrow> string \<Rightarrow> response"
  maShutdown :: "int \<Rightarrow> ('p, unit) eprog"
  maUUID :: uuid_lib
  maAuth :: "'p auth_lib"
  maStripe :: "string \<Rightarrow> 'p stripe_lib"
  maSSH :: "'p ssh_lib"
  maTerm :: "'p term_lib"
  maParseJSON :: "string \<Rightarrow> json option"
  maRFC3339 :: "int \<Rightarrow> string"
  maRepo :: repo
  maProxmox :: "'p px_env"
  maAnsible :: "'p ansible_env"
  maGenerateKey :: "('p, string \<times> string) eprog"
  maPublicKey :: "string \<Rightarrow> go_error + string"
  maPrivateKeyPEM :: "string \<Rightarrow> go_error + string"

definition NewJWTManager :: "'p main_lib \<Rightarrow> string \<Rightarrow> int \<Rightarrow> 'p auth_config" where
  "NewJWTManager L secret expiry =
     \<lparr>acLib = maAuth L, acUUID = maUUID L, acSecret = secret, acExpiry = expiry\<rparr>"

definition billing_NewService :: "'p main_lib \<Rightarrow> string \<Rightarrow> string \<Rightarrow> string \<Rightarrow> 'p billing_service" where
  "billing_NewService L stripeKey successURL cancelURL =
     \<lparr>bsStripe = maStripe L stripeKey, bsUUID = maUUID L, bsSuccessURL = successURL,
      bsCancelURL = cancelURL\<rparr>"

text \<open>The mock provider works on its part of the state.\<close>

definition on_mock :: "(mock_state, 'a) prog \<Rightarrow> ('q platform, 'a) prog" where
  "on_mock m s = (case m (fst s) of (x, k) \<Rightarrow> (x, (k, snd s)))"

definition platform_mock :: "'q platform provider" where
  "platform_mock = \<lparr>CreateEnvironment = (\<lambda>spec. on_mock (mock_CreateEnvironment spec)),
     DestroyEnvironment = (\<lambda>metadata. on_mock (mock_DestroyEnvironment metadata)),
     GetVMStatus = (\<lambda>vmID. on_mock (mock_GetVMStatus vmID))\<rparr>"

definition choose_provider :: "'q platform main_lib \<Rightarrow> app_config \<Rightarrow> 'q platform provider" where
  "choose_provider L cfg =
     (if cfProvider cfg = ''proxmox'' then prox_provider (proxmox_config_of cfg) (maProxmox L)
      else platform_mock)"

text \<open>Whatever the configuration says, the orchestrator gets a provider that keeps the contract.\<close>

interpretation chosen: provider_contract "CreateEnvironment (choose_provider L cfg)"
  for L :: "'q platform main_lib" and cfg
proof
  fix spec r and p p' :: "'q platform"
  assume c: "CreateEnvironment (choose_provider L cfg) spec p = (Inr r, p')"
  show "answers spec r"
  proof (cases "cfProvider cfg = ''proxmox''")
    case True
    with c show ?thesis by (simp add: choose_provider_def prox_provider_def prox.create_answers)
  next
    case False
    with c show ?thesis
      by (auto simp: choose_provider_def platform_mock_def on_mock_def split: prod.splits
          intro: mockp.create_answers)
  qed
qed

definition choose_provisioner :: "'p main_lib \<Rightarrow> app_config \<Rightarrow> 'p provisioner" where
  "choose_provisioner L cfg =
     (if cfProvisionerMode cfg = ''none'' then noop_Provision else ansible_Provision (maAnsible L))"

definition proxy_config_of :: "app_config \<Rightarrow> proxy_config option" where
  "proxy_config_of cfg = (if cfProxyAddr cfg \<noteq> '''' then Some \<lparr>pxAddr = cfProxyAddr cfg\<rparr> else None)"

definition orchestrator_New :: "'q platform main_lib \<Rightarrow> app_config \<Rightarrow> 'q platform orchestrator" where
  "orchestrator_New L cfg =
     \<lparr>oProvider = choose_provider L cfg, oProvisioner = choose_provisioner L cfg,
      oProxyConfig = proxy_config_of cfg, oGenerateKey = maGenerateKey L,
      oPublicKey = maPublicKey L, oPrivateKeyPEM = maPrivateKeyPEM L, oUUID = maUUID L\<rparr>"

definition build_server :: "'q platform main_lib \<Rightarrow> app_config \<Rightarrow> 'q platform server" where
  "build_server L cfg =
     \<lparr>svUUID = maUUID L,
      svAuth = NewJWTManager L (cfJWTSecret cfg) (cfJWTExpiry cfg),
      svBilling = billing_NewService L (cfStripeSecretKey cfg) (cfStripeSuccessURL cfg) (cfStripeCancelURL cfg),
      svWebhookSecret = cfStripeWebhookSecret cfg,
      svOrchestrator = orchestrator_New L cfg,
      svSSH = maSSH L, svTerm = maTerm L, svParseJSON = maParseJSON L, svRFC3339 = maRFC3339 L,
      svRepo = maRepo L, svRepoPath = cfScenarioRepoPath cfg,
      svFrontend = (case maStaticFS L of Inl e \<Rightarrow> Map.empty | Inr files \<Rightarrow> files),
      svServeContent = maServeContent L\<rparr>"

section \<open>The queue's client (queue.go) and the HTTP server (server.go)\<close>

definition NewQueue :: "'p main_lib \<Rightarrow> nat \<Rightarrow> 'w option \<Rightarrow> ('p, nat) eprog" where
  "NewQueue L pool wk = (case wk of
       None \<Rightarrow> fail (Plain ''worker is required'')
     | Some _ \<Rightarrow>
       try_do (maAddWorker L) fail (\<lambda>_. try_do (maNewClient L pool ''default'' 10) fail ok))"

definition queue_Start :: "'p main_lib \<Rightarrow> nat \<Rightarrow> ('p, unit) eprog" where
  "queue_Start L client = maStartClient L client"

definition queue_Stop :: "'p main_lib \<Rightarrow> nat \<Rightarrow> ('p, unit) eprog" where
  "queue_Stop L client = maStopClient L client (seconds 30)"

record http_server =
  hsAddr :: string
  hsMiddleware :: "string list"
  hsRequestTimeout :: int
  hsReadTimeout :: int
  hsWriteTimeout :: int
  hsIdleTimeout :: int

definition NewServer :: "string \<Rightarrow> http_server" where
  "NewServer addr = \<lparr>hsAddr = addr,
     hsMiddleware = [''RequestID'', ''RealIP'', ''Recoverer'', ''Timeout''],
     hsRequestTimeout = seconds 30, hsReadTimeout = seconds 10, hsWriteTimeout = seconds 60,
     hsIdleTimeout = seconds 120\<rparr>"

section \<open>The server program (cmd/server/main.go)\<close>

text \<open>
  \<open>Fatal\<close> is \<open>log.Fatalf\<close> and \<open>Exit\<close> the other ends; neither \<open>log.Fatalf\<close> nor \<open>os.Exit\<close> runs
  deferred calls.  While it serves, the program either gets a signal, or its listener fails.
\<close>

datatype exit = Fatal go_error | Exit nat

datatype serving = Signalled | ListenerFailed

record handles =
  hdDB :: nat
  hdPool :: nat
  hdClient :: nat

definition start_provider :: "('q platform, unit) prog" where
  "start_provider s = ((), (mock_New, snd s))"

definition import_at_start :: "'p main_lib \<Rightarrow> app_config \<Rightarrow> ('p world, unit) prog" where
  "import_at_start L cfg =
     (if cfScenarioRepoPath cfg \<noteq> ''''
      then ignore_do (ImportAll (maRepo L) (cfScenarioRepoPath cfg)) (result ())
      else result ())"

definition server_start ::
  "'q platform main_lib \<Rightarrow> app_config \<Rightarrow> ('q platform world, handles) eprog"
where
  "server_start L cfg =
     try_do (on_ext (maConnect L (cfDatabaseURL cfg)))
       (\<lambda>e. fail (wrap_err ''failed to connect to database: '' e)) (\<lambda>db.
     try_do (on_ext (maNewPool L (cfDatabaseURL cfg)))
       (\<lambda>e. fail (wrap_err ''failed to create pgx pool: '' e)) (\<lambda>pool.
     ignore_do (import_at_start L cfg)
     (try_do (on_ext (NewQueue L pool (Some (server_worker (build_server L cfg)))))
       (\<lambda>e. fail (wrap_err ''failed to create job queue: '' e)) (\<lambda>client.
     ignore_do (on_ext start_provider)
     (try_do (result (maStaticFS L))
       (\<lambda>e. fail (wrap_err ''failed to load embedded frontend: '' e)) (\<lambda>_.
     try_do (on_ext (queue_Start L client))
       (\<lambda>e. fail (wrap_err ''failed to start job queue: '' e)) (\<lambda>_.
     ok \<lparr>hdDB = db, hdPool = pool, hdClient = client\<rparr>)))))))"

definition server_stop :: "'p main_lib \<Rightarrow> handles \<Rightarrow> ('p world, exit) prog" where
  "server_stop L h =
     ignore_do (on_ext (queue_Stop L (hdClient h)))
     (try_do (on_ext (maShutdown L (seconds 30))) (\<lambda>_. result (Exit 1)) (\<lambda>_.
      ignore_do (on_ext (maClosePool L (hdPool h)))
      (ignore_do (on_ext (maCloseDB L (hdDB h))) (result (Exit 0)))))"

text \<open>
  Between \<open>queue.Start\<close> and the signal: a request is answered, the worker gets the job at a place
  of the queue, River drops a job that is done, or the reconciler ticks.
\<close>

datatype server_event = RequestArrives endpoint | JobRuns nat | JobCompleted nat | ReconcilerTicks

fun server_event_runs :: "'p server \<Rightarrow> server_event \<Rightarrow> ('p world, unit) prog" where
  "server_event_runs sv (RequestArrives e) = ignore_do (serve sv e) (result ())"
| "server_event_runs sv (JobRuns n) = (\<lambda>w. if n < length (w_jobs w)
     then ignore_do (Work (server_worker sv) (w_jobs w ! n)) (result ()) w else ((), w))"
| "server_event_runs sv (JobCompleted n) = (\<lambda>w. ((), w\<lparr>w_jobs := nths (w_jobs w) (- {n})\<rparr>))"
| "server_event_runs sv ReconcilerTicks = reconcile (oUUID (svOrchestrator sv))"

definition server_events :: "'p server \<Rightarrow> server_event list \<Rightarrow> ('p world, unit) prog" where
  "server_events sv evs = for_each evs (server_event_runs sv)"

definition server_main ::
  "'q platform main_lib \<Rightarrow> (string \<Rightarrow> go_error + (string \<rightharpoonup> clone_profile)) \<Rightarrow> (string \<Rightarrow> string) \<Rightarrow>
   server_event list \<Rightarrow> serving \<Rightarrow> ('q platform world, exit) prog"
where
  "server_main L load_profiles env evs serving =
     (case config_Load load_profiles env of
        Inl e \<Rightarrow> result (Fatal (wrap_err ''failed to load config: '' e))
      | Inr cfg \<Rightarrow>
        try_do (server_start L cfg) (\<lambda>e. result (Fatal e)) (\<lambda>h.
        ignore_do (server_events (build_server L cfg) evs) (case serving of
          ListenerFailed \<Rightarrow> result (Exit 1)
        | Signalled \<Rightarrow> server_stop L h)))"

section \<open>The import program (cmd/import-scenarios/main.go)\<close>

definition import_main ::
  "'p main_lib \<Rightarrow> (string \<Rightarrow> go_error + (string \<rightharpoonup> clone_profile)) \<Rightarrow> (string \<Rightarrow> string) \<Rightarrow>
   ('p world, exit) prog"
where
  "import_main L load_profiles env =
     (case config_Load load_profiles env of
        Inl e \<Rightarrow> result (Fatal (wrap_err ''failed to load config: '' e))
      | Inr cfg \<Rightarrow>
        if cfScenarioRepoPath cfg = '''' then result (Fatal (Plain ''SCENARIO_REPO_PATH is not set''))
        else
        try_do (on_ext (maConnect L (cfDatabaseURL cfg)))
          (\<lambda>e. result (Fatal (wrap_err ''failed to connect to database: '' e))) (\<lambda>db.
        try_do (ImportAll (maRepo L) (cfScenarioRepoPath cfg))
          (\<lambda>e. result (Fatal (wrap_err ''import failed: '' e))) (\<lambda>_.
        ignore_do (on_ext (maCloseDB L db)) (result (Exit 0)))))"

section \<open>Everything is a step\<close>

interpretation runs: preorder_effect "(system_step sv)\<^sup>*\<^sup>*" for sv :: "'p server"
  by unfold_locales auto

lemma on_ext_runs [intro!]: "obeys (system_step sv)\<^sup>*\<^sup>* (on_ext m)"
  by (rule obeysI) (simp add: on_ext_def r_into_rtranclp system_step.outside split: prod.split)

lemma import_runs: "obeys (system_step sv)\<^sup>*\<^sup>* (ImportAll (svRepo sv) (svRepoPath sv))"
  by (rule obeysI) (metis prod.collapse r_into_rtranclp system_step.startup)

lemma import_at_start_runs: "obeys (system_step (build_server L cfg))\<^sup>*\<^sup>* (import_at_start L cfg)"
  using import_runs [of "build_server L cfg"]
  by (auto simp: import_at_start_def build_server_def intro!: runs.obeys_ignore runs.obeys_result)

lemma server_start_runs: "obeys (system_step (build_server L cfg))\<^sup>*\<^sup>* (server_start L cfg)"
  unfolding server_start_def
  by (intro runs.obeys_try runs.obeys_ignore runs.obeys_result runs.obeys_ok runs.obeys_fail
      on_ext_runs import_at_start_runs)

lemma server_stop_runs: "obeys (system_step sv)\<^sup>*\<^sup>* (server_stop L h)"
  unfolding server_stop_def
  by (intro runs.obeys_try runs.obeys_ignore runs.obeys_result on_ext_runs)

lemma server_event_runs_steps: "obeys (system_step sv)\<^sup>*\<^sup>* (server_event_runs sv e)"
proof (rule obeysI)
  fix w :: "'a world"
  show "(system_step sv)\<^sup>*\<^sup>* w (snd (server_event_runs sv e w))"
  proof (cases e)
    case (RequestArrives q)
    then show ?thesis
      by (auto simp: ignore_do_def result_def split: prod.split
          intro!: r_into_rtranclp system_step.request [OF surjective_pairing])
  next
    case (JobRuns n)
    then show ?thesis
      by (auto simp: ignore_do_def result_def split: prod.split
          intro!: r_into_rtranclp system_step.job [OF nth_mem surjective_pairing])
  next
    case (JobCompleted n)
    then show ?thesis by (auto intro: system_step.job_done)
  next
    case ReconcilerTicks
    then show ?thesis by (auto intro!: r_into_rtranclp system_step.tick [OF surjective_pairing])
  qed
qed

lemma server_events_steps: "obeys (system_step sv)\<^sup>*\<^sup>* (server_events sv evs)"
  unfolding server_events_def by (intro runs.obeys_for_each server_event_runs_steps)

lemma server_main_runs:
  assumes "config_Load load_profiles env = Inr cfg"
  shows "obeys (system_step (build_server L cfg))\<^sup>*\<^sup>* (server_main L load_profiles env evs serving)"
proof -
  have "obeys (system_step (build_server L cfg))\<^sup>*\<^sup>*
      (case s of ListenerFailed \<Rightarrow> result (Exit 1) | Signalled \<Rightarrow> server_stop L h)" for s h
    by (cases s) (auto intro: server_stop_runs)
  then show ?thesis
    unfolding server_main_def assms(1) sum.case
    by (intro runs.obeys_try runs.obeys_ignore runs.obeys_result server_start_runs server_events_steps)
qed

lemma import_main_runs:
  assumes "config_Load load_profiles env = Inr cfg"
  shows "obeys (system_step (build_server L cfg))\<^sup>*\<^sup>* (import_main L load_profiles env)"
  using import_runs [of "build_server L cfg"] assms
  by (auto simp: import_main_def build_server_def)

lemma run_reachable: "(system_step sv)\<^sup>*\<^sup>* w w' \<Longrightarrow> reachable sv w \<Longrightarrow> reachable sv w'"
  by (induction rule: rtranclp_induct) (auto intro: reachable.step)

end
