(* ===== verification/Program_Properties.thy ===== *)
theory Program_Properties
  imports Programs Samples
begin

text \<open>
  The server program as a whole: what it does to the database between its start and its exit is
  a run of the step relation, so the invariants of reachable worlds are invariants of the
  program.
\<close>

text \<open>From the start of the program to its exit the database only takes steps of the system:
  with a configuration that does not load the program ends before it touches anything; with one
  that does, whatever libraries and statements fail, whatever it serves in whatever order and at
  whatever point it ends, it leaves a new installation in a world that the server built from the
  configuration can reach; there all keys are intact and no purchase is overdrawn.\<close>

lemma server_main_reaches:
  assumes "fresh_install w" and "server_main L load_profiles env evs serving w = (x, w')"
  shows "case config_Load load_profiles env of
      Inl e \<Rightarrow> x = Fatal (wrap_err ''failed to load config: '' e) \<and> w' = w
    | Inr cfg \<Rightarrow> cfJWTSecret cfg \<noteq> '''' \<and> reachable (build_server L cfg) w' \<and> db_ok w' \<and> balances_ok w'"
proof (cases "config_Load load_profiles env")
  case (Inl e)
  with assms(2) show ?thesis by (simp add: server_main_def result_def)
next
  case (Inr cfg)
  have "(system_step (build_server L cfg))\<^sup>*\<^sup>* w w'"
    by (rule obeysD' [OF server_main_runs [OF Inr] assms(2)])
  with reachable.start [OF assms(1)] have r: "reachable (build_server L cfg) w'"
    by (blast intro: run_reachable)
  with reachable_inv [OF r] config_Load_InrD(1) [OF Inr] Inr show ?thesis
    by (simp add: system_inv_def)
qed

text \<open>Libraries for which everything works, and a configuration of the mock provider.\<close>

definition sample_lib :: "unit platform main_lib" where
  "sample_lib = \<lparr>maConnect = (\<lambda>u. ok 1), maCloseDB = (\<lambda>d. result ()), maNewPool = (\<lambda>u. ok 2),
     maClosePool = (\<lambda>p. result ()), maAddWorker = ok (), maNewClient = (\<lambda>p q n. ok 3),
     maStartClient = (\<lambda>c. ok ()), maStopClient = (\<lambda>c t. ok ()), maStaticFS = Inr Map.empty, maServeContent = (\<lambda>h f cc. healthz),
     maShutdown = (\<lambda>t. ok ()), maUUID = decimal_uuid_lib, maAuth = acLib sample_auth,
     maStripe = (\<lambda>k. bsStripe sample_billing), maSSH = sample_ssh, maTerm = sample_term,
     maParseJSON = (\<lambda>s. None), maRFC3339 = show_int, maRepo = sample_repo,
     maProxmox = \<lparr>pxDo = (\<lambda>q. fail (External ''offline'')), pxNow = result 0, pxWait = (\<lambda>d. ok ())\<rparr>,
     maAnsible = \<lparr>anMkdirTemp = (\<lambda>p. ok ''/tmp/x''), anWriteFile = (\<lambda>f c m. ok ()),
       anRemoveAll = (\<lambda>d. result ()), anRun = (\<lambda>c e. ok ()), anMarshal = (\<lambda>m. Inr '''')\<rparr>,
     maGenerateKey = ok (''pub'', ''priv''), maPublicKey = (\<lambda>k. Inr k), maPrivateKeyPEM = (\<lambda>k. Inr k)\<rparr>"

definition sample_env :: "string \<Rightarrow> string" where
  "sample_env k = (if k = ''JWT_SECRET'' then ''s'' else '''')"

lemma server_main_reaches_example:
  "fst (server_main sample_lib (\<lambda>f. Inr Map.empty) sample_env (map RequestArrives sample_requests) Signalled
      (sample_shop (mock_New, ()))) = Exit 0 \<and>
   db_ok (snd (server_main sample_lib (\<lambda>f. Inr Map.empty) sample_env (map RequestArrives sample_requests)
      Signalled (sample_shop (mock_New, ()))))"
proof -
  let ?m = "server_main sample_lib (\<lambda>f. Inr Map.empty) sample_env (map RequestArrives sample_requests)
     Signalled (sample_shop (mock_New, ()))"
  obtain cfg where cfg: "config_Load (\<lambda>f. Inr Map.empty) sample_env = Inr cfg" and c: "cfScenarioRepoPath cfg = ''''"
    by (simp add: config_Load_def read_config_def getEnv_def sample_env_def Let_def)
  have "fst ?m = Exit 0"
    by (simp add: server_main_def cfg server_start_def import_at_start_def c NewQueue_def sample_lib_def
        queue_Start_def queue_Stop_def server_stop_def on_ext_def start_provider_def
        try_do_def bind_do_def ignore_do_def result_def ok_def split: prod.split)
  moreover have "db_ok (snd ?m)"
    using server_main_reaches [where load_profiles = "\<lambda>f. Inr Map.empty" and env = sample_env,
        OF fresh_install_sample surjective_pairing, of sample_lib "map RequestArrives sample_requests"
        Signalled "(mock_New, ())"] cfg by simp
  ultimately show ?thesis by simp
qed

end
