(* ===== verification/Outcomes.thy ===== *)
theory Outcomes
  imports System
begin

text \<open>
  What a program that returned a given result must have done: inversion of the statements,
  for any pattern of outcomes, and the tables that reads leave alone.
\<close>

lemma sql_exec_InrD:
  assumes "sql_exec st w = (Inr n, w')"
  obtains fs where "st (w\<lparr>w_faults := fs\<rparr>) = Inr (w', n)"
proof -
  obtain f w1 where d: "draw_outcome w = (f, w1)" by fastforce
  then obtain fs where w1: "w1 = w\<lparr>w_faults := fs\<rparr>" using draw_outcome_tables by blast
  from assms d have "st w1 = Inr (w', n)"
    by (auto simp: sql_exec_def split: outcome.splits sum.splits)
  with w1 that show thesis by blast
qed

lemma exec_only_InrD:
  assumes "exec_only st w = (Inr u, w')"
  obtains fs n where "st (w\<lparr>w_faults := fs\<rparr>) = Inr (w', n)"
  using assms unfolding exec_only_def by (elim try_do_InrD sql_exec_InrD) auto

lemma sql_get_ok:
  assumes "sql_get q w = (Inr x, w')"
  obtains fs where "w' = w\<lparr>w_faults := fs\<rparr>" and "q (w\<lparr>w_faults := fs\<rparr>) = Some x"
  using sql_get_state [OF assms] sql_get_InrD [OF assms] by blast

lemma sql_select_ok:
  assumes "sql_select q w = (Inr x, w')"
  obtains fs where "w' = w\<lparr>w_faults := fs\<rparr>" and "x = q (w\<lparr>w_faults := fs\<rparr>)"
proof -
  obtain f w1 where d: "draw_outcome w = (f, w1)" by fastforce
  then obtain fs where w1: "w1 = w\<lparr>w_faults := fs\<rparr>" using draw_outcome_tables by blast
  with assms d that show thesis by (auto simp: sql_select_def split: if_splits)
qed

lemma sql_select_state: "sql_select q w = (r, w') \<Longrightarrow> \<exists>fs. w' = w\<lparr>w_faults := fs\<rparr>"
proof -
  assume a: "sql_select q w = (r, w')"
  obtain f w1 where d: "draw_outcome w = (f, w1)" by fastforce
  with a have "w' = w1" by (auto simp: sql_select_def split: if_splits)
  with draw_outcome_tables [OF d] show ?thesis by simp
qed

lemma bind_time_Now [simp]:
  "bind_do time_Now k w = k (w_clock w (w_clock_pos w)) (w\<lparr>w_clock_pos := Suc (w_clock_pos w)\<rparr>)"
  by (simp add: bind_do_def time_Now_def)

lemma bind_uuid_New [simp]:
  "bind_do uuid_New k w = k (w_uuids w (w_uuid_pos w)) (w\<lparr>w_uuid_pos := Suc (w_uuid_pos w)\<rparr>)"
  by (simp add: bind_do_def uuid_New_def)

lemma try_do_ignored_error:
  assumes "try_do m (\<lambda>e. ignore_do (c e) (fail (f e))) k s = (Inr y, s')"
  obtains x s1 where "m s = (Inr x, s1)" and "k x s1 = (Inr y, s')"
  using assms by (elim try_do_cases) (auto simp: ignore_do_def)

text \<open>The statements of the attempt service, when they succeed.\<close>

definition charged :: "uuid \<Rightarrow> purchased_test list \<Rightarrow> purchased_test list" where
  "charged i ps = update_rows (\<lambda>r. pID r = i \<and> 0 < pAttemptsRemaining r) (add_attempts (- 1)) ps"

lemma Decrement_InrD:
  assumes "Purchases_DecrementAttemptsRemaining i w = (Inr u, w')"
  obtains fs where "w' = w\<lparr>w_faults := fs, w_purchases := charged i (w_purchases w)\<rparr>"
  using assms unfolding store_defs charged_def Let_def
  by (elim try_do_InrD sql_exec_InrD) (auto split: if_splits)

lemma Attempts_Create_InrD:
  assumes "Attempts_Create a w = (Inr u, w')"
  obtains fs where "w' = w\<lparr>w_faults := fs, w_attempts := w_attempts w @ [a]\<rparr>"
    and "aID a \<notin> aID ` set (w_attempts w)"
  using assms unfolding store_defs
  by (elim exec_only_InrD) (auto simp: fresh_in_def split: if_splits)

lemma Enqueue_InrD:
  assumes "Enqueue k payload opts w = (Inr u, w')"
  obtains fs where "w' = w\<lparr>w_faults := fs, w_jobs := w_jobs w @
    [\<lparr>jKind = k, jPayload = payload, jScheduledAt = insert_opts opts\<rparr>]\<rparr>"
  using assms unfolding Enqueue_def by (elim exec_only_InrD) auto

lemma Purchases_GetByID_InrD:
  assumes "Purchases_GetByID i w = (Inr p, w')"
  obtains fs where "w' = w\<lparr>w_faults := fs\<rparr>" and "find (\<lambda>p. pID p = i) (w_purchases w) = Some p"
    and "pID p = i"
  using assms unfolding store_defs by (elim sql_get_ok) (auto dest: find_SomeD)

lemma Attempts_GetByID_InrD:
  assumes "Attempts_GetByID i w = (Inr a, w')"
  obtains fs where "w' = w\<lparr>w_faults := fs\<rparr>" and "find (\<lambda>a. aID a = i) (w_attempts w) = Some a"
    and "aID a = i"
  using assms unfolding store_defs by (elim sql_get_ok) (auto dest: find_SomeD)

lemma find_unique:
  assumes "unique_key key rs" and "find (\<lambda>r. key r = k) rs = Some x" and "r \<in> set rs" and "key r = k"
  shows "r = x"
  using assms unique_keyD [OF assms(1)] by (auto dest!: find_SomeD)

definition provision_job :: "uuid_lib \<Rightarrow> uuid \<Rightarrow> job" where
  "provision_job L i = \<lparr>jKind = ProvisionEnvironmentJob, jPayload = attempt_payload L i,
     jScheduledAt = None\<rparr>"

end
