(* ===== verification/Races.thy ===== *)
theory Races
  imports Outcomes Samples
begin

text \<open>
  Requests that run at the same time (\<open>internal/attempts\<close>, service.go).  The step relation of
  theory System takes a handler as one step; here \<open>RequestAttempt\<close> and \<open>TransitionAttempt\<close> are
  cut into their statements, each of which PostgreSQL runs as a transaction of its own.  A thread
  is the point a call has reached with the local variables it still needs; a move lets one
  thread run its next statement.  \<open>request_run\<close> and \<open>transition_run\<close> show that a thread that is
  not disturbed does what the handler of theory Attempts does.

  The two calls differ in what survives interleaving.  The decrement of a purchase tests its
  condition in the UPDATE itself, so requests can never be granted more attempts than were paid
  for.  A transition tests the status in one statement and writes it in another, so two
  transitions can together take an edge that the table does not have.
\<close>

section \<open>Requesting an attempt, statement by statement\<close>

datatype request_pc =
    Looking uuid uuid
  | Charging purchased_test
  | Creating purchased_test
  | Queueing purchased_test attempt
  | Refunding purchased_test go_error
  | Finished "go_error + attempt"

fun request_step :: "uuid_lib \<Rightarrow> request_pc \<Rightarrow> ('p world, request_pc) prog" where
  "request_step L (Looking userID purchasedTestID) =
     try_do (Purchases_GetByID purchasedTestID)
       (\<lambda>e. result (Finished (Inl (wrap_err ''purchase not found: '' e)))) (\<lambda>purchase.
     if pUserID purchase \<noteq> userID then result (Finished (Inl (Plain ''unauthorized''))) else
     bind_do time_Now (\<lambda>now. result
       (if pExpiresAt purchase < now then Finished (Inl ErrPurchaseExpired)
        else if pAttemptsRemaining purchase \<le> 0 then Finished (Inl ErrNoAttemptsRemaining)
        else Charging purchase)))"
| "request_step L (Charging purchase) =
     try_do (Purchases_DecrementAttemptsRemaining (pID purchase))
       (\<lambda>e. result (Finished (Inl (wrap_err ''failed to decrement attempts: '' e))))
       (\<lambda>_. result (Creating purchase))"
| "request_step L (Creating purchase) =
     bind_do uuid_New (\<lambda>attemptID.
     bind_do time_Now (\<lambda>created.
     let attempt = new_attempt attemptID (pID purchase) created in
     try_do (Attempts_Create attempt)
       (\<lambda>e. result (Refunding purchase (wrap_err ''failed to create attempt: '' e)))
       (\<lambda>_. result (Queueing purchase attempt))))"
| "request_step L (Queueing purchase attempt) =
     try_do (Enqueue ProvisionEnvironmentJob (attempt_payload L (aID attempt)) None)
       (\<lambda>e. result (Refunding purchase (wrap_err ''failed to enqueue provisioning job: '' e)))
       (\<lambda>_. result (Finished (Inr attempt)))"
| "request_step L (Refunding purchase e) =
     ignore_do (Purchases_IncrementAttemptsRemaining (pID purchase)) (result (Finished (Inl e)))"
| "request_step L (Finished r) = result (Finished r)"

fun run_request :: "nat \<Rightarrow> uuid_lib \<Rightarrow> request_pc \<Rightarrow> ('p world, request_pc) prog" where
  "run_request 0 L pc = result pc"
| "run_request (Suc n) L pc = bind_do (request_step L pc) (run_request n L)"

lemma run_request_finished: "run_request n L (Finished r) = result (Finished r)"
  by (induction n) (simp_all add: bind_do_def result_def)

lemma run_request_from_charge:
  "run_request 4 L (Charging p) w =
     (case start_attempt L p w of (r, w') \<Rightarrow> (Finished r, w'))"
  by (simp add: eval_nat_numeral start_attempt_def try_do_def bind_do_def ignore_do_def result_def
      ok_def fail_def uuid_New_def time_Now_def Let_def run_request_finished
      split: prod.split sum.split)

text \<open>Five statements are the most that a call needs: a thread alone is the handler.\<close>

lemma request_run:
  "run_request 5 L (Looking u i) w = (case RequestAttempt L u i w of (r, w') \<Rightarrow> (Finished r, w'))"
proof -
  have "(5::nat) = Suc 4" by simp
  then have "run_request 5 L (Looking u i) w = bind_do (request_step L (Looking u i)) (run_request 4 L) w"
    by (simp only: run_request.simps)
  then show ?thesis
    by (simp add: RequestAttempt_def try_do_def bind_do_def result_def fail_def
        time_Now_def run_request_finished run_request_from_charge split: prod.split sum.split)
qed

section \<open>Many requests at once\<close>

text \<open>
  The threads of the server, oldest first.  A request may arrive at any time; any thread may
  run its next statement; and anything may happen elsewhere that leaves the purchases alone,
  among it the failure of coming statements.
\<close>

inductive request_move ::
  "uuid_lib \<Rightarrow> request_pc list \<times> 'p world \<Rightarrow> request_pc list \<times> 'p world \<Rightarrow> bool"
  for L :: uuid_lib
where
  arrive: "request_move L (pcs, w) (pcs @ [Looking userID purchasedTestID], w)"
| advance: "k < length pcs \<Longrightarrow> request_step L (pcs ! k) w = (pc, w') \<Longrightarrow>
    request_move L (pcs, w) (pcs[k := pc], w')"
| elsewhere: "w_purchases w' = w_purchases w \<Longrightarrow> request_move L (pcs, w) (pcs, w')"


text \<open>What a purchase has left, and the attempts of it that a thread has taken and not given back.\<close>

definition left_of :: "uuid \<Rightarrow> purchased_test list \<Rightarrow> int" where
  "left_of i ps = (case find (\<lambda>p. pID p = i) ps of None \<Rightarrow> 0 | Some p \<Rightarrow> pAttemptsRemaining p)"

fun holds :: "uuid \<Rightarrow> request_pc \<Rightarrow> bool" where
  "holds i (Looking u j) \<longleftrightarrow> False"
| "holds i (Charging p) \<longleftrightarrow> False"
| "holds i (Creating p) \<longleftrightarrow> pID p = i"
| "holds i (Queueing p a) \<longleftrightarrow> pID p = i"
| "holds i (Refunding p e) \<longleftrightarrow> pID p = i"
| "holds i (Finished (Inl e)) \<longleftrightarrow> False"
| "holds i (Finished (Inr a)) \<longleftrightarrow> aPurchasedTestID a = i"

fun sound_pc :: "request_pc \<Rightarrow> bool" where
  "sound_pc (Queueing p a) \<longleftrightarrow> aPurchasedTestID a = pID p"
| "sound_pc _ \<longleftrightarrow> True"

definition granted :: "uuid \<Rightarrow> request_pc list \<Rightarrow> nat" where
  "granted i pcs = length (filter (\<lambda>pc. \<exists>a. pc = Finished (Inr a) \<and> aPurchasedTestID a = i) pcs)"

definition held :: "uuid \<Rightarrow> request_pc list \<Rightarrow> nat" where
  "held i pcs = length (filter (holds i) pcs)"

lemma granted_held: "granted i pcs \<le> held i pcs"
  unfolding granted_def held_def by (induction pcs) auto

lemma held_update:
  "k < length pcs \<Longrightarrow> int (held i (pcs[k := pc])) + of_bool (holds i (pcs ! k)) =
     int (held i pcs) + of_bool (holds i pc)"
proof (induction pcs arbitrary: k)
  case Nil
  then show ?case by simp
next
  case (Cons x pcs)
  then show ?case by (cases k) (auto simp: held_def)
qed

section \<open>What the statements do to the balance\<close>

lemma left_of_update:
  "left_of i (update_rows p (add_attempts d) ps) =
     left_of i ps + (case find (\<lambda>r. pID r = i) ps of
       None \<Rightarrow> 0 | Some r \<Rightarrow> if p r then d else 0)"
  by (simp add: left_of_def find_update_rows add_attempts_def split: option.split)

lemma Purchases_GetByID_purchases:
  "Purchases_GetByID i w = (r, w') \<Longrightarrow> w_purchases w' = w_purchases w"
  unfolding store_defs by (drule sql_get_state) auto

lemma exec_only_purchases:
  assumes "exec_only st w = (r, w')"
    and "\<And>v v' n. st v = Inr (v', n) \<Longrightarrow> w_purchases v' = f (w_purchases v)"
  shows "w_purchases w' = w_purchases w \<and> (\<exists>e. r = Inl e) \<or> w_purchases w' = f (w_purchases w)"
proof -
  obtain o1 w1 where d: "draw_outcome w = (o1, w1)" by fastforce
  then have "w_purchases w1 = w_purchases w" using draw_outcome_tables by fastforce
  with assms d show ?thesis
    by (auto simp: exec_only_def try_do_def sql_exec_def ok_def fail_def
        split: prod.splits sum.splits outcome.splits)
qed

lemma charged_map_id [simp]: "map pID (update_rows p (add_attempts d) ps) = map pID ps"
  by (rule map_update_rows) (simp add: add_attempts_def)

lemma left_of_charged:
  "left_of i (charged j ps) = left_of i ps - of_bool (i = j \<and> 0 < left_of j ps)"
proof (cases "find (\<lambda>r. pID r = i) ps")
  case None
  then show ?thesis by (auto simp: charged_def left_of_update) (simp add: left_of_def)
next
  case (Some r)
  moreover from Some have "pID r = i" by (auto dest: find_SomeD)
  ultimately show ?thesis by (auto simp: charged_def left_of_update) (auto simp: left_of_def)
qed

lemma map_charged [simp]: "map pID (charged j ps) = map pID ps"
  by (simp add: charged_def)

lemma left_of_refunded:
  shows "left_of i (update_rows (\<lambda>r. pID r = j) (add_attempts 1) ps) \<le> left_of i ps + of_bool (i = j)"
  and "left_of i ps \<le> left_of i (update_rows (\<lambda>r. pID r = j) (add_attempts 1) ps)"
  unfolding left_of_update by (auto split: option.splits dest: find_SomeD)

lemma left_of_pos:
  assumes "unique_key pID ps" and "p \<in> set ps" and "pID p = j"
  shows "left_of j ps = pAttemptsRemaining p"
  using assms find_distinct_key [of pID ps p] by (simp add: left_of_def unique_key_def)

lemma Decrement_purchases:
  assumes "Purchases_DecrementAttemptsRemaining j w = (r, w')" and "unique_key pID (w_purchases w)"
  shows "w_purchases w' = w_purchases w \<and> (\<exists>e. r = Inl e) \<or> w_purchases w' = charged j (w_purchases w)"
    and "r = Inr u \<Longrightarrow> w_purchases w' = charged j (w_purchases w) \<and> 0 < left_of j (w_purchases w)"
proof -
  let ?ps = "w_purchases w" and ?q = "\<lambda>r. pID r = j \<and> 0 < pAttemptsRemaining r"
  obtain o1 w1 where d: "draw_outcome w = (o1, w1)" by fastforce
  then have w1: "w_purchases w1 = ?ps" using draw_outcome_tables by fastforce
  from assms(1) d w1
  show "w_purchases w' = ?ps \<and> (\<exists>e. r = Inl e) \<or> w_purchases w' = charged j ?ps"
    by (auto simp: store_defs try_do_def sql_exec_def ok_def fail_def charged_def Let_def
        split: prod.splits sum.splits outcome.splits if_splits)
  assume "r = Inr u"
  with assms(1) d w1 have "w_purchases w' = charged j ?ps" and n: "rows_matching ?q ?ps \<noteq> 0"
    by (auto simp: store_defs try_do_def sql_exec_def ok_def fail_def charged_def Let_def
        split: prod.splits sum.splits outcome.splits if_splits)
  moreover from n obtain p where "p \<in> set ?ps" and "pID p = j" and "0 < pAttemptsRemaining p"
    by (auto simp: rows_matching_def filter_empty_conv)
  ultimately show "w_purchases w' = charged j ?ps \<and> 0 < left_of j ?ps"
    using left_of_pos [OF assms(2)] by auto
qed

lemma Increment_purchases:
  assumes "Purchases_IncrementAttemptsRemaining j w = (r, w')"
  shows "w_purchases w' = w_purchases w \<or>
    w_purchases w' = update_rows (\<lambda>r. pID r = j) (add_attempts 1) (w_purchases w)"
  using assms unfolding Purchases_IncrementAttemptsRemaining_def
  by (rule exec_only_purchases [THEN disj_forward]) (auto split: if_splits)

lemma Attempts_Create_purchases:
  "Attempts_Create a w = (r, w') \<Longrightarrow> w_purchases w' = w_purchases w"
  unfolding store_defs by (drule exec_only_purchases [where f = id]) (auto split: if_splits)

lemma Enqueue_purchases: "Enqueue k p t w = (r, w') \<Longrightarrow> w_purchases w' = w_purchases w"
  unfolding Enqueue_def by (drule exec_only_purchases [where f = id]) auto

text \<open>One statement of a thread, seen from the balance of a purchase.\<close>

definition balanced_step :: "uuid \<Rightarrow> request_pc \<Rightarrow> purchased_test list \<Rightarrow> request_pc \<Rightarrow> purchased_test list \<Rightarrow> bool" where
  "balanced_step i pc ps pc' ps' \<longleftrightarrow> map pID ps' = map pID ps \<and> sound_pc pc' \<and>
     left_of i ps' + of_bool (holds i pc') \<le> left_of i ps + of_bool (holds i pc) \<and>
     (0 \<le> left_of i ps \<longrightarrow> 0 \<le> left_of i ps')"

lemma request_step_balanced:
  assumes "request_step L pc w = (pc', w')" and "unique_key pID (w_purchases w)" and "sound_pc pc"
  shows "balanced_step i pc (w_purchases w) pc' (w_purchases w')"
proof (cases pc)
  case (Looking u j)
  with assms(1) show ?thesis
    by (auto simp: balanced_step_def result_def try_do_def bind_do_def time_Now_def
        dest: Purchases_GetByID_purchases split: prod.splits sum.splits if_splits)
next
  case (Charging p)
  obtain r w1 where d: "Purchases_DecrementAttemptsRemaining (pID p) w = (r, w1)" by fastforce
  from Charging assms(1) d have w1: "w_purchases w' = w_purchases w1"
    and pc': "pc' = Creating p \<and> (\<exists>u. r = Inr u) \<or> (\<exists>e. pc' = Finished (Inl e))"
    by (auto simp: try_do_def result_def split: sum.splits)
  note e = Decrement_purchases [OF d assms(2)]
  show ?thesis
  proof (cases r)
    case (Inl err)
    with e(1) pc' w1 Charging show ?thesis
      by (auto simp: balanced_step_def left_of_charged)
  next
    case (Inr u)
    with e(2) pc' w1 Charging show ?thesis
      by (auto simp: balanced_step_def left_of_charged)
  qed
next
  case (Creating p)
  then show ?thesis using assms(1)
    by (auto simp: balanced_step_def result_def try_do_def new_attempt_def Let_def
        dest: Attempts_Create_purchases split: prod.splits sum.splits)
next
  case (Queueing p a)
  then show ?thesis using assms(1,3)
    by (auto simp: balanced_step_def result_def try_do_def
        dest: Enqueue_purchases split: prod.splits sum.splits)
next
  case (Refunding p e)
  obtain r w1 where d: "Purchases_IncrementAttemptsRemaining (pID p) w = (r, w1)" by fastforce
  with Refunding assms(1) have "w' = w1" "pc' = Finished (Inl e)"
    by (simp_all add: ignore_do_def result_def)
  with Increment_purchases [OF d] Refunding left_of_refunded(1) [of i "pID p" "w_purchases w"]
    left_of_refunded(2) [of i "w_purchases w" "pID p"]
  show ?thesis by (auto simp: balanced_step_def)
next
  case (Finished r)
  with assms show ?thesis by (simp add: balanced_step_def result_def)
qed

section \<open>No interleaving grants too much\<close>

definition race_inv :: "uuid \<Rightarrow> int \<Rightarrow> request_pc list \<Rightarrow> purchased_test list \<Rightarrow> bool" where
  "race_inv i n pcs ps \<longleftrightarrow> unique_key pID ps \<and> list_all sound_pc pcs \<and>
     left_of i ps + int (held i pcs) \<le> n \<and> 0 \<le> left_of i ps"

lemma request_move_inv:
  assumes "request_move L (pcs, w) (pcs', w')" and "race_inv i n pcs (w_purchases w)"
  shows "race_inv i n pcs' (w_purchases w')"
  using assms(1)
proof cases
  case (arrive u j)
  with assms(2) show ?thesis by (simp add: race_inv_def held_def)
next
  case (advance k pc)
  from assms(2) have u: "unique_key pID (w_purchases w)" and s: "list_all sound_pc pcs"
    by (simp_all add: race_inv_def)
  from s advance have "sound_pc (pcs ! k)" by (simp add: list_all_length)
  from request_step_balanced [OF _ u this, of L pc w' i] advance
  have b: "balanced_step i (pcs ! k) (w_purchases w) pc (w_purchases w')" by simp
  moreover from b u have "unique_key pID (w_purchases w')"
    by (simp add: balanced_step_def unique_key_def)
  moreover from b s advance have "list_all sound_pc pcs'"
    by (auto simp: balanced_step_def list_all_length nth_list_update)
  ultimately show ?thesis
    using assms(2) advance held_update [of k pcs i pc] by (auto simp: race_inv_def balanced_step_def)
next
  case elsewhere
  with assms(2) show ?thesis by simp
qed

lemma request_moves_inv:
  assumes "(request_move L)\<^sup>*\<^sup>* s s'" and "race_inv i n (fst s) (w_purchases (snd s))"
  shows "race_inv i n (fst s') (w_purchases (snd s'))"
  using assms
proof (induction rule: rtranclp_induct)
  case base
  then show ?case by simp
next
  case (step s' s'')
  then show ?case
    using request_move_inv [of L "fst s'" "snd s'" "fst s''" "snd s''" i n] by simp
qed

text \<open>C9: However many requests for attempts run at once, in whatever order the database serves
  their statements and whichever of these fail, no purchase is granted more attempts than it had
  left, and it is never left with a negative number: what was granted and what is left is
  together at most what was there.  The check of the balance that a request makes first would
  not be enough; the condition in the UPDATE is.\<close>

theorem requests_never_overdraw:
  assumes "(request_move L)\<^sup>*\<^sup>* ([], w) (pcs, w')" and "unique_key pID (w_purchases w)"
    and "find (\<lambda>p. pID p = i) (w_purchases w) = Some pu" and "0 \<le> pAttemptsRemaining pu"
  shows "int (granted i pcs) + left_of i (w_purchases w') \<le> pAttemptsRemaining pu \<and>
    0 \<le> left_of i (w_purchases w')"
proof -
  from assms(2-4) have "race_inv i (pAttemptsRemaining pu) [] (w_purchases w)"
    by (simp add: race_inv_def held_def left_of_def)
  from request_moves_inv [OF assms(1), of i "pAttemptsRemaining pu"] this
  show ?thesis using granted_held [of i pcs] by (auto simp: race_inv_def)
qed

text \<open>A given order of moves.\<close>

fun schedule :: "uuid_lib \<Rightarrow> nat list \<Rightarrow> request_pc list \<times> 'p world \<Rightarrow> request_pc list \<times> 'p world" where
  "schedule L [] s = s"
| "schedule L (k # ks) (pcs, w) =
     (case request_step L (pcs ! k) w of (pc, w') \<Rightarrow> schedule L ks (pcs[k := pc], w'))"

lemma schedule_moves:
  "list_all (\<lambda>k. k < length (fst s)) ks \<Longrightarrow> (request_move L)\<^sup>*\<^sup>* s (schedule L ks s)"
proof (induction L ks s rule: schedule.induct)
  case (1 L s)
  show ?case by simp
next
  case (2 L k ks pcs w)
  obtain pc w' where st: "request_step L (pcs ! k) w = (pc, w')" by fastforce
  with 2 have "request_move L (pcs, w) (pcs[k := pc], w')" by (intro request_move.advance) simp_all
  moreover from 2 st have "(request_move L)\<^sup>*\<^sup>* (pcs[k := pc], w') (schedule L ks (pcs[k := pc], w'))"
    by simp
  ultimately show ?case using st by (simp add: converse_rtranclp_into_rtranclp)
qed

text \<open>Two requests for the last attempt: both see it, one is charged, one is refused.\<close>

definition last_attempt :: "unit world" where
  "last_attempt = (sample_bought ())\<lparr>w_purchases := [sample_purchase\<lparr>pAttemptsRemaining := 1\<rparr>]\<rparr>"

definition two_requests :: "request_pc list \<times> unit world" where
  "two_requests = schedule decimal_uuid_lib [0, 1, 0, 1, 0, 0]
     ([Looking 1 (pID sample_purchase), Looking 1 (pID sample_purchase)], last_attempt)"

lemma two_requests_run:
  "\<exists>a e. fst two_requests = [Finished (Inr a), Finished (Inl e)] \<and> aPurchasedTestID a = pID sample_purchase"
  by (simp add: two_requests_def last_attempt_def sample_defs try_do_def bind_do_def time_Now_def
      uuid_New_def result_def store_defs stmt_simps new_attempt_def fresh_in_def present_in_def
      rows_matching_def add_attempts_def fail_def ok_def Let_def)

theorem requests_never_overdraw_witness:
  "granted (pID sample_purchase) (fst two_requests) = 1 \<and>
   left_of (pID sample_purchase) (w_purchases (snd two_requests)) = 0"
proof -
  let ?i = "pID sample_purchase"
  have "(request_move decimal_uuid_lib)\<^sup>*\<^sup>* ([], last_attempt) ([Looking 1 ?i, Looking 1 ?i], last_attempt)"
    using request_move.arrive [of decimal_uuid_lib "[]" last_attempt 1 ?i]
      request_move.arrive [of decimal_uuid_lib "[Looking 1 ?i]" last_attempt 1 ?i]
    by (auto intro: converse_rtranclp_into_rtranclp)
  also have "(request_move decimal_uuid_lib)\<^sup>*\<^sup>* \<dots> two_requests"
    unfolding two_requests_def by (rule schedule_moves) simp
  finally have m: "(request_move decimal_uuid_lib)\<^sup>*\<^sup>* ([], last_attempt) (fst two_requests, snd two_requests)"
    by simp
  have "int (granted ?i (fst two_requests)) + left_of ?i (w_purchases (snd two_requests)) \<le>
      pAttemptsRemaining (sample_purchase\<lparr>pAttemptsRemaining := 1\<rparr>) \<and>
    0 \<le> left_of ?i (w_purchases (snd two_requests))"
    by (rule requests_never_overdraw [OF m])
      (simp_all add: last_attempt_def sample_defs unique_key_def)
  moreover have "granted ?i (fst two_requests) = 1"
    using two_requests_run by (auto simp: granted_def)
  ultimately show ?thesis by simp
qed

section \<open>Changing a status, statement by statement\<close>

datatype transition_pc =
    Reading uuid attempt_status
  | Writing uuid attempt_status
  | Transitioned "go_error + unit"

fun transition_step :: "transition_pc \<Rightarrow> ('p world, transition_pc) prog" where
  "transition_step (Reading attemptID to) =
     try_do (Attempts_GetByID attemptID)
       (\<lambda>e. result (Transitioned (Inl (wrap_err ''attempt not found: '' e)))) (\<lambda>attempt. result
     (if \<not> ValidTransition (aStatus attempt) to
      then Transitioned (Inl (invalid_transition (aStatus attempt) to))
      else Writing attemptID to))"
| "transition_step (Writing attemptID to) =
     try_do (Attempts_UpdateStatus attemptID to)
       (\<lambda>e. result (Transitioned (Inl (wrap_err ''failed to update status: '' e))))
       (\<lambda>_. result (Transitioned (Inr ())))"
| "transition_step (Transitioned r) = result (Transitioned r)"

lemma transition_run:
  "bind_do (transition_step (Reading i to)) transition_step w =
     (case TransitionAttempt i to w of (r, w') \<Rightarrow> (Transitioned r, w'))"
  by (simp add: TransitionAttempt_def try_do_def bind_do_def result_def fail_def ok_def
      split: prod.split sum.split)

inductive transition_move ::
  "transition_pc list \<times> 'p world \<Rightarrow> transition_pc list \<times> 'p world \<Rightarrow> bool"
where
  advance: "k < length pcs \<Longrightarrow> transition_step (pcs ! k) w = (pc, w') \<Longrightarrow>
    transition_move (pcs, w) (pcs[k := pc], w')"

lemma two_moves:
  "transition_step p w = (p', w') \<Longrightarrow> transition_move ([p, q], w) ([p', q], w')"
  "transition_step q w = (q', w') \<Longrightarrow> transition_move ([p, q], w) ([p, q'], w')"
  using transition_move.advance [of 0 "[p, q]" w p' w'] transition_move.advance [of 1 "[p, q]" w q' w']
  by simp_all

definition status_of :: "uuid \<Rightarrow> 'p world \<Rightarrow> attempt_status option" where
  "status_of i w = map_option aStatus (find (\<lambda>a. aID a = i) (w_attempts w))"

text \<open>C32: The test of a transition and its writing are two statements, and what lies between them is
  not protected: with the database answering, two calls for any two targets that the current
  status allows can both succeed, one status replacing the other, whether or not the table has
  an edge from the first to the second.\<close>

theorem transitions_race:
  assumes "w_faults w = []" and "find (\<lambda>a. aID a = i) (w_attempts w) = Some a"
    and "ValidTransition (aStatus a) s" and "ValidTransition (aStatus a) t"
  shows "\<exists>w1 w2. transition_move\<^sup>*\<^sup>* ([Reading i s, Reading i t], w) ([Transitioned (Inr ()), Writing i t], w1) \<and>
    status_of i w1 = Some s \<and>
    transition_move ([Transitioned (Inr ()), Writing i t], w1) ([Transitioned (Inr ()), Transitioned (Inr ())], w2) \<and>
    status_of i w2 = Some t"
proof -
  define w1 where "w1 = w\<lparr>w_attempts := update_rows (\<lambda>a. aID a = i) (\<lambda>a. a\<lparr>aStatus := s\<rparr>) (w_attempts w)\<rparr>"
  define w2 where "w2 = w1\<lparr>w_attempts := update_rows (\<lambda>a. aID a = i) (\<lambda>a. a\<lparr>aStatus := t\<rparr>) (w_attempts w1)\<rparr>"
  have r: "transition_step (Reading i u) w = (Writing i u, w)" if "ValidTransition (aStatus a) u" for u
    using assms that by (simp add: try_do_def result_def stmt_simps store_defs)
  have s: "transition_step (Writing i s) w = (Transitioned (Inr ()), w1)"
    and t: "transition_step (Writing i t) w1 = (Transitioned (Inr ()), w2)"
    using assms(1) by (simp_all add: w1_def w2_def try_do_def result_def stmt_simps store_defs ok_def)
  have "transition_move ([Reading i s, Reading i t], w) ([Writing i s, Reading i t], w)"
    using two_moves(1) [OF r [OF assms(3)]] .
  moreover have "transition_move ([Writing i s, Reading i t], w) ([Writing i s, Writing i t], w)"
    using two_moves(2) [OF r [OF assms(4)]] .
  moreover have "transition_move ([Writing i s, Writing i t], w) ([Transitioned (Inr ()), Writing i t], w1)"
    using two_moves(1) [OF s] .
  ultimately have "transition_move\<^sup>*\<^sup>* ([Reading i s, Reading i t], w) ([Transitioned (Inr ()), Writing i t], w1)"
    by (meson converse_rtranclp_into_rtranclp rtranclp.rtrancl_refl)
  moreover have "status_of i w1 = Some s" "status_of i w2 = Some t"
    using assms(2) find_SomeD [OF assms(2)]
    by (simp_all add: status_of_def w1_def w2_def find_update_rows)
  ultimately show ?thesis using two_moves(2) [OF t] by blast
qed

text \<open>The provisioning job reports success while the reconciler reports that it takes too long.\<close>

theorem transitions_race_witness:
  "\<exists>w1 w2. transition_move\<^sup>*\<^sup>* ([Reading 70 EnvironmentReady, Reading 70 ProvisionFailed], sample_world EnvironmentProvisioning ())
      ([Transitioned (Inr ()), Writing 70 ProvisionFailed], w1) \<and> status_of 70 w1 = Some EnvironmentReady \<and>
    transition_move ([Transitioned (Inr ()), Writing 70 ProvisionFailed], w1)
      ([Transitioned (Inr ()), Transitioned (Inr ())], w2) \<and>
    status_of 70 w2 = Some ProvisionFailed \<and> \<not> ValidTransition EnvironmentReady ProvisionFailed"
  using transitions_race [of "sample_world EnvironmentProvisioning ()" 70 "sample_attempt EnvironmentProvisioning" EnvironmentReady ProvisionFailed]
  by (simp add: sample_defs ValidTransition_def)

end
