(* ===== verification/Migrate.thy ===== *)
theory Migrate
  imports Startup
begin

text \<open>
  The migration program (\<open>cmd/migrate/main.go\<close>) call by call: golang-migrate, River's migrator
  and the two database drivers are the fields of a record of programs over their own state.
  \<open>migrate_main_calls\<close> says that with libraries that succeed it makes exactly the migration calls
  that \<open>migrate_calls\<close> of theory Startup lists, and \<open>migrate_main_stops\<close> that an application
  migration that fails on the way up keeps River's from being run.
\<close>

record 'p migrate_lib =
  mgGetenv :: "string \<Rightarrow> string"
  mgSqlOpen :: "string \<Rightarrow> ('p, nat) eprog"
  mgCloseDB :: "nat \<Rightarrow> ('p, unit) prog"
  mgPostgres :: "nat \<Rightarrow> ('p, nat) eprog"
  mgAbs :: "string \<Rightarrow> go_error + string"
  mgSource :: "string \<Rightarrow> ('p, nat) eprog"
  mgInstance :: "nat \<Rightarrow> nat \<Rightarrow> ('p, nat) eprog"
  mgRun :: "nat \<Rightarrow> app_migration \<Rightarrow> ('p, unit) eprog"
  mgPool :: "string \<Rightarrow> ('p, nat) eprog"
  mgClosePool :: "nat \<Rightarrow> ('p, unit) prog"
  mgMigrator :: "nat \<Rightarrow> ('p, nat) eprog"
  mgMigrate :: "nat \<Rightarrow> river_opts \<Rightarrow> ('p, nat) eprog"

definition migrate_ErrNoChange :: go_error where
  "migrate_ErrNoChange = Sentinel ''migrate.ErrNoChange'' ''no change''"

definition runAppMigrations ::
  "'p migrate_lib \<Rightarrow> string \<Rightarrow> string \<Rightarrow> string \<Rightarrow> int \<Rightarrow> ('p, unit) eprog"
where
  "runAppMigrations L dbURL migrationsDir direction steps =
     try_do (mgSqlOpen L dbURL)
       (\<lambda>e. fail (wrap_err ''failed to connect to database: '' e)) (\<lambda>db.
     deferred (mgCloseDB L db)
     (try_do (mgPostgres L db)
       (\<lambda>e. fail (wrap_err ''failed to create postgres driver: '' e)) (\<lambda>driver.
     try_do (result (mgAbs L migrationsDir))
       (\<lambda>e. fail (wrap_err ''failed to resolve migrations path: '' e)) (\<lambda>absDir.
     try_do (mgSource L absDir)
       (\<lambda>e. fail (wrap_err ''failed to create iofs driver: '' e)) (\<lambda>sourceDriver.
     try_do (mgInstance L sourceDriver driver)
       (\<lambda>e. fail (wrap_err ''failed to create migrate instance: '' e)) (\<lambda>m.
     (case app_migration_of direction steps of
        Inl e \<Rightarrow> fail e
      | Inr call \<Rightarrow>
        try_do (mgRun L m call)
          (\<lambda>e. if e \<noteq> migrate_ErrNoChange then fail e else ok ()) (\<lambda>_. ok ()))))))))"

definition runRiverMigrations ::
  "'p migrate_lib \<Rightarrow> string \<Rightarrow> string \<Rightarrow> int \<Rightarrow> ('p, unit) eprog"
where
  "runRiverMigrations L dbURL direction steps =
     try_do (mgPool L dbURL)
       (\<lambda>e. fail (wrap_err ''failed to create pgx pool: '' e)) (\<lambda>dbPool.
     deferred (mgClosePool L dbPool)
     (try_do (mgMigrator L dbPool)
       (\<lambda>e. fail (wrap_err ''failed to create river migrator: '' e)) (\<lambda>migrator.
     (case river_opts_of direction steps of
        Inl e \<Rightarrow> fail e
      | Inr opts \<Rightarrow> try_do (mgMigrate L migrator opts) fail (\<lambda>versions. ok ())))))"

text \<open>\<open>log.Fatalf\<close> ends the program with the message; a return is success.\<close>

definition migrate_dbURL :: "'p migrate_lib \<Rightarrow> string" where
  "migrate_dbURL L = (let dbURL = mgGetenv L ''DATABASE_URL'' in
     if dbURL = '''' then ''postgres://localhost:5432/painkiller?sslmode=disable'' else dbURL)"

definition migrate_main :: "'p migrate_lib \<Rightarrow> string \<Rightarrow> int \<Rightarrow> string \<Rightarrow> ('p, unit) eprog" where
  "migrate_main L direction steps migrationsDir =
     (let app = runAppMigrations L (migrate_dbURL L) migrationsDir direction steps;
          river = runRiverMigrations L (migrate_dbURL L) direction steps;
          app_failed = (\<lambda>e. fail (wrap_err ''application migration failed: '' e));
          river_failed = (\<lambda>e. fail (wrap_err ''river migration failed: '' e)) in
      if direction = ''up'' then try_do app app_failed (\<lambda>_. try_do river river_failed (\<lambda>_. ok ()))
      else if direction = ''down'' then try_do river river_failed (\<lambda>_. try_do app app_failed (\<lambda>_. ok ()))
      else fail (Plain (''invalid direction: '' @ direction)))"

section \<open>The calls it makes\<close>

text \<open>Libraries that succeed and keep a log of the migrations they are asked for.\<close>

definition logging_lib :: "migration_call list migrate_lib" where
  "logging_lib = \<lparr>mgGetenv = (\<lambda>k. ''''), mgSqlOpen = (\<lambda>u. ok 0), mgCloseDB = (\<lambda>d. result ()),
     mgPostgres = (\<lambda>d. ok 0), mgAbs = (\<lambda>d. Inr d), mgSource = (\<lambda>d. ok 0), mgInstance = (\<lambda>s d. ok 0),
     mgRun = (\<lambda>m c l. (Inr (), l @ [AppMigration c])), mgPool = (\<lambda>u. ok 0),
     mgClosePool = (\<lambda>p. result ()), mgMigrator = (\<lambda>p. ok 0),
     mgMigrate = (\<lambda>m r l. (Inr 1, l @ [RiverMigration r]))\<rparr>"

lemmas migrate_defs = migrate_main_def runAppMigrations_def runRiverMigrations_def
  app_migration_of_def river_opts_of_def migrate_calls_def

lemma migrate_main_calls:
  "migrate_main logging_lib direction steps dir log =
     (case migrate_calls direction steps of
        Inl e \<Rightarrow> (Inl e, log)
      | Inr calls \<Rightarrow> (Inr (), log @ calls))"
  by (simp add: migrate_defs logging_lib_def try_do_def deferred_def bind_do_def ignore_do_def
      result_def ok_def fail_def Let_def)

lemma migrate_main_stops:
  assumes "runAppMigrations L (migrate_dbURL L) dir ''up'' steps p = (Inl e, p')"
  shows "migrate_main L ''up'' steps dir p = (Inl (wrap_err ''application migration failed: '' e), p')"
  using assms by (simp add: migrate_main_def try_do_def fail_def)

lemma migrate_up_to_date:
  assumes "runRiverMigrations L (migrate_dbURL L) ''up'' steps p = (Inr (), p1)"
    and "mgSqlOpen L (migrate_dbURL L) = ok db" and "mgPostgres L db = ok dr"
    and "mgAbs L dir = Inr d" and "mgSource L d = ok src" and "mgInstance L src dr = ok m"
    and "\<And>c. mgRun L m c = fail migrate_ErrNoChange" and "mgCloseDB L db = result ()"
  shows "migrate_main L ''up'' steps dir p = (Inr (), p1)"
  using assms
  by (simp add: migrate_main_def runAppMigrations_def try_do_def deferred_def bind_do_def
      ignore_do_def result_def ok_def fail_def app_migration_of_def)

end
