(* ===== verification/Attempt_Properties.thy ===== *)
theory Attempt_Properties
  imports Outcomes Samples
begin

text \<open>
  Properties of the attempt service (\<open>internal/attempts\<close>): what a granted request has done to
  the database, what a refused one leaves, submission, transitions, and who may see what.
\<close>

section \<open>Requests\<close>

lemma start_attempt_InrD:
  assumes "start_attempt L pu w = (Inr a, w')"
  obtains fs where
    "a = new_attempt (w_uuids w (w_uuid_pos w)) (pID pu) (w_clock w (w_clock_pos w))"
    and "aID a \<notin> aID ` set (w_attempts w)"
    and "w' = w\<lparr>w_purchases := charged (pID pu) (w_purchases w),
      w_uuid_pos := Suc (w_uuid_pos w), w_clock_pos := Suc (w_clock_pos w),
      w_attempts := w_attempts w @ [a], w_faults := fs, w_jobs := w_jobs w @ [provision_job L (aID a)]\<rparr>"
proof -
  from assms obtain u w1 where dec: "Purchases_DecrementAttemptsRemaining (pID pu) w = (Inr u, w1)"
    and rest: "bind_do uuid_New (\<lambda>attemptID. bind_do time_Now (\<lambda>created.
     let attempt = new_attempt attemptID (pID pu) created in
     try_do (Attempts_Create attempt)
       (\<lambda>e. ignore_do (Purchases_IncrementAttemptsRemaining (pID pu))
              (fail (wrap_err ''failed to create attempt: '' e))) (\<lambda>_.
     try_do (Enqueue ProvisionEnvironmentJob (attempt_payload L (aID attempt)) None)
       (\<lambda>e. ignore_do (Purchases_IncrementAttemptsRemaining (pID pu))
              (fail (wrap_err ''failed to enqueue provisioning job: '' e))) (\<lambda>_.
     ok attempt)))) w1 = (Inr a, w')"
    unfolding start_attempt_def by (rule try_do_InrD)
  from dec obtain fs where w1: "w1 = w\<lparr>w_faults := fs, w_purchases := charged (pID pu) (w_purchases w)\<rparr>"
    by (rule Decrement_InrD)
  show thesis
    using rest unfolding bind_uuid_New bind_time_Now Let_def
    by (elim try_do_ignored_error Attempts_Create_InrD Enqueue_InrD)
       (auto simp: w1 provision_job_def intro: that)
qed

text \<open>C8: A granted request is paid for and queued, whatever else failed before: if \<open>RequestAttempt\<close>
  returns an attempt, then the purchase exists, belongs to the caller, had not expired at the
  time that was read and had an attempt left; exactly this purchase lost one attempt, one
  attempt in status \<open>attempt_requested\<close> was added under it, and one provisioning job for it was
  queued.  Nothing else in the database changed.\<close>

theorem RequestAttempt_granted:
  assumes "RequestAttempt L userID pid w = (Inr a, w')"
  shows "\<exists>pu fs. find (\<lambda>p. pID p = pid) (w_purchases w) = Some pu \<and> pUserID pu = userID \<and>
    w_clock w (w_clock_pos w) \<le> pExpiresAt pu \<and> 0 < pAttemptsRemaining pu \<and>
    a = new_attempt (w_uuids w (w_uuid_pos w)) pid (w_clock w (Suc (w_clock_pos w))) \<and>
    w' = w\<lparr>w_purchases := charged pid (w_purchases w), w_uuid_pos := Suc (w_uuid_pos w),
      w_clock_pos := w_clock_pos w + 2, w_attempts := w_attempts w @ [a], w_faults := fs,
      w_jobs := w_jobs w @ [provision_job L (aID a)]\<rparr>"
proof -
  from assms obtain pu w1 where "Purchases_GetByID pid w = (Inr pu, w1)" and k: "(
     if pUserID pu \<noteq> userID then fail (Plain ''unauthorized'') else
     bind_do time_Now (\<lambda>now.
     if pExpiresAt pu < now then fail ErrPurchaseExpired else
     if pAttemptsRemaining pu \<le> 0 then fail ErrNoAttemptsRemaining else
     start_attempt L pu)) w1 = (Inr a, w')"
    unfolding RequestAttempt_def by (rule try_do_InrD)
  from this(1) obtain fs where w1: "w1 = w\<lparr>w_faults := fs\<rparr>"
    and find: "find (\<lambda>p. pID p = pid) (w_purchases w) = Some pu" and pid: "pID pu = pid"
    by (rule Purchases_GetByID_InrD)
  define w2 where w2: "w2 = w\<lparr>w_faults := fs, w_clock_pos := Suc (w_clock_pos w)\<rparr>"
  from k have guards: "pUserID pu = userID"
      "w_clock w (w_clock_pos w) \<le> pExpiresAt pu" "0 < pAttemptsRemaining pu"
    and start: "start_attempt L pu w2 = (Inr a, w')"
    by (simp_all add: w1 w2 split: if_splits)
  from start obtain fs' where
    a: "a = new_attempt (w_uuids w2 (w_uuid_pos w2)) (pID pu) (w_clock w2 (w_clock_pos w2))"
    and w': "w' = w2\<lparr>w_purchases := charged (pID pu) (w_purchases w2),
      w_uuid_pos := Suc (w_uuid_pos w2), w_clock_pos := Suc (w_clock_pos w2),
      w_attempts := w_attempts w2 @ [a], w_faults := fs',
      w_jobs := w_jobs w2 @ [provision_job L (aID a)]\<rparr>"
    by (rule start_attempt_InrD)
  have "a = new_attempt (w_uuids w (w_uuid_pos w)) pid (w_clock w (Suc (w_clock_pos w)))"
    by (simp add: a pid w2)
  moreover have "w' = w\<lparr>w_purchases := charged pid (w_purchases w), w_uuid_pos := Suc (w_uuid_pos w),
      w_clock_pos := w_clock_pos w + 2, w_attempts := w_attempts w @ [a], w_faults := fs',
      w_jobs := w_jobs w @ [provision_job L (aID a)]\<rparr>"
    by (simp add: w' w2 pid)
  ultimately show ?thesis using find guards by (intro exI conjI)
qed

theorem RequestAttempt_granted_witness:
  "RequestAttempt decimal_uuid_lib 1 60 (sample_bought ()) =
     (Inr (new_attempt 1000 60 1), (sample_bought ())\<lparr>
        w_purchases := [sample_purchase\<lparr>pAttemptsRemaining := 1\<rparr>], w_uuid_pos := 1,
        w_clock_pos := 2, w_attempts := [new_attempt 1000 60 1],
        w_jobs := [provision_job decimal_uuid_lib 1000]\<rparr>) \<and>
   (\<exists>pu. find (\<lambda>p. pID p = 60) (w_purchases (sample_bought ())) = Some pu \<and> pUserID pu = 1)"
proof -
  have run: "RequestAttempt decimal_uuid_lib 1 60 (sample_bought ()) =
     (Inr (new_attempt 1000 60 1), (sample_bought ())\<lparr>
        w_purchases := [sample_purchase\<lparr>pAttemptsRemaining := 1\<rparr>], w_uuid_pos := 1,
        w_clock_pos := 2, w_attempts := [new_attempt 1000 60 1],
        w_jobs := [provision_job decimal_uuid_lib 1000]\<rparr>)"
    by (simp add: RequestAttempt_def start_attempt_def store_defs stmt_simps sample_bought_def
        sample_shop_def sample_purchase_def try_do_def Let_def add_attempts_def rows_matching_def
        fresh_in_def present_in_def new_attempt_def provision_job_def)
  show ?thesis
    using run RequestAttempt_granted [OF run] by blast
qed

section \<open>Refunds\<close>

lemma refund_charged:
  assumes "\<forall>p \<in> set ps. pID p = i \<longrightarrow> 0 < pAttemptsRemaining p"
  shows "update_rows (\<lambda>r. pID r = i) (add_attempts 1) (charged i ps) = ps"
  using assms by (induction ps) (auto simp: charged_def add_attempts_def)

lemma refund_fits:
  assumes "\<forall>p \<in> set ps. pID p = i \<longrightarrow> 0 < pAttemptsRemaining p"
    and "\<forall>p \<in> set ps. int4 (pAttemptsRemaining p)" and "r \<in> set (charged i ps)" and "pID r = i"
  shows "int4 (pAttemptsRemaining r + 1)"
proof -
  from assms(3) obtain p where p: "p \<in> set ps"
    and r: "r = (if pID p = i \<and> 0 < pAttemptsRemaining p then add_attempts (- 1) p else p)"
    by (auto simp: charged_def set_update_rows)
  with assms(4) have "pID p = i" by (simp add: add_attempts_def split: if_splits)
  with assms(1) p r have "r = add_attempts (- 1) p" by simp
  with assms(2) p show ?thesis by (simp add: add_attempts_def)
qed

lemma present_in_charged: "present_in pID k (charged i ps) = present_in pID k ps"
  unfolding charged_def by (rule present_in_update) (simp add: add_attempts_def)

text \<open>A purchase that an attempt can be taken from.\<close>

definition usable_purchase :: "uuid \<Rightarrow> uuid \<Rightarrow> int \<Rightarrow> 'p world \<Rightarrow> bool" where
  "usable_purchase userID pid now w \<longleftrightarrow>
     unique_key pID (w_purchases w) \<and> (\<forall>p \<in> set (w_purchases w). int4 (pAttemptsRemaining p)) \<and>
     (\<exists>pu. find (\<lambda>p. pID p = pid) (w_purchases w) = Some pu \<and> pUserID pu = userID \<and>
        now \<le> pExpiresAt pu \<and> 0 < pAttemptsRemaining pu)"

lemma usable_purchaseD:
  assumes "usable_purchase userID pid now w"
  obtains pu where "find (\<lambda>p. pID p = pid) (w_purchases w) = Some pu" and "pID pu = pid"
    and "pUserID pu = userID" and "now \<le> pExpiresAt pu" and "0 < pAttemptsRemaining pu"
    and "rows_matching (\<lambda>r. pID r = pid \<and> 0 < pAttemptsRemaining r) (w_purchases w) \<noteq> 0"
    and "update_rows (\<lambda>r. pID r = pid) (add_attempts 1) (charged pid (w_purchases w)) = w_purchases w"
    and "\<forall>r \<in> set (charged pid (w_purchases w)). pID r = pid \<longrightarrow> int4 (pAttemptsRemaining r + 1)"
proof -
  from assms obtain pu where pu: "find (\<lambda>p. pID p = pid) (w_purchases w) = Some pu"
    "pUserID pu = userID" "now \<le> pExpiresAt pu" "0 < pAttemptsRemaining pu"
    and u: "unique_key pID (w_purchases w)" and i4: "\<forall>p \<in> set (w_purchases w). int4 (pAttemptsRemaining p)"
    by (auto simp: usable_purchase_def)
  then have all: "\<forall>p \<in> set (w_purchases w). pID p = pid \<longrightarrow> 0 < pAttemptsRemaining p"
    using find_unique [OF u pu(1)] by blast
  from pu have "pu \<in> set (w_purchases w)" and pid: "pID pu = pid" by (auto dest: find_SomeD)
  with pu have "rows_matching (\<lambda>r. pID r = pid \<and> 0 < pAttemptsRemaining r) (w_purchases w) \<noteq> 0"
    by (auto simp: rows_matching_def filter_empty_conv)
  with pu pid refund_charged [OF all] refund_fits [OF all i4] that show thesis by blast
qed

text \<open>When the new attempt cannot be stored, the caller gets the attempt back: the purchases,
  the attempts and the jobs are exactly what they were before the request.\<close>

lemma RequestAttempt_refunds:
  assumes "usable_purchase userID pid (w_clock w (w_clock_pos w)) w"
    and "w_faults w = [Served, Served, Refused]"
  shows "\<exists>e w'. RequestAttempt L userID pid w = (Inl e, w') \<and> w_purchases w' = w_purchases w \<and>
    w_attempts w' = w_attempts w \<and> w_jobs w' = w_jobs w"
  using assms(1)
proof (rule usable_purchaseD)
  fix pu
  assume "find (\<lambda>p. pID p = pid) (w_purchases w) = Some pu" and "pID pu = pid"
    and "pUserID pu = userID" and "w_clock w (w_clock_pos w) \<le> pExpiresAt pu"
    and "0 < pAttemptsRemaining pu"
    and "rows_matching (\<lambda>r. pID r = pid \<and> 0 < pAttemptsRemaining r) (w_purchases w) \<noteq> 0"
    and "update_rows (\<lambda>r. pID r = pid) (add_attempts 1) (charged pid (w_purchases w)) = w_purchases w"
    and "\<forall>r \<in> set (charged pid (w_purchases w)). pID r = pid \<longrightarrow> int4 (pAttemptsRemaining r + 1)"
  with assms(2) show ?thesis
    by (simp add: RequestAttempt_def start_attempt_def store_defs exec_only_def sql_exec_def
        sql_get_def sql_select_def draw_outcome_def try_do_def Let_def charged_def [symmetric]
        ignore_do_def)
qed

lemma usable_sample: "usable_purchase 1 60 n ((sample_bought p)\<lparr>w_faults := fs\<rparr>) \<longleftrightarrow> n \<le> 1000"
  by (simp add: usable_purchase_def sample_defs unique_key_def int4_def)

lemma RequestAttempt_refunds_example:
  "\<exists>e w'. RequestAttempt decimal_uuid_lib 1 60
       ((sample_bought ())\<lparr>w_faults := [Served, Served, Refused]\<rparr>) = (Inl e, w') \<and>
     w_purchases w' = [sample_purchase] \<and> w_attempts w' = [] \<and> w_jobs w' = []"
proof -
  let ?w = "(sample_bought ())\<lparr>w_faults := [Served, Served, Refused]\<rparr>"
  have "usable_purchase 1 60 (w_clock ?w (w_clock_pos ?w)) ?w"
    unfolding usable_sample by (simp add: sample_defs)
  then have "\<exists>e w'. RequestAttempt decimal_uuid_lib 1 60 ?w = (Inl e, w') \<and>
      w_purchases w' = w_purchases ?w \<and> w_attempts w' = w_attempts ?w \<and> w_jobs w' = w_jobs ?w"
    by (rule RequestAttempt_refunds) simp
  then show ?thesis by (simp add: sample_defs)
qed

text \<open>C35: When the provisioning job cannot be queued, the caller gets the attempt back and an error,
  but the row of the attempt stays behind in status \<open>attempt_requested\<close> without a job.\<close>

theorem RequestAttempt_orphan:
  assumes "usable_purchase userID pid (w_clock w (w_clock_pos w)) w"
    and "w_faults w = [Served, Served, Served, Refused]"
    and "w_uuids w (w_uuid_pos w) \<notin> aID ` set (w_attempts w)"
  shows "\<exists>e w'. RequestAttempt L userID pid w = (Inl e, w') \<and> w_purchases w' = w_purchases w \<and>
    w_jobs w' = w_jobs w \<and> w_attempts w' = w_attempts w @
      [new_attempt (w_uuids w (w_uuid_pos w)) pid (w_clock w (Suc (w_clock_pos w)))]"
  using assms(1)
proof (rule usable_purchaseD)
  fix pu
  assume pu: "find (\<lambda>p. pID p = pid) (w_purchases w) = Some pu" and "pID pu = pid"
    and "pUserID pu = userID" and "w_clock w (w_clock_pos w) \<le> pExpiresAt pu"
    and "0 < pAttemptsRemaining pu"
    and "rows_matching (\<lambda>r. pID r = pid \<and> 0 < pAttemptsRemaining r) (w_purchases w) \<noteq> 0"
    and "update_rows (\<lambda>r. pID r = pid) (add_attempts 1) (charged pid (w_purchases w)) = w_purchases w"
    and "\<forall>r \<in> set (charged pid (w_purchases w)). pID r = pid \<longrightarrow> int4 (pAttemptsRemaining r + 1)"
  moreover from pu have "present_in pID pid (charged pid (w_purchases w))"
    by (subst present_in_charged) (auto simp: present_in_def dest!: find_SomeD)
  moreover have "aPurchasedTestID (new_attempt i pid t) = pid" "aID (new_attempt i pid t) = i" for i t
    by (simp_all add: new_attempt_def)
  ultimately show ?thesis
    using assms(2,3)
    by (simp add: RequestAttempt_def start_attempt_def store_defs exec_only_def sql_exec_def
        sql_get_def sql_select_def draw_outcome_def try_do_def Let_def charged_def [symmetric]
        ignore_do_def Enqueue_def fresh_in_def)
qed

theorem RequestAttempt_orphan_witness:
  "\<exists>e w'. RequestAttempt decimal_uuid_lib 1 60
       ((sample_bought ())\<lparr>w_faults := [Served, Served, Served, Refused]\<rparr>) = (Inl e, w') \<and>
     w_purchases w' = [sample_purchase] \<and> w_jobs w' = [] \<and> w_attempts w' = [new_attempt 1000 60 1]"
proof -
  let ?w = "(sample_bought ())\<lparr>w_faults := [Served, Served, Served, Refused]\<rparr>"
  have "usable_purchase 1 60 (w_clock ?w (w_clock_pos ?w)) ?w"
    unfolding usable_sample by (simp add: sample_defs)
  then have "\<exists>e w'. RequestAttempt decimal_uuid_lib 1 60 ?w = (Inl e, w') \<and>
      w_purchases w' = w_purchases ?w \<and> w_jobs w' = w_jobs ?w \<and> w_attempts w' = w_attempts ?w @
      [new_attempt (w_uuids ?w (w_uuid_pos ?w)) 60 (w_clock ?w (Suc (w_clock_pos ?w)))]"
    by (rule RequestAttempt_orphan) (simp_all add: sample_defs)
  then show ?thesis by (simp add: sample_defs)
qed

section \<open>Submission\<close>

lemma Transition_served:
  "w_faults w = [] \<Longrightarrow> TransitionAttempt i to w =
     (case find (\<lambda>a. aID a = i) (w_attempts w) of
        None \<Rightarrow> (Inl (wrap_err ''attempt not found: '' sql_ErrNoRows), w)
      | Some a \<Rightarrow> if ValidTransition (aStatus a) to
          then (Inr (), w\<lparr>w_attempts := update_rows (\<lambda>a. aID a = i) (\<lambda>a. a\<lparr>aStatus := to\<rparr>) (w_attempts w)\<rparr>)
          else (Inl (invalid_transition (aStatus a) to), w))"
  by (simp add: TransitionAttempt_def store_defs try_do_def stmt_simps split: option.split)

text \<open>Who owns an attempt: the user its purchase belongs to.\<close>

definition owner_of :: "'p world \<Rightarrow> attempt \<Rightarrow> uuid option" where
  "owner_of w a = map_option pUserID (find (\<lambda>p. pID p = aPurchasedTestID a) (w_purchases w))"

text \<open>C10: With the database answering, a submission succeeds exactly when the attempt exists, belongs
  to the caller and is running; then it is in status \<open>submitted\<close> and one grading job for it is
  queued.  In every other case nothing changes.\<close>

theorem SubmitAttempt_exact:
  assumes "w_faults w = []"
  shows "SubmitAttempt L userID i w =
    (case find (\<lambda>a. aID a = i) (w_attempts w) of
       None \<Rightarrow> (Inl (wrap_err ''attempt not found: '' sql_ErrNoRows), w)
     | Some a \<Rightarrow> (case owner_of w a of
         None \<Rightarrow> (Inl (wrap_err ''purchase not found: '' sql_ErrNoRows), w)
       | Some u \<Rightarrow>
           if u \<noteq> userID then (Inl (Plain ''unauthorized''), w)
           else if aStatus a \<noteq> Running then (Inl (Plain ''attempt is not running''), w)
           else (Inr (), w\<lparr>
             w_attempts := update_rows (\<lambda>a. aID a = i) (\<lambda>a. a\<lparr>aStatus := Submitted\<rparr>) (w_attempts w),
             w_jobs := w_jobs w @ [\<lparr>jKind = GradeAttemptJob, jPayload = attempt_payload L i,
                                    jScheduledAt = None\<rparr>]\<rparr>)))"
  using assms
  by (simp add: SubmitAttempt_def owner_of_def Attempts_GetByID_def Purchases_GetByID_def try_do_def
      stmt_simps Transition_served split: option.split)

theorem SubmitAttempt_exact_witness:
  "fst (SubmitAttempt decimal_uuid_lib 1 70 (sample_world Running ())) = Inr () \<and>
   fst (SubmitAttempt decimal_uuid_lib 2 70 (sample_world Running ())) = Inl (Plain ''unauthorized'') \<and>
   fst (SubmitAttempt decimal_uuid_lib 1 70 (sample_world Scored ())) = Inl (Plain ''attempt is not running'')"
proof -
  have nf: "w_faults (sample_world st ()) = []" for st by (simp add: sample_defs)
  show ?thesis
    unfolding SubmitAttempt_exact [OF nf] by (simp add: owner_of_def sample_defs)
qed

section \<open>Who may see an attempt\<close>

definition owns_attempt :: "uuid_lib \<Rightarrow> uuid \<Rightarrow> string \<Rightarrow> 'p world \<Rightarrow> bool" where
  "owns_attempt L userID str w \<longleftrightarrow> (\<exists>i a. uuid_Parse L str = Inr i \<and>
     find (\<lambda>a. aID a = i) (w_attempts w) = Some a \<and> owner_of w a = Some userID)"

text \<open>The guard that the three handlers share: attempt, then purchase, then owner.\<close>

lemma owner_guard:
  assumes "try_do (Attempts_GetByID i) h1 (\<lambda>a.
      try_do (Purchases_GetByID (aPurchasedTestID a)) h2 (\<lambda>pu.
      if pUserID pu \<noteq> userID then h3 else k a pu)) w = (r, w')"
    and "\<And>e w1 w2. h1 e w1 = (r, w2) \<Longrightarrow> False" and "\<And>e w1 w2. h2 e w1 = (r, w2) \<Longrightarrow> False"
    and "\<And>w1 w2. h3 w1 = (r, w2) \<Longrightarrow> False"
  obtains a where "find (\<lambda>a. aID a = i) (w_attempts w) = Some a" and "owner_of w a = Some userID"
  using assms(1)
proof (cases rule: try_do_cases)
  case (err e w1)
  with assms(2) show ?thesis by blast
next
  case (ok a w1)
  then obtain fs where w1: "w1 = w\<lparr>w_faults := fs\<rparr>"
    and a: "find (\<lambda>a. aID a = i) (w_attempts w) = Some a" by (elim Attempts_GetByID_InrD)
  from ok(2) show ?thesis
  proof (cases rule: try_do_cases)
    case (err e w2)
    with assms(3) show ?thesis by blast
  next
    case (ok pu w2)
    from ok(1) have "find (\<lambda>p. pID p = aPurchasedTestID a) (w_purchases w1) = Some pu"
      by (rule Purchases_GetByID_InrD)
    moreover from ok(2) assms(4) have "pUserID pu = userID" by (cases "pUserID pu = userID") auto
    ultimately show ?thesis using a w1 that by (simp add: owner_of_def)
  qed
qed

text \<open>An attempt is shown, scored and submitted for its owner only: whatever fails on the way, a
  200 reply of any of the three handlers means that the attempt exists and that its purchase
  belongs to the caller.\<close>

lemma only_owner_served:
  "(rStatus (fst (getAttempt L (Some userID) str w)) = 200 \<longrightarrow> owns_attempt L userID str w) \<and>
   (rStatus (fst (getScore L (Some userID) str w)) = 200 \<longrightarrow> owns_attempt L userID str w) \<and>
   (rStatus (fst (submitAttempt L (Some userID) str w)) = 200 \<longrightarrow> owns_attempt L userID str w)"
proof (cases "uuid_Parse L str")
  case (Inl e)
  then show ?thesis by (simp add: getAttempt_def getScore_def submitAttempt_def)
next
  case (Inr i)
  note guard = owner_guard [where i = i and userID = userID and w = w]
  have own: "owns_attempt L userID str w"
    if "find (\<lambda>a. aID a = i) (w_attempts w) = Some a" and "owner_of w a = Some userID" for a
    using Inr that by (auto simp: owns_attempt_def)
  have "owns_attempt L userID str w" if st: "rStatus (fst (getAttempt L (Some userID) str w)) = 200"
  proof -
    obtain r w' where r: "getAttempt L (Some userID) str w = (r, w')" by fastforce
    with st have "rStatus r = 200" by simp
    moreover note r [unfolded getAttempt_def GetAttempt_def, simplified Inr option.case sum.case]
    ultimately show ?thesis by (elim guard) (auto intro: own)
  qed
  moreover have "owns_attempt L userID str w" if st: "rStatus (fst (getScore L (Some userID) str w)) = 200"
  proof -
    obtain r w' where r: "getScore L (Some userID) str w = (r, w')" by fastforce
    with st have "rStatus r = 200" by simp
    moreover note r [unfolded getScore_def, simplified Inr option.case sum.case]
    ultimately show ?thesis by (elim guard) (auto intro: own)
  qed
  moreover have "owns_attempt L userID str w"
    if st: "rStatus (fst (submitAttempt L (Some userID) str w)) = 200"
  proof -
    from st Inr obtain w' where "SubmitAttempt L userID i w = (Inr (), w')"
      by (auto simp: submitAttempt_def try_do_def split: prod.splits sum.splits if_splits)
    then show ?thesis
      unfolding SubmitAttempt_def by (elim guard) (auto intro: own)
  qed
  ultimately show ?thesis by blast
qed

lemma only_owner_served_example:
  "rStatus (fst (getAttempt decimal_uuid_lib (Some 1) (uuid_String decimal_uuid_lib 70) (sample_world Scored ()))) = 200 \<and>
   owns_attempt decimal_uuid_lib 1 (uuid_String decimal_uuid_lib 70) (sample_world Scored ())"
proof -
  have "rStatus (fst (getAttempt decimal_uuid_lib (Some 1) (uuid_String decimal_uuid_lib 70)
      (sample_world Scored ()))) = 200"
    by (simp add: getAttempt_def GetAttempt_def uuid_lib_okD [OF decimal_uuid_lib_ok] store_defs
        stmt_simps try_do_def sample_defs active_status_def)
  with only_owner_served [of decimal_uuid_lib 1 "uuid_String decimal_uuid_lib 70" "sample_world Scored ()"]
  show ?thesis by blast
qed

section \<open>The dashboard and the service\<close>

text \<open>What the dashboard calls active can be used: with the database answering, a request of the
  purchase's owner is granted exactly when the purchase is active at the time of the request,
  or that time is the very instant of its expiry.\<close>

lemma active_means_granted:
  assumes "w_faults w = []" and "find (\<lambda>p. pID p = pid) (w_purchases w) = Some pu"
    and "w_uuids w (w_uuid_pos w) \<notin> aID ` set (w_attempts w)"
  shows "(\<exists>a w'. RequestAttempt L (pUserID pu) pid w = (Inr a, w')) \<longleftrightarrow>
    is_active (w_clock w (w_clock_pos w)) pu \<or>
    pExpiresAt pu = w_clock w (w_clock_pos w) \<and> 0 < pAttemptsRemaining pu"
proof -
  from assms(2) have pid: "pID pu = pid" and pu: "pu \<in> set (w_purchases w)" by (auto dest: find_SomeD)
  have rows: "rows_matching (\<lambda>r. pID r = pid \<and> 0 < pAttemptsRemaining r) (w_purchases w) \<noteq> 0"
    if "0 < pAttemptsRemaining pu"
    using that pid pu by (auto simp: rows_matching_def filter_empty_conv)
  have "present_in pID pid (charged pid (w_purchases w))"
    using pid pu by (subst present_in_charged) (auto simp: present_in_def)
  moreover have "aPurchasedTestID (new_attempt i pid t) = pid" "aID (new_attempt i pid t) = i" for i t
    by (simp_all add: new_attempt_def)
  ultimately show ?thesis
    using assms pid rows
    by (auto simp: RequestAttempt_def start_attempt_def store_defs stmt_simps try_do_def Let_def
        charged_def [symmetric] fresh_in_def is_active_def)
qed

lemma active_means_granted_example:
  "is_active 0 sample_purchase \<and>
   (\<exists>a w'. RequestAttempt decimal_uuid_lib 1 60 (sample_bought ()) = (Inr a, w')) \<and>
   \<not> (\<exists>a w'. RequestAttempt decimal_uuid_lib 1 60 ((sample_bought ())\<lparr>w_clock := (\<lambda>n. 1001 + int n)\<rparr>) = (Inr a, w'))"
proof -
  have "(\<exists>a w'. RequestAttempt decimal_uuid_lib (pUserID sample_purchase) 60 (sample_bought ()) = (Inr a, w')) \<longleftrightarrow>
    is_active (w_clock (sample_bought ()) (w_clock_pos (sample_bought ()))) sample_purchase \<or>
    pExpiresAt sample_purchase = w_clock (sample_bought ()) (w_clock_pos (sample_bought ())) \<and>
    0 < pAttemptsRemaining sample_purchase"
    by (rule active_means_granted) (simp_all add: sample_defs)
  moreover have "(\<exists>a w'. RequestAttempt decimal_uuid_lib (pUserID sample_purchase) 60
      ((sample_bought ())\<lparr>w_clock := (\<lambda>n. 1001 + int n)\<rparr>) = (Inr a, w')) \<longleftrightarrow>
    is_active 1001 sample_purchase \<or> pExpiresAt sample_purchase = 1001 \<and> 0 < pAttemptsRemaining sample_purchase"
    by (subst active_means_granted [where pu = sample_purchase]) (simp_all add: sample_defs)
  ultimately show ?thesis by (simp add: sample_defs is_active_def)
qed

end
