(* ===== verification/Environment_Properties.thy ===== *)
theory Environment_Properties
  imports Outcomes Samples
begin

text \<open>
  Properties of the orchestrator (\<open>internal/orchestrator\<close>): the provisioning job from the attempt
  to the running environment, what a failing provider leaves, what the provisioner is handed,
  the cleanup job and the reconciler.
\<close>

section \<open>Rows of one attempt\<close>

definition set_status :: "uuid \<Rightarrow> attempt_status \<Rightarrow> attempt list \<Rightarrow> attempt list" where
  "set_status i st as = update_rows (\<lambda>a. aID a = i) (\<lambda>a. a\<lparr>aStatus := st\<rparr>) as"

lemma set_status_twice [simp]: "set_status i s2 (set_status i s1 as) = set_status i s2 as"
  by (induction as) (auto simp: set_status_def)

lemma find_set_status [simp]:
  "find (\<lambda>a. aID a = i) (set_status j st as) =
     map_option (\<lambda>a. if aID a = j then a\<lparr>aStatus := st\<rparr> else a) (find (\<lambda>a. aID a = i) as)"
  unfolding set_status_def by (rule find_update_rows) simp

lemma set_status_ids [simp]: "aID ` set (set_status i st as) = aID ` set as"
  by (induction as) (auto simp: set_status_def)

lemma set_status_id: "find (\<lambda>a. aID a = i) as = Some a \<Longrightarrow> aStatus a = st \<Longrightarrow> unique_key aID as \<Longrightarrow>
    set_status i st as = as"
  by (induction as)
     (auto simp: set_status_def unique_key_def update_rows_def image_iff intro!: map_idI split: if_splits)

lemma Transition_status:
  "w_faults w = [] \<Longrightarrow> TransitionAttempt i to w =
     (case find (\<lambda>a. aID a = i) (w_attempts w) of
        None \<Rightarrow> (Inl (wrap_err ''attempt not found: '' sql_ErrNoRows), w)
      | Some a \<Rightarrow> if ValidTransition (aStatus a) to
          then (Inr (), w\<lparr>w_attempts := set_status i to (w_attempts w)\<rparr>)
          else (Inl (invalid_transition (aStatus a) to), w))"
  by (simp add: TransitionAttempt_def store_defs try_do_def stmt_simps set_status_def split: option.split)

section \<open>What the job builds from\<close>

text \<open>
  Everything the job reads before it calls the provider: the purchase, the version and its
  topology, the encoded halves of the key pair, and the external state after the key was made.
\<close>

record 'p build_input =
  biAttempt :: attempt
  biPurchase :: purchased_test
  biVersion :: scenario_version
  biTopology :: topology
  biPublic :: string
  biPrivate :: string
  biExt :: 'p

definition key_pair_of :: "'p orchestrator \<Rightarrow> 'p \<Rightarrow> (string \<times> string \<times> 'p) option" where
  "key_pair_of oc p = (case oGenerateKey oc p of
       (Inr ks, p') \<Rightarrow> (case oPublicKey oc (fst ks) of
          Inr publ \<Rightarrow> (case oPrivateKeyPEM oc (snd ks) of
             Inr privl \<Rightarrow> Some (publ, privl, p') | Inl e \<Rightarrow> None)
        | Inl e \<Rightarrow> None)
     | (Inl e, p') \<Rightarrow> None)"

lemma key_pair_ofD:
  assumes "key_pair_of oc p = Some (publ, privl, p')"
  obtains ks where "oGenerateKey oc p = (Inr ks, p')" and "oPublicKey oc (fst ks) = Inr publ"
    and "oPrivateKeyPEM oc (snd ks) = Inr privl"
  using assms by (auto simp: key_pair_of_def split: sum.splits prod.splits)

definition build_input_of :: "'p orchestrator \<Rightarrow> uuid \<Rightarrow> 'p world \<Rightarrow> 'p build_input option" where
  "build_input_of oc i w =
     Option.bind (find (\<lambda>a. aID a = i) (w_attempts w)) (\<lambda>a.
     if aStatus a \<noteq> AttemptRequested \<and> aStatus a \<noteq> EnvironmentProvisioning then None else
     Option.bind (find (\<lambda>p. pID p = aPurchasedTestID a) (w_purchases w)) (\<lambda>pu.
     Option.bind (find (\<lambda>t. tID t = pTestID pu) (w_tests w)) (\<lambda>t.
     Option.bind (find (\<lambda>v. vID v = tScenarioVersionID t) (w_versions w)) (\<lambda>v.
     Option.bind (decode_topology (vTopologyJSON v)) (\<lambda>tp.
     map_option (\<lambda>ks. \<lparr>biAttempt = a, biPurchase = pu, biVersion = v, biTopology = tp,
         biPublic = fst ks, biPrivate = fst (snd ks), biExt = snd (snd ks)\<rparr>)
       (key_pair_of oc (w_ext w)))))))"

definition requested_spec :: "'p orchestrator \<Rightarrow> uuid \<Rightarrow> 'p world \<Rightarrow> 'p build_input \<Rightarrow> environment_spec" where
  "requested_spec oc i w b = environment_spec_of (uuid_String (oUUID oc) i)
     (uuid_String (oUUID oc) (w_uuids w (w_uuid_pos w))) (biPublic b) (biTopology b)"

text \<open>The job up to the call of the provider, with the database answering.\<close>

definition provisioning_world :: "uuid \<Rightarrow> 'p world \<Rightarrow> 'p build_input \<Rightarrow> 'p world" where
  "provisioning_world i w b = w\<lparr>w_attempts := set_status i EnvironmentProvisioning (w_attempts w),
     w_ext := biExt b, w_uuid_pos := Suc (w_uuid_pos w)\<rparr>"

lemma provisioning_world_simps [simp]:
  "w_ext (provisioning_world i w b) = biExt b"
  "w_uuids (provisioning_world i w b) = w_uuids w"
  "w_uuid_pos (provisioning_world i w b) = Suc (w_uuid_pos w)"
  by (simp_all add: provisioning_world_def)

lemma provision_reaches_provider:
  assumes "w_faults w = []" and "uuid_lib_ok (oUUID oc)" and "unique_key aID (w_attempts w)"
    and "build_input_of oc i w = Some b"
  shows "handleProvisionEnvironment oc (attempt_payload (oUUID oc) i) w =
    try_do (on_ext (CreateEnvironment (oProvider oc) (requested_spec oc i w b)))
      (provision_failed (oUUID oc) i)
      (record_and_provision oc i (biPrivate b) (vExternalID (biVersion b)) (biTopology b))
      (provisioning_world i w b)"
proof -
  from assms(4) obtain a pu t v tp publ privl p where
    a: "find (\<lambda>a. aID a = i) (w_attempts w) = Some a"
    and st: "aStatus a = AttemptRequested \<or> aStatus a = EnvironmentProvisioning"
    and rows: "find (\<lambda>p. pID p = aPurchasedTestID a) (w_purchases w) = Some pu"
      "find (\<lambda>t. tID t = pTestID pu) (w_tests w) = Some t"
      "find (\<lambda>v. vID v = tScenarioVersionID t) (w_versions w) = Some v"
      "decode_topology (vTopologyJSON v) = Some tp"
    and kp: "key_pair_of oc (w_ext w) = Some (publ, privl, p)"
    and b: "b = \<lparr>biAttempt = a, biPurchase = pu, biVersion = v, biTopology = tp, biPublic = publ,
      biPrivate = privl, biExt = p\<rparr>"
    by (auto simp: build_input_of_def bind_eq_Some_conv split: if_splits)
  from kp obtain ks where keys: "oGenerateKey oc (w_ext w) = (Inr ks, p)"
    "oPublicKey oc (fst ks) = Inr publ" "oPrivateKeyPEM oc (snd ks) = Inr privl" by (rule key_pair_ofD)
  have build: "build_environment oc i a w1 =
      try_do (on_ext (CreateEnvironment (oProvider oc) (requested_spec oc i w b)))
        (provision_failed (oUUID oc) i)
        (record_and_provision oc i (biPrivate b) (vExternalID (biVersion b)) (biTopology b))
        (provisioning_world i w b)"
    if "w1 = w\<lparr>w_attempts := set_status i EnvironmentProvisioning (w_attempts w)\<rparr>" for w1
    using assms(1) rows keys
    by (simp add: that build_environment_def on_ext_def store_defs try_do_def stmt_simps b
        requested_spec_def provisioning_world_def)
  show ?thesis
  proof (cases "aStatus a = AttemptRequested")
    case True
    then show ?thesis
      using assms(1,2) a build
      by (simp add: handleProvisionEnvironment_def Attempts_GetByID_def stmt_simps Transition_status
          try_do_def)
  next
    case False
    with st assms(3) a have "w = w\<lparr>w_attempts := set_status i EnvironmentProvisioning (w_attempts w)\<rparr>"
      by (simp add: set_status_id)
    with False st show ?thesis
      using assms(1,2) a build [of w]
      by (simp add: handleProvisionEnvironment_def Attempts_GetByID_def stmt_simps try_do_def)
  qed
qed

section \<open>The outcome of the job\<close>

definition cleanup_job :: "uuid_lib \<Rightarrow> uuid \<Rightarrow> job" where
  "cleanup_job L i = \<lparr>jKind = CleanupEnvironmentJob, jPayload = attempt_payload L i, jScheduledAt = None\<rparr>"

text \<open>Failed: the attempt is marked, a cleanup is queued, and its purchase gets the attempt back.\<close>

definition refunded :: "uuid_lib \<Rightarrow> uuid \<Rightarrow> uuid \<Rightarrow> 'p world \<Rightarrow> 'p world" where
  "refunded L i pid w = w\<lparr>w_attempts := set_status i ProvisionFailed (w_attempts w),
     w_jobs := w_jobs w @ [cleanup_job L i],
     w_purchases := update_rows (\<lambda>r. pID r = pid) (add_attempts 1) (w_purchases w)\<rparr>"

text \<open>Created: the environment has a row.\<close>

definition recorded :: "uuid \<Rightarrow> string \<Rightarrow> environment_result \<Rightarrow> 'p world \<Rightarrow> 'p world" where
  "recorded i key r w = w\<lparr>w_uuid_pos := Suc (w_uuid_pos w), w_clock_pos := Suc (w_clock_pos w),
     w_environments := w_environments w @
       [new_environment (w_uuids w (w_uuid_pos w)) i r key (w_clock w (w_clock_pos w))]\<rparr>"

text \<open>Provisioned: there is a session with a token, and the attempt is ready.\<close>

definition opened :: "uuid_lib \<Rightarrow> uuid \<Rightarrow> uuid \<Rightarrow> 'p world \<Rightarrow> 'p world" where
  "opened L i envID w = w\<lparr>w_uuid_pos := w_uuid_pos w + 2, w_clock_pos := Suc (w_clock_pos w),
     w_sessions := w_sessions w @ [new_session (w_uuids w (Suc (w_uuid_pos w))) i envID
       (uuid_String L (w_uuids w (w_uuid_pos w))) (w_clock w (w_clock_pos w))],
     w_attempts := set_status i EnvironmentReady (w_attempts w)\<rparr>"

lemma provision_failed_served:
  assumes "w_faults w = []" and "find (\<lambda>a. aID a = i) (w_attempts w) = Some a"
    and "aStatus a = EnvironmentProvisioning" and "aPurchasedTestID a = pid"
    and "\<forall>r \<in> set (w_purchases w). pID r = pid \<longrightarrow> int4 (pAttemptsRemaining r + 1)"
  shows "provision_failed L i e w = (Inr (), refunded L i pid w)"
  using assms
  by (auto simp: provision_failed_def handleProvisionFailure_def enqueueCleanup_def ignore_do_def
      RestoreAttemptCount_def store_defs stmt_simps Transition_status try_do_def refunded_def
      cleanup_job_def dest: find_SomeD)

definition fresh_ids :: "uuid_lib \<Rightarrow> 'p world \<Rightarrow> bool" where
  "fresh_ids L w \<longleftrightarrow> (let n = w_uuid_pos w in
     w_uuids w (n + 1) \<notin> eID ` set (w_environments w) \<and>
     w_uuids w (n + 3) \<notin> sID ` set (w_sessions w) \<and>
     uuid_String L (w_uuids w (n + 2)) \<notin> sTerminalToken ` set (w_sessions w))"

lemma record_and_provision_served:
  assumes "w_faults w = []" and "find (\<lambda>a. aID a = i) (w_attempts w) = Some a"
    and "aStatus a = EnvironmentProvisioning" and "aPurchasedTestID a = pid"
    and "\<forall>r \<in> set (w_purchases w). pID r = pid \<longrightarrow> int4 (pAttemptsRemaining r + 1)"
    and "w_uuids w (w_uuid_pos w) \<notin> eID ` set (w_environments w)"
    and "w_uuids w (w_uuid_pos w + 2) \<notin> sID ` set (w_sessions w)"
    and "uuid_String (oUUID oc) (w_uuids w (Suc (w_uuid_pos w))) \<notin> sTerminalToken ` set (w_sessions w)"
  shows "record_and_provision oc i key ext t r w =
    (let w1 = recorded i key r w in
     case provision_spec_of (oProxyConfig oc) key ext t r of
       Inl e \<Rightarrow> (Inl e, w1)
     | Inr spec \<Rightarrow> (case oProvisioner oc spec (w_ext w) of
         (Inl e, p) \<Rightarrow> (Inr (), refunded (oUUID oc) i pid (w1\<lparr>w_ext := p\<rparr>))
       | (Inr x, p) \<Rightarrow> (Inr (), opened (oUUID oc) i (w_uuids w (w_uuid_pos w)) (w1\<lparr>w_ext := p\<rparr>))))"
proof -
  from assms(2) have "present_in aID i (w_attempts w)"
    by (auto simp: present_in_def dest: find_SomeD)
  note facts = assms this
  show ?thesis
  proof (cases "provision_spec_of (oProxyConfig oc) key ext t r")
    case (Inl e)
    with facts show ?thesis
      by (simp add: record_and_provision_def store_defs stmt_simps try_do_def fresh_in_def Let_def
          new_environment_def recorded_def)
  next
    case (Inr spec)
    obtain x p where x: "oProvisioner oc spec (w_ext w) = (x, p)" by fastforce
    show ?thesis
    proof (cases x)
      case (Inl e)
      let ?w1 = "(recorded i key r w)\<lparr>w_ext := p\<rparr>"
      have "provision_failed (oUUID oc) i e ?w1 = (Inr (), refunded (oUUID oc) i pid ?w1)"
        by (rule provision_failed_served [of _ _ a]) (use facts in \<open>simp_all add: recorded_def\<close>)
      with facts Inr Inl x show ?thesis
        by (simp add: record_and_provision_def Environments_Create_def stmt_simps try_do_def fresh_in_def
            Let_def new_environment_def recorded_def on_ext_def)
    next
      case (Inr y)
      with facts \<open>provision_spec_of (oProxyConfig oc) key ext t r = Inr spec\<close> x show ?thesis
        by (simp add: record_and_provision_def Environments_Create_def Sessions_Create_def
            stmt_simps try_do_def fresh_in_def Let_def new_environment_def recorded_def on_ext_def
            new_session_def Transition_status opened_def)
    qed
  qed
qed

section \<open>The stored topology\<close>

lemma topology_keys:
  "key_matches ''name'' ''Name''" "\<not> key_matches ''name'' ''Role''" "\<not> key_matches ''name'' ''Template''"
  "key_matches ''role'' ''Role''" "\<not> key_matches ''role'' ''Template''"
  "key_matches ''template'' ''Template''"
  "key_matches ''id'' ''ID''" "\<not> key_matches ''id'' ''DisplayName''"
  "\<not> key_matches ''id'' ''KubeContext''" "\<not> key_matches ''id'' ''Nodes''"
  "\<not> key_matches ''display_name'' ''DisplayName''" "\<not> key_matches ''display_name'' ''KubeContext''"
  "\<not> key_matches ''display_name'' ''Nodes''" "\<not> key_matches ''kube_context'' ''DisplayName''"
  "\<not> key_matches ''kube_context'' ''KubeContext''" "\<not> key_matches ''kube_context'' ''Nodes''"
  "\<not> key_matches ''nodes'' ''DisplayName''" "\<not> key_matches ''nodes'' ''KubeContext''"
  "key_matches ''nodes'' ''Nodes''" "key_matches ''clusters'' ''Clusters''"
  by code_simp+

definition stored_cluster :: "cluster \<Rightarrow> cluster" where
  "stored_cluster c = c\<lparr>cDisplayName := '''', cKubeContext := ''''\<rparr>"

lemma decode_node_marshal: "decode_node (marshal_node n) = Some n"
  by (simp add: decode_node_def marshal_node_def decode_struct_def into_string_def topology_keys)

lemma decode_cluster_marshal: "decode_cluster (marshal_cluster c) = Some (stored_cluster c)"
  using decode_all_map [of "cNodes c" decode_node marshal_node id]
  by (simp add: decode_cluster_def marshal_cluster_def decode_struct_def into_string_def
      into_slice_def topology_keys decode_node_marshal stored_cluster_def)

lemma decode_topology_marshal:
  "decode_topology (marshal_topology t) = Some \<lparr>tpClusters = map stored_cluster (tpClusters t)\<rparr>"
  using decode_all_map [of "tpClusters t" decode_cluster marshal_cluster stored_cluster]
  by (simp add: decode_topology_def marshal_topology_def decode_struct_def into_slice_def
      topology_keys decode_cluster_marshal)

text \<open>C11: The provisioning job, with the database answering and new UUIDs unused: whatever the provider
  and the provisioner answer, the job ends in one of three ways.  If the provider or the
  provisioner fails, the attempt is in \<open>provision_failed\<close>, one cleanup job is queued and the
  purchase has its attempt back; otherwise the environment has a row, there is one session with
  a fresh token, and the attempt is in \<open>environment_ready\<close>.  Only a provider that returns more
  clusters than it was asked for makes the job fail with a panic.\<close>

theorem provisioning_outcome:
  assumes "w_faults w = []" and "uuid_lib_ok (oUUID oc)" and "unique_key aID (w_attempts w)"
    and "build_input_of oc i w = Some b" and "fresh_ids (oUUID oc) w"
    and "\<forall>r \<in> set (w_purchases w). int4 (pAttemptsRemaining r + 1)"
  shows "handleProvisionEnvironment oc (attempt_payload (oUUID oc) i) w =
    (let pid = aPurchasedTestID (biAttempt b);
         w1 = provisioning_world i w b in
     case CreateEnvironment (oProvider oc) (requested_spec oc i w b) (biExt b) of
       (Inl e, p) \<Rightarrow> (Inr (), refunded (oUUID oc) i pid (w1\<lparr>w_ext := p\<rparr>))
     | (Inr r, p) \<Rightarrow>
       let w2 = recorded i (biPrivate b) r (w1\<lparr>w_ext := p\<rparr>) in
       (case provision_spec_of (oProxyConfig oc) (biPrivate b) (vExternalID (biVersion b)) (biTopology b) r of
          Inl e \<Rightarrow> (Inl e, w2)
        | Inr spec \<Rightarrow> (case oProvisioner oc spec p of
            (Inl e, p') \<Rightarrow> (Inr (), refunded (oUUID oc) i pid (w2\<lparr>w_ext := p'\<rparr>))
          | (Inr x, p') \<Rightarrow> (Inr (), opened (oUUID oc) i (w_uuids w (Suc (w_uuid_pos w))) (w2\<lparr>w_ext := p'\<rparr>)))))"
proof -
  from assms(4) have a: "find (\<lambda>a. aID a = i) (w_attempts w) = Some (biAttempt b)"
    by (auto simp: build_input_of_def bind_eq_Some_conv split: if_splits)
  then have ai: "aID (biAttempt b) = i" by (auto dest: find_SomeD)
  obtain x p where x: "CreateEnvironment (oProvider oc) (requested_spec oc i w b) (biExt b) = (x, p)"
    by fastforce
  let ?w = "(provisioning_world i w b)\<lparr>w_ext := p\<rparr>"
  have w: "w_faults ?w = []" "find (\<lambda>a. aID a = i) (w_attempts ?w) =
      Some ((biAttempt b)\<lparr>aStatus := EnvironmentProvisioning\<rparr>)"
    using assms(1) a ai by (simp_all add: provisioning_world_def)
  have i4: "\<forall>r \<in> set (w_purchases ?w). pID r = aPurchasedTestID (biAttempt b) \<longrightarrow> int4 (pAttemptsRemaining r + 1)"
    using assms(6) by (simp add: provisioning_world_def)
  note reach = provision_reaches_provider [OF assms(1-4)]
  show ?thesis
  proof (cases x)
    case (Inl e)
    have "provision_failed (oUUID oc) i e ?w =
        (Inr (), refunded (oUUID oc) i (aPurchasedTestID (biAttempt b)) ?w)"
      by (rule provision_failed_served [OF w]) (use i4 in simp_all)
    then show ?thesis
      unfolding reach using x Inl
      by (simp add: try_do_def on_ext_def provisioning_world_def Let_def)
  next
    case (Inr r)
    have "record_and_provision oc i (biPrivate b) (vExternalID (biVersion b)) (biTopology b) r ?w =
      (let w1 = recorded i (biPrivate b) r ?w in
       case provision_spec_of (oProxyConfig oc) (biPrivate b) (vExternalID (biVersion b)) (biTopology b) r of
         Inl e \<Rightarrow> (Inl e, w1)
       | Inr spec \<Rightarrow> (case oProvisioner oc spec (w_ext ?w) of
           (Inl e, p) \<Rightarrow> (Inr (), refunded (oUUID oc) i (aPurchasedTestID (biAttempt b)) (w1\<lparr>w_ext := p\<rparr>))
         | (Inr x, p) \<Rightarrow> (Inr (), opened (oUUID oc) i (w_uuids ?w (w_uuid_pos ?w)) (w1\<lparr>w_ext := p\<rparr>))))"
      by (rule record_and_provision_served [OF w])
         (use i4 assms(5) in \<open>simp_all add: provisioning_world_def fresh_ids_def Let_def numeral_eq_Suc\<close>)
    moreover have "w_ext ?w = p" "w_uuids ?w = w_uuids w" "w_uuid_pos ?w = Suc (w_uuid_pos w)"
      by simp_all
    ultimately show ?thesis
      unfolding reach using x Inr by (simp only: try_do_def on_ext_def Let_def
          provisioning_world_simps prod.case sum.case)

  qed
qed

theorem provisioning_outcome_witness:
  "\<exists>w'. handleProvisionEnvironment sample_orchestrator (attempt_payload decimal_uuid_lib 70)
       (sample_world AttemptRequested mock_New) = (Inr (), w') \<and>
     map aStatus (w_attempts w') = [EnvironmentReady] \<and> length (w_environments w') = 2 \<and>
     map sAttemptID (w_sessions w') = [70, 70]"
proof -
  let ?w = "sample_world AttemptRequested mock_New"
  let ?b = "\<lparr>biAttempt = sample_attempt AttemptRequested, biPurchase = sample_purchase,
    biVersion = hd (w_versions ?w), 
    biTopology = \<lparr>tpClusters = map stored_cluster (tpClusters sample_topology)\<rparr>,
    biPublic = ''pub'', biPrivate = ''priv'', biExt = mock_New\<rparr>"
  have u: "oUUID sample_orchestrator = decimal_uuid_lib" by (simp add: sample_orchestrator_def)
  have b: "build_input_of sample_orchestrator 70 ?w = Some ?b"
    by (simp add: decode_topology_marshal build_input_of_def key_pair_of_def sample_orchestrator_def sample_world_def
        sample_bought_def sample_shop_def sample_attempt_def sample_purchase_def sample_test_def)
  have f: "fresh_ids (oUUID sample_orchestrator) ?w"
    by (simp add: fresh_ids_def u sample_world_def sample_bought_def sample_shop_def
        sample_environment_def sample_session_def decimal_uuid_lib_def)
       (simp add: show_nat.simps digit_def)
  note run = provisioning_outcome [OF _ _ _ b f, unfolded u]
  show ?thesis
    by (subst run)
       (simp_all add: decimal_uuid_lib_ok sample_world_def sample_bought_def sample_shop_def
         sample_attempt_def unique_key_def sample_purchase_def int4_def Let_def
         sample_orchestrator_def mock_provider_def mock_CreateEnvironment_def requested_spec_def
         environment_spec_of_def cluster_request_of_def provision_spec_of_def node_request_def
         noop_Provision_def opened_def recorded_def provisioning_world_def set_status_def
         new_session_def sample_session_def sample_topology_def stored_cluster_def mock_New_def
         split: prod.split)
qed

text \<open>C30: Storing a topology keeps ids, node names, roles and templates, and loses every display name
  and every kube context: decoding what the importer stored gives the topology with these two
  fields empty, hence the original exactly when they were empty, because the stored keys are
  the Go field names, which do not match \<open>display_name\<close> and \<open>kube_context\<close>.\<close>

theorem topology_round_trip:
  "decode_topology (marshal_topology t) =
     Some \<lparr>tpClusters = map (\<lambda>c. c\<lparr>cDisplayName := '''', cKubeContext := ''''\<rparr>) (tpClusters t)\<rparr> \<and>
   (decode_topology (marshal_topology t) = Some t \<longleftrightarrow>
     list_all (\<lambda>c. cDisplayName c = '''' \<and> cKubeContext c = '''') (tpClusters t))"
proof -
  have "map stored_cluster cs = cs \<longleftrightarrow> list_all (\<lambda>c. cDisplayName c = '''' \<and> cKubeContext c = '''') cs" for cs
  proof (induction cs)
    case (Cons c cs)
    have "stored_cluster c = c \<longleftrightarrow> cDisplayName c = '''' \<and> cKubeContext c = ''''"
      by (cases c) (auto simp: stored_cluster_def)
    with Cons show ?case by simp
  qed simp
  moreover have "\<lparr>tpClusters = cs\<rparr> = t \<longleftrightarrow> cs = tpClusters t" for cs by (cases t) simp
  ultimately show ?thesis
    by (simp add: decode_topology_marshal stored_cluster_def [abs_def])
qed

section \<open>What the provisioner is handed\<close>

lemma cluster_specs_answers:
  "list_all2 cluster_answers (map (cluster_request_of aid key) cs) rs \<Longrightarrow>
   \<exists>specs. cluster_specs cs rs = Inr specs \<and> map csName specs = map cID cs \<and>
     map csKubeContext specs = map cKubeContext cs \<and>
     map (\<lambda>s. map nsHostname (csNodes s)) specs =
       map (\<lambda>c. map (\<lambda>n. cID c @ ''-'' @ nName n) (cNodes c)) cs"
proof (induction cs arbitrary: rs)
  case Nil
  then show ?case by simp
next
  case (Cons c cs)
  then obtain r rs' where rs: "rs = r # rs'" and r: "cluster_answers (cluster_request_of aid key c) r"
    and rest: "list_all2 cluster_answers (map (cluster_request_of aid key) cs) rs'"
    by (auto simp: list_all2_Cons1)
  from Cons.IH [OF rest] obtain specs where
    "cluster_specs cs rs' = Inr specs" "map csName specs = map cID cs"
    "map csKubeContext specs = map cKubeContext cs"
    "map (\<lambda>s. map nsHostname (csNodes s)) specs = map (\<lambda>c. map (\<lambda>n. cID c @ ''-'' @ nName n) (cNodes c)) cs"
    by blast
  moreover have "clName r = cID c" "map vmHostname (clNodes r) = map (\<lambda>n. cID c @ ''-'' @ nName n) (cNodes c)"
    using r by (simp_all add: cluster_answers_def cluster_request_of_def node_request_def comp_def)
  ultimately show ?case
    by (simp add: rs node_spec_of_def comp_def)
qed

definition covers :: "topology \<Rightarrow> provision_spec \<Rightarrow> bool" where
  "covers t spec \<longleftrightarrow> map csName (psClusters spec) = map cID (tpClusters t) \<and>
     map csKubeContext (psClusters spec) = map cKubeContext (tpClusters t) \<and>
     map (\<lambda>s. map nsHostname (csNodes s)) (psClusters spec) =
       map (\<lambda>c. map (\<lambda>n. cID c @ ''-'' @ nName n) (cNodes c)) (tpClusters t)"

lemma answers_covers:
  assumes "answers (environment_spec_of aid eid key t) r"
  shows "\<exists>spec. provision_spec_of pc priv ext t r = Inr spec \<and> covers t spec"
proof -
  from assms have "list_all2 cluster_answers (map (cluster_request_of aid key) (tpClusters t)) (erClusters r)"
    by (simp add: answers_def environment_spec_of_def)
  from cluster_specs_answers [OF this] show ?thesis
    by (auto simp: provision_spec_of_def covers_def Let_def split: option.split)
qed

text \<open>C27: Indexing the topology by the provider's clusters is safe: whatever environment either
  provider returns for the request made from a topology, the provisioner's specification is
  built without a panic, and it lists the clusters and nodes of the topology one for one, in
  order, under their names.\<close>

theorem provision_spec_safe:
  "(prox_CreateEnvironment cfg E (environment_spec_of aid eid key t) p = (Inr r, p') \<longrightarrow>
      (\<exists>spec. provision_spec_of pc priv ext t r = Inr spec \<and> covers t spec)) \<and>
   (mock_CreateEnvironment (environment_spec_of aid eid key t) m = (Inr r, m') \<longrightarrow>
      (\<exists>spec. provision_spec_of pc priv ext t r = Inr spec \<and> covers t spec))"
proof (intro conjI impI)
  assume "prox_CreateEnvironment cfg E (environment_spec_of aid eid key t) p = (Inr r, p')"
  then show "\<exists>spec. provision_spec_of pc priv ext t r = Inr spec \<and> covers t spec"
    by (rule answers_covers [OF prox.create_answers])
next
  assume "mock_CreateEnvironment (environment_spec_of aid eid key t) m = (Inr r, m')"
  then show "\<exists>spec. provision_spec_of pc priv ext t r = Inr spec \<and> covers t spec"
    by (rule answers_covers [OF mockp.create_answers])
qed

theorem provision_spec_safe_witness:
  "\<exists>r m' spec. mock_CreateEnvironment (environment_spec_of ''7'' ''8'' ''pub'' sample_topology) mock_New = (Inr r, m') \<and>
     provision_spec_of None ''priv'' ''pods'' sample_topology r = Inr spec \<and>
     map (map nsHostname \<circ> csNodes) (psClusters spec) = [[''main-cp'']]"
proof -
  obtain x m' where m: "mock_CreateEnvironment (environment_spec_of ''7'' ''8'' ''pub'' sample_topology) mock_New = (x, m')"
    by fastforce
  then obtain r where x: "x = Inr r" by (rule mock_create_spec)
  have "mock_CreateEnvironment (environment_spec_of ''7'' ''8'' ''pub'' sample_topology) mock_New = (Inr r, m') \<longrightarrow>
      (\<exists>spec. provision_spec_of None ''priv'' ''pods'' sample_topology r = Inr spec \<and> covers sample_topology spec)"
    by (rule provision_spec_safe [THEN conjunct2])
  with m x show ?thesis by (auto simp: covers_def sample_topology_def comp_def)
qed



end
