(* ===== verification/Grading_Properties.thy ===== *)
theory Grading_Properties
  imports Environment_Properties
begin

text \<open>
  Properties of grading and scoring (\<open>internal/grading\<close>, \<open>internal/scoring\<close>): the score of an
  attempt is the points of the checks that passed, grading moves the attempt exactly from
  submitted to scored, and the percentage shown is one.
\<close>

section \<open>Grading against a reference\<close>

definition passes :: "go_error + check_result \<Rightarrow> bool" where
  "passes r = (case r of Inl e \<Rightarrow> False | Inr cr \<Rightarrow> crPassed cr)"

text \<open>The checks run one after the other, each on its own connection; which of them passed.\<close>

fun verdicts ::
  "'p ssh_lib \<Rightarrow> string \<Rightarrow> string \<Rightarrow> check_row list \<Rightarrow> ('p world, bool list) prog"
where
  "verdicts S ip key [] w = ([], w)"
| "verdicts S ip key (c # cs) w =
     (case RunCheck S c ip key w of (r, w1) \<Rightarrow>
      (case verdicts S ip key cs w1 of (vs, w2) \<Rightarrow> (passes r # vs, w2)))"

text \<open>The points of the checks that passed.\<close>

definition points_of :: "check_row list \<Rightarrow> bool list \<Rightarrow> int" where
  "points_of cs vs = sum_list (map (\<lambda>(c, v). if v then ckPoints c else 0) (zip cs vs))"

lemma points_of_simps [simp]:
  "points_of [] vs = 0"
  "points_of (c # cs) (v # vs) = (if v then ckPoints c else 0) + points_of cs vs"
  by (simp_all add: points_of_def)

lemma length_verdicts: "verdicts S ip key cs w = (vs, w') \<Longrightarrow> length vs = length cs"
  by (induction cs arbitrary: w vs) (auto split: prod.splits)

lemma points_of_bounds:
  "length vs = length cs \<Longrightarrow> \<forall>c \<in> set cs. 0 \<le> ckPoints c \<Longrightarrow>
   0 \<le> points_of cs vs \<and> points_of cs vs \<le> sum_list (map ckPoints cs)"
  by (induction vs cs rule: list_induct2) auto

lemma RunCheck_awards:
  assumes "RunCheck S c ip key w = (Inr r, w')"
  shows "crPointsAwarded r = (if crPassed r then ckPoints c else 0)"
proof -
  have res: "crPointsAwarded (check_result_of c code out err now) =
      (if crPassed (check_result_of c code out err now) then ckPoints c else 0)" for code out err now
    by (simp add: check_result_of_def Let_def)
  have inner: "crPointsAwarded r = (if crPassed r then ckPoints c else 0)"
    if "run_in_session S c s w1 = (Inr r, w2)" for s w1 w2
    using that res
    by (auto simp: run_in_session_def bind_do_def time_Now_def split: prod.splits run_outcome.splits)
  show ?thesis
    using assms unfolding RunCheck_def
    by (auto simp: deferred_def bind_do_def ignore_do_def split: sum.splits prod.splits
        elim!: try_do_InrD dest!: inner)
qed

lemma grade_checks_reference:
  assumes "eWorkstationIP env = Some ip" and "\<forall>c \<in> set cs. 0 \<le> ckPoints c"
    and "0 \<le> tot" and "tot \<le> mx" and "mx + sum_list (map ckPoints cs) < 2 ^ 63"
    and "verdicts S ip (eSSHPrivateKey env) cs w = (vs, w')"
  shows "grade_checks S env cs tot mx w =
    (Inr (tot + points_of cs vs, mx + sum_list (map ckPoints cs)), w')"
  using assms(2-)
proof (induction cs arbitrary: tot mx w vs)
  case Nil
  then show ?case by simp
next
  case (Cons c cs)
  obtain r w1 where r: "RunCheck S c ip (eSSHPrivateKey env) w = (r, w1)" by fastforce
  obtain vs1 w2 where v1: "verdicts S ip (eSSHPrivateKey env) cs w1 = (vs1, w2)" by fastforce
  from Cons.prems(5) r v1 have vs: "vs = passes r # vs1" and w2: "w2 = w'" by auto
  from Cons.prems(1) have c: "0 \<le> ckPoints c" and cs: "\<forall>c \<in> set cs. 0 \<le> ckPoints c" by simp_all
  then have nn: "0 \<le> sum_list (map ckPoints cs)" by (intro sum_list_nonneg) auto
  have mx: "i64 (mx + ckPoints c) = mx + ckPoints c"
    using Cons.prems c nn by (intro i64_id) simp_all
  define tot' where "tot' = tot + (if passes r then ckPoints c else 0)"
  have tot': "0 \<le> tot'" "tot' \<le> mx + ckPoints c" "i64 tot' = tot'"
    using Cons.prems c nn by (auto simp: tot'_def intro!: i64_id)
  have "grade_checks S env (c # cs) tot mx w = grade_checks S env cs tot' (mx + ckPoints c) w1"
  proof (cases r)
    case (Inl e)
    with r mx assms(1) show ?thesis by (simp add: tot'_def passes_def Let_def)
  next
    case (Inr cr)
    with r RunCheck_awards have "crPointsAwarded cr = (if crPassed cr then ckPoints c else 0)" by blast
    with r Inr mx assms(1) tot'(3) show ?thesis by (simp add: tot'_def passes_def Let_def)
  qed
  also have "\<dots> = (Inr (tot' + points_of cs vs1, (mx + ckPoints c) + sum_list (map ckPoints cs)), w')"
    using Cons.prems tot' by (intro Cons.IH [OF cs _ _ _ v1 [unfolded w2]]) simp_all
  finally show ?case by (simp add: vs tot'_def)
qed

text \<open>The grader's loop computes the reference: for checks with non-negative points whose sum fits
  Go's int, on an environment with an address, it returns the points of exactly the checks that
  passed, and the points of all checks; in particular the score lies between zero and the
  maximum.  A check that cannot be run counts as failed and does not end the loop.\<close>

lemma grading_is_reference:
  assumes "eWorkstationIP env = Some ip" and "\<forall>c \<in> set cs. 0 \<le> ckPoints c"
    and "sum_list (map ckPoints cs) < 2 ^ 63"
  shows "\<exists>vs w'. verdicts S ip (eSSHPrivateKey env) cs w = (vs, w') \<and> length vs = length cs \<and>
    grade_checks S env cs 0 0 w = (Inr (points_of cs vs, sum_list (map ckPoints cs)), w') \<and>
    0 \<le> points_of cs vs \<and> points_of cs vs \<le> sum_list (map ckPoints cs)"
proof -
  obtain vs w' where v: "verdicts S ip (eSSHPrivateKey env) cs w = (vs, w')" by fastforce
  then have l: "length vs = length cs" by (rule length_verdicts)
  have "grade_checks S env cs 0 0 w = (Inr (0 + points_of cs vs, 0 + sum_list (map ckPoints cs)), w')"
    by (rule grade_checks_reference [OF assms(1,2) _ _ _ v]) (use assms(3) in simp_all)
  with v l points_of_bounds [OF l assms(2)] show ?thesis by auto
qed

lemma sample_checks_run:
  "verdicts sample_ssh ip key (w_checks (sample_shop p)) w = (vs, w') \<Longrightarrow> vs = [True, False]"
  by (auto simp: sample_shop_def sample_ssh_def RunCheck_def run_in_session_def deferred_def
      bind_do_def ignore_do_def try_do_def on_ext_def time_Now_def check_result_of_def passes_def)

lemma grading_is_reference_example:
  "fst (grade_checks sample_ssh sample_environment (w_checks (sample_shop ())) 0 0 (sample_shop ())) = Inr (3, 5)"
proof -
  have "\<exists>vs w'. verdicts sample_ssh ''10.0.0.5'' (eSSHPrivateKey sample_environment)
        (w_checks (sample_shop ())) (sample_shop ()) = (vs, w') \<and>
      length vs = length (w_checks (sample_shop ())) \<and>
      grade_checks sample_ssh sample_environment (w_checks (sample_shop ())) 0 0 (sample_shop ()) =
        (Inr (points_of (w_checks (sample_shop ())) vs, sum_list (map ckPoints (w_checks (sample_shop ())))), w') \<and>
      0 \<le> points_of (w_checks (sample_shop ())) vs \<and>
      points_of (w_checks (sample_shop ())) vs \<le> sum_list (map ckPoints (w_checks (sample_shop ())))"
    by (rule grading_is_reference) (simp_all add: sample_environment_def sample_shop_def)
  then obtain vs w' where v: "verdicts sample_ssh ''10.0.0.5'' (eSSHPrivateKey sample_environment)
        (w_checks (sample_shop ())) (sample_shop ()) = (vs, w')"
    and g: "fst (grade_checks sample_ssh sample_environment (w_checks (sample_shop ())) 0 0 (sample_shop ())) =
      Inr (points_of (w_checks (sample_shop ())) vs, sum_list (map ckPoints (w_checks (sample_shop ()))))"
    by force
  from sample_checks_run [OF v] g show ?thesis by (simp add: sample_shop_def)
qed

section \<open>The grading job\<close>

text \<open>Running checks touches the clock and the external systems only.\<close>

definition outside_only :: "'p world \<Rightarrow> 'p world \<Rightarrow> bool" where
  "outside_only w w' \<longleftrightarrow> (\<exists>n p. w' = w\<lparr>w_clock_pos := n, w_ext := p\<rparr>)"

interpretation outs: preorder_effect "outside_only :: 'p world \<Rightarrow> _"
proof
  fix w t u :: "'p world"
  show "outside_only w w"
    unfolding outside_only_def by (intro exI [of _ "w_clock_pos w"] exI [of _ "w_ext w"]) simp
  assume "outside_only w t" and "outside_only t u"
  then obtain n p na pa where "t = w\<lparr>w_clock_pos := n, w_ext := p\<rparr>"
    and "u = t\<lparr>w_clock_pos := na, w_ext := pa\<rparr>"
    unfolding outside_only_def by blast
  then show "outside_only w u"
    unfolding outside_only_def by (intro exI [of _ na] exI [of _ pa]) simp
qed

lemma outside_time: "obeys outside_only (time_Now :: ('p world, int) prog)"
proof (rule obeysI)
  fix w :: "'p world"
  show "outside_only w (snd (time_Now w))"
    unfolding outside_only_def time_Now_def by (intro exI [of _ "Suc (w_clock_pos w)"] exI [of _ "w_ext w"]) simp
qed

lemma outside_ext: "obeys outside_only (on_ext m :: ('p world, 'a) prog)"
proof (rule obeysI)
  fix w :: "'p world"
  show "outside_only w (snd (on_ext m w))"
    unfolding outside_only_def on_ext_def
    by (intro exI [of _ "w_clock_pos w"] exI [of _ "snd (m (w_ext w))"]) (simp split: prod.split)
qed

lemma RunCheck_outside: "obeys outside_only (RunCheck S c ip key)"
proof -
  have "obeys outside_only (run_in_session S c s)" for s
    unfolding run_in_session_def
  proof (rule outs.obeys_bind [OF outside_ext])
    fix r
    show "obeys outside_only (case r of (oc, out, err) \<Rightarrow> case oc of
        RunError e \<Rightarrow> fail (wrap_err ''failed to run command: '' e)
      | ExitError code \<Rightarrow> bind_do time_Now (\<lambda>now. ok (check_result_of c code out err now))
      | RunOk \<Rightarrow> bind_do time_Now (\<lambda>now. ok (check_result_of c 0 out err now)))"
      by (cases r; cases "fst r") (auto intro!: outs.obeys_bind [OF outside_time] outs.obeys_ok outs.obeys_fail)
  qed
  then show ?thesis
    unfolding RunCheck_def
    by (intro outs.obeys_sum outs.obeys_fail outs.obeys_try outs.obeys_deferred outside_ext)
qed

lemma verdicts_outside: "verdicts S ip key cs w = (vs, w') \<Longrightarrow> outside_only w w'"
proof (induction cs arbitrary: w vs)
  case Nil
  then show ?case by (simp add: outs.refl)
next
  case (Cons c cs)
  then obtain r w1 vs1 where "RunCheck S c ip key w = (r, w1)" and v: "verdicts S ip key cs w1 = (vs1, w')"
    by (auto split: prod.splits)
  then have "outside_only w w1" by (blast intro: obeysD' [OF RunCheck_outside])
  with Cons.IH [OF v] show ?case by (blast intro: outs.trans)
qed

definition set_score :: "uuid \<Rightarrow> int \<Rightarrow> int \<Rightarrow> attempt list \<Rightarrow> attempt list" where
  "set_score i sc mx as = update_rows (\<lambda>a. aID a = i) (\<lambda>a. a\<lparr>aScore := Some sc, aMaxScore := Some mx\<rparr>) as"

lemma find_set_score [simp]:
  "find (\<lambda>a. aID a = i) (set_score j sc mx as) =
     map_option (\<lambda>a. if aID a = j then a\<lparr>aScore := Some sc, aMaxScore := Some mx\<rparr> else a)
       (find (\<lambda>a. aID a = i) as)"
  unfolding set_score_def by (rule find_update_rows) simp

text \<open>What the job reads before it runs the checks: the environment, its address and the checks.\<close>

definition grading_input :: "uuid \<Rightarrow> 'p world \<Rightarrow> (environment \<times> string \<times> check_row list) option" where
  "grading_input i w =
     Option.bind (find (\<lambda>a. aID a = i) (w_attempts w)) (\<lambda>a.
     Option.bind (find (\<lambda>p. pID p = aPurchasedTestID a) (w_purchases w)) (\<lambda>pu.
     Option.bind (find (\<lambda>t. tID t = pTestID pu) (w_tests w)) (\<lambda>t.
     Option.bind (find (\<lambda>e. eAttemptID e = i) (w_environments w)) (\<lambda>env.
     map_option (\<lambda>ip. (env, ip, order_by ckCreatedAt (checks_of_version (tScenarioVersionID t) w)))
       (eWorkstationIP env)))))"

lemma GradeAttempt_run:
  assumes "w_faults w = []" and "uuid_lib_ok L"
    and "find (\<lambda>a. aID a = i) (w_attempts w) = Some a" and "aStatus a \<in> {Submitted, Expired, ExpiredRunning}"
    and "grading_input i w = Some (env, ip, cs)"
    and "\<forall>c \<in> set cs. 0 \<le> ckPoints c" and "int4 (sum_list (map ckPoints cs))"
  shows "\<exists>vs n p. length vs = length cs \<and>
    verdicts S ip (eSSHPrivateKey env) cs (w\<lparr>w_attempts := set_status i Grading (w_attempts w)\<rparr>) =
      (vs, w\<lparr>w_attempts := set_status i Grading (w_attempts w), w_clock_pos := n, w_ext := p\<rparr>) \<and>
    GradeAttempt L S (attempt_payload L i) w = (Inr (), w\<lparr>w_clock_pos := n, w_ext := p,
      w_attempts := set_status i Scored
        (set_score i (points_of cs vs) (sum_list (map ckPoints cs)) (set_status i Grading (w_attempts w))),
      w_jobs := w_jobs w @ [cleanup_job L i]\<rparr>)"
proof -
  let ?w1 = "w\<lparr>w_attempts := set_status i Grading (w_attempts w)\<rparr>"
  from assms(3) have ai: "aID a = i" by (auto dest: find_SomeD)
  from assms(3,5) obtain pu t where rows: "find (\<lambda>p. pID p = aPurchasedTestID a) (w_purchases w) = Some pu"
    "find (\<lambda>t. tID t = pTestID pu) (w_tests w) = Some t"
    "find (\<lambda>e. eAttemptID e = i) (w_environments w) = Some env" and ip: "eWorkstationIP env = Some ip"
    and cs: "cs = order_by ckCreatedAt (checks_of_version (tScenarioVersionID t) w)"
    by (auto simp: grading_input_def bind_eq_Some_conv)
  obtain vs w2 where v: "verdicts S ip (eSSHPrivateKey env) cs ?w1 = (vs, w2)" by fastforce
  then obtain n p where w2: "w2 = ?w1\<lparr>w_clock_pos := n, w_ext := p\<rparr>"
    using verdicts_outside [OF v] by (auto simp: outside_only_def)
  have l: "length vs = length cs" using v by (rule length_verdicts)
  have small: "sum_list (map ckPoints cs) < 2 ^ 63" using assms(7) by (simp add: int4_def)
  have "grade_checks S env cs 0 0 ?w1 = (Inr (0 + points_of cs vs, 0 + sum_list (map ckPoints cs)), w2)"
    by (rule grade_checks_reference [OF ip assms(6) _ _ _ v]) (use small in simp_all)
  then have grade: "grade_checks S env cs 0 0 ?w1 = (Inr (points_of cs vs, sum_list (map ckPoints cs)), w2)"
    by simp
  have i4: "int4 (points_of cs vs)"
    using points_of_bounds [OF l assms(6)] assms(7) by (auto simp: int4_def)
  have version: "checks_of_version v ?w1 = checks_of_version v w" for v
    by (simp add: checks_of_version_def)
  have "GradeAttempt L S (attempt_payload L i) w = (Inr (), w2\<lparr>
      w_attempts := set_status i Scored
        (set_score i (points_of cs vs) (sum_list (map ckPoints cs)) (set_status i Grading (w_attempts w))),
      w_jobs := w_jobs w @ [cleanup_job L i]\<rparr>)"
    using assms(1-4,7) ai rows grade i4
    by (auto simp: GradeAttempt_def Attempts_GetByID_def Purchases_GetByID_def Tests_GetByID_def
        Scenarios_ListChecksByScenarioVersion_def Environments_GetByAttemptID_def
        Attempts_UpdateScore_def stmt_simps try_do_def ignore_do_def Transition_status version
        cs [symmetric] w2 set_score_def [symmetric] cleanup_job_def)
  with v l w2 show ?thesis by (intro exI conjI) simp_all
qed

text \<open>C12: The grading job, with the database answering: an attempt that was submitted or has expired
  ends in status \<open>scored\<close> with the points of the checks of its scenario that passed and the
  points of all of them, and one cleanup job is queued.  Nothing else in the database changes.\<close>

theorem GradeAttempt_scores:
  assumes "w_faults w = []" and "uuid_lib_ok L"
    and "find (\<lambda>a. aID a = i) (w_attempts w) = Some a" and "aStatus a \<in> {Submitted, Expired, ExpiredRunning}"
    and "grading_input i w = Some (env, ip, cs)"
    and "\<forall>c \<in> set cs. 0 \<le> ckPoints c" and "int4 (sum_list (map ckPoints cs))"
  shows "\<exists>vs n p. length vs = length cs \<and>
    verdicts S ip (eSSHPrivateKey env) cs (w\<lparr>w_attempts := set_status i Grading (w_attempts w)\<rparr>) =
      (vs, w\<lparr>w_attempts := set_status i Grading (w_attempts w), w_clock_pos := n, w_ext := p\<rparr>) \<and>
    GradeAttempt L S (attempt_payload L i) w = (Inr (), w\<lparr>w_clock_pos := n, w_ext := p,
      w_attempts := set_status i Scored
        (set_score i (points_of cs vs) (sum_list (map ckPoints cs)) (set_status i Grading (w_attempts w))),
      w_jobs := w_jobs w @ [cleanup_job L i]\<rparr>)"
  by (rule GradeAttempt_run [OF assms])

theorem GradeAttempt_scores_witness:
  "fst (GradeAttempt decimal_uuid_lib sample_ssh (attempt_payload decimal_uuid_lib 70)
      (sample_world Submitted ())) = Inr () \<and>
   map aStatus (w_attempts (snd (GradeAttempt decimal_uuid_lib sample_ssh
      (attempt_payload decimal_uuid_lib 70) (sample_world Submitted ())))) = [Scored]"
proof -
  let ?w = "sample_world Submitted ()"
  have cs: "grading_input 70 ?w = Some (sample_environment, ''10.0.0.5'', w_checks ?w)"
    by (simp add: grading_input_def sample_defs checks_of_version_def order_by_def)
  have "\<exists>vs n p. length vs = length (w_checks ?w) \<and>
    verdicts sample_ssh ''10.0.0.5'' (eSSHPrivateKey sample_environment) (w_checks ?w)
      (?w\<lparr>w_attempts := set_status 70 Grading (w_attempts ?w)\<rparr>) =
      (vs, ?w\<lparr>w_attempts := set_status 70 Grading (w_attempts ?w), w_clock_pos := n, w_ext := p\<rparr>) \<and>
    GradeAttempt decimal_uuid_lib sample_ssh (attempt_payload decimal_uuid_lib 70) ?w =
      (Inr (), ?w\<lparr>w_clock_pos := n, w_ext := p,
      w_attempts := set_status 70 Scored
        (set_score 70 (points_of (w_checks ?w) vs) (sum_list (map ckPoints (w_checks ?w)))
          (set_status 70 Grading (w_attempts ?w))),
      w_jobs := w_jobs ?w @ [cleanup_job decimal_uuid_lib 70]\<rparr>)"
    by (rule GradeAttempt_scores [OF _ decimal_uuid_lib_ok _ _ cs, where a = "sample_attempt Submitted"])
      (simp_all add: sample_defs int4_def)
  then show ?thesis
    by (auto simp: set_status_def set_score_def sample_defs)
qed

text \<open>C34: An attempt that cannot go to grading, in particular one that is being graded or has its
  score, is not graded again, whatever the database answers: the job ends with an error, and
  neither the score nor anything else in the database changes.\<close>

theorem regrade_refused:
  assumes "uuid_lib_ok L" and "find (\<lambda>a. aID a = i) (w_attempts w) = Some a"
    and "\<not> ValidTransition (aStatus a) Grading"
  shows "\<exists>e fs. GradeAttempt L S (attempt_payload L i) w = (Inl e, w\<lparr>w_faults := fs\<rparr>)"
proof -
  have read: "\<exists>fs. snd (Attempts_GetByID i w') = w'\<lparr>w_faults := fs\<rparr> \<and>
      (fst (Attempts_GetByID i w') = Inr b \<longrightarrow> find (\<lambda>a. aID a = i) (w_attempts w') = Some b)" for w' b
  proof (cases "Attempts_GetByID i w'")
    case (Pair r w2)
    then have "\<exists>fs. w2 = w'\<lparr>w_faults := fs\<rparr>"
      unfolding Attempts_GetByID_def by (rule sql_get_state)
    moreover have "find (\<lambda>a. aID a = i) (w_attempts w') = Some b" if "r = Inr b"
      using Pair that by (blast elim: Attempts_GetByID_InrD)
    ultimately show ?thesis using Pair by simp
  qed
  have "\<exists>e fs. TransitionAttempt i Grading (w\<lparr>w_faults := gs\<rparr>) = (Inl e, w\<lparr>w_faults := fs\<rparr>)" for gs
  proof (cases "Attempts_GetByID i (w\<lparr>w_faults := gs\<rparr>)")
    case (Pair r w2)
    with read [of "w\<lparr>w_faults := gs\<rparr>"] obtain fs where w2: "w2 = w\<lparr>w_faults := fs\<rparr>"
      and r: "r = Inr b \<Longrightarrow> b = a" for b
      using assms(2) by (cases r) fastforce+
    with Pair assms(3) show ?thesis by (cases r) (auto simp: TransitionAttempt_def)
  qed
  note T = this
  show ?thesis
  proof (cases "Attempts_GetByID i w")
    case (Pair r w2)
    with read [of w] obtain fs where w2: "w2 = w\<lparr>w_faults := fs\<rparr>" by fastforce
    with T [of fs] obtain e gs where "TransitionAttempt i Grading w2 = (Inl e, w\<lparr>w_faults := gs\<rparr>)" by blast
    with Pair w2 assms(1) show ?thesis
      by (cases r) (auto simp: GradeAttempt_def)
  qed
qed

theorem regrade_refused_witness:
  "\<exists>e fs. GradeAttempt decimal_uuid_lib sample_ssh (attempt_payload decimal_uuid_lib 70)
     (sample_world Scored ()) = (Inl e, (sample_world Scored ())\<lparr>w_faults := fs\<rparr>)"
  by (rule regrade_refused [OF decimal_uuid_lib_ok, where a = "sample_attempt Scored"])
    (simp_all add: sample_defs ValidTransition_simps)

section \<open>The score a user sees\<close>

lemma percentage_exact:
  assumes "0 \<le> tot" and "tot \<le> mx" and "0 < mx" and "int4 mx"
  shows "percentage_of tot mx = (100 * tot) div mx"
proof -
  from assms have "i64 (tot * 100) = tot * 100" by (intro i64_id) (simp_all add: int4_def)
  with assms show ?thesis by (simp add: percentage_of_def go_div_nonneg mult.commute)
qed

lemma full_percentage:
  assumes "0 \<le> tot" and "tot \<le> mx" and "0 < (mx :: int)"
  shows "(100 * tot) div mx = 100 \<longleftrightarrow> tot = mx"
proof
  assume "(100 * tot) div mx = 100"
  then have "100 * mx \<le> 100 * tot" using assms(3)
    by (metis (no_types) div_mult_mod_eq le_add_same_cancel1 pos_mod_sign)
  with assms(2) show "tot = mx" by simp
qed (use assms in simp)

text \<open>C26: From grading to the page: once the grading job has run on a submitted attempt, its owner
  is answered 200 with the points of the checks that passed, the points of all checks, and the
  percentage rounded down; it lies between 0 and 100, and is 100 exactly for full points.\<close>

theorem score_shown:
  assumes "w_faults w = []" and "uuid_lib_ok L"
    and "find (\<lambda>a. aID a = i) (w_attempts w) = Some a" and "aStatus a = Submitted"
    and "grading_input i w = Some (env, ip, cs)"
    and "\<forall>c \<in> set cs. 0 \<le> ckPoints c" and "int4 (sum_list (map ckPoints cs))"
    and "0 < sum_list (map ckPoints cs)"
    and "find (\<lambda>p. pID p = aPurchasedTestID a) (w_purchases w) = Some pu"
  shows "\<exists>vs k. vs = fst (verdicts S ip (eSSHPrivateKey env) cs
      (w\<lparr>w_attempts := set_status i Grading (w_attempts w)\<rparr>)) \<and>
    fst (getScore L (Some (pUserID pu)) (uuid_String L i)
          (snd (GradeAttempt L S (attempt_payload L i) w))) =
      WriteJSON 200 (JObj [(''total_score'', JNum (points_of cs vs)),
        (''max_score'', JNum (sum_list (map ckPoints cs))), (''percentage'', JNum k),
        (''status'', JStr ''scored'')]) \<and>
    k = (100 * points_of cs vs) div sum_list (map ckPoints cs) \<and> 0 \<le> k \<and> k \<le> 100 \<and>
    (k = 100 \<longleftrightarrow> points_of cs vs = sum_list (map ckPoints cs))"
proof -
  let ?m = "sum_list (map ckPoints cs)"
  have st: "aStatus a \<in> {Submitted, Expired, ExpiredRunning}" using assms(4) by simp
  obtain vs n p where l: "length vs = length cs"
    and v: "vs = fst (verdicts S ip (eSSHPrivateKey env) cs
      (w\<lparr>w_attempts := set_status i Grading (w_attempts w)\<rparr>))"
    and run: "GradeAttempt L S (attempt_payload L i) w = (Inr (), w\<lparr>w_clock_pos := n, w_ext := p,
      w_attempts := set_status i Scored
        (set_score i (points_of cs vs) ?m (set_status i Grading (w_attempts w))),
      w_jobs := w_jobs w @ [cleanup_job L i]\<rparr>)"
    using GradeAttempt_run [OF assms(1-3) st assms(5-7)] by (metis fst_conv)
  have t: "0 \<le> points_of cs vs" "points_of cs vs \<le> ?m"
    using points_of_bounds [OF l assms(6)] by simp_all
  note k = percentage_exact [OF t assms(8,7)]
  have range: "0 \<le> percentage_of (points_of cs vs) ?m \<and> percentage_of (points_of cs vs) ?m \<le> 100"
    using t assms(7) by (rule percentage_range)
  from assms(3) have ai: "aID a = i" by (auto dest: find_SomeD)
  have "fst (getScore L (Some (pUserID pu)) (uuid_String L i)
          (snd (GradeAttempt L S (attempt_payload L i) w))) =
      WriteJSON 200 (JObj [(''total_score'', JNum (points_of cs vs)),
        (''max_score'', JNum ?m), (''percentage'', JNum (percentage_of (points_of cs vs) ?m)),
        (''status'', JStr ''scored'')])"
    using assms(1-3,9) ai
    by (simp add: run getScore_def uuid_lib_okD Attempts_GetByID_def Purchases_GetByID_def stmt_simps
        try_do_def find_set_status score_response_def deref_or_zero_def Let_def)
  with v k range full_percentage [OF t assms(8)] show ?thesis by (intro exI conjI) simp_all
qed

theorem score_shown_witness:
  "fst (getScore decimal_uuid_lib (Some 1) (uuid_String decimal_uuid_lib 70)
      (snd (GradeAttempt decimal_uuid_lib sample_ssh (attempt_payload decimal_uuid_lib 70)
         (sample_world Submitted ())))) =
     WriteJSON 200 (JObj [(''total_score'', JNum 3), (''max_score'', JNum 5), (''percentage'', JNum 60),
        (''status'', JStr ''scored'')])"
proof -
  let ?w = "sample_world Submitted ()"
  have cs: "grading_input 70 ?w = Some (sample_environment, ''10.0.0.5'', w_checks ?w)"
    by (simp add: grading_input_def sample_defs checks_of_version_def order_by_def)
  have checks: "w_checks ?w = w_checks (sample_shop ())" by (simp add: sample_defs)
  define vs where "vs = fst (verdicts sample_ssh ''10.0.0.5'' (eSSHPrivateKey sample_environment)
      (w_checks ?w) (?w\<lparr>w_attempts := set_status 70 Grading (w_attempts ?w)\<rparr>))"
  have vs: "vs = [True, False]"
    unfolding vs_def checks by (metis prod.collapse sample_checks_run)
  have "\<exists>vs' k. vs' = vs \<and>
    fst (getScore decimal_uuid_lib (Some (pUserID sample_purchase)) (uuid_String decimal_uuid_lib 70)
          (snd (GradeAttempt decimal_uuid_lib sample_ssh (attempt_payload decimal_uuid_lib 70) ?w))) =
      WriteJSON 200 (JObj [(''total_score'', JNum (points_of (w_checks ?w) vs')),
        (''max_score'', JNum (sum_list (map ckPoints (w_checks ?w)))), (''percentage'', JNum k),
        (''status'', JStr ''scored'')]) \<and>
    k = (100 * points_of (w_checks ?w) vs') div sum_list (map ckPoints (w_checks ?w)) \<and> 0 \<le> k \<and> k \<le> 100 \<and>
    (k = 100 \<longleftrightarrow> points_of (w_checks ?w) vs' = sum_list (map ckPoints (w_checks ?w)))"
    unfolding vs_def
    by (rule score_shown [OF _ decimal_uuid_lib_ok _ _ cs, where a = "sample_attempt Submitted"])
      (simp_all add: sample_defs int4_def)
  then show ?thesis
    by (simp add: vs) (simp add: sample_defs)
qed

end
