(* ===== verification/Progress_Properties.thy ===== *)
theory Progress_Properties
  imports Grading_Properties Attempt_Properties
begin

text \<open>
  Progress through several components: what a submission leads to once the queue is worked off.
\<close>

text \<open>C13: A submission leads to a score: with the database answering, the request of the owner of a
  running attempt is answered 200 and leaves a job in the queue which, whatever the checks
  report, takes the attempt to \<open>scored\<close> with the maximum of the scenario's points, and which
  queues the clean-up of its environment.\<close>

theorem submission_leads_to_score:
  assumes "w_faults w = []" and "uuid_lib_ok (svUUID sv)"
    and "extractToken ra \<noteq> ''''"
    and "jwt_ParseWithClaims (acLib (svAuth sv)) (extractToken ra) (acSecret (svAuth sv))
      (w_clock w (w_clock_pos w)) = Inr (c, True)"
    and "find (\<lambda>a. aID a = i) (w_attempts w) = Some a" and "aStatus a = Running"
    and "find (\<lambda>p. pID p = aPurchasedTestID a) (w_purchases w) = Some pu" and "pUserID pu = clUserID c"
    and "grading_input i w = Some (env, ip, cs)"
    and "\<forall>c \<in> set cs. 0 \<le> ckPoints c" and "int4 (sum_list (map ckPoints cs))"
  shows "\<exists>r w1 j w2 b. serve sv (Protected ra (SubmitAttemptById (uuid_String (svUUID sv) i))) w = (r, w1) \<and>
    rStatus r = 200 \<and> j \<in> set (w_jobs w1) \<and> Work (server_worker sv) j w1 = (Inr (), w2) \<and>
    find (\<lambda>a. aID a = i) (w_attempts w2) = Some b \<and> aStatus b = Scored \<and>
    aMaxScore b = Some (sum_list (map ckPoints cs)) \<and> cleanup_job (svUUID sv) i \<in> set (w_jobs w2)"
proof -
  let ?L = "svUUID sv" and ?m = "sum_list (map ckPoints cs)"
  let ?j = "\<lparr>jKind = GradeAttemptJob, jPayload = attempt_payload ?L i, jScheduledAt = None\<rparr>"
  let ?w1 = "w\<lparr>w_clock_pos := Suc (w_clock_pos w), w_attempts := set_status i Submitted (w_attempts w),
     w_jobs := w_jobs w @ [?j]\<rparr>"
  from assms(5) have ai: "aID a = i" by (auto dest: find_SomeD)
  have served: "serve sv (Protected ra (SubmitAttemptById (uuid_String ?L i))) w =
      (WriteJSON 200 (JObj [(''status'', JStr ''submitted'')]), ?w1)"
    using assms(1-8) ai
    by (simp add: auth_Middleware_def Let_def ValidateToken_def submitAttempt_def uuid_lib_okD SubmitAttempt_def
        Attempts_GetByID_def Purchases_GetByID_def stmt_simps try_do_def Transition_status)
  have found: "find (\<lambda>a. aID a = i) (w_attempts ?w1) = Some (a\<lparr>aStatus := Submitted\<rparr>)"
    using assms(5) ai by simp
  have st: "aStatus (a\<lparr>aStatus := Submitted\<rparr>) \<in> {Submitted, Expired, ExpiredRunning}" by simp
  have "grading_input i ?w1 = grading_input i w"
    using assms(5) ai by (simp add: grading_input_def checks_of_version_def)
  with assms(9) have input: "grading_input i ?w1 = Some (env, ip, cs)" by simp
  from assms(1) have f: "w_faults ?w1 = []" by simp
  obtain vs n p where run: "GradeAttempt ?L (svSSH sv) (attempt_payload ?L i) ?w1 =
      (Inr (), ?w1\<lparr>w_clock_pos := n, w_ext := p,
        w_attempts := set_status i Scored (set_score i (points_of cs vs) ?m (set_status i Grading (w_attempts ?w1))),
        w_jobs := w_jobs ?w1 @ [cleanup_job ?L i]\<rparr>)" (is "_ = (_, ?w2)")
    using GradeAttempt_run [OF f assms(2) found st input assms(10,11)] by blast
  have work: "Work (server_worker sv) ?j ?w1 = (Inr (), ?w2)"
    using run by (simp add: Work_registered)
  have "find (\<lambda>a. aID a = i) (w_attempts ?w2) =
      Some (a\<lparr>aStatus := Scored, aScore := Some (points_of cs vs), aMaxScore := Some ?m\<rparr>)"
    using assms(5) ai by simp
  with served work show ?thesis
    by (intro exI [of _ "WriteJSON 200 (JObj [(''status'', JStr ''submitted'')])"] exI [of _ ?w1]
        exI [of _ ?j] exI [of _ ?w2]
        exI [of _ "a\<lparr>aStatus := Scored, aScore := Some (points_of cs vs), aMaxScore := Some ?m\<rparr>"])
      simp
qed

theorem submission_leads_to_score_witness:
  "\<exists>r w1 j w2. serve sample_server (Protected \<lparr>raAuthorization = ''Bearer 1'', raCookie = None\<rparr>
       (SubmitAttemptById (uuid_String decimal_uuid_lib 70))) (sample_world Running mock_New) = (r, w1) \<and>
     j \<in> set (w_jobs w1) \<and> Work (server_worker sample_server) j w1 = (Inr (), w2) \<and>
     cleanup_job decimal_uuid_lib 70 \<in> set (w_jobs w2)"
proof -
  let ?w = "sample_world Running mock_New"
  have u: "svUUID sample_server = decimal_uuid_lib" by (simp add: sample_server_def)
  have cs: "grading_input 70 ?w = Some (sample_environment, ''10.0.0.5'', w_checks ?w)"
    by (simp add: grading_input_def sample_defs checks_of_version_def order_by_def)
  have token: "extractToken \<lparr>raAuthorization = ''Bearer 1'', raCookie = None\<rparr> = ''1''"
    by (simp add: extractToken_def has_prefix_def trim_prefix_def)
  have jwt: "jwt_ParseWithClaims (acLib (svAuth sample_server)) ''1'' (acSecret (svAuth sample_server)) t =
      Inr (sample_claims 1, True)" for t
    by (simp add: sample_server_def sample_auth_def)
  have "\<exists>r w1 j w2 b. serve sample_server (Protected \<lparr>raAuthorization = ''Bearer 1'', raCookie = None\<rparr>
       (SubmitAttemptById (uuid_String (svUUID sample_server) 70))) ?w = (r, w1) \<and>
    rStatus r = 200 \<and> j \<in> set (w_jobs w1) \<and> Work (server_worker sample_server) j w1 = (Inr (), w2) \<and>
    find (\<lambda>a. aID a = 70) (w_attempts w2) = Some b \<and> aStatus b = Scored \<and>
    aMaxScore b = Some (sum_list (map ckPoints (w_checks ?w))) \<and>
    cleanup_job (svUUID sample_server) 70 \<in> set (w_jobs w2)"
    by (rule submission_leads_to_score [OF _ _ _ _ _ _ _ _ cs, where c = "sample_claims 1"
        and a = "sample_attempt Running" and pu = sample_purchase])
      (simp_all add: u token jwt decimal_uuid_lib_ok, simp_all add: sample_defs int4_def sample_claims_def)
  then show ?thesis unfolding u by blast
qed

end
