(* ===== verification/Terminal_Properties.thy ===== *)
theory Terminal_Properties
  imports Environment_Properties
begin

text \<open>
  Properties of the terminal gateway (\<open>internal/terminal\<close>): who gets a connection, what the first
  opening of a terminal does to the attempt, what passes between the socket and the shell.
\<close>

section \<open>Who gets a connection\<close>

lemma Sessions_GetByTerminalToken_read:
  assumes "Sessions_GetByTerminalToken token w = (r, w')"
  shows "\<exists>fs. w' = w\<lparr>w_faults := fs\<rparr>"
    and "r = Inr s \<Longrightarrow> find (\<lambda>s. sTerminalToken s = token) (w_sessions w) = Some s"
proof -
  show "\<exists>fs. w' = w\<lparr>w_faults := fs\<rparr>"
    using assms unfolding Sessions_GetByTerminalToken_def by (rule sql_get_state)
  show "find (\<lambda>s. sTerminalToken s = token) (w_sessions w) = Some s" if "r = Inr s"
    using assms that unfolding Sessions_GetByTerminalToken_def by (auto elim!: sql_get_ok)
qed

lemma Attempts_GetByID_read:
  assumes "Attempts_GetByID i w = (r, w')"
  shows "\<exists>fs. w' = w\<lparr>w_faults := fs\<rparr>"
    and "r = Inr a \<Longrightarrow> find (\<lambda>a. aID a = i) (w_attempts w) = Some a"
proof -
  show "\<exists>fs. w' = w\<lparr>w_faults := fs\<rparr>"
    using assms unfolding Attempts_GetByID_def by (rule sql_get_state)
  show "find (\<lambda>a. aID a = i) (w_attempts w) = Some a" if "r = Inr a"
    using assms that by (blast elim: Attempts_GetByID_InrD)
qed

text \<open>The session of a token and its attempt, when the terminal may be used.\<close>

definition usable_token :: "string \<Rightarrow> 'p world \<Rightarrow> bool" where
  "usable_token token w \<longleftrightarrow>
     (case find (\<lambda>s. sTerminalToken s = token) (w_sessions w) of
        None \<Rightarrow> False
      | Some s \<Rightarrow> (case find (\<lambda>a. aID a = sAttemptID s) (w_attempts w) of
          None \<Rightarrow> False | Some a \<Rightarrow> aStatus a \<in> {EnvironmentReady, TerminalOpened, Running}))"

text \<open>C15: A token opens nothing it should not: if no session has the token, or its attempt is neither
  ready, opened nor running, then whatever statements fail, the request is refused with a 4xx status
  before the connection is upgraded, and neither the database nor any external system changes.\<close>

theorem terminal_refused:
  assumes "\<not> usable_token token w"
  shows "\<exists>r fs. handleWebSocket T parse evs token w = (HttpReply r, w\<lparr>w_faults := fs\<rparr>) \<and>
    rStatus r \<in> {401, 403, 404}"
proof (cases "Sessions_GetByTerminalToken token w")
  case (Pair r w1)
  note f = Sessions_GetByTerminalToken_read(2) [OF Pair]
  obtain fs where w1: "w1 = w\<lparr>w_faults := fs\<rparr>"
    using Sessions_GetByTerminalToken_read(1) [OF Pair] by blast
  show ?thesis
  proof (cases r)
    case (Inl e)
    with Pair w1 show ?thesis
      by (intro exI [of _ "http_Error ''invalid token'' 401"] exI [of _ fs])
        (simp add: handleWebSocket_def http_Error_def)
  next
    case (Inr s)
    obtain r2 w2 where a: "Attempts_GetByID (sAttemptID s) w1 = (r2, w2)" by fastforce
    obtain gs where w2: "w2 = w\<lparr>w_faults := gs\<rparr>"
      using Attempts_GetByID_read(1) [OF a] by (auto simp: w1)
    have g: "r2 = Inr b \<Longrightarrow> find (\<lambda>a. aID a = sAttemptID s) (w_attempts w) = Some b" for b
      using Attempts_GetByID_read(2) [OF a] by (simp add: w1)
    have "r2 = Inr b \<Longrightarrow> \<not> connectable (aStatus b)" for b
      using assms f [OF Inr] g by (auto simp: usable_token_def connectable_def)
    then have "fst (handleWebSocket T parse evs token w) = HttpReply (if isl r2
          then http_Error ''attempt not found'' 404 else http_Error ''attempt not active'' 403) \<and>
        snd (handleWebSocket T parse evs token w) = w2"
      using Pair Inr a by (cases r2) (simp_all add: handleWebSocket_def)
    then show ?thesis
      by (intro exI [of _ "if isl r2 then http_Error ''attempt not found'' 404
            else http_Error ''attempt not active'' 403"] exI [of _ gs])
        (simp add: prod_eq_iff w2 http_Error_def)
  qed
qed

theorem terminal_refused_witness:
  "\<exists>r fs. handleWebSocket sample_term (\<lambda>_. None) [] ''tok'' (sample_world Submitted ()) =
     (HttpReply r, (sample_world Submitted ())\<lparr>w_faults := fs\<rparr>) \<and> rStatus r \<in> {401, 403, 404}"
  by (rule terminal_refused) (simp add: usable_token_def sample_defs)

section \<open>The first opening\<close>

definition first_opened :: "uuid \<Rightarrow> int \<Rightarrow> session list \<Rightarrow> session list" where
  "first_opened i t ss = update_rows (\<lambda>s. sID s = i) (\<lambda>s. s\<lparr>sFirstOpenedAt := Some t\<rparr>) ss"

lemma shell_ends:
  fixes w :: "'p world"
  shows "\<exists>r q. deferred (on_ext c) (case x of None \<Rightarrow> result Crashed | Some ip \<Rightarrow> on_ext (m ip)) w =
    (r, w\<lparr>w_ext := q\<rparr>)"
proof (cases x)
  case None
  then show ?thesis
    by (intro exI [of _ Crashed] exI [of _ "snd (c (w_ext w))"])
      (simp add: deferred_def bind_do_def ignore_do_def on_ext_def split: prod.split)
next
  case (Some ip)
  then show ?thesis
    by (intro exI [of _ "fst (m ip (w_ext w))"] exI [of _ "snd (c (snd (m ip (w_ext w))))"])
      (simp add: deferred_def bind_do_def ignore_do_def on_ext_def split: prod.split)
qed

text \<open>C16: The first opening starts the attempt, and nothing else does: with the database answering and
  the upgrade accepted, opening the terminal of a ready attempt for the first time records the
  time and leaves the attempt running, whatever becomes of the SSH connection; a later opening
  changes neither the session nor the attempt.  No job is queued in either case, so that nothing
  will end the attempt when its time is over.\<close>

theorem terminal_opening:
  assumes "w_faults w = []"
    and "find (\<lambda>s. sTerminalToken s = token) (w_sessions w) = Some s"
    and "find (\<lambda>a. aID a = sAttemptID s) (w_attempts w) = Some a"
    and "aStatus a = EnvironmentReady \<and> sFirstOpenedAt s = None \<or>
         connectable (aStatus a) \<and> sFirstOpenedAt s \<noteq> None"
    and "find (\<lambda>e. eID e = sEnvironmentID s) (w_environments w) = Some env"
    and "tl_Upgrade T (w_ext w) = (Inr ws, p)"
  shows "\<exists>n q. snd (handleWebSocket T parse evs token w) =
    (if sFirstOpenedAt s = None
     then w\<lparr>w_clock_pos := n, w_sessions := first_opened (sID s) (w_clock w (w_clock_pos w)) (w_sessions w),
            w_attempts := set_status (sAttemptID s) Running (w_attempts w), w_ext := q\<rparr>
     else w\<lparr>w_ext := q\<rparr>)"
proof -
  let ?w1 = "w\<lparr>w_ext := p\<rparr>"
  let ?w2 = "?w1\<lparr>w_clock_pos := Suc (w_clock_pos w),
     w_sessions := first_opened (sID s) (w_clock w (w_clock_pos w)) (w_sessions w),
     w_attempts := set_status (sAttemptID s) Running (w_attempts w)\<rparr>"
  have first: "first_open s ?w1 = ((), if sFirstOpenedAt s = None then ?w2 else ?w1)"
  proof (cases "sFirstOpenedAt s")
    case None
    with assms(4) have "aStatus a = EnvironmentReady" by simp
    moreover have "aID a = sAttemptID s" using assms(3) by (auto dest: find_SomeD)
    ultimately show ?thesis using None assms(1,3)
      by (simp add: first_open_def Sessions_UpdateFirstOpenedAt_def stmt_simps Transition_status
        ignore_do_def first_opened_def)
  qed (simp add: first_open_def)
  from assms(4) have c: "connectable (aStatus a)" by (auto simp: connectable_def)
  have up: "on_ext (tl_Upgrade T) w = (Inr ws, ?w1)" using assms(6) by (simp add: on_ext_def)
  have "handleWebSocket T parse evs token w = deferred (on_ext (tl_CloseWS T ws))
      (ignore_do (first_open s) (case eWorkstationIP env of None \<Rightarrow> result Crashed
       | Some ip \<Rightarrow> on_ext (open_shell T parse evs ws ip (eSSHPrivateKey env)))) ?w1"
    using assms(1-3,5) c up
    by (simp add: handleWebSocket_def Sessions_GetByTerminalToken_def Attempts_GetByID_def
        Environments_GetByID_def stmt_simps try_do_def)
  also have "\<dots> = deferred (on_ext (tl_CloseWS T ws)) (case eWorkstationIP env of None \<Rightarrow> result Crashed
       | Some ip \<Rightarrow> on_ext (open_shell T parse evs ws ip (eSSHPrivateKey env)))
      (if sFirstOpenedAt s = None then ?w2 else ?w1)"
    by (simp add: deferred_def bind_do_def ignore_do_def first)
  finally have handled: "handleWebSocket T parse evs token w = \<dots>" .
  have "\<exists>r q. handleWebSocket T parse evs token w =
      (r, (if sFirstOpenedAt s = None then ?w2 else ?w1)\<lparr>w_ext := q\<rparr>)"
    unfolding handled by (rule shell_ends)
  then obtain r q where "handleWebSocket T parse evs token w =
      (r, (if sFirstOpenedAt s = None then ?w2 else ?w1)\<lparr>w_ext := q\<rparr>)" by blast
  then show ?thesis by (intro exI [of _ "Suc (w_clock_pos w)"] exI [of _ q]) simp
qed

theorem terminal_opening_witness:
  "map aStatus (w_attempts (snd (handleWebSocket sample_term (\<lambda>_. None) [] ''tok''
     (sample_world EnvironmentReady ())))) = [Running]"
proof -
  have "\<exists>n q. snd (handleWebSocket sample_term (\<lambda>_. None) [] ''tok'' (sample_world EnvironmentReady ())) =
    (if sFirstOpenedAt sample_session = None
     then (sample_world EnvironmentReady ())\<lparr>w_clock_pos := n,
       w_sessions := first_opened (sID sample_session)
         (w_clock (sample_world EnvironmentReady ()) (w_clock_pos (sample_world EnvironmentReady ())))
         (w_sessions (sample_world EnvironmentReady ())),
       w_attempts := set_status (sAttemptID sample_session) Running
         (w_attempts (sample_world EnvironmentReady ())), w_ext := q\<rparr>
     else (sample_world EnvironmentReady ())\<lparr>w_ext := q\<rparr>)"
    by (rule terminal_opening [where a = "sample_attempt EnvironmentReady" and env = sample_environment
        and ws = 0 and p = "()"])
      (simp_all add: sample_defs sample_term_def)
  then show ?thesis by (auto simp: sample_session_def sample_world_def sample_attempt_def set_status_def)
qed

section \<open>What passes between the socket and the shell\<close>

text \<open>
  A library that accepts every write and keeps what it was given: the input of the shell, the
  messages sent to the browser, the bytes written past the websocket framing, the window sizes.
\<close>

record tape =
  tpInput :: "string list"
  tpSent :: "string list"
  tpRaw :: "string list"
  tpSizes :: "(int \<times> int) list"

definition recording :: "tape term_lib" where
  "recording = sample_term\<lparr>
     tl_WriteMessage := \<lambda>ws m t. (Inr (), t\<lparr>tpSent := tpSent t @ [m]\<rparr>),
     tl_WriteRaw := \<lambda>ws m t. (Inr (), t\<lparr>tpRaw := tpRaw t @ [m]\<rparr>),
     tl_WindowChange := \<lambda>s r c t. (Inr (), t\<lparr>tpSizes := tpSizes t @ [(r, c)]\<rparr>),
     tl_Write := \<lambda>s m t. (Inr (), t\<lparr>tpInput := tpInput t @ [m]\<rparr>)\<rparr>"

text \<open>What one side sent before it was closed.\<close>

fun heard :: "string option list \<Rightarrow> string list" where
  "heard [] = []"
| "heard (None # xs) = []"
| "heard (Some m # xs) = m # heard xs"

fun from_browser :: "pump_event list \<Rightarrow> string option list" where
  "from_browser [] = []"
| "from_browser (WsRead x # es) = x # from_browser es"
| "from_browser (e # es) = from_browser es"

fun from_stdout :: "pump_event list \<Rightarrow> string option list" where
  "from_stdout [] = []"
| "from_stdout (StdoutRead x # es) = x # from_stdout es"
| "from_stdout (e # es) = from_stdout es"

fun from_stderr :: "pump_event list \<Rightarrow> string option list" where
  "from_stderr [] = []"
| "from_stderr (StderrRead x # es) = x # from_stderr es"
| "from_stderr (e # es) = from_stderr es"

definition typed :: "(string \<Rightarrow> json option) \<Rightarrow> string list \<Rightarrow> string list" where
  "typed parse ms = filter (\<lambda>m. is_resize parse m = None) ms"

definition resized :: "(string \<Rightarrow> json option) \<Rightarrow> string list \<Rightarrow> (int \<times> int) list" where
  "resized parse ms = map (\<lambda>m. (rmRows m, rmCols m)) (List.map_filter (is_resize parse) ms)"

lemma typed_resized_Cons [simp]:
  "typed parse [] = []" "resized parse [] = []"
  "typed parse (m # ms) = (if is_resize parse m = None then m # typed parse ms else typed parse ms)"
  "resized parse (m # ms) = (case is_resize parse m of None \<Rightarrow> resized parse ms
     | Some r \<Rightarrow> (rmRows r, rmCols r) # resized parse ms)"
  by (auto simp: typed_def resized_def map_filter_simps split: option.split)

lemma pump_recording:
  "snd (pump recording parse ws session stdin evs ps t) =
    t\<lparr>tpInput := tpInput t @ (if stdin_open ps then typed parse (heard (from_browser evs)) else []),
      tpSent := tpSent t @ (if stdout_open ps then heard (from_stdout evs) else []),
      tpRaw := tpRaw t @ (if stderr_open ps then heard (from_stderr evs) else []),
      tpSizes := tpSizes t @ (if stdin_open ps then resized parse (heard (from_browser evs)) else [])\<rparr>"
proof (induction evs arbitrary: ps t)
  case Nil
  show ?case by simp
next
  case (Cons ev evs)
  show ?case
  proof (cases ev)
    case (WsRead x)
    then show ?thesis
      by (cases x; cases "is_resize parse (the x)")
        (simp_all add: bind_do_def pump_step_def recording_def ignore_do_def try_do_def
           Cons.IH [unfolded recording_def])
  next
    case (StdoutRead x)
    then show ?thesis
      by (cases x) (simp_all add: bind_do_def pump_step_def recording_def ignore_do_def try_do_def
           Cons.IH [unfolded recording_def])
  next
    case (StderrRead x)
    then show ?thesis
      by (cases x) (simp_all add: bind_do_def pump_step_def recording_def ignore_do_def try_do_def
           Cons.IH [unfolded recording_def])
  qed
qed

text \<open>C31: However the goroutines interleave, the shell receives exactly the browser's messages that are
  not resize requests, in the order sent and up to the first read error; each resize request
  sets the window and never reaches the shell; the browser receives the shell's output in
  order.  What the shell writes to its standard error never arrives as a message: it is written
  to the connection below the websocket framing.\<close>

theorem terminal_copies:
  "snd (pump recording parse ws session stdin evs
     \<lparr>stdin_open = True, stdout_open = True, stderr_open = True\<rparr>
     \<lparr>tpInput = [], tpSent = [], tpRaw = [], tpSizes = []\<rparr>) =
   \<lparr>tpInput = typed parse (heard (from_browser evs)), tpSent = heard (from_stdout evs),
    tpRaw = heard (from_stderr evs), tpSizes = resized parse (heard (from_browser evs))\<rparr>"
  by (simp add: pump_recording)

end
