(* ===== verification/Billing_Properties.thy ===== *)
theory Billing_Properties
  imports Samples Outcomes
begin

text \<open>
  Properties of billing (\<open>internal/billing\<close>): what can create a purchase, what a purchase is made
  of, how often a delivered event counts, and for which access windows the expiry is right.
\<close>

section \<open>What can create a purchase\<close>

definition verified_session ::
  "'p billing_service \<Rightarrow> string \<Rightarrow> string option \<Rightarrow> string \<Rightarrow> checkout_session option"
where
  "verified_session s secret body sig = (case body of
       None \<Rightarrow> None
     | Some payload \<Rightarrow>
         if MaxBodyBytes < length payload then None else
         (case stripe_ConstructEvent (bsStripe s) payload sig secret of
            Inl e \<Rightarrow> None
          | Inr ev \<Rightarrow> if seType ev = ''checkout.session.completed''
                     then stripe_DecodeSession (bsStripe s) (seRaw ev) else None))"

lemma webhook_verified:
  "webhook_Handle s secret body sig =
     (case verified_session s secret body sig of
        Some sess \<Rightarrow> try_do (HandleCheckoutCompleted (bsUUID s) sess)
           (\<lambda>_. result (http_Error ''processing failed'' 500)) (\<lambda>_. result ok_response)
      | None \<Rightarrow> result (fst (webhook_Handle s secret body sig undefined)))"
  by (auto simp: webhook_Handle_def verified_session_def fun_eq_iff split: option.split sum.split)

lemma Tests_GetByID_read:
  assumes "Tests_GetByID i w = (r, w')"
  shows "\<exists>fs. w' = w\<lparr>w_faults := fs\<rparr>"
    and "r = Inr t \<Longrightarrow> find (\<lambda>t. tID t = i) (w_tests w) = Some t"
proof -
  show "\<exists>fs. w' = w\<lparr>w_faults := fs\<rparr>"
    using assms unfolding Tests_GetByID_def by (rule sql_get_state)
  show "find (\<lambda>t. tID t = i) (w_tests w) = Some t" if "r = Inr t"
    using assms that unfolding Tests_GetByID_def by (auto elim!: sql_get_ok)
qed

lemma Products_GetByID_read:
  assumes "Products_GetByID i w = (r, w')"
  shows "\<exists>fs. w' = w\<lparr>w_faults := fs\<rparr>"
    and "r = Inr p \<Longrightarrow> find (\<lambda>p. pdID p = i) (w_products w) = Some p"
proof -
  show "\<exists>fs. w' = w\<lparr>w_faults := fs\<rparr>"
    using assms unfolding Products_GetByID_def by (rule sql_get_state)
  show "find (\<lambda>p. pdID p = i) (w_products w) = Some p" if "r = Inr p"
    using assms that unfolding Products_GetByID_def by (auto elim!: sql_get_ok)
qed

text \<open>Whatever the statement's outcome, \<open>create_purchase\<close> adds at most the one row.\<close>

lemma create_purchase_adds:
  assumes "create_purchase u i t w = (r, w')"
  shows "w_purchases w' = w_purchases w \<or>
    w_purchases w' = w_purchases w @ [new_purchase (w_uuids w (w_uuid_pos w)) u t i
     (w_clock w (w_clock_pos w) + hours_duration (tAccessWindowHours t)) (w_clock w (Suc (w_clock_pos w)))]"
proof -
  let ?x = "new_purchase (w_uuids w (w_uuid_pos w)) u t i
     (w_clock w (w_clock_pos w) + hours_duration (tAccessWindowHours t)) (w_clock w (Suc (w_clock_pos w)))"
  let ?w1 = "w\<lparr>w_uuid_pos := Suc (w_uuid_pos w), w_clock_pos := Suc (Suc (w_clock_pos w))\<rparr>"
  obtain q w2 where c: "Purchases_Create ?x ?w1 = (q, w2)" by fastforce
  have "create_purchase u i t w = try_do (Purchases_Create ?x)
      (\<lambda>e. fail (wrap_err ''failed to create purchase: '' e)) (\<lambda>_. ok (w_uuids w (w_uuid_pos w))) ?w1"
    by (simp add: create_purchase_def Let_def)
  with assms c have "w' = w2" by (cases q) simp_all
  with c show ?thesis
    unfolding Purchases_Create_def
    by (elim exec_only_state) (auto split: if_splits)
qed

text \<open>C20: A free purchase is free: whatever statements fail, \<open>CreateFreePurchase\<close> changes the
  purchases only if the test exists and its product is marked free, and then it adds one
  purchase, of this test, for the caller, with the attempts the test allows.\<close>

theorem free_only_if_free:
  assumes "CreateFreePurchase u i w = (r, w')" and "w_purchases w' \<noteq> w_purchases w"
  shows "\<exists>t p x. find (\<lambda>t. tID t = i) (w_tests w) = Some t \<and>
    find (\<lambda>p. pdID p = tProductID t) (w_products w) = Some p \<and> pdIsFree p \<and>
    w_purchases w' = w_purchases w @ [x] \<and> pUserID x = u \<and> pTestID x = i \<and>
    pAttemptsRemaining x = tAttemptsAllowed t"
proof -
  obtain q w1 where t: "Tests_GetByID i w = (q, w1)" by fastforce
  obtain fs where w1: "w1 = w\<lparr>w_faults := fs\<rparr>" using Tests_GetByID_read(1) [OF t] by blast
  with assms t obtain tst where q: "q = Inr tst"
    by (cases q) (auto simp: CreateFreePurchase_def)
  obtain q2 w2 where p: "Products_GetByID (tProductID tst) w1 = (q2, w2)" by fastforce
  obtain gs where w2: "w2 = w1\<lparr>w_faults := gs\<rparr>" using Products_GetByID_read(1) [OF p] by blast
  with assms t q p w1 obtain pr where q2: "q2 = Inr pr" and free: "pdIsFree pr"
    by (cases q2) (auto simp: CreateFreePurchase_def split: if_splits)
  have "create_purchase u i tst w2 = (r, w')"
    using assms(1) t q p q2 free by (simp add: CreateFreePurchase_def)
  from create_purchase_adds [OF this] assms(2) w1 w2
  obtain x where "w_purchases w' = w_purchases w @ [x]" "pUserID x = u" "pTestID x = i"
    "pAttemptsRemaining x = tAttemptsAllowed tst" by (auto simp: new_purchase_def)
  moreover have "find (\<lambda>p. pdID p = tProductID tst) (w_products w) = Some pr"
    using Products_GetByID_read(2) [OF p q2] by (simp add: w1)
  ultimately show ?thesis
    using free Tests_GetByID_read(2) [OF t q] by blast
qed

theorem free_only_if_free_witness:
  "\<exists>t p x. find (\<lambda>t. tID t = 50) (w_tests (sample_shop ())) = Some t \<and>
    find (\<lambda>p. pdID p = tProductID t) (w_products (sample_shop ())) = Some p \<and> pdIsFree p \<and>
    w_purchases (snd (CreateFreePurchase 1 50 (sample_shop ()))) = w_purchases (sample_shop ()) @ [x] \<and>
    pUserID x = 1 \<and> pTestID x = 50 \<and> pAttemptsRemaining x = tAttemptsAllowed t"
  by (rule free_only_if_free [OF surjective_pairing])
    (simp add: sample_defs CreateFreePurchase_def create_purchase_def store_defs stmt_simps try_do_def
      new_purchase_def fresh_in_def present_in_def unique_opt_def int4_def Let_def)

section \<open>The webhook\<close>

lemma webhook_served:
  assumes "w_faults w = []" and "uuid_lib_ok (bsUUID s)"
    and "verified_session s secret body sig = Some sess"
    and "csMetadata sess ''user_id'' = Some (uuid_String (bsUUID s) u)"
    and "csMetadata sess ''test_id'' = Some (uuid_String (bsUUID s) i)"
    and "find (\<lambda>t. tID t = i) (w_tests w) = Some t" and "int4 (tAttemptsAllowed t)"
    and "u \<in> uID ` set (w_users w)" and "w_uuids w (w_uuid_pos w) \<notin> pID ` set (w_purchases w)"
  shows "webhook_Handle s secret body sig w = (ok_response,
    w\<lparr>w_uuid_pos := Suc (w_uuid_pos w), w_clock_pos := Suc (Suc (w_clock_pos w)),
      w_purchases := w_purchases w @ [new_purchase (w_uuids w (w_uuid_pos w)) u t i
        (w_clock w (w_clock_pos w) + hours_duration (tAccessWindowHours t))
        (w_clock w (Suc (w_clock_pos w)))]\<rparr>)"
proof -
  have "i \<in> tID ` set (w_tests w)" using assms(6) by (auto dest: find_SomeD)
  with assms show ?thesis
    by (subst webhook_verified)
      (simp add: HandleCheckoutCompleted_def uuid_lib_okD Tests_GetByID_def stmt_simps try_do_def
        create_purchase_def Purchases_Create_def new_purchase_def fresh_in_def present_in_def unique_opt_def
        Let_def)
qed

text \<open>C36: Only a signed and completed checkout creates a purchase, one for each delivery: a request
  whose body is too long, unreadable, not signed by Stripe or not about a completed checkout
  leaves the world as it was; but delivering the same signed event a second time, as Stripe may,
  gives the buyer a second purchase with the same terms, because the session's id is neither
  looked up nor stored.\<close>

theorem webhook_deliveries:
  assumes "w_faults w = []" and "uuid_lib_ok (bsUUID s)"
    and "find (\<lambda>t. tID t = i) (w_tests w) = Some t" and "int4 (tAttemptsAllowed t)"
    and "u \<in> uID ` set (w_users w)"
    and "w_uuids w (w_uuid_pos w) \<notin> pID ` set (w_purchases w)"
    and "w_uuids w (Suc (w_uuid_pos w)) \<notin> insert (w_uuids w (w_uuid_pos w)) (pID ` set (w_purchases w))"
  shows "case verified_session s secret body sig of
     None \<Rightarrow> snd (webhook_Handle s secret body sig w) = w
   | Some sess \<Rightarrow>
       csMetadata sess ''user_id'' = Some (uuid_String (bsUUID s) u) \<and>
       csMetadata sess ''test_id'' = Some (uuid_String (bsUUID s) i) \<longrightarrow>
       (\<exists>p q. w_purchases (snd (webhook_Handle s secret body sig w)) = w_purchases w @ [p] \<and>
          w_purchases (snd (webhook_Handle s secret body sig (snd (webhook_Handle s secret body sig w)))) =
            w_purchases w @ [p, q] \<and>
          (\<forall>x \<in> {p, q}. pUserID x = u \<and> pTestID x = i \<and> pAttemptsRemaining x = tAttemptsAllowed t \<and>
             pStripeSessionID x = None))"
proof (cases "verified_session s secret body sig")
  case None
  then have "snd (webhook_Handle s secret body sig w) = w"
    by (auto simp: webhook_Handle_def verified_session_def split: option.splits sum.splits if_splits)
  with None show ?thesis by simp
next
  case (Some sess)
  show ?thesis
  proof (simp only: Some option.case, rule impI)
    assume m: "csMetadata sess ''user_id'' = Some (uuid_String (bsUUID s) u) \<and>
      csMetadata sess ''test_id'' = Some (uuid_String (bsUUID s) i)"
    let ?p = "\<lambda>v. new_purchase (w_uuids v (w_uuid_pos v)) u t i
        (w_clock v (w_clock_pos v) + hours_duration (tAccessWindowHours t)) (w_clock v (Suc (w_clock_pos v)))"
    let ?w1 = "w\<lparr>w_uuid_pos := Suc (w_uuid_pos w), w_clock_pos := Suc (Suc (w_clock_pos w)),
      w_purchases := w_purchases w @ [?p w]\<rparr>"
    note once = webhook_served [OF _ assms(2) Some m [THEN conjunct1] m [THEN conjunct2], where t = t]
    have one: "webhook_Handle s secret body sig w = (ok_response, ?w1)"
      by (rule once) (use assms in simp_all)
    have "webhook_Handle s secret body sig ?w1 = (ok_response,
      ?w1\<lparr>w_uuid_pos := Suc (w_uuid_pos ?w1), w_clock_pos := Suc (Suc (w_clock_pos ?w1)),
        w_purchases := w_purchases ?w1 @ [?p ?w1]\<rparr>)"
      by (rule once) (use assms in \<open>simp_all add: new_purchase_def\<close>)
    then show "\<exists>p q. w_purchases (snd (webhook_Handle s secret body sig w)) = w_purchases w @ [p] \<and>
          w_purchases (snd (webhook_Handle s secret body sig (snd (webhook_Handle s secret body sig w)))) =
            w_purchases w @ [p, q] \<and>
          (\<forall>x \<in> {p, q}. pUserID x = u \<and> pTestID x = i \<and> pAttemptsRemaining x = tAttemptsAllowed t \<and>
             pStripeSessionID x = None)"
      by (intro exI [of _ "?p w"] exI [of _ "?p ?w1"]) (simp add: one new_purchase_def)
  qed
qed

theorem webhook_deliveries_witness:
  "length (w_purchases (snd (webhook_Handle sample_billing ''w'' (Some ''{}'') ''w''
     (snd (webhook_Handle sample_billing ''w'' (Some ''{}'') ''w'' (sample_shop ())))))) = 2"
proof -
  let ?v = "verified_session (sample_billing :: unit billing_service) ''w'' (Some ''{}'') ''w''"
  have u: "bsUUID (sample_billing :: unit billing_service) = decimal_uuid_lib" by (simp add: sample_billing_def)
  obtain sess where v: "?v = Some sess"
    and m: "csMetadata sess = [''user_id'' \<mapsto> uuid_String decimal_uuid_lib 1,
              ''test_id'' \<mapsto> uuid_String decimal_uuid_lib 50]"
    by (simp add: verified_session_def sample_billing_def MaxBodyBytes_def)
  have facts: "w_faults (sample_shop ()) = []" "w_purchases (sample_shop ()) = []"
      "find (\<lambda>t. tID t = 50) (w_tests (sample_shop ())) = Some sample_test"
      "int4 (tAttemptsAllowed sample_test)" "1 \<in> uID ` set (w_users (sample_shop ()))"
      "w_uuids (sample_shop ()) (w_uuid_pos (sample_shop ())) = 1000"
      "w_uuids (sample_shop ()) (Suc (w_uuid_pos (sample_shop ()))) = 1001"
    by (simp_all add: sample_shop_def sample_test_def int4_def)
  have "case ?v of
     None \<Rightarrow> snd (webhook_Handle sample_billing ''w'' (Some ''{}'') ''w'' (sample_shop ())) = sample_shop ()
   | Some sess \<Rightarrow>
       csMetadata sess ''user_id'' = Some (uuid_String (bsUUID (sample_billing :: unit billing_service)) 1) \<and>
       csMetadata sess ''test_id'' = Some (uuid_String (bsUUID (sample_billing :: unit billing_service)) 50) \<longrightarrow>
       (\<exists>p q. w_purchases (snd (webhook_Handle sample_billing ''w'' (Some ''{}'') ''w'' (sample_shop ()))) =
            w_purchases (sample_shop ()) @ [p] \<and>
          w_purchases (snd (webhook_Handle sample_billing ''w'' (Some ''{}'') ''w''
             (snd (webhook_Handle sample_billing ''w'' (Some ''{}'') ''w'' (sample_shop ()))))) =
            w_purchases (sample_shop ()) @ [p, q] \<and>
          (\<forall>x \<in> {p, q}. pUserID x = 1 \<and> pTestID x = 50 \<and> pAttemptsRemaining x = tAttemptsAllowed sample_test \<and>
             pStripeSessionID x = None))"
    by (rule webhook_deliveries [OF facts(1) _ facts(3,4,5)])
      (simp_all add: facts u decimal_uuid_lib_ok)
  then show ?thesis by (auto simp: v u m facts(2))
qed

section \<open>The access window\<close>

lemma hours_duration_exact:
  assumes "0 < h" and "int4 h"
  shows "hours_duration h = h * 3600 * 10 ^ 9 \<longleftrightarrow> h \<le> 2562047"
proof
  assume "hours_duration h = h * 3600 * 10 ^ 9"
  then have "h * 3600 * 10 ^ 9 < 2 ^ 63"
    using i64_upper [of "h * 3600000000000"] by (simp add: hours_duration_def)
  then show "h \<le> 2562047" by simp
next
  assume "h \<le> 2562047"
  with assms(1) have "i64 (h * 3600000000000) = h * 3600000000000" by (intro i64_id) simp_all
  then show "hours_duration h = h * 3600 * 10 ^ 9" by (simp add: hours_duration_def)
qed

lemma hours_duration_wraps: "hours_duration 2562048 < 0"
  by (simp add: hours_duration_def i64_def)

text \<open>An access window is right up to 2562047 hours: a purchase that was made from a test with a
  window of that many hours or fewer expires exactly that many hours after the time it was
  made; for every longer window the 64-bit duration has wrapped around, and with a window of
  2562048 hours the purchase has expired before it is made.\<close>

lemma access_window_bound:
  assumes "w_purchases (snd (create_purchase u i t w)) = w_purchases w @ [x]"
    and "0 < tAccessWindowHours t" and "int4 (tAccessWindowHours t)"
  shows "(pExpiresAt x - w_clock w (w_clock_pos w) = tAccessWindowHours t * 3600 * 10 ^ 9 \<longleftrightarrow>
      tAccessWindowHours t \<le> 2562047) \<and>
    (tAccessWindowHours t = 2562048 \<longrightarrow> pExpiresAt x < w_clock w (w_clock_pos w))"
proof -
  have "x = new_purchase (w_uuids w (w_uuid_pos w)) u t i
     (w_clock w (w_clock_pos w) + hours_duration (tAccessWindowHours t)) (w_clock w (Suc (w_clock_pos w)))"
    using create_purchase_adds [OF surjective_pairing [of "create_purchase u i t w"]] assms(1) by auto
  then have "pExpiresAt x = w_clock w (w_clock_pos w) + hours_duration (tAccessWindowHours t)"
    by (simp add: new_purchase_def)
  then show ?thesis
    using hours_duration_exact [OF assms(2,3)] hours_duration_wraps by auto
qed

lemma access_window_bound_example:
  "\<exists>x. w_purchases (snd (create_purchase 1 50 (sample_test\<lparr>tAccessWindowHours := 2562048\<rparr>) (sample_shop ()))) = [x] \<and>
     pExpiresAt x < w_clock (sample_shop ()) (w_clock_pos (sample_shop ()))"
proof -
  let ?t = "sample_test\<lparr>tAccessWindowHours := 2562048\<rparr>"
  have p: "w_purchases (sample_shop ()) = []" by (simp add: sample_shop_def)
  obtain x where x: "w_purchases (snd (create_purchase 1 50 ?t (sample_shop ()))) = w_purchases (sample_shop ()) @ [x]"
    by (simp add: sample_defs create_purchase_def Purchases_Create_def stmt_simps try_do_def
      new_purchase_def fresh_in_def present_in_def unique_opt_def int4_def Let_def)
  then show ?thesis using access_window_bound [OF x] p by (auto simp: int4_def)
qed

end
