(* ===== verification/Auth_Properties.thy ===== *)
theory Auth_Properties
  imports Samples Outcomes
begin

text \<open>
  Properties of authentication (\<open>internal/auth\<close>): an account that was registered can be logged
  into with its password, and with another only if bcrypt matches it with the stored hash, and the
  token that gives names this account until it expires.  What the libraries for tokens and hashes promise is \<open>auth_lib_ok\<close>.
\<close>

text \<open>
  bcrypt: a hash made from a password matches it.  golang-jwt: a token signed with a key parses
  under this key to valid claims for the same user, from its not-before to its expiry.
\<close>

definition auth_lib_ok :: "'p auth_lib \<Rightarrow> bool" where
  "auth_lib_ok lib \<longleftrightarrow>
     (\<forall>pw p h p'. bcrypt_GenerateFromPassword lib pw p = (Inr h, p') \<longrightarrow>
        bcrypt_CompareHashAndPassword lib h pw = Inr ()) \<and>
     (\<forall>cl key tok now. jwt_SignedString lib cl key = Inr tok \<and>
        clNotBefore cl \<le> numeric_date now \<and> now < clExpiresAt cl * 1000000000 \<longrightarrow>
        (\<exists>cl'. jwt_ParseWithClaims lib tok key now = Inr (cl', True) \<and> clUserID cl' = clUserID cl))"

lemma auth_lib_okD:
  assumes "auth_lib_ok lib"
  shows "bcrypt_GenerateFromPassword lib pw p = (Inr h, p') \<Longrightarrow> bcrypt_CompareHashAndPassword lib h pw = Inr ()"
    and "jwt_SignedString lib cl key = Inr tok \<Longrightarrow> clNotBefore cl \<le> numeric_date now \<Longrightarrow>
      now < clExpiresAt cl * 1000000000 \<Longrightarrow>
      \<exists>cl'. jwt_ParseWithClaims lib tok key now = Inr (cl', True) \<and> clUserID cl' = clUserID cl"
  using assms unfolding auth_lib_ok_def by blast+

lemma auth_lib_ok_sample: "auth_lib_ok (acLib sample_auth)"
  using decimal_uuid_lib_ok
  by (auto simp: auth_lib_ok_def sample_auth_def sample_claims_def uuid_lib_okD)

text \<open>A registration that reports success has stored the user it returns, under a new e-mail.\<close>

lemma Users_Create_InrD:
  assumes "Users_Create u w = (Inr x, w')"
  obtains fs where "w' = w\<lparr>w_faults := fs, w_users := w_users w @ [u]\<rparr>"
    and "uEmail u \<notin> uEmail ` set (w_users w)"
  using assms unfolding Users_Create_def
  by (elim exec_only_InrD) (auto simp: fresh_in_def split: if_splits)

lemma Users_GetByEmail_state: "Users_GetByEmail em w = (r, w') \<Longrightarrow> \<exists>fs. w' = w\<lparr>w_faults := fs\<rparr>"
  unfolding Users_GetByEmail_def by (rule sql_get_state)

lemma Register_InrD:
  assumes "Register c em pw w = (Inr user, w')"
  shows "\<exists>p p'. bcrypt_GenerateFromPassword (acLib c) pw p = (Inr (uPasswordHash user), p')"
    and "uEmail user = em" and "\<not> uIsAdmin user"
    and "find (\<lambda>u. uEmail u = em) (w_users w') = Some user"
proof -
  obtain r w1 where g: "Users_GetByEmail em w = (r, w1)" by fastforce
  obtain fs where w1: "w1 = w\<lparr>w_faults := fs\<rparr>" using Users_GetByEmail_state [OF g] by blast
  obtain e where r: "r = Inl e"
  proof (cases r)
    case (Inr u)
    with assms g show thesis by (simp add: Register_def)
  qed (rule that)
  obtain h p where b: "bcrypt_GenerateFromPassword (acLib c) pw (w_ext w) = (h, p)" by fastforce
  have b': "on_ext (bcrypt_GenerateFromPassword (acLib c) pw) w1 = (h, w1\<lparr>w_ext := p\<rparr>)"
    using b by (simp add: on_ext_def w1)
  obtain hash where h: "h = Inr hash"
  proof (cases h)
    case (Inl e')
    with assms g r b' show thesis by (simp add: Register_def)
  qed (rule that)
  let ?w2 = "w1\<lparr>w_ext := p, w_uuid_pos := Suc (w_uuid_pos w), w_clock_pos := Suc (w_clock_pos w)\<rparr>"
  let ?u = "\<lparr>uID = w_uuids w (w_uuid_pos w), uEmail = em, uPasswordHash = hash, uIsAdmin = False,
     uCreatedAt = w_clock w (w_clock_pos w)\<rparr>"
  obtain q w3 where c: "Users_Create ?u ?w2 = (q, w3)" by fastforce
  have "Register c em pw w = try_do (Users_Create ?u)
      (\<lambda>e. fail (wrap_err ''failed to create user: '' e)) (\<lambda>_. ok ?u) ?w2"
    using g r b' h by (simp add: Register_def Let_def w1)
  also have "\<dots> = (case q of Inl e \<Rightarrow> (Inl (wrap_err ''failed to create user: '' e), w3) | Inr x \<Rightarrow> (Inr ?u, w3))"
    using c by (simp add: try_do_def split: sum.split)
  finally have "(case q of Inl e \<Rightarrow> (Inl (wrap_err ''failed to create user: '' e), w3)
      | Inr x \<Rightarrow> (Inr ?u, w3)) = (Inr user, w')" unfolding assms by (rule sym)
  then have q: "q = Inr ()" "user = ?u" "w' = w3" by (simp_all split: sum.splits)
  from c [unfolded q] obtain gs where w3: "w3 = ?w2\<lparr>w_faults := gs, w_users := w_users ?w2 @ [?u]\<rparr>"
    and fresh: "uEmail ?u \<notin> uEmail ` set (w_users ?w2)" by (rule Users_Create_InrD)
  have "find (\<lambda>u. uEmail u = em) (w_users w) = None"
    using fresh by (auto simp: find_None_iff w1)
  with q w3 show "find (\<lambda>u. uEmail u = em) (w_users w') = Some user" by (simp add: find_append w1)
  show "\<exists>p p'. bcrypt_GenerateFromPassword (acLib c) pw p = (Inr (uPasswordHash user), p')"
    using b h q(2) by auto
  show "uEmail user = em" and "\<not> uIsAdmin user" by (simp_all add: q(2))
qed

lemma Login_served:
  assumes "w_faults w = []" and "find (\<lambda>u. uEmail u = em) (w_users w) = Some user"
    and "bcrypt_CompareHashAndPassword (acLib c) (uPasswordHash user) pw = Inr ()"
  shows "Login c em pw w =
     (case jwt_SignedString (acLib c) (claims_of c (uID user) (w_clock w (w_clock_pos w))) (acSecret c) of
        Inl e \<Rightarrow> Inl (wrap_err ''failed to generate token: '' e) | Inr tok \<Rightarrow> Inr tok,
      w\<lparr>w_clock_pos := Suc (w_clock_pos w)\<rparr>)"
  using assms
  by (simp add: Login_def Users_GetByEmail_def stmt_simps try_do_def auth_GenerateToken_def
      split: sum.split)

lemma Login_wrong_password:
  assumes "w_faults w = []" and "find (\<lambda>u. uEmail u = em) (w_users w) = Some user"
    and "bcrypt_CompareHashAndPassword (acLib c) (uPasswordHash user) pw \<noteq> Inr ()"
  shows "Login c em pw w = (Inl ErrInvalidCredentials, w)"
  using assms
  by (cases "bcrypt_CompareHashAndPassword (acLib c) (uPasswordHash user) pw")
    (simp_all add: Login_def Users_GetByEmail_def stmt_simps try_do_def)

lemma token_validates:
  fixes v :: "'p world"
  assumes "auth_lib_ok (acLib c)"
    and "jwt_SignedString (acLib c) (claims_of c u now) (acSecret c) = Inr tok"
    and "numeric_date now \<le> numeric_date (w_clock v (w_clock_pos v))"
    and "w_clock v (w_clock_pos v) < numeric_date (now + acExpiry c) * 1000000000"
  shows "fst (ValidateToken c tok v) = Inr u"
proof -
  from assms(3,4) obtain cl where "jwt_ParseWithClaims (acLib c) tok (acSecret c) (w_clock v (w_clock_pos v)) =
      Inr (cl, True)" and "clUserID cl = u"
    using auth_lib_okD(2) [OF assms(1,2), of "w_clock v (w_clock_pos v)"] by (auto simp: claims_of_def)
  then show ?thesis by (simp add: ValidateToken_def)
qed

text \<open>C19: From registration to a valid token, with libraries that keep their promises: whatever failed
  before, an account that \<open>Register\<close> returned is no administrator's and holds a bcrypt hash of its
  password; and with the database answering, \<open>Login\<close> with its e-mail and any password asks bcrypt
  to compare the password with this hash.  If they match, as the registered one does, it signs a
  token for the account (or reports that signing failed), and this token is accepted, for this
  user and no other, from the second it was made until the end of its lifetime; if they do not,
  it answers with invalid credentials and changes nothing.\<close>

theorem register_login_validate:
  assumes "auth_lib_ok (acLib c)" and "Register c em pw w0 = (Inr user, w)" and "w_faults w = []"
  shows "\<not> uIsAdmin user \<and> (\<exists>p p'. bcrypt_GenerateFromPassword (acLib c) pw p = (Inr (uPasswordHash user), p')) \<and>
    bcrypt_CompareHashAndPassword (acLib c) (uPasswordHash user) pw = Inr () \<and>
    (\<forall>pw'. if bcrypt_CompareHashAndPassword (acLib c) (uPasswordHash user) pw' \<noteq> Inr ()
      then Login c em pw' w = (Inl ErrInvalidCredentials, w)
      else \<exists>r. Login c em pw' w = (r, w\<lparr>w_clock_pos := Suc (w_clock_pos w)\<rparr>) \<and>
      (case r of
         Inl e \<Rightarrow> \<exists>e'. jwt_SignedString (acLib c) (claims_of c (uID user) (w_clock w (w_clock_pos w)))
                        (acSecret c) = Inl e'
       | Inr tok \<Rightarrow> \<forall>v :: 'p world.
           numeric_date (w_clock w (w_clock_pos w)) \<le> numeric_date (w_clock v (w_clock_pos v)) \<and>
           w_clock v (w_clock_pos v) <
             numeric_date (w_clock w (w_clock_pos w) + acExpiry c) * 1000000000 \<longrightarrow>
           fst (ValidateToken c tok v) = Inr (uID user)))"
proof -
  from Register_InrD [OF assms(2)] assms(1) have m: "bcrypt_CompareHashAndPassword (acLib c) (uPasswordHash user) pw = Inr ()"
    and f: "find (\<lambda>u. uEmail u = em) (w_users w) = Some user" and a: "\<not> uIsAdmin user"
    and h: "\<exists>p p'. bcrypt_GenerateFromPassword (acLib c) pw p = (Inr (uPasswordHash user), p')"
    by (blast dest: auth_lib_okD(1))+
  show ?thesis
    using a m h Login_wrong_password [OF assms(3) f, of c] Login_served [OF assms(3) f, of c]
      token_validates [OF assms(1), of "uID user" "w_clock w (w_clock_pos w)"]
    by (cases "jwt_SignedString (acLib c) (claims_of c (uID user) (w_clock w (w_clock_pos w))) (acSecret c)")
      auto
qed

text \<open>A registration in the sample installation.\<close>

definition eve :: user where
  "eve = \<lparr>uID = 1000, uEmail = ''eve'', uPasswordHash = ''pw'', uIsAdmin = False, uCreatedAt = 0\<rparr>"

definition eve_world :: "unit world" where
  "eve_world = snd (Register sample_auth ''eve'' ''pw'' (sample_shop ()))"

lemma register_eve:
  "Register sample_auth ''eve'' ''pw'' (sample_shop ()) = (Inr eve, eve_world)"
  "w_faults eve_world = []" "w_clock eve_world = int" "w_clock_pos eve_world = 1"
  by (simp_all add: eve_def eve_world_def Register_def sample_auth_def store_defs sample_shop_def stmt_simps
      try_do_def on_ext_def Let_def fresh_in_def)

theorem register_login_validate_witness:
  "\<exists>tok. fst (Login sample_auth ''eve'' ''pw'' eve_world) = Inr tok \<and>
     fst (ValidateToken sample_auth tok eve_world) = Inr 1000"
proof -
  let ?w = eve_world and ?c = "sample_auth :: unit auth_config"
  obtain r where l: "Login ?c ''eve'' ''pw'' ?w = (r, ?w\<lparr>w_clock_pos := Suc (w_clock_pos ?w)\<rparr>)"
    and r: "case r of
         Inl e \<Rightarrow> \<exists>e'. jwt_SignedString (acLib ?c)
                    (claims_of ?c (uID eve) (w_clock ?w (w_clock_pos ?w))) (acSecret ?c) = Inl e'
       | Inr tok \<Rightarrow> \<forall>v :: unit world.
           numeric_date (w_clock ?w (w_clock_pos ?w)) \<le> numeric_date (w_clock v (w_clock_pos v)) \<and>
           w_clock v (w_clock_pos v) <
             numeric_date (w_clock ?w (w_clock_pos ?w) + acExpiry ?c) * 1000000000 \<longrightarrow>
           fst (ValidateToken ?c tok v) = Inr (uID eve)"
    using register_login_validate [OF auth_lib_ok_sample register_eve(1,2)] that by (auto split: if_splits)
  from r obtain tok where tok: "r = Inr tok" by (cases r) (auto simp: sample_auth_def)
  have "fst (ValidateToken ?c tok ?w) = Inr (uID eve)"
  proof -
    have "acExpiry ?c = 86400000000000" by (simp add: sample_auth_def)
    then show ?thesis
      using r [unfolded tok sum.case, rule_format, of ?w] by (simp add: register_eve numeric_date_def)
  qed
  with l tok show ?thesis by (simp add: eve_def)
qed

end
