(* ===== verification/Admin_Properties.thy ===== *)
theory Admin_Properties
  imports Billing_Properties
begin

text \<open>
  Properties of the administration handlers (\<open>internal/admin\<close>): transactions take effect as a
  whole or not at all, deletion removes a test with its product or nothing, a new test cannot be
  created, and an update that is refused may have changed the product.
\<close>

section \<open>Transactions\<close>

lemma transaction_all_or_nothing:
  assumes "transaction steps w = (r, w')"
  obtains (nothing) fs msg where "w' = w\<lparr>w_faults := fs\<rparr>" and "r = Some msg"
  | (all) fs w1 gs where "tx_steps steps (w\<lparr>w_faults := fs\<rparr>) = (None, w1)" and "w' = w1\<lparr>w_faults := gs\<rparr>"
proof -
  obtain f w1 where d: "draw_outcome w = (f, w1)" by fastforce
  obtain fs where w1: "w1 = w\<lparr>w_faults := fs\<rparr>" using draw_outcome_tables [OF d] by blast
  obtain q w2 where t: "tx_steps steps w1 = (q, w2)" by fastforce
  obtain g w3 where d3: "draw_outcome w2 = (g, w3)" by fastforce
  obtain gs where w3: "w3 = w2\<lparr>w_faults := gs\<rparr>" using draw_outcome_tables [OF d3] by blast
  consider (unopened) "f \<noteq> Served" | (step) msg where "f = Served" "q = Some msg"
    | (refused) "f = Served" "q = None" "g = Refused" | (committed) "f = Served" "q = None" "g \<noteq> Refused"
    by (cases q) auto
  then show thesis
  proof cases
    case unopened
    with assms d w1 have "w' = w\<lparr>w_faults := fs\<rparr>" "r = Some ''failed to begin transaction''"
      by (simp_all add: transaction_def)
    then show thesis by (rule nothing)
  next
    case (step msg)
    with assms d t w1 have "w' = w\<lparr>w_faults := w_faults w2\<rparr>" "r = Some msg"
      by (simp_all add: transaction_def Let_def)
    then show thesis by (rule nothing)
  next
    case refused
    with assms d t d3 w1 have "w' = w\<lparr>w_faults := w_faults w3\<rparr>" "r = Some ''failed to commit transaction''"
      by (simp_all add: transaction_def Let_def)
    then show thesis by (rule nothing)
  next
    case committed
    with assms d t d3 have "w' = w3" by (cases g) (simp_all add: transaction_def Let_def)
    with committed t w1 w3 have "tx_steps steps (w\<lparr>w_faults := fs\<rparr>) = (None, w2)" "w' = w2\<lparr>w_faults := gs\<rparr>"
      by simp_all
    then show thesis by (rule all)
  qed
qed

lemma tx_steps_ConsD:
  assumes "tx_steps ((st, msg) # steps) w = (None, w')"
  obtains fs n w1 where "st (w\<lparr>w_faults := fs\<rparr>) = Inr (w1, n)" and "tx_steps steps w1 = (None, w')"
proof -
  obtain r w1 where s: "sql_exec st w = (r, w1)" by fastforce
  with assms obtain n where r: "r = Inr n" by (cases r) auto
  with s obtain fs where "st (w\<lparr>w_faults := fs\<rparr>) = Inr (w1, n)" by (auto elim: sql_exec_InrD)
  with assms s r that show thesis by simp
qed

section \<open>Deleting a test\<close>

lemma HasPurchases_read:
  assumes "Tests_HasPurchases i w = (r, w')"
  shows "\<exists>fs. w' = w\<lparr>w_faults := fs\<rparr>"
  using assms unfolding Tests_HasPurchases_def
  by (elim try_do_cases) (auto dest: sql_select_state)

lemma delete_transaction:
  assumes "transaction [(delete_test i, ''failed to delete test''),
      (delete_product pid, ''failed to delete product'')] w = (x, w')"
  shows "(\<exists>fs. w' = w\<lparr>w_faults := fs\<rparr>) \<or>
    (\<exists>fs. i \<notin> pTestID ` set (w_purchases w) \<and>
       pid \<notin> tProductID ` {s \<in> set (w_tests w). tID s \<noteq> i} \<and>
       w' = w\<lparr>w_tests := filter (\<lambda>s. tID s \<noteq> i) (w_tests w),
              w_products := filter (\<lambda>p. pdID p \<noteq> pid) (w_products w), w_faults := fs\<rparr>)"
  using assms
proof (cases rule: transaction_all_or_nothing)
  case (nothing fs msg)
  then show ?thesis by blast
next
  case (all fs v gs)
  from all(1) obtain f3 n v1 where s1: "delete_test i (w\<lparr>w_faults := fs, w_faults := f3\<rparr>) = Inr (v1, n)"
    and rest: "tx_steps [(delete_product pid, ''failed to delete product'')] v1 = (None, v)"
    by (rule tx_steps_ConsD)
  from rest obtain f4 n' v2 where s2: "delete_product pid (v1\<lparr>w_faults := f4\<rparr>) = Inr (v2, n')"
    and "tx_steps [] v2 = (None, v)" by (rule tx_steps_ConsD)
  then have v: "v = v2" by simp
  from s1 have bought: "i \<notin> pTestID ` set (w_purchases w)"
    and v1: "v1 = w\<lparr>w_faults := f3, w_tests := filter (\<lambda>s. tID s \<noteq> i) (w_tests w)\<rparr>"
    by (auto simp: delete_test_def present_in_def split: if_splits)
  from s2 v1 have used: "pid \<notin> tProductID ` {s \<in> set (w_tests w). tID s \<noteq> i}"
    and v2: "v2 = v1\<lparr>w_faults := f4, w_products := filter (\<lambda>p. pdID p \<noteq> pid) (w_products w)\<rparr>"
    by (auto simp: delete_product_def present_in_def split: if_splits)
  have "w' = w\<lparr>w_tests := filter (\<lambda>s. tID s \<noteq> i) (w_tests w),
      w_products := filter (\<lambda>p. pdID p \<noteq> pid) (w_products w), w_faults := gs\<rparr>"
    by (simp add: all(2) v v1 v2)
  with bought used show ?thesis by blast
qed

text \<open>C18: Deleting a test takes its product along or nothing at all, whatever statements fail: either
  no table changes, or the test exists and nobody bought it, no other test uses its product, and
  exactly the test and the product are gone.\<close>

theorem deleteTest_all_or_nothing:
  assumes "uuid_Parse L str = Inr i" and "deleteTest L str w = (r, w')"
  shows "(\<exists>fs. w' = w\<lparr>w_faults := fs\<rparr>) \<or>
    (\<exists>t fs. find (\<lambda>t. tID t = i) (w_tests w) = Some t \<and> i \<notin> pTestID ` set (w_purchases w) \<and>
       tProductID t \<notin> tProductID ` {s \<in> set (w_tests w). tID s \<noteq> i} \<and>
       w' = w\<lparr>w_tests := filter (\<lambda>s. tID s \<noteq> i) (w_tests w),
              w_products := filter (\<lambda>p. pdID p \<noteq> tProductID t) (w_products w), w_faults := fs\<rparr>)"
proof -
  obtain q w1 where g: "Tests_GetByID i w = (q, w1)" by fastforce
  obtain f1 where w1: "w1 = w\<lparr>w_faults := f1\<rparr>" using Tests_GetByID_read(1) [OF g] by blast
  show ?thesis
  proof (cases q)
    case (Inl e)
    with assms g w1 show ?thesis by (auto simp: deleteTest_def)
  next
    case (Inr t)
    have t: "find (\<lambda>t. tID t = i) (w_tests w) = Some t" using Tests_GetByID_read(2) [OF g Inr] .
    obtain b w2 where h: "Tests_HasPurchases i w1 = (b, w2)" by fastforce
    obtain f2 where w2: "w2 = w\<lparr>w_faults := f2\<rparr>" using HasPurchases_read [OF h] w1 by auto
    let ?steps = "[(delete_test i, ''failed to delete test''),
      (delete_product (tProductID t), ''failed to delete product'')]"
    obtain x w3 where tx: "transaction ?steps w2 = (x, w3)" by fastforce
    have "w' = w2 \<or> w' = w3"
    proof (cases b)
      case (Inl e)
      with assms g \<open>q = Inr t\<close> h have "w' = w2" by (simp add: deleteTest_def)
      then show ?thesis by simp
    next
      case (Inr y)
      with assms g \<open>q = Inr t\<close> h tx have "w' = (if y then w2 else w3)"
        by (cases x) (auto simp: deleteTest_def)
      then show ?thesis by simp
    qed
    with w2 t delete_transaction [OF tx] show ?thesis by auto
  qed
qed

theorem deleteTest_all_or_nothing_witness:
  "w_tests (snd (deleteTest decimal_uuid_lib ''50'' (sample_shop ()))) = [] \<and>
   10 \<notin> pdID ` set (w_products (snd (deleteTest decimal_uuid_lib ''50'' (sample_shop ()))))"
proof -
  let ?w = "sample_shop () :: unit world"
  obtain r w' where d: "deleteTest decimal_uuid_lib ''50'' ?w = (r, w')" by fastforce
  then have r: "w_tests w' = []"
    by (auto simp: deleteTest_def transaction_def Let_def delete_test_def delete_product_def
        Tests_GetByID_def Tests_HasPurchases_def stmt_simps try_do_def bind_do_def sample_shop_def
        sample_test_def present_in_def rows_matching_def)
  have t: "w_tests ?w = [sample_test]" by (simp add: sample_shop_def)
  from deleteTest_all_or_nothing [OF sample_parse(2) d] r t
  have "10 \<notin> pdID ` set (w_products w')"
    by (auto simp: sample_test_def split: if_splits)
  with d r show ?thesis by simp
qed

section \<open>Creating a test\<close>

lemma create_transaction_fails:
  assumes "transaction [(insert_product pd, msg1), (insert_test t, msg2)] w = (q, w')"
    and "tScenarioVersionID t \<notin> vID ` set (w_versions w)"
  shows "\<exists>fs msg. w' = w\<lparr>w_faults := fs\<rparr> \<and> q = Some msg"
  using assms(1)
proof (cases rule: transaction_all_or_nothing)
  case (nothing fs msg)
  then show ?thesis by blast
next
  case (all fs v gs)
  from all(1) obtain f3 n v1 where s1: "insert_product pd (w\<lparr>w_faults := fs, w_faults := f3\<rparr>) = Inr (v1, n)"
    and rest: "tx_steps [(insert_test t, msg2)] v1 = (None, v)"
    by (rule tx_steps_ConsD)
  from rest obtain f4 n' v2 where s2: "insert_test t (v1\<lparr>w_faults := f4\<rparr>) = Inr (v2, n')"
    by (rule tx_steps_ConsD)
  from s1 have "w_versions v1 = w_versions w" by (auto simp: insert_product_def split: if_splits)
  with s2 assms(2) show ?thesis
    by (auto simp: insert_test_def present_in_def split: if_splits)
qed

text \<open>C37: No test can be created through the API: the handler never sets the scenario version, so the
  test refers to the zero UUID, and as long as no version has this id the insertion fails; the
  transaction is rolled back with the product.  Whatever the request and whatever the database
  answers, the reply is an error and no table changes.\<close>

theorem createTest_fails:
  assumes "uuid_Nil \<notin> vID ` set (w_versions w)" and "createTest L body w = (r, w')"
  shows "rStatus r \<in> {400, 500} \<and> (\<exists>fs n m. w' = w\<lparr>w_clock_pos := n, w_uuid_pos := m, w_faults := fs\<rparr>)"
proof (cases "read_create_request body")
  case None
  with assms have "r = BadRequest ''invalid request body''" "w' = w" by (simp_all add: createTest_def)
  then show ?thesis
    by (intro conjI exI [of _ "w_faults w"] exI [of _ "w_clock_pos w"] exI [of _ "w_uuid_pos w"]) simp_all
next
  case (Some req)
  let ?bad = "ctTitle req = '''' \<or> ctDurationMinutes req \<le> 0 \<or> ctAccessWindowHours req \<le> 0 \<or>
    ctAttemptsAllowed req \<le> 0 \<or> \<not> ctIsFree req \<and> no_price (ctStripePriceID req)"
  show ?thesis
  proof (cases ?bad)
    case True
    with assms Some have "rStatus r = 400" "w' = w" by (auto simp: createTest_def split: if_splits)
    then show ?thesis
      by (intro conjI exI [of _ "w_faults w"] exI [of _ "w_clock_pos w"] exI [of _ "w_uuid_pos w"]) simp_all
  next
    case False
    let ?w1 = "w\<lparr>w_clock_pos := Suc (w_clock_pos w), w_uuid_pos := Suc (Suc (w_uuid_pos w))\<rparr>"
    let ?now = "w_clock w (w_clock_pos w)" and ?p = "w_uuids w (w_uuid_pos w)"
      and ?t = "w_uuids w (Suc (w_uuid_pos w))"
    let ?steps = "[(insert_product (create_product_of req ?p ?now), ''failed to create product''),
          (insert_test (create_test_of req ?t ?p ?now), ''failed to create test'')]"
    obtain q w2 where tx: "transaction ?steps ?w1 = (q, w2)" by fastforce
    have run: "createTest L body w = bind_do (transaction ?steps)
       (\<lambda>r. case r of
         Some msg \<Rightarrow> result (InternalError msg)
       | None \<Rightarrow> try_do (Tests_GetWithProduct ?t) (\<lambda>_. result (InternalError ''failed to fetch created test''))
           (\<lambda>t. result (WriteJSON 201 (testWithProductToResponse L t)))) ?w1"
      using Some False by (cases "ctIsFree req") (simp_all add: createTest_def)
    from tx have "\<exists>fs msg. w2 = ?w1\<lparr>w_faults := fs\<rparr> \<and> q = Some msg"
      by (rule create_transaction_fails) (use assms(1) in \<open>simp add: create_test_of_def\<close>)
    then obtain fs msg where w2: "w2 = ?w1\<lparr>w_faults := fs\<rparr>" and q: "q = Some msg" by blast
    have "createTest L body w = (InternalError msg, ?w1\<lparr>w_faults := fs\<rparr>)"
      unfolding run using tx by (simp add: q w2)
    with assms(2) have "r = InternalError msg" "w' = ?w1\<lparr>w_faults := fs\<rparr>" by simp_all
    then show ?thesis
      by (intro conjI exI [of _ fs] exI [of _ "Suc (w_clock_pos w)"] exI [of _ "Suc (Suc (w_uuid_pos w))"]) simp_all
  qed
qed

theorem createTest_fails_witness:
  "\<exists>r w'. createTest decimal_uuid_lib (Some (JObj [(''title'', JStr ''T''), (''is_free'', JBool True),
       (''duration_minutes'', JNum 60), (''access_window_hours'', JNum 24), (''attempts_allowed'', JNum 3)]))
       (sample_shop ()) = (r, w') \<and> rStatus r \<in> {400, 500} \<and> w_products w' = w_products (sample_shop ())"
proof -
  let ?c = "createTest decimal_uuid_lib (Some (JObj [(''title'', JStr ''T''), (''is_free'', JBool True),
       (''duration_minutes'', JNum 60), (''access_window_hours'', JNum 24), (''attempts_allowed'', JNum 3)]))
       (sample_shop ())"
  obtain r w' where c: "?c = (r, w')" by fastforce
  have "uuid_Nil \<notin> vID ` set (w_versions (sample_shop ()))" by (simp add: sample_shop_def uuid_Nil_def)
  from createTest_fails [OF this c] c show ?thesis by auto
qed

section \<open>Updating a test\<close>

text \<open>A refused update is not a harmless one: the product is written before the numbers of the test
  are checked, so a request whose product part is acceptable and whose numbers are not is
  answered 400 while the product has already taken the new title, price and description; the
  test itself is unchanged.\<close>

lemma updateTest_refused_but_written:
  assumes "w_faults w = []" and "uuid_Parse L str = Inr i" and "read_update_request body = Some req"
    and "find (\<lambda>t. tID (twTest t) = i) (tests_joined w) = Some tw"
    and "find (\<lambda>p. pdID p = tProductID (twTest tw)) (w_products w) = Some p"
    and "pdIsFree (patch_product req p) \<or> \<not> no_price (pdStripePriceID (patch_product req p))"
    and "unique_opt pdStripePriceID (pdStripePriceID (patch_product req p))
           (filter (\<lambda>r. pdID r \<noteq> pdID p) (w_products w))"
    and "patch_test req (twTest tw) = Inl r"
  shows "updateTest L str body w = (r, w\<lparr>w_products := update_rows (\<lambda>r. pdID r = pdID p)
      (\<lambda>r. r\<lparr>pdStripePriceID := pdStripePriceID (patch_product req p), pdTitle := pdTitle (patch_product req p),
             pdDescription := pdDescription (patch_product req p), pdIsFree := pdIsFree (patch_product req p)\<rparr>) (w_products w)\<rparr>) \<and>
    rStatus r = 400"
proof -
  have i: "pdID (patch_product req p) = pdID p" by (simp add: patch_product_def)
  have "rStatus r = 400"
    using assms(8) by (auto simp: patch_test_def split: if_splits)
  moreover have "updateTest L str body w = (r, w\<lparr>w_products := update_rows (\<lambda>r. pdID r = pdID p)
      (\<lambda>r. r\<lparr>pdStripePriceID := pdStripePriceID (patch_product req p), pdTitle := pdTitle (patch_product req p),
             pdDescription := pdDescription (patch_product req p), pdIsFree := pdIsFree (patch_product req p)\<rparr>) (w_products w)\<rparr>)"
    using assms i
    by (auto simp: updateTest_def Tests_GetWithProduct_def Products_GetByID_def Products_Update_def
        stmt_simps try_do_def Let_def)
  ultimately show ?thesis by simp
qed

lemma updateTest_refused_but_written_example:
  "rStatus (fst (updateTest decimal_uuid_lib ''50''
      (Some (JObj [(''title'', JStr ''New''), (''duration_minutes'', JNum 0)])) (sample_shop ()))) = 400 \<and>
   map pdTitle (w_products (snd (updateTest decimal_uuid_lib ''50''
      (Some (JObj [(''title'', JStr ''New''), (''duration_minutes'', JNum 0)])) (sample_shop ())))) = [''New'']"
proof -
  let ?body = "Some (JObj [(''title'', JStr ''New''), (''duration_minutes'', JNum 0)])"
  let ?req = "\<lparr>utTitle = Some ''New'', utDescription = None, utStripePriceID = None, utIsFree = None,
      utDurationMinutes = Some 0, utAccessWindowHours = None, utAttemptsAllowed = None\<rparr>"
  let ?p = "hd (w_products (sample_shop ()))"
  have b: "read_update_request ?body = Some ?req"
    by (simp add: read_update_request_def ReadJSON_def decode_struct_def key_matches_def to_lower_def
        lower_char_def into_string_ptr_def into_int_ptr_def int64_range_def)
  have r: "patch_test ?req sample_test = Inl (BadRequest ''duration_minutes must be positive'')"
    by (simp add: patch_test_def positive_def)
  have "updateTest decimal_uuid_lib ''50'' ?body (sample_shop ()) = (BadRequest ''duration_minutes must be positive'',
      (sample_shop ())\<lparr>w_products := update_rows (\<lambda>r. pdID r = pdID ?p)
        (\<lambda>r. r\<lparr>pdStripePriceID := pdStripePriceID (patch_product ?req ?p), pdTitle := pdTitle (patch_product ?req ?p),
             pdDescription := pdDescription (patch_product ?req ?p), pdIsFree := pdIsFree (patch_product ?req ?p)\<rparr>)
        (w_products (sample_shop ()))\<rparr>) \<and> rStatus (BadRequest ''duration_minutes must be positive'') = 400"
    by (rule updateTest_refused_but_written [OF _ sample_parse(2) b, where tw = "join_product sample_test ?p"])
      (simp_all add: r join_product_def, simp_all add: sample_shop_def sample_test_def tests_joined_def
        join_product_def patch_product_def or_else_def unique_opt_def)
  then show ?thesis by (simp add: sample_shop_def patch_product_def or_else_def)
qed

end
