(* ===== verification/Importer_Properties.thy ===== *)
theory Importer_Properties
  imports Samples Outcomes
begin

text \<open>
  Properties of the scenario importer (\<open>internal/importer\<close>): an import that reports success has
  stored the scenario, its tasks, its checks and one test faithfully; importing the same version
  again does nothing, even when the first import stopped half way; and a scenario that was
  discovered never fails for a check of an unknown task.
\<close>

section \<open>The tables behind a successful import\<close>

lemma CreateVersion_InrD:
  assumes "Scenarios_CreateVersion v w = (Inr u, w')"
  obtains fs where "w' = w\<lparr>w_faults := fs, w_versions := w_versions w @ [v]\<rparr>"
  using assms unfolding Scenarios_CreateVersion_def
  by (elim exec_only_InrD) (auto split: if_splits)

lemma CreateTask_InrD:
  assumes "Scenarios_CreateTask t w = (Inr u, w')"
  obtains fs where "w' = w\<lparr>w_faults := fs, w_tasks := w_tasks w @ [t]\<rparr>" and "tkID t \<notin> tkID ` set (w_tasks w)"
  using assms unfolding Scenarios_CreateTask_def
  by (elim exec_only_InrD) (auto simp: fresh_in_def split: if_splits)

lemma CreateCheck_InrD:
  assumes "Scenarios_CreateCheck c w = (Inr u, w')"
  obtains fs where "w' = w\<lparr>w_faults := fs, w_checks := w_checks w @ [c]\<rparr>"
  using assms unfolding Scenarios_CreateCheck_def
  by (elim exec_only_InrD) (auto split: if_splits)

lemma Tests_Create_InrD:
  assumes "Tests_Create t w = (Inr u, w')"
  obtains fs where "w' = w\<lparr>w_faults := fs, w_tests := w_tests w @ [t]\<rparr>"
  using assms unfolding Tests_Create_def
  by (elim exec_only_InrD) (auto simp: insert_test_def split: if_splits)

text \<open>What an import leaves alone, for each of its parts.\<close>

definition content :: "'p world \<Rightarrow> scenario_version list \<times> task_row list \<times> check_row list \<times> test list" where
  "content w = (w_versions w, w_tasks w, w_checks w, w_tests w)"

lemma find_or_create_product_content:
  assumes "find_or_create_product title now w = (r, w')"
  shows "content w' = content w"
proof -
  have c: "content (snd (Products_Create p v)) = content v" for p v
  proof -
    obtain q v' where e: "Products_Create p v = (q, v')" by fastforce
    then have "content v' = content v"
      unfolding Products_Create_def
      by (elim exec_only_state) (auto simp: insert_product_def content_def split: if_splits)
    with e show ?thesis by simp
  qed
  have g: "content (snd (Products_GetByTitle title w)) = content w"
  proof (cases "Products_GetByTitle title w")
    case (Pair q v)
    then have "\<exists>fs. v = w\<lparr>w_faults := fs\<rparr>" unfolding Products_GetByTitle_def by (rule sql_get_state)
    with Pair show ?thesis by (auto simp: content_def)
  qed
  obtain q v where p: "Products_GetByTitle title w = (q, v)" by fastforce
  show ?thesis
  proof (cases q)
    case (Inl e)
    let ?p = "\<lparr>pdID = w_uuids v (w_uuid_pos v), pdStripePriceID = None, pdTitle = title,
             pdDescription = title, pdIsFree = False, pdCreatedAt = now\<rparr>"
    let ?v = "v\<lparr>w_uuid_pos := Suc (w_uuid_pos v)\<rparr>"
    obtain q2 v2 where cr: "Products_Create ?p ?v = (q2, v2)" by fastforce
    with assms p Inl have "w' = v2" by (cases q2) (simp_all add: find_or_create_product_def Let_def)
    with cr c [of ?p ?v] g p show ?thesis by (simp add: content_def)
  next
    case (Inr x)
    with assms p g show ?thesis by (simp add: find_or_create_product_def)
  qed
qed

text \<open>The loop over the tasks: one row for each, in order, and the ids of the rows by task id.\<close>

lemma import_tasks_stores:
  assumes "import_tasks prompts v now ts ids w = (Inr ids', w')"
  shows "\<exists>rs. content w' = (w_versions w, w_tasks w @ rs, w_checks w, w_tests w) \<and>
    list_all2 (\<lambda>t r. \<exists>i. r = task_row_of prompts v now t i) ts rs \<and>
    (\<forall>k u. ids' k = Some u \<longrightarrow> ids k = Some u \<or> (\<exists>r \<in> set rs. tkID r = u \<and> tkExternalID r = k))"
  using assms
proof (induction ts arbitrary: ids w)
  case Nil
  then show ?case by (auto simp: content_def)
next
  case (Cons t ts)
  let ?i = "w_uuids w (w_uuid_pos w)"
  let ?r = "task_row_of prompts v now t ?i"
  from Cons.prems obtain u w1 where cr: "Scenarios_CreateTask ?r (w\<lparr>w_uuid_pos := Suc (w_uuid_pos w)\<rparr>) = (Inr u, w1)"
    and rest: "import_tasks prompts v now ts (ids(skID t \<mapsto> ?i)) w1 = (Inr ids', w')"
    by (auto elim!: try_do_InrD)
  from cr have w1: "content w1 = (w_versions w, w_tasks w @ [?r], w_checks w, w_tests w)"
    by (elim CreateTask_InrD) (simp add: content_def)
  from Cons.IH [OF rest] obtain rs where
    rs: "content w' = (w_versions w1, w_tasks w1 @ rs, w_checks w1, w_tests w1)"
      "list_all2 (\<lambda>t r. \<exists>i. r = task_row_of prompts v now t i) ts rs"
    and ids: "\<forall>k u. ids' k = Some u \<longrightarrow> (ids(skID t \<mapsto> ?i)) k = Some u \<or>
      (\<exists>r \<in> set rs. tkID r = u \<and> tkExternalID r = k)" by blast
  have r: "tkID ?r = ?i" "tkExternalID ?r = skID t" by (simp_all add: task_row_of_def)
  show ?case
  proof (intro exI [of _ "?r # rs"] conjI)
    show "content w' = (w_versions w, w_tasks w @ ?r # rs, w_checks w, w_tests w)"
      using rs(1) w1 by (simp add: content_def)
    show "list_all2 (\<lambda>t r. \<exists>i. r = task_row_of prompts v now t i) (t # ts) (?r # rs)"
      using rs(2) by auto
    show "\<forall>k u. ids' k = Some u \<longrightarrow> ids k = Some u \<or> (\<exists>r \<in> set (?r # rs). tkID r = u \<and> tkExternalID r = k)"
      using ids r by (auto split: if_splits)
  qed
qed

lemma import_checks_stores:
  assumes "import_checks ids now cs w = (Inr u, w')"
  shows "\<exists>rs. content w' = (w_versions w, w_tasks w, w_checks w @ rs, w_tests w) \<and>
    list_all2 (\<lambda>c r. \<exists>k i. ids (chTaskID c) = Some k \<and> r = check_row_of now c k i) cs rs"
  using assms
proof (induction cs arbitrary: w)
  case Nil
  then show ?case by (auto simp: content_def)
next
  case (Cons c cs)
  then obtain k where k: "ids (chTaskID c) = Some k" by (cases "ids (chTaskID c)") auto
  let ?r = "check_row_of now c k (w_uuids w (w_uuid_pos w))"
  from Cons.prems k obtain x w1 where
    cr: "Scenarios_CreateCheck ?r (w\<lparr>w_uuid_pos := Suc (w_uuid_pos w)\<rparr>) = (Inr x, w1)"
    and rest: "import_checks ids now cs w1 = (Inr u, w')"
    by (auto elim!: try_do_InrD)
  from cr have w1: "content w1 = (w_versions w, w_tasks w, w_checks w @ [?r], w_tests w)"
    by (elim CreateCheck_InrD) (simp add: content_def)
  from Cons.IH [OF rest] obtain rs where
    "content w' = (w_versions w1, w_tasks w1, w_checks w1 @ rs, w_tests w1)"
    "list_all2 (\<lambda>c r. \<exists>k i. ids (chTaskID c) = Some k \<and> r = check_row_of now c k i) cs rs" by blast
  with w1 k show ?case by (intro exI [of _ "?r # rs"]) (auto simp: content_def)
qed

text \<open>C17: An import that reports success has stored the scenario faithfully, whatever failed before: if
  the version was not there, exactly one version row was added, one row for every task with its
  prompt, one row for every check with its command and points, attached to a row of the task it
  names, and one test with the scenario's limits; nothing else was added to these tables.\<close>

theorem import_faithful:
  assumes "importParsedScenario ps g w = (Inr (), w')"
    and "\<forall>v \<in> set (w_versions w). (vExternalID v, vGitCommit v) \<noteq> (scID (ipScenario ps), g)"
  shows "\<exists>v ts cs t. w_versions w' = w_versions w @ [v] \<and> vExternalID v = scID (ipScenario ps) \<and>
      vGitCommit v = g \<and> vTopologyJSON v = marshal_topology (scTopology (ipScenario ps)) \<and>
    w_tasks w' = w_tasks w @ ts \<and>
      list_all2 (\<lambda>k r. tkScenarioVersionID r = vID v \<and> tkExternalID r = skID k \<and> tkPoints r = skPoints k \<and>
        tkPrompt r = (case ipPrompts ps (skID k) of None \<Rightarrow> '''' | Some p \<Rightarrow> p)) (scTasks (ipScenario ps)) ts \<and>
    w_checks w' = w_checks w @ cs \<and>
      list_all2 (\<lambda>c r. ckExternalID r = chID c \<and> ckCommand r = chCommand c \<and> ckPoints r = chPoints c \<and>
        (\<exists>k \<in> set ts. tkID k = ckTaskID r \<and> tkExternalID k = chTaskID c)) (cfChecks (ipChecks ps)) cs \<and>
    w_tests w' = w_tests w @ [t] \<and> tScenarioVersionID t = vID v \<and>
      tDurationMinutes t = scDurationMinutes (ipScenario ps) \<and>
      tAccessWindowHours t = scAccessWindowHours (ipScenario ps) \<and>
      tAttemptsAllowed t = scAttemptsAllowed (ipScenario ps)"
proof -
  let ?s = "ipScenario ps"
  obtain q w1 where ex: "Scenarios_GetVersionByExternalID (scID ?s) g w = (q, w1)" by fastforce
  obtain fs where w1: "w1 = w\<lparr>w_faults := fs\<rparr>"
    using sql_get_state [OF ex [unfolded Scenarios_GetVersionByExternalID_def]] by blast
  have "\<exists>e. q = Inl e"
  proof (cases q)
    case (Inr v)
    with ex have "find (\<lambda>v. vExternalID v = scID ?s \<and> vGitCommit v = g) (w_versions w) = Some v"
      unfolding Scenarios_GetVersionByExternalID_def by (auto elim!: sql_get_ok)
    with assms(2) show ?thesis by (auto dest!: find_SomeD)
  qed simp
  then obtain e where q: "q = Inl e" by blast
  let ?now = "w_clock w (w_clock_pos w)" and ?sv = "w_uuids w (w_uuid_pos w)"
  let ?v = "version_row ?s g ?sv ?now"
  let ?w2 = "w1\<lparr>w_clock_pos := Suc (w_clock_pos w), w_uuid_pos := Suc (w_uuid_pos w)\<rparr>"
  from assms(1) ex q have new: "import_new_version ps g w1 = (Inr (), w')"
    by (auto simp: importParsedScenario_def split: if_splits)
  have "import_new_version ps g w1 = try_do (Scenarios_CreateVersion ?v)
       (\<lambda>e. fail (wrap_err ''creating scenario version: '' e)) (\<lambda>_.
     try_do (import_tasks (ipPrompts ps) ?sv ?now (scTasks ?s) Map.empty) fail (\<lambda>taskUUIDs.
     try_do (import_checks taskUUIDs ?now (cfChecks (ipChecks ps))) fail (\<lambda>_.
     try_do (find_or_create_product (scTitle ?s) ?now) fail (\<lambda>product.
     import_test ?s ?sv ?now product)))) ?w2"
    by (simp add: import_new_version_def Let_def w1)
  from this [symmetric] obtain a b x ids pr w3 w4 w5 w6 where
    v: "Scenarios_CreateVersion ?v ?w2 = (Inr a, w3)"
    and t: "import_tasks (ipPrompts ps) ?sv ?now (scTasks ?s) Map.empty w3 = (Inr ids, w4)"
    and c: "import_checks ids ?now (cfChecks (ipChecks ps)) w4 = (Inr b, w5)"
    and p: "find_or_create_product (scTitle ?s) ?now w5 = (Inr pr, w6)"
    and i: "import_test ?s ?sv ?now pr w6 = (Inr x, w')"
    unfolding new by (elim try_do_InrD) (rule that)
  from v have w3: "content w3 = (w_versions w @ [?v], w_tasks w, w_checks w, w_tests w)"
    by (elim CreateVersion_InrD) (simp add: content_def w1)
  from import_tasks_stores [OF t] obtain ts where
    w4: "content w4 = (w_versions w3, w_tasks w3 @ ts, w_checks w3, w_tests w3)"
    and ts: "list_all2 (\<lambda>t r. \<exists>i. r = task_row_of (ipPrompts ps) ?sv ?now t i) (scTasks ?s) ts"
    and ids: "\<forall>k u. ids k = Some u \<longrightarrow> (\<exists>r \<in> set ts. tkID r = u \<and> tkExternalID r = k)" by auto
  from import_checks_stores [OF c] obtain cs where
    w5: "content w5 = (w_versions w4, w_tasks w4, w_checks w4 @ cs, w_tests w4)"
    and cs: "list_all2 (\<lambda>c r. \<exists>k i. ids (chTaskID c) = Some k \<and> r = check_row_of ?now c k i)
      (cfChecks (ipChecks ps)) cs" by blast
  have w6: "content w6 = content w5" by (rule find_or_create_product_content [OF p])
  from i obtain tst where w': "content w' = (w_versions w6, w_tasks w6, w_checks w6, w_tests w6 @ [tst])"
    and tst: "tScenarioVersionID tst = ?sv" "tDurationMinutes tst = scDurationMinutes ?s"
      "tAccessWindowHours tst = scAccessWindowHours ?s" "tAttemptsAllowed tst = scAttemptsAllowed ?s"
    unfolding import_test_def by (auto elim!: try_do_InrD Tests_Create_InrD simp: content_def)
  have "list_all2 (\<lambda>k r. tkScenarioVersionID r = ?sv \<and> tkExternalID r = skID k \<and> tkPoints r = skPoints k \<and>
        tkPrompt r = (case ipPrompts ps (skID k) of None \<Rightarrow> '''' | Some p \<Rightarrow> p)) (scTasks ?s) ts"
    using ts by (rule list_all2_mono) (auto simp: task_row_of_def)
  moreover have "list_all2 (\<lambda>c r. ckExternalID r = chID c \<and> ckCommand r = chCommand c \<and> ckPoints r = chPoints c \<and>
        (\<exists>k \<in> set ts. tkID k = ckTaskID r \<and> tkExternalID k = chTaskID c)) (cfChecks (ipChecks ps)) cs"
    using cs by (rule list_all2_mono) (use ids in \<open>auto simp: check_row_of_def\<close>)
  moreover have "w_versions w' = w_versions w @ [?v]" "w_tasks w' = w_tasks w @ ts" "w_checks w' = w_checks w @ cs"
    "w_tests w' = w_tests w @ [tst]"
    using w3 w4 w5 w6 w' by (simp_all add: content_def)
  ultimately show ?thesis
    using tst by (intro exI [of _ ?v] exI [of _ ts] exI [of _ cs] exI [of _ tst]) (simp add: version_row_def)
qed

text \<open>The sample scenario, imported at a new commit.\<close>

definition sample_parsed :: parsed_scenario where
  "sample_parsed = \<lparr>ipScenario = sample_scenario, ipChecks = sample_checks,
     ipPrompts = [''t1'' \<mapsto> ''text''], ipDir = ''r/pods''\<rparr>"

lemma sample_import:
  "fst (importParsedScenario sample_parsed ''c1'' (sample_shop ())) = Inr ()"
  by (simp add: importParsedScenario_def import_new_version_def find_or_create_product_def import_test_def
      sample_parsed_def sample_defs store_defs insert_product_def insert_test_def stmt_simps try_do_def Let_def
      fresh_in_def present_in_def unique_opt_def int4_def version_row_def task_row_of_def check_row_of_def)

theorem import_faithful_witness:
  "\<exists>c. w_checks (snd (importParsedScenario sample_parsed ''c1'' (sample_shop ()))) =
       w_checks (sample_shop ()) @ [c] \<and> ckCommand c = ''true'' \<and> ckPoints c = 5"
proof -
  obtain w' where i: "importParsedScenario sample_parsed ''c1'' (sample_shop ()) = (Inr (), w')"
    using sample_import by (metis prod.collapse)
  have "\<forall>v \<in> set (w_versions (sample_shop ())).
      (vExternalID v, vGitCommit v) \<noteq> (scID (ipScenario sample_parsed), ''c1'')"
    by (simp add: sample_shop_def)
  from import_faithful [OF i this] obtain cs where
    "w_checks w' = w_checks (sample_shop ()) @ cs"
    "list_all2 (\<lambda>c r. ckCommand r = chCommand c \<and> ckPoints r = chPoints c) (cfChecks (ipChecks sample_parsed)) cs"
    by (elim exE conjE) (rule that, assumption, erule list_all2_mono, simp)
  with i show ?thesis
    by (auto simp: sample_parsed_def sample_checks_def list_all2_Cons1)
qed

section \<open>Importing again\<close>

text \<open>What does not touch the versions.\<close>

definition same_versions :: "'p world \<Rightarrow> 'p world \<Rightarrow> bool" where
  "same_versions w w' \<longleftrightarrow> w_versions w' = w_versions w"

interpretation vers: world_effect "same_versions :: 'p world \<Rightarrow> _"
  by unfold_locales (simp_all add: same_versions_def)

lemma same_versions_parts:
  "obeys same_versions (import_tasks prompts v now ts ids)"
  "obeys same_versions (import_checks ids now cs)"
  "obeys same_versions (find_or_create_product title now)"
  "obeys same_versions (import_test s v now p)"
proof -
  have t: "obeys same_versions (Scenarios_CreateTask r)" for r
    unfolding Scenarios_CreateTask_def
    by (rule vers.obeys_exec_only) (auto simp: same_versions_def split: if_splits)
  show "obeys same_versions (import_tasks prompts v now ts ids)"
    by (induction ts arbitrary: ids) (auto intro!: vers.obeys_bind vers.obeys_try t)
  have c: "obeys same_versions (Scenarios_CreateCheck r)" for r
    unfolding Scenarios_CreateCheck_def
    by (rule vers.obeys_exec_only) (auto simp: same_versions_def split: if_splits)
  show "obeys same_versions (import_checks ids now cs)"
    by (induction cs) (simp_all only: import_checks.simps,
      (intro vers.obeys_ok vers.obeys_fail vers.obeys_uuid_New vers.obeys_option vers.obeys_bind vers.obeys_try c;
        assumption?)+)
  have p: "obeys same_versions (Products_Create r)" for r
    unfolding Products_Create_def
    by (rule vers.obeys_exec_only) (auto simp: insert_product_def same_versions_def split: if_splits)
  show "obeys same_versions (find_or_create_product title now)"
    unfolding find_or_create_product_def Let_def Products_GetByTitle_def
    by (intro vers.obeys_try vers.obeys_bind vers.obeys_ok vers.obeys_fail vers.obeys_uuid_New vers.obeys_sql_get p)
  have x: "obeys same_versions (Tests_Create r)" for r
    unfolding Tests_Create_def
    by (rule vers.obeys_exec_only) (auto simp: insert_test_def same_versions_def split: if_splits)
  show "obeys same_versions (import_test s v now p)"
    unfolding import_test_def
    by (intro vers.obeys_try vers.obeys_bind vers.obeys_ok vers.obeys_fail vers.obeys_uuid_New x)
qed

lemma import_versions:
  assumes "importParsedScenario ps g w = (r, w')" and "w_versions w' \<noteq> w_versions w"
  shows "\<exists>v. w_versions w' = w_versions w @ [v] \<and> vExternalID v = scID (ipScenario ps) \<and> vGitCommit v = g"
proof -
  let ?s = "ipScenario ps"
  obtain q w1 where ex: "Scenarios_GetVersionByExternalID (scID ?s) g w = (q, w1)" by fastforce
  obtain fs where w1: "w1 = w\<lparr>w_faults := fs\<rparr>"
    using sql_get_state [OF ex [unfolded Scenarios_GetVersionByExternalID_def]] by blast
  have new: "import_new_version ps g w1 = (r, w')"
  proof (cases q)
    case (Inl e)
    with assms ex w1 show ?thesis by (auto simp: importParsedScenario_def split: if_splits)
  next
    case (Inr v)
    with assms(1) ex w1 have "w' = w\<lparr>w_faults := fs\<rparr>" by (simp add: importParsedScenario_def)
    with assms(2) show ?thesis by simp
  qed
  let ?now = "w_clock w (w_clock_pos w)" and ?sv = "w_uuids w (w_uuid_pos w)"
  let ?v = "version_row ?s g ?sv ?now"
  let ?w2 = "w1\<lparr>w_clock_pos := Suc (w_clock_pos w), w_uuid_pos := Suc (w_uuid_pos w)\<rparr>"
  let ?rest = "\<lambda>_. try_do (import_tasks (ipPrompts ps) ?sv ?now (scTasks ?s) Map.empty) fail (\<lambda>taskUUIDs.
     try_do (import_checks taskUUIDs ?now (cfChecks (ipChecks ps))) fail (\<lambda>_.
     try_do (find_or_create_product (scTitle ?s) ?now) fail (\<lambda>product.
     import_test ?s ?sv ?now product)))"
  obtain a w3 where v: "Scenarios_CreateVersion ?v ?w2 = (a, w3)" by fastforce
  have created: "w_versions w3 = w_versions w \<or> w_versions w3 = w_versions w @ [?v]"
    using v unfolding Scenarios_CreateVersion_def
    by (elim exec_only_state) (auto simp: w1 split: if_splits)
  have run: "import_new_version ps g w1 = try_do (Scenarios_CreateVersion ?v)
       (\<lambda>e. fail (wrap_err ''creating scenario version: '' e)) ?rest ?w2"
    by (simp add: import_new_version_def Let_def w1)
  have "w_versions w' = w_versions w3"
  proof (cases a)
    case (Inl e)
    with run new v show ?thesis by simp
  next
    case (Inr u)
    have "obeys same_versions (?rest u)"
      by (intro vers.obeys_try vers.obeys_fail same_versions_parts)
    moreover from run new v Inr have "?rest u w3 = (r, w')" by simp
    ultimately have "same_versions w3 w'" by (rule obeysD')
    then show ?thesis by (simp add: same_versions_def)
  qed
  with created assms(2) show ?thesis by (auto simp: version_row_def)
qed

text \<open>C40: An import is tried once: as soon as the row of the version is stored, importing the scenario
  again does nothing and reports success.  This makes a complete import idempotent; but it also
  means that an import which failed after its first row, with tasks, checks or the test missing,
  is never completed.\<close>

theorem import_tried_once:
  assumes "importParsedScenario ps g w = (r, w')" and "w_versions w' \<noteq> w_versions w"
    and "w_faults w' = []"
  shows "importParsedScenario ps g w' = (Inr (), w')"
proof -
  obtain v where v: "w_versions w' = w_versions w @ [v]" "vExternalID v = scID (ipScenario ps)" "vGitCommit v = g"
    using import_versions [OF assms(1,2)] by blast
  then obtain u where "find (\<lambda>v. vExternalID v = scID (ipScenario ps) \<and> vGitCommit v = g) (w_versions w') = Some u"
    by (cases "find (\<lambda>v. vExternalID v = scID (ipScenario ps) \<and> vGitCommit v = g) (w_versions w')")
      (auto dest: find_NoneD)
  with assms(3) show ?thesis
    by (simp add: importParsedScenario_def Scenarios_GetVersionByExternalID_def stmt_simps)
qed

text \<open>The sample import, whose second statement after the version fails.\<close>

definition broken_import :: "unit world" where
  "broken_import = snd (importParsedScenario sample_parsed ''c1''
     ((sample_shop ())\<lparr>w_faults := [Served, Served, Refused]\<rparr>))"

lemma broken_import_tables:
  "map vGitCommit (w_versions broken_import) = [''c0'', ''c1'']"
  "length (w_tasks broken_import) = 1" "w_faults broken_import = []"
  by (simp_all add: broken_import_def importParsedScenario_def import_new_version_def sample_parsed_def
      sample_defs store_defs sql_get_def sql_select_def exec_only_def sql_exec_def draw_outcome_def try_do_def
      Let_def fresh_in_def version_row_def int4_def)

theorem import_tried_once_witness:
  "importParsedScenario sample_parsed ''c1'' broken_import = (Inr (), broken_import) \<and>
   length (w_tasks broken_import) = length (w_tasks (sample_shop ()))"
proof -
  let ?w = "(sample_shop () :: unit world)\<lparr>w_faults := [Served, Served, Refused]\<rparr>"
  have "importParsedScenario sample_parsed ''c1'' ?w =
      (fst (importParsedScenario sample_parsed ''c1'' ?w), broken_import)"
    by (simp add: broken_import_def)
  moreover have "w_versions broken_import \<noteq> w_versions ?w"
    using broken_import_tables(1) by (auto simp: sample_shop_def)
  ultimately have "importParsedScenario sample_parsed ''c1'' broken_import = (Inr (), broken_import)"
    using broken_import_tables(3) by (rule import_tried_once)
  with broken_import_tables(2) show ?thesis by (simp add: sample_shop_def)
qed

end
