(* ===== verification/Cleanup_Properties.thy ===== *)
theory Cleanup_Properties
  imports Environment_Properties
begin

text \<open>
  Properties of what takes environments down again: the cleanup job and the reconciler
  (\<open>internal/orchestrator\<close>), the operator's retry (\<open>internal/admin\<close>), and the mock provider.
\<close>

section \<open>The cleanup job\<close>

definition set_environment :: "uuid \<Rightarrow> environment_status \<Rightarrow> environment list \<Rightarrow> environment list" where
  "set_environment i st es = update_rows (\<lambda>e. eID e = i) (\<lambda>e. e\<lparr>eStatus := st\<rparr>) es"

lemma set_environment_twice [simp]:
  "set_environment i s2 (set_environment i s1 es) = set_environment i s2 es"
  by (induction es) (auto simp: set_environment_def)

lemma Environments_UpdateStatus_served:
  "w_faults w = [] \<Longrightarrow> Environments_UpdateStatus i st w =
     (Inr (), w\<lparr>w_environments := set_environment i st (w_environments w)\<rparr>)"
  by (simp add: store_defs stmt_simps set_environment_def)

text \<open>What the job leaves of the attempts: only one that waits for its cleanup is marked.\<close>

definition mark_destroyed :: "uuid \<Rightarrow> attempt list \<Rightarrow> attempt list" where
  "mark_destroyed i as = (case find (\<lambda>a. aID a = i) as of
       None \<Rightarrow> as
     | Some a \<Rightarrow> (if aStatus a = CleanupPending then set_status i Destroyed as else as))"

text \<open>C14: The cleanup job, with the database answering: it hands the stored metadata of the attempt's
  environment to the provider; if the provider succeeds, the environment is \<open>destroyed\<close>, if it
  fails, the environment is \<open>failed\<close> and the job reports the error, so that it is run again.  An
  attempt without an environment needs no cleanup, and the attempt itself changes only if it
  was in \<open>cleanup_pending\<close>.\<close>

theorem cleanup_outcome:
  assumes "w_faults w = []" and "uuid_lib_ok (oUUID oc)"
  shows "handleCleanupEnvironment oc (attempt_payload (oUUID oc) i) w =
    (case find (\<lambda>e. eAttemptID e = i) (w_environments w) of
       None \<Rightarrow> (Inr (), w)
     | Some env \<Rightarrow>
       (case DestroyEnvironment (oProvider oc) (eProviderMetadata env) (w_ext w) of
          (Inl e, p) \<Rightarrow> (Inl (wrap_err ''failed to destroy environment: '' e),
             w\<lparr>w_environments := set_environment (eID env) EnvFailed (w_environments w), w_ext := p\<rparr>)
        | (Inr u, p) \<Rightarrow> (Inr (),
             w\<lparr>w_ext := p, w_environments := set_environment (eID env) EnvDestroyed (w_environments w),
               w_attempts := mark_destroyed i (w_attempts w)\<rparr>)))"
proof (cases "find (\<lambda>e. eAttemptID e = i) (w_environments w)")
  case None
  with assms show ?thesis
    by (simp add: handleCleanupEnvironment_def Environments_GetByAttemptID_def stmt_simps try_do_def)
next
  case (Some env)
  obtain x p where x: "DestroyEnvironment (oProvider oc) (eProviderMetadata env) (w_ext w) = (x, p)"
    by fastforce
  let ?w1 = "w\<lparr>w_ext := p, w_environments := set_environment (eID env) EnvDestroyed (w_environments w)\<rparr>"
  have mark: "snd (TransitionAttempt i Destroyed ?w1) = ?w1\<lparr>w_attempts := mark_destroyed i (w_attempts w)\<rparr>"
    using assms(1) by (auto simp: Transition_status mark_destroyed_def split: option.split)
  show ?thesis
  proof (cases x)
    case (Inl e)
    with assms Some x show ?thesis
      by (simp add: handleCleanupEnvironment_def Environments_GetByAttemptID_def stmt_simps try_do_def
          Environments_UpdateStatus_served on_ext_def ignore_do_def)
  next
    case (Inr u)
    with assms Some x mark show ?thesis
      by (simp add: handleCleanupEnvironment_def Environments_GetByAttemptID_def stmt_simps try_do_def
          Environments_UpdateStatus_served on_ext_def ignore_do_def)
  qed
qed

theorem cleanup_outcome_witness:
  "\<exists>w'. handleCleanupEnvironment sample_orchestrator (attempt_payload decimal_uuid_lib 70)
       (sample_world Scored mock_New) = (Inr (), w') \<and>
     map eStatus (w_environments w') = [EnvDestroyed] \<and> map aStatus (w_attempts w') = [Scored]"
proof -
  have u: "oUUID sample_orchestrator = decimal_uuid_lib" by (simp add: sample_orchestrator_def)
  show ?thesis
    by (subst cleanup_outcome [of _ sample_orchestrator, unfolded u])
       (simp_all add: decimal_uuid_lib_ok sample_world_def sample_bought_def sample_shop_def
         sample_attempt_def sample_environment_def sample_orchestrator_def mock_provider_def
         mock_DestroyEnvironment_def mock_metadata_def decode_struct_def into_string_def
         key_matches_def to_lower_def lower_char_def set_environment_def mark_destroyed_def)
qed

section \<open>The reconciler\<close>

definition swept :: "attempt \<Rightarrow> attempt \<Rightarrow> bool" where
  "swept a b \<longleftrightarrow> b = a \<or>
     aStatus a \<in> {AttemptRequested, EnvironmentProvisioning} \<and> b = a\<lparr>aStatus := ProvisionFailed\<rparr>"

text \<open>
  The two-state relation of a tick: the purchases and every other table are as they were, an
  attempt that is not yet ready may have failed, and only cleanup jobs were added.
\<close>

definition sweeps :: "'p world \<Rightarrow> 'p world \<Rightarrow> bool" where
  "sweeps w w' \<longleftrightarrow>
     w_users w' = w_users w \<and> w_products w' = w_products w \<and> w_tests w' = w_tests w \<and>
     w_purchases w' = w_purchases w \<and> w_environments w' = w_environments w \<and>
     w_sessions w' = w_sessions w \<and>
     (\<exists>js. w_jobs w' = w_jobs w @ js \<and> list_all (\<lambda>j. jKind j = CleanupEnvironmentJob) js) \<and>
     (unique_key aID (w_attempts w) \<longrightarrow>
        unique_key aID (w_attempts w') \<and> list_all2 swept (w_attempts w) (w_attempts w'))"

lemma swept_trans: "swept a b \<Longrightarrow> swept b c \<Longrightarrow> swept a c"
  by (auto simp: swept_def)

lemma swept_all_refl [simp]: "list_all2 swept as as"
  by (simp add: list.rel_refl swept_def)

interpretation sweep: world_effect "sweeps :: 'p world \<Rightarrow> _"
proof
  fix w t u :: "'p world"
  show "sweeps w w" by (simp add: sweeps_def)
  assume "sweeps w t" and "sweeps t u"
  then show "sweeps w u"
    by (auto simp: sweeps_def intro: list_all2_trans [OF swept_trans])
qed (simp_all add: sweeps_def)

lemma sweeps_same:
  "w_attempts w' = w_attempts w \<Longrightarrow> w_users w' = w_users w \<Longrightarrow> w_products w' = w_products w \<Longrightarrow>
   w_tests w' = w_tests w \<Longrightarrow> w_purchases w' = w_purchases w \<Longrightarrow> w_environments w' = w_environments w \<Longrightarrow>
   w_sessions w' = w_sessions w \<Longrightarrow> w_jobs w' = w_jobs w \<Longrightarrow> sweeps w w'"
  by (simp add: sweeps_def)

lemma TransitionAttempt_sweeps: "obeys sweeps (TransitionAttempt i ProvisionFailed)"
proof (rule obeysI)
  fix w :: "'p world"
  obtain r w1 where g: "Attempts_GetByID i w = (r, w1)" by fastforce
  then obtain fs where w1: "w1 = w\<lparr>w_faults := fs\<rparr>"
    unfolding store_defs using sql_get_state by blast
  have same: "sweeps w w1" by (simp add: w1 sweeps_same)
  show "sweeps w (snd (TransitionAttempt i ProvisionFailed w))"
  proof (cases "\<exists>a. r = Inr a \<and> aStatus a \<in> {AttemptRequested, EnvironmentProvisioning}")
    case False
    with g same show ?thesis
      by (cases r) (auto simp: TransitionAttempt_def)
  next
    case True
    then obtain a where r: "r = Inr a" and st: "aStatus a \<in> {AttemptRequested, EnvironmentProvisioning}"
      by blast
    with g have found: "find (\<lambda>b. aID b = i) (w_attempts w1) = Some a"
      unfolding store_defs by (auto dest: sql_get_InrD)
    obtain u w2 where upd: "Attempts_UpdateStatus i ProvisionFailed w1 = (u, w2)" by fastforce
    with g r st have "snd (TransitionAttempt i ProvisionFailed w) = w2"
      by (cases u) (auto simp: TransitionAttempt_def)
    moreover have "sweeps w1 w2"
      using upd unfolding Attempts_UpdateStatus_def
    proof (cases rule: exec_only_state)
      case (none fs)
      then show ?thesis by (simp add: sweeps_same)
    next
      case (effect fs n)
      then have w2: "w2 = w1\<lparr>w_faults := fs, w_attempts := set_status i ProvisionFailed (w_attempts w1)\<rparr>"
        by (auto simp: set_status_def)
      have "list_all2 swept (w_attempts w1) (set_status i ProvisionFailed (w_attempts w1))"
        if u: "unique_key aID (w_attempts w1)"
      proof -
        have "swept b (if aID b = i then b\<lparr>aStatus := ProvisionFailed\<rparr> else b)"
          if "b \<in> set (w_attempts w1)" for b
          using find_unique [OF u found that] st by (auto simp: swept_def)
        then show ?thesis
          by (simp add: set_status_def update_rows_def list.rel_map list.rel_refl_strong)
      qed
      then show ?thesis by (simp add: w2 sweeps_def set_status_def)
    qed
    ultimately show ?thesis using same sweep.trans by blast
  qed
qed

lemma reconcile_enqueue_sweeps: "obeys sweeps (reconcile_enqueue L i :: ('p world, unit) prog)"
  unfolding reconcile_enqueue_def Enqueue_def
  by (intro sweep.obeys_try sweep.obeys_exec_only sweep.obeys_result) (auto simp: sweeps_def)

lemma reconcile_sweeps: "obeys sweeps (reconcile L :: ('p world, unit) prog)"
  unfolding reconcile_def cleanupStaleProvisioning_def cleanupPendingAttempts_def
    cleanupTerminalStates_def stale_step_def terminal_step_def Let_def Attempts_ListByStatus_def
    Environments_GetByAttemptID_def
  by (intro sweep.obeys_ignore sweep.obeys_try sweep.obeys_sql_select sweep.obeys_sql_get
      sweep.obeys_bind sweep.obeys_time_Now sweep.obeys_for_each sweep.obeys_if sweep.obeys_result
      TransitionAttempt_sweeps reconcile_enqueue_sweeps)

text \<open>C28: What the reconciler may do, whatever fails: over any number of ticks, attempts that are not
  yet ready may be marked \<open>provision_failed\<close> and cleanup jobs may be added; every other attempt
  and every other table is as it was.  In particular it refunds no purchase: an attempt it
  gives up has cost its owner an attempt, unlike one whose provisioning job reported failure.\<close>

theorem reconciler_only_sweeps:
  assumes "unique_key aID (w_attempts w)" and "run_ticks n L w = (u, w')"
  shows "list_all2 swept (w_attempts w) (w_attempts w') \<and> w_purchases w' = w_purchases w \<and>
    w_environments w' = w_environments w \<and> w_sessions w' = w_sessions w \<and>
    (\<exists>js. w_jobs w' = w_jobs w @ js \<and> list_all (\<lambda>j. jKind j = CleanupEnvironmentJob) js)"
proof -
  have "obeys sweeps (run_ticks n L :: ('p world, unit) prog)"
    by (induction n)
       (simp_all only: run_ticks.simps sweep.obeys_result sweep.obeys_ignore [OF reconcile_sweeps])
  then have "sweeps w w'" using assms(2) by (rule obeysD')
  with assms(1) show ?thesis by (simp add: sweeps_def)
qed

theorem reconciler_only_sweeps_witness:
  "\<exists>w'. run_ticks 2 decimal_uuid_lib (sample_world EnvironmentProvisioning ()) = ((), w') \<and>
     w_purchases w' = [sample_purchase] \<and> list_all2 swept [sample_attempt EnvironmentProvisioning] (w_attempts w')"
proof -
  obtain w' where r: "run_ticks 2 decimal_uuid_lib (sample_world EnvironmentProvisioning ()) = ((), w')"
    by (metis old.unit.exhaust surj_pair)
  have "unique_key aID (w_attempts (sample_world EnvironmentProvisioning ()))"
    by (simp add: sample_world_def unique_key_def)
  from reconciler_only_sweeps [OF this r] r show ?thesis
    by (auto simp: sample_world_def sample_bought_def)
qed

section \<open>Retrying a failed provisioning\<close>

text \<open>C39: A retry is free: after the provisioning job has failed and given the attempt back, the
  operator's retry puts the same attempt back to \<open>attempt_requested\<close> and queues its
  provisioning, and the purchase keeps the attempt it got back.\<close>

theorem retry_after_refund:
  assumes "w_faults w = []" and "uuid_lib_ok L" and "find (\<lambda>a. aID a = i) (w_attempts w) = Some a"
  shows "retryProvision L (uuid_String L i) (refunded L i pid w) =
    (status_response ''retrying'', w\<lparr>
       w_purchases := update_rows (\<lambda>r. pID r = pid) (add_attempts 1) (w_purchases w),
       w_attempts := set_status i AttemptRequested (w_attempts w),
       w_jobs := w_jobs w @ [cleanup_job L i, provision_job L i]\<rparr>)"
proof -
  from assms(3) have ai: "aID a = i" by (auto dest: find_SomeD)
  let ?w = "refunded L i pid w"
  have "retryProvision L (uuid_String L i) ?w = (status_response ''retrying'',
      ?w\<lparr>w_attempts := set_status i AttemptRequested (w_attempts w),
         w_jobs := w_jobs ?w @ [provision_job L i]\<rparr>)"
    using assms ai
    by (simp add: retryProvision_def uuid_lib_okD Attempts_GetByID_def stmt_simps try_do_def
        Transition_status refunded_def provision_job_def)
  then show ?thesis by (simp add: refunded_def)
qed

theorem retry_after_refund_witness:
  "retryProvision decimal_uuid_lib (uuid_String decimal_uuid_lib 70)
     (refunded decimal_uuid_lib 70 60 (sample_world EnvironmentProvisioning ())) =
   (status_response ''retrying'', (sample_world EnvironmentProvisioning ())\<lparr>
       w_purchases := [sample_purchase\<lparr>pAttemptsRemaining := 3\<rparr>],
       w_attempts := [sample_attempt AttemptRequested],
       w_jobs := [cleanup_job decimal_uuid_lib 70, provision_job decimal_uuid_lib 70]\<rparr>)"
  by (subst retry_after_refund)
     (simp_all add: decimal_uuid_lib_ok sample_world_def sample_bought_def sample_shop_def
       sample_attempt_def sample_purchase_def add_attempts_def set_status_def)

section \<open>The mock provider\<close>

text \<open>A history of the provider: creations and destructions, in any order.\<close>

datatype mock_call = MockCreate environment_spec | MockDestroy json

fun mock_run :: "mock_call list \<Rightarrow> mock_state \<Rightarrow> mock_state" where
  "mock_run [] m = m"
| "mock_run (MockCreate spec # cs) m = mock_run cs (snd (mock_CreateEnvironment spec m))"
| "mock_run (MockDestroy v # cs) m = mock_run cs (snd (mock_DestroyEnvironment v m))"

lemma mock_run_inv: "mock_inv m \<Longrightarrow> mock_inv (mock_run cs m)"
proof (induction cs m rule: mock_run.induct)
  case (2 spec cs m)
  then show ?case using mock_inv_create [OF 2(2)] by (metis mock_run.simps(2) prod.collapse)
next
  case (3 v cs m)
  then show ?case using mock_inv_destroy [OF 3(2)] by (metis mock_run.simps(3) prod.collapse)
qed simp

lemma metadata_keys:
  "\<not> key_matches ''workstation_vm_id'' ''node_vm_ids''" "key_matches ''workstation_vm_id'' ''workstation_vm_id''"
  "key_matches ''node_vm_ids'' ''node_vm_ids''" "\<not> key_matches ''node_vm_ids'' ''workstation_vm_id''"
  by code_simp+

lemma mock_metadata_of: "mock_metadata (metadata_of r) = Some (vmProviderVMID (erWorkstation r))"
  by (simp add: mock_metadata_def metadata_of_def decode_struct_def into_string_def metadata_keys)

text \<open>The mock provider keeps environments apart: after any history of creations and
  destructions, a new environment answers its request, its machines have different ids, none of
  the environments that are still there is overwritten, and destroying it with the metadata
  that the orchestrator stores leaves exactly those.\<close>

lemma mock_environments_apart:
  assumes "mock_CreateEnvironment spec (mock_run cs mock_New) = (x, m')"
  shows "\<exists>r. x = Inr r \<and> answers spec r \<and> distinct (mock_ids r) \<and>
    mkEnvironments (mock_run cs mock_New) (vmProviderVMID (erWorkstation r)) = None \<and>
    mkEnvironments m' = (mkEnvironments (mock_run cs mock_New))(vmProviderVMID (erWorkstation r) \<mapsto> r) \<and>
    mock_DestroyEnvironment (metadata_of r) m' =
      (Inr (), m'\<lparr>mkEnvironments := mkEnvironments (mock_run cs mock_New)\<rparr>)"
  using assms
proof (rule mock_create_spec)
  fix r
  let ?m = "mock_run cs mock_New"
  assume r: "x = Inr r" "answers spec r" and ids: "mock_ids r = map mock_id [mkNextIP ?m..<mkNextIP m']"
    and less: "mkNextIP ?m < mkNextIP m'" and m': "mkEnvironments m' = (mkEnvironments ?m)(mock_id (mkNextIP ?m) \<mapsto> r)"
  have ws: "vmProviderVMID (erWorkstation r) = mock_id (mkNextIP ?m)"
    using ids less by (simp add: mock_ids_def upt_conv_Cons)
  have "mock_inv ?m" by (rule mock_run_inv [OF mock_inv_New])
  then have fresh: "mkEnvironments ?m (mock_id (mkNextIP ?m)) = None" by (rule mock_fresh)
  then have "(mkEnvironments m')(mock_id (mkNextIP ?m) := None) = mkEnvironments ?m"
    by (simp add: m' fun_upd_idem)
  moreover have "distinct (mock_ids r)" by (simp add: ids distinct_map inj_on_def)
  ultimately show ?thesis
    using r fresh m' ws by (simp add: mock_DestroyEnvironment_def mock_metadata_of)
qed

lemma mock_environments_apart_example:
  "\<exists>r m'. mock_CreateEnvironment (environment_spec_of ''7'' ''8'' ''pub'' sample_topology)
       (mock_run [MockCreate (environment_spec_of ''5'' ''6'' ''pub'' sample_topology)] mock_New) = (Inr r, m') \<and>
     distinct (mock_ids r) \<and> length (mock_ids r) = 2"
proof -
  obtain x m' where c: "mock_CreateEnvironment (environment_spec_of ''7'' ''8'' ''pub'' sample_topology)
       (mock_run [MockCreate (environment_spec_of ''5'' ''6'' ''pub'' sample_topology)] mock_New) = (x, m')"
    by fastforce
  from mock_environments_apart [OF c] obtain r where r: "x = Inr r" "distinct (mock_ids r)"
    and a: "answers (environment_spec_of ''7'' ''8'' ''pub'' sample_topology) r" by blast
  from a have "length (mock_ids r) = 2"
    by (auto simp: answers_def mock_ids_def environment_spec_of_def sample_topology_def
        cluster_answers_def cluster_request_of_def list_all2_Cons1 node_request_def)
  with c r show ?thesis by blast
qed

end
