(* ===== verification/Proxmox_Properties.thy ===== *)
theory Proxmox_Properties
  imports Cleanup_Properties Startup
begin

text \<open>
  Properties of the Proxmox provider (\<open>internal/provider/proxmox\<close>) and of its configuration: a
  server that starts has profiles that can be rendered, and the polling loops come to an end.
\<close>

section \<open>Profiles\<close>

lemma LoadCloneProfiles_sound:
  assumes "LoadCloneProfiles rf y path = Inr profiles" and "profiles name = Some p"
  shows "sound_profile p"
  using assms
  by (auto simp: LoadCloneProfiles_def split: sum.splits if_splits dest!: map_of_SomeD check_profiles_sound)


text \<open>An environment of a server with one profile.\<close>

definition sample_env :: "string \<Rightarrow> string" where
  "sample_env key = (if key = ''JWT_SECRET'' then ''s'' else if key = ''PROVIDER'' then ''proxmox''
     else if key \<in> {''PROXMOX_URL'', ''PROXMOX_TOKEN_ID'', ''PROXMOX_TOKEN_SECRET'', ''PROXMOX_NODE'',
       ''PROXMOX_PROFILES_FILE''} then ''x'' else '''')"

definition sample_profile :: clone_profile where
  "sample_profile = \<lparr>clpTemplateVMID = 9000, clpCloneMode = ''linked'',
     clpConfig = [(''name'', ''vm-{{ hostname }}'')]\<rparr>"

lemma sample_profile_loads:
  "\<exists>cfg. config_Load (LoadCloneProfiles Inr (\<lambda>_. Inr [(''k8s'', sample_profile)])) sample_env = Inr cfg \<and>
     cfProvider cfg = ''proxmox'' \<and> profileFor (proxmox_config_of cfg) ''k8s'' = Inr sample_profile"
proof -
  have "validatePlaceholders ''k8s'' ''name'' ''vm-{{ hostname }}'' = None" by code_simp
  then have "LoadCloneProfiles Inr (\<lambda>_. Inr [(''k8s'', sample_profile)]) path =
      Inr [''k8s'' \<mapsto> sample_profile]" for path
    by (simp add: LoadCloneProfiles_def sample_profile_def default_mode_def trim_space_def trim_left_def
        is_space_def unsupported_key_def has_prefix_def)
  then show ?thesis
    by (simp add: config_Load_def read_config_def sample_env_def getEnv_def proxmox_incomplete_def
        proxmox_config_of_def profileFor_def)
qed


section \<open>Waiting ends\<close>

text \<open>A body that never reports the loop's own error lets the loop report it only when out of fuel.\<close>

definition no_fuel :: go_error where
  "no_fuel = Panic ''out of fuel''"

lemma poll_until_ends:
  assumes clock: "clock_ok E time" and body: "keeps_time time body"
    and quiet: "\<And>q. fst (body q) \<noteq> Some (Inl no_fuel)" "\<And>d q. fst (pxWait E d q) \<noteq> Inl no_fuel"
      "timeout \<noteq> no_fuel"
    and "deadline \<le> time p + int n * interval" and "0 \<le> interval"
  shows "fst (poll_until (Suc n) E interval deadline timeout body p) \<noteq> Inl no_fuel"
  using assms(6)
proof (induction n arbitrary: p)
  case 0
  obtain t p1 where now: "pxNow E p = (t, p1)" by fastforce
  with clock have "time p \<le> t" by (auto simp: clock_ok_def)
  with 0 now quiet(3) show ?case by simp
next
  case (Suc n)
  obtain t p1 where now: "pxNow E p = (t, p1)" by fastforce
  with clock have t: "time p \<le> time p1" by (fastforce simp: clock_ok_def)
  obtain r p2 where b: "body p1 = (r, p2)" by fastforce
  with body have t2: "time p1 \<le> time p2" by (auto simp: keeps_time_def dest: obeysD')
  have r: "r \<noteq> Some (Inl no_fuel)" using quiet(1) [of p1] b by simp
  have step: "fst (poll_until (Suc n) E interval deadline timeout body p3) \<noteq> Inl no_fuel"
    if "pxWait E interval p2 = (Inr (), p3)" for p3
  proof -
    from that clock have "time p2 + interval \<le> time p3" by (auto simp: clock_ok_def)
    with t t2 Suc.prems show ?thesis by (intro Suc.IH) (simp add: algebra_simps)
  qed
  obtain w p3 where w: "pxWait E interval p2 = (w, p3)" by fastforce
  have w': "w \<noteq> Inl no_fuel" using quiet(2) [of interval p2] w by simp
  show ?case
    using now b w step r w' quiet(3)
    by (cases r; cases w) (simp_all del: poll_until.simps add: poll_until.simps(2))
qed

text \<open>C22: Waiting for Proxmox comes to an end: under a clock that does not go back, a timer that waits its
  time and requests that return, both polling loops finish within the number of rounds the model
  grants them (151 readings of the clock for a task, 25 for an address): they never run out of
  rounds, and with more they would do the same.\<close>

theorem waiting_ends:
  assumes "clock_ok E time" and "\<And>d q. fst (pxWait E d q) \<noteq> Inl no_fuel"
  shows "fst (waitForTask poll_fuel cfg E upid p) \<noteq> Inl no_fuel \<and>
    waitForTask (poll_fuel + n) cfg E upid = waitForTask poll_fuel cfg E upid \<and>
    fst (waitForIP ip_fuel cfg E vmID p) \<noteq> Inl no_fuel \<and>
    waitForIP (ip_fuel + n) cfg E vmID = waitForIP ip_fuel cfg E vmID"
proof -
  obtain t p1 where now: "pxNow E p = (t, p1)" by fastforce
  with assms(1) have t: "t \<le> time p1" by (auto simp: clock_ok_def)
  have task: "fst (poll_task cfg E node u q) \<noteq> Some (Inl no_fuel)" for node u q
  proof (cases "doRequest cfg E ''GET'' (''/nodes/'' @ node @ ''/tasks/'' @ url_PathEscape u @ ''/status'') None q")
    case (Pair x q')
    then show ?thesis
      by (cases x) (auto simp: poll_task_def no_fuel_def split: sum.split)
  qed
  have ip: "fst (poll_ip cfg E vmID q) \<noteq> Some (Inl no_fuel)" for q
    by (cases "GetVMIPAddress cfg E vmID q"; cases "fst (GetVMIPAddress cfg E vmID q)")
      (auto simp: poll_ip_def)
  have 1: "fst (poll_until (Suc 150) E (seconds 2) (t + seconds 300)
      (Plain (''timed out waiting for task '' @ upid)) (poll_task cfg E node upid) p1) \<noteq> Inl no_fuel" for node
    by (rule poll_until_ends [OF assms(1) poll_task_time [OF assms(1)] task assms(2)])
      (use t in \<open>simp_all add: seconds_def no_fuel_def\<close>)
  have 2: "fst (poll_until (Suc 24) E (seconds 5) (t + seconds 120)
      (Plain (''timed out waiting for IP on VM '' @ show_int vmID)) (poll_ip cfg E vmID) p1) \<noteq> Inl no_fuel"
    by (rule poll_until_ends [OF assms(1) poll_ip_time [OF assms(1)] ip assms(2)])
      (use t in \<open>simp_all add: seconds_def no_fuel_def\<close>)
  have "fst (waitForTask poll_fuel cfg E upid p) \<noteq> Inl no_fuel"
    using now 1 by (simp add: waitForTask_def poll_fuel_def no_fuel_def del: poll_until.simps split: list.split)
  moreover have "fst (waitForIP ip_fuel cfg E vmID p) \<noteq> Inl no_fuel"
    using now 2 by (simp add: waitForIP_def ip_fuel_def del: poll_until.simps)
  ultimately show ?thesis
    using waitForTask_more_fuel [OF assms(1)] waitForIP_more_fuel [OF assms(1)] by blast
qed

text \<open>An API whose tasks never stop, on a clock that only the timer moves.\<close>

definition stuck_env :: "int px_env" where
  "stuck_env = \<lparr>pxDo = (\<lambda>q. ok \<lparr>hpStatus = 200, hpText = '''', hpJson = Some (JObj [])\<rparr>),
     pxNow = (\<lambda>t. (t, t)), pxWait = (\<lambda>d t. (Inr (), t + d))\<rparr>"

theorem waiting_ends_witness:
  "fst (waitForTask poll_fuel (proxmox_config_of (read_config sample_env)) stuck_env ''UPID:n:1'' 0) \<noteq> Inl no_fuel"
proof -
  have "clock_ok stuck_env (\<lambda>t. t)" by (simp add: clock_ok_def stuck_env_def)
  then show ?thesis
    by (rule waiting_ends [THEN conjunct1]) (simp add: stuck_env_def)
qed

end
