(* ===== verification/Proxmox_Requests.thy ===== *)
theory Proxmox_Requests
  imports Proxmox_Properties
begin

text \<open>
  What the Proxmox provider sends.  \<open>recorded E\<close> is the environment \<open>E\<close> with a record of the requests
  that went out, and \<open>writes\<close> leaves those of the record that change something on the Proxmox host
  (everything but GET).  \<open>sends qs m\<close>: whatever the API answers, \<open>m\<close> sends the writing requests \<open>qs\<close>.
  With this the machines that \<open>CreateEnvironment\<close> made and those that \<open>DestroyEnvironment\<close> removes
  are compared by what was sent, from the answers of the API over the stored metadata and back.
\<close>

section \<open>Recording\<close>

definition recorded :: "'p px_env \<Rightarrow> ('p \<times> http_request list) px_env" where
  "recorded E = \<lparr>pxDo = (\<lambda>q s. case pxDo E q (fst s) of (r, p) \<Rightarrow> (r, (p, snd s @ [q]))),
     pxNow = (\<lambda>s. case pxNow E (fst s) of (t, p) \<Rightarrow> (t, (p, snd s))),
     pxWait = (\<lambda>d s. case pxWait E d (fst s) of (r, p) \<Rightarrow> (r, (p, snd s)))\<rparr>"

definition writes :: "http_request list \<Rightarrow> http_request list" where
  "writes qs = filter (\<lambda>q. hqMethod q \<noteq> ''GET'') qs"

lemma writes_simps [simp]:
  "writes [] = []" "writes (xs @ ys) = writes xs @ writes ys"
  "writes (q # qs) = (if hqMethod q \<noteq> ''GET'' then q # writes qs else writes qs)"
  by (simp_all add: writes_def)

definition sends :: "http_request list \<Rightarrow> ('p \<times> http_request list, 'a) prog \<Rightarrow> bool" where
  "sends qs m \<longleftrightarrow> (\<forall>s. writes (snd (snd (m s))) = writes (snd s) @ qs)"

lemma sendsD: "sends qs m \<Longrightarrow> m s = (r, s') \<Longrightarrow> writes (snd s') = writes (snd s) @ qs"
  by (metis sends_def snd_conv)

named_theorems sends_rules "what a program sends"

lemma sends_result [sends_rules]: "sends [] (result x)" "sends [] (ok y)" "sends [] (fail e)"
  by (simp_all add: sends_def)

lemma sendsI: "(\<And>s r s'. m s = (r, s') \<Longrightarrow> writes (snd s') = writes (snd s) @ qs) \<Longrightarrow> sends qs m"
  by (metis sends_def prod.collapse)

lemma sends_bind:
  assumes "sends xs m" and "\<And>x. sends ys (k x)"
  shows "sends (xs @ ys) (bind_do m k)"
proof (rule sendsI)
  fix s r s'
  assume "bind_do m k s = (r, s')"
  then obtain x s1 where "m s = (x, s1)" and "k x s1 = (r, s')" by (auto simp: bind_do_def split: prod.splits)
  with sendsD [OF assms(1)] sendsD [OF assms(2)] show "writes (snd s') = writes (snd s) @ xs @ ys"
    by (metis append.assoc)
qed

lemma sends_try:
  assumes "sends xs m" and "\<And>e. sends ys (h e)" and "\<And>x. sends ys (k x)"
  shows "sends (xs @ ys) (try_do m h k)"
proof (rule sendsI)
  fix s r s'
  assume "try_do m h k s = (r, s')"
  then show "writes (snd s') = writes (snd s) @ xs @ ys"
  proof (cases rule: try_do_cases)
    case (err e s1)
    from sendsD [OF assms(1) err(1)] sendsD [OF assms(2) err(2)] show ?thesis by simp
  next
    case (ok x s1)
    from sendsD [OF assms(1) ok(1)] sendsD [OF assms(3) ok(2)] show ?thesis by simp
  qed
qed

lemma sends_ignore: "sends xs m \<Longrightarrow> sends ys k \<Longrightarrow> sends (xs @ ys) (ignore_do m k)"
  using sends_bind [of xs m ys "\<lambda>_. k"] by (simp add: ignore_do_def bind_do_def case_prod_beta)

lemmas sends_quiet [sends_rules] = sends_bind [of "[]" _ "[]", simplified] sends_try [of "[]" _ "[]", simplified]

lemmas sends_first = sends_try [where ys = "[]", simplified]

lemma sends_if [sends_rules]: "(b \<Longrightarrow> sends qs m) \<Longrightarrow> (\<not> b \<Longrightarrow> sends qs k) \<Longrightarrow> sends qs (if b then m else k)"
  by simp

lemma sends_sum [sends_rules]:
  "(\<And>e. x = Inl e \<Longrightarrow> sends qs (h e)) \<Longrightarrow> (\<And>y. x = Inr y \<Longrightarrow> sends qs (k y)) \<Longrightarrow>
   sends qs (case x of Inl e \<Rightarrow> h e | Inr y \<Rightarrow> k y)"
  by (simp split: sum.split)

lemma sends_option [sends_rules]:
  "(x = None \<Longrightarrow> sends qs m) \<Longrightarrow> (\<And>y. x = Some y \<Longrightarrow> sends qs (k y)) \<Longrightarrow>
   sends qs (case x of None \<Rightarrow> m | Some y \<Rightarrow> k y)"
  by (simp split: option.split)

lemma sends_clock [sends_rules]: "sends [] (pxNow (recorded E))" "sends [] (pxWait (recorded E) d)"
  by (simp_all add: sends_def recorded_def split: prod.split)

lemma sends_request: "sends (writes [q]) (send_request (recorded E) q)"
  unfolding send_request_def
  by (intro sends_first sends_rules) (auto simp: sends_def recorded_def split: prod.split)

section \<open>The requests\<close>

definition clone_request :: "proxmox_config \<Rightarrow> clone_profile \<Rightarrow> string \<Rightarrow> int \<Rightarrow> http_request" where
  "clone_request cfg profile hostname n = api_request cfg ''POST''
     (''/nodes/'' @ pcNode cfg @ ''/qemu/'' @ show_int (clpTemplateVMID profile) @ ''/clone'')
     (Some ''application/json'') (JsonPayload (clone_body cfg n hostname (clpCloneMode profile = ''full'')))"

definition config_request :: "proxmox_config \<Rightarrow> int \<Rightarrow> (string \<times> string) list \<Rightarrow> http_request" where
  "config_request cfg n kvs = api_request cfg ''PUT'' (vm_path cfg n ''/config'')
     (Some ''application/x-www-form-urlencoded'') (FormPayload (form_encode kvs))"

definition power_on :: "proxmox_config \<Rightarrow> int \<Rightarrow> http_request" where
  "power_on cfg n = api_request cfg ''POST'' (vm_path cfg n ''/status/start'') None NoPayload"

definition power_off :: "proxmox_config \<Rightarrow> int \<Rightarrow> http_request" where
  "power_off cfg n = api_request cfg ''POST'' (vm_path cfg n ''/status/stop'') None NoPayload"

definition removal :: "proxmox_config \<Rightarrow> int \<Rightarrow> http_request" where
  "removal cfg n = api_request cfg ''DELETE'' (vm_path cfg n '''') None NoPayload"

lemma sends_GET [sends_rules]: "sends [] (doRequest cfg (recorded E) ''GET'' path None)"
  using sends_request [of "api_request cfg ''GET'' path None NoPayload" E]
  by (simp add: doRequest_def api_request_def)

lemma sends_polling [sends_rules]:
  "(sends [] body) \<Longrightarrow> sends [] (poll_until n (recorded E) interval deadline timeout body)"
  by (induction n) (auto intro!: sends_rules)

lemma sends_waiting [sends_rules]:
  "sends [] (waitForTask fuel cfg (recorded E) upid)" "sends [] (waitForIP fuel cfg (recorded E) n)"
  "sends [] (NextVMID cfg (recorded E))"
proof -
  have "sends [] (poll_task cfg (recorded E) node upid)" for node
    unfolding poll_task_def by (intro sends_rules)
  then show "sends [] (waitForTask fuel cfg (recorded E) upid)"
    unfolding waitForTask_def by (auto split: list.split intro!: sends_rules)
  have "sends [] (poll_ip cfg (recorded E) n)"
    unfolding poll_ip_def GetVMIPAddress_def by (intro sends_rules)
  then show "sends [] (waitForIP fuel cfg (recorded E) n)"
    unfolding waitForIP_def by (intro sends_rules)
  show "sends [] (NextVMID cfg (recorded E))"
    unfolding NextVMID_def by (intro sends_rules)
qed

lemma sends_clone:
  "sends [clone_request cfg profile hostname n]
     (cloneVMWithID cfg (recorded E) (clpTemplateVMID profile) n hostname (clpCloneMode profile = ''full''))"
proof -
  have "sends [clone_request cfg profile hostname n] (doRequest cfg (recorded E) ''POST''
      (''/nodes/'' @ pcNode cfg @ ''/qemu/'' @ show_int (clpTemplateVMID profile) @ ''/clone'')
      (Some (clone_body cfg n hostname (clpCloneMode profile = ''full''))))"
    using sends_request [of "clone_request cfg profile hostname n" E]
    by (simp add: doRequest_def clone_request_def api_request_def)
  then show ?thesis unfolding cloneVMWithID_def by (intro sends_first sends_rules)
qed

lemma sends_config: "sends [config_request cfg n kvs] (ConfigureVM cfg (recorded E) n kvs)"
proof -
  have "sends [config_request cfg n kvs] (doFormRequest cfg (recorded E) ''PUT'' (vm_path cfg n ''/config'') kvs)"
    using sends_request [of "config_request cfg n kvs" E]
    by (simp add: doFormRequest_def config_request_def api_request_def)
  then show ?thesis unfolding ConfigureVM_def by (intro sends_first sends_rules)
qed

lemma sends_power:
  "sends [power_on cfg n] (StartVM cfg (recorded E) n)" "sends [power_off cfg n] (StopVM cfg (recorded E) n)"
proof -
  have "sends [api_request cfg ''POST'' (vm_path cfg n rest) None NoPayload] (power_request cfg (recorded E) n rest)"
    for rest
    using sends_request [of "api_request cfg ''POST'' (vm_path cfg n rest) None NoPayload" E]
    unfolding power_request_def
    by (intro sends_first sends_rules) (simp add: doRequest_def api_request_def)
  then show "sends [power_on cfg n] (StartVM cfg (recorded E) n)"
    and "sends [power_off cfg n] (StopVM cfg (recorded E) n)"
    by (simp_all add: power_on_def power_off_def StartVM_def StopVM_def)
qed

lemma sends_removal: "sends [removal cfg n] (DeleteVM cfg (recorded E) n)"
  using sends_request [of "removal cfg n" E]
  unfolding DeleteVM_def
  by (intro sends_first sends_rules) (simp add: doRequest_def removal_def api_request_def)

section \<open>Numbers and metadata\<close>

lemma decode_metadata_of:
  "decode_metadata (metadata_of r) = Some \<lparr>pmWorkstationVMID = vmProviderVMID (erWorkstation r),
     pmNodeVMIDs = map vmProviderVMID (concat (map clNodes (erClusters r)))\<rparr>"
proof -
  have "decode_all (\<lambda>v. into_string (\<lambda>s _. s) v '''') (map (\<lambda>n. JStr (vmProviderVMID n)) ns) =
      Some (map vmProviderVMID ns)" for ns :: "vm_result list"
    by (rule decode_all_map) (simp add: into_string_def)
  then have "into_slice (\<lambda>v. into_string (\<lambda>s _. s) v '''') (\<lambda>xs m. m\<lparr>pmNodeVMIDs := xs\<rparr>)
      (JArr (map (\<lambda>n. JStr (vmProviderVMID n)) ns)) m = Some (m\<lparr>pmNodeVMIDs := map vmProviderVMID ns\<rparr>)" for ns :: "vm_result list" and m :: prox_metadata
    by (simp only: into_slice_def json.case option.case)
  then show ?thesis
    by (simp add: decode_metadata_def metadata_of_def decode_struct_def metadata_keys)
      (simp add: into_string_def)
qed

lemma atoi_range: "atoi s = Some n \<Longrightarrow> int64_range n"
  by (cases s) (auto simp: signed_digits_def Let_def split: if_splits)

lemma vmid_of_range: "vmid_of data = Inr n \<Longrightarrow> int64_range n"
  by (auto simp: vmid_of_def int64_range_def [of 0] split: option.splits json.splits if_splits dest: atoi_range)

lemma NextVMID_range: "NextVMID cfg E p = (Inr n, p') \<Longrightarrow> int64_range n"
  unfolding NextVMID_def by (auto elim!: try_do_InrD split: sum.splits dest: vmid_of_range)

lemma clone_loop_range: "clone_loop k cfg E tid name full e p = (Inr n, p') \<Longrightarrow> int64_range n"
proof (induction k arbitrary: e p)
  case 0
  then show ?case by simp
next
  case (Suc k)
  then show ?case
    by (auto elim!: try_do_cases dest: NextVMID_range split: if_splits)
qed

lemma scan_vmid_id:
  assumes "int64_range n"
  shows "scan_vmid (show_int n) = n"
proof (cases "n < 0")
  case True
  have run: "takeWhile (\<lambda>c. is_digit c \<or> c = CHR ''_'') (show_nat m) = show_nat m" for m
    using show_nat_digits [of m] by (intro takeWhile_eq_all_conv [THEN iffD2]) (auto simp: list_all_iff)
  have "sscanf_d (show_int n) = signed_digits True (show_nat (nat (- n)))"
    using True by (simp add: show_int_def sscanf_d_def scan_run_def run is_scan_space_def is_space_def)
  also have "\<dots> = Some n"
    using True assms show_nat_digits [of "nat (- n)"] show_nat_nonempty [of "nat (- n)"]
    by (simp add: signed_digits_def digits_to_nat_show list_all_iff)
  finally show ?thesis by (simp add: scan_vmid_def)
next
  case False
  with assms show ?thesis by (simp add: scan_vmid_show int64_range_def)
qed

section \<open>The machines that were made\<close>

text \<open>
  A machine as it was made: the request it was made for, the number it runs under, and the
  writing requests: clone requests, the last of which is for that number (the earlier ones, if
  any, were for numbers that turned out to be taken), the configuration, and the start.
\<close>

type_synonym machine = "vm_request \<times> int \<times> http_request list"

definition number_of :: "machine \<Rightarrow> int" where
  "number_of m = fst (snd m)"

definition requests_of :: "machine \<Rightarrow> http_request list" where
  "requests_of m = snd (snd m)"

definition machine_made :: "proxmox_config \<Rightarrow> machine \<Rightarrow> bool" where
  "machine_made cfg m \<longleftrightarrow> (\<exists>profile taken. pcProfiles cfg (vrTemplate (fst m)) = Some profile \<and>
     requests_of m = map (clone_request cfg profile (vrHostname (fst m))) (taken @ [number_of m]) @
       [config_request cfg (number_of m) (renderProfileConfig profile (fst m)), power_on cfg (number_of m)])"

text \<open>A list of machines, one for each request, and what was sent to make them.\<close>

definition machines_for ::
  "proxmox_config \<Rightarrow> vm_request list \<Rightarrow> vm_result list \<Rightarrow> machine list \<Rightarrow> bool"
where
  "machines_for cfg qs rs ms \<longleftrightarrow> map fst ms = qs \<and> list_all (machine_made cfg) ms \<and>
     map vmProviderVMID rs = map (\<lambda>m. show_int (number_of m)) ms \<and> list_all (\<lambda>m. int64_range (number_of m)) ms"

definition all_requests :: "machine list \<Rightarrow> http_request list" where
  "all_requests ms = concat (map requests_of ms)"

lemma machines_for_append:
  "machines_for cfg qs rs ms \<Longrightarrow> machines_for cfg qs' rs' ms' \<Longrightarrow> machines_for cfg (qs @ qs') (rs @ rs') (ms @ ms')"
  by (simp add: machines_for_def)

lemma all_requests_simps [simp]:
  "all_requests [] = []" "all_requests (m # ms) = requests_of m @ all_requests ms"
  "all_requests (ms @ ns) = all_requests ms @ all_requests ns"
  by (simp_all add: all_requests_def)

lemma clone_loop_sent:
  "clone_loop k cfg (recorded E) (clpTemplateVMID profile) host (clpCloneMode profile = ''full'') e s = (Inr n, s') \<Longrightarrow>
     int64_range n \<and>
     (\<exists>taken. writes (snd s') = writes (snd s) @ map (clone_request cfg profile host) (taken @ [n]))"
proof (induction k arbitrary: e s)
  case 0
  then show ?case by simp
next
  case (Suc k)
  then obtain v s1 where v: "NextVMID cfg (recorded E) s = (Inr v, s1)"
    and c: "try_do (cloneVMWithID cfg (recorded E) (clpTemplateVMID profile) v host (clpCloneMode profile = ''full''))
      (\<lambda>e. if \<not> isVMIDConflict e then fail e
           else clone_loop k cfg (recorded E) (clpTemplateVMID profile) host (clpCloneMode profile = ''full'') e)
      (\<lambda>_. ok v) s1 = (Inr n, s')"
    by (auto elim!: try_do_InrD)
  have s1: "writes (snd s1) = writes (snd s)" using sendsD [OF sends_waiting(3) v] by simp
  from c show ?case
  proof (cases rule: try_do_cases)
    case (err e' s2)
    then have "clone_loop k cfg (recorded E) (clpTemplateVMID profile) host (clpCloneMode profile = ''full'') e' s2 =
        (Inr n, s')" by (auto split: if_splits)
    from Suc.IH [OF this] obtain taken where "int64_range n"
      and "writes (snd s') = writes (snd s2) @ map (clone_request cfg profile host) (taken @ [n])" by blast
    with sendsD [OF sends_clone err(1)] s1 show ?thesis by (intro conjI exI [of _ "v # taken"]) simp_all
  next
    case (ok u s2)
    with NextVMID_range [OF v] sendsD [OF sends_clone ok(1)] s1 show ?thesis
      by (intro conjI exI [of _ "[]"]) simp_all
  qed
qed

lemma create_vm_made:
  assumes "create_vm cfg (recorded E) profile q who ip s = (Inr r, s')" and "profileFor cfg (vrTemplate q) = Inr profile"
  shows "\<exists>m. machines_for cfg [q] [r] [m] \<and> writes (snd s') = writes (snd s) @ requests_of m"
proof -
  from assms(1) obtain n s1 u s2 v s3 a where
    clone: "CloneVM cfg (recorded E) (clpTemplateVMID profile) (vrHostname q) (clpCloneMode profile = ''full'') s = (Inr n, s1)"
    and conf: "ConfigureVM cfg (recorded E) n (renderProfileConfig profile q) s1 = (Inr u, s2)"
    and start: "StartVM cfg (recorded E) n s2 = (Inr v, s3)"
    and wait: "waitForIP ip_fuel cfg (recorded E) n s3 = (Inr a, s')" and r: "vmProviderVMID r = show_int n"
    unfolding create_vm_def by (auto elim!: try_do_InrD)
  from clone_loop_sent [OF clone [unfolded CloneVM_def]] obtain taken where n: "int64_range n"
    and s1: "writes (snd s1) = writes (snd s) @ map (clone_request cfg profile (vrHostname q)) (taken @ [n])" by blast
  let ?m = "(q, n, map (clone_request cfg profile (vrHostname q)) (taken @ [n]) @
      [config_request cfg n (renderProfileConfig profile q), power_on cfg n])"
  from assms(2) have "pcProfiles cfg (vrTemplate q) = Some profile"
    by (simp add: profileFor_def split: option.splits)
  then have "machine_made cfg ?m" by (auto simp: machine_made_def number_of_def requests_of_def)
  with n r have "machines_for cfg [q] [r] [?m]" by (simp add: machines_for_def number_of_def)
  moreover have "writes (snd s') = writes (snd s) @ requests_of ?m"
    using s1 sendsD [OF sends_config conf] sendsD [OF sends_power(1) start] sendsD [OF sends_waiting(2) wait]
    by (simp add: requests_of_def)
  ultimately show ?thesis by blast
qed

lemma prox_nodes_made:
  "prox_nodes cfg (recorded E) qs acc s = (Inr rs, s') \<Longrightarrow>
     \<exists>new ms. rs = acc @ new \<and> machines_for cfg qs new ms \<and> writes (snd s') = writes (snd s) @ all_requests ms"
proof (induction qs arbitrary: acc s)
  case Nil
  then show ?case by (intro exI [of _ "[]"]) (simp add: machines_for_def)
next
  case (Cons q qs)
  then obtain profile r s1 where p: "profileFor cfg (vrTemplate q) = Inr profile"
    and c: "create_vm cfg (recorded E) profile q (''node '' @ vrHostname q) (''IP for node '' @ vrHostname q) s = (Inr r, s1)"
    and rest: "prox_nodes cfg (recorded E) qs (acc @ [r]) s1 = (Inr rs, s')"
    by (auto split: sum.splits elim!: try_do_cases)
  obtain m where m: "machines_for cfg [q] [r] [m]" "writes (snd s1) = writes (snd s) @ requests_of m"
    using create_vm_made [OF c p] by blast
  from Cons.IH [OF rest] obtain new ms where ms: "rs = (acc @ [r]) @ new" "machines_for cfg qs new ms"
    "writes (snd s') = writes (snd s1) @ all_requests ms" by blast
  show ?case
    using machines_for_append [OF m(1) ms(2)] m(2) ms(1,3) by (intro exI [of _ "r # new"] exI [of _ "m # ms"]) simp
qed

lemma prox_clusters_made:
  "prox_clusters cfg (recorded E) qs acc s = (Inr rs, s') \<Longrightarrow>
     \<exists>new ms. rs = acc @ new \<and> machines_for cfg (concat (map crNodes qs)) (concat (map clNodes new)) ms \<and>
       writes (snd s') = writes (snd s) @ all_requests ms"
proof (induction qs arbitrary: acc s)
  case Nil
  then show ?case by (intro exI [of _ "[]"]) (simp add: machines_for_def)
next
  case (Cons q qs)
  then obtain nodes s1 where n: "prox_nodes cfg (recorded E) (crNodes q) [] s = (Inr nodes, s1)"
    and c: "prox_clusters cfg (recorded E) qs (acc @ [\<lparr>clName = crName q, clNodes = nodes\<rparr>]) s1 = (Inr rs, s')"
    by (auto elim!: try_do_cases)
  obtain ms where ms: "machines_for cfg (crNodes q) nodes ms" "writes (snd s1) = writes (snd s) @ all_requests ms"
    using prox_nodes_made [OF n] by auto
  from Cons.IH [OF c] obtain new ms' where
    rest: "rs = (acc @ [\<lparr>clName = crName q, clNodes = nodes\<rparr>]) @ new"
    "machines_for cfg (concat (map crNodes qs)) (concat (map clNodes new)) ms'"
    "writes (snd s') = writes (snd s1) @ all_requests ms'" by blast
  show ?case
    using machines_for_append [OF ms(1) rest(2)] ms(2) rest(1,3)
    by (intro exI [of _ "\<lparr>clName = crName q, clNodes = nodes\<rparr> # new"] exI [of _ "ms @ ms'"]) simp
qed

section \<open>What is stored is enough to destroy\<close>

definition removals :: "proxmox_config \<Rightarrow> int list \<Rightarrow> http_request list" where
  "removals cfg ns = concat (map (\<lambda>n. [power_off cfg n, removal cfg n]) ns)"

lemma sends_destroy_vm:
  "int64_range n \<Longrightarrow> sends (removals cfg (filter (\<lambda>n. 0 < n) [n])) (destroy_vm cfg (recorded E) (show_int n))"
  using sends_ignore [OF sends_power(2) sends_ignore [OF sends_removal sends_result(1)]]
  by (auto simp: destroy_vm_def scan_vmid_id removals_def intro!: sends_rules)

lemma sends_destroy_vms:
  "list_all int64_range ns \<Longrightarrow>
     sends (removals cfg (filter (\<lambda>n. 0 < n) ns)) (for_each (map show_int ns) (destroy_vm cfg (recorded E)))"
proof (induction ns)
  case Nil
  then show ?case by (simp add: removals_def sends_def)
next
  case (Cons n ns)
  then have "sends (removals cfg (filter (\<lambda>n. 0 < n) [n]) @ removals cfg (filter (\<lambda>n. 0 < n) ns))
      (for_each (map show_int (n # ns)) (destroy_vm cfg (recorded E)))"
    by (simp only: list.map for_each.simps, intro sends_ignore sends_destroy_vm) simp_all
  then show ?case by (simp add: removals_def split: if_splits)
qed


section \<open>Recording changes nothing else\<close>

text \<open>\<open>mirrors m k\<close>: what \<open>m\<close> does with a record is what \<open>k\<close> does without.\<close>

definition mirrors :: "('p \<times> http_request list, 'a) prog \<Rightarrow> ('p, 'a) prog \<Rightarrow> bool" where
  "mirrors m k \<longleftrightarrow> (\<forall>p l. \<exists>l'. m (p, l) = (fst (k p), (snd (k p), l')))"

lemma mirrorsD: "mirrors m k \<Longrightarrow> k p = (r, p') \<Longrightarrow> \<exists>l'. m (p, l) = (r, (p', l'))"
  by (metis fst_conv mirrors_def snd_conv)

lemma mirrorsI: "(\<And>p l r p'. k p = (r, p') \<Longrightarrow> \<exists>l'. m (p, l) = (r, (p', l'))) \<Longrightarrow> mirrors m k"
  by (metis mirrors_def prod.collapse)

named_theorems mirror_rules "what recording leaves alone"

lemma mirrors_result [mirror_rules]:
  "mirrors (result x) (result x)" "mirrors (ok y) (ok y)" "mirrors (fail e) (fail e)"
  by (simp_all add: mirrors_def)

lemma mirrors_bind [mirror_rules]:
  assumes "mirrors m k" and "\<And>x. mirrors (f x) (g x)"
  shows "mirrors (bind_do m f) (bind_do k g)"
proof (rule mirrorsI)
  fix p l r p'
  obtain x p1 where k: "k p = (x, p1)" by fastforce
  assume "bind_do k g p = (r, p')"
  with k have "g x p1 = (r, p')" by (simp add: bind_do_def)
  with mirrorsD [OF assms(1) k, of l] mirrorsD [OF assms(2)] show "\<exists>l'. bind_do m f (p, l) = (r, (p', l'))"
    by (fastforce simp: bind_do_def)
qed

lemma try_do_bind: "try_do m h f = bind_do m (\<lambda>r. case r of Inl e \<Rightarrow> h e | Inr x \<Rightarrow> f x)"
  by (rule ext) (simp add: bind_do_def try_do_def split: prod.split sum.split)

lemma mirrors_try [mirror_rules]:
  "mirrors m k \<Longrightarrow> (\<And>e. mirrors (h e) (h' e)) \<Longrightarrow> (\<And>x. mirrors (f x) (g x)) \<Longrightarrow>
   mirrors (try_do m h f) (try_do k h' g)"
  unfolding try_do_bind by (intro mirrors_bind) (auto split: sum.split)

lemma mirrors_if [mirror_rules]:
  "mirrors m k \<Longrightarrow> mirrors m' k' \<Longrightarrow> mirrors (if b then m else m') (if b then k else k')"
  by simp

lemma mirrors_sum [mirror_rules]:
  "(\<And>e. mirrors (h e) (h' e)) \<Longrightarrow> (\<And>x. mirrors (f x) (g x)) \<Longrightarrow>
   mirrors (case r of Inl e \<Rightarrow> h e | Inr x \<Rightarrow> f x) (case r of Inl e \<Rightarrow> h' e | Inr x \<Rightarrow> g x)"
  by (simp split: sum.split)

lemma mirrors_option [mirror_rules]:
  "mirrors m k \<Longrightarrow> (\<And>x. mirrors (f x) (g x)) \<Longrightarrow>
   mirrors (case r of None \<Rightarrow> m | Some x \<Rightarrow> f x) (case r of None \<Rightarrow> k | Some x \<Rightarrow> g x)"
  by (simp split: option.split)

lemma mirrors_env [mirror_rules]:
  "mirrors (pxDo (recorded E) q) (pxDo E q)" "mirrors (pxNow (recorded E)) (pxNow E)"
  "mirrors (pxWait (recorded E) d) (pxWait E d)"
  by (simp_all add: mirrors_def recorded_def split: prod.split)

lemma mirrors_requests [mirror_rules]:
  "mirrors (doRequest cfg (recorded E) m path b) (doRequest cfg E m path b)"
  "mirrors (doFormRequest cfg (recorded E) m path form) (doFormRequest cfg E m path form)"
  unfolding doRequest_def doFormRequest_def send_request_def by (intro mirror_rules)+

lemma mirrors_polling [mirror_rules]:
  "mirrors body body' \<Longrightarrow>
   mirrors (poll_until n (recorded E) i d t body) (poll_until n E i d t body')"
  by (induction n) (auto intro!: mirror_rules)

lemma mirrors_waiting [mirror_rules]:
  "mirrors (waitForTask fuel cfg (recorded E) upid) (waitForTask fuel cfg E upid)"
  "mirrors (waitForIP fuel cfg (recorded E) n) (waitForIP fuel cfg E n)"
  "mirrors (NextVMID cfg (recorded E)) (NextVMID cfg E)"
proof -
  have "mirrors (poll_task cfg (recorded E) node upid) (poll_task cfg E node upid)" for node
    unfolding poll_task_def by (intro mirror_rules)
  then show "mirrors (waitForTask fuel cfg (recorded E) upid) (waitForTask fuel cfg E upid)"
    unfolding waitForTask_def by (auto split: list.split intro!: mirror_rules)
qed (unfold waitForIP_def poll_ip_def GetVMIPAddress_def NextVMID_def, (intro mirror_rules)+)

lemma mirrors_clone_loop:
  "mirrors (clone_loop k cfg (recorded E) tid name full e) (clone_loop k cfg E tid name full e)"
  by (induction k arbitrary: e) (auto simp: cloneVMWithID_def intro!: mirror_rules)

lemma mirrors_create_vm [mirror_rules]:
  "mirrors (create_vm cfg (recorded E) profile q who ip) (create_vm cfg E profile q who ip)"
  unfolding create_vm_def CloneVM_def ConfigureVM_def StartVM_def power_request_def
  by (intro mirror_rules mirrors_clone_loop)

lemma mirrors_nodes [mirror_rules]:
  "mirrors (prox_nodes cfg (recorded E) qs acc) (prox_nodes cfg E qs acc)"
  by (induction qs arbitrary: acc) (auto intro!: mirror_rules split: sum.split)

lemma mirrors_clusters [mirror_rules]:
  "mirrors (prox_clusters cfg (recorded E) cs acc) (prox_clusters cfg E cs acc)"
  by (induction cs arbitrary: acc) (auto intro!: mirror_rules)

lemma create_mirrored: "mirrors (prox_CreateEnvironment cfg (recorded E) spec) (prox_CreateEnvironment cfg E spec)"
  unfolding prox_CreateEnvironment_def by (intro mirror_rules)

section \<open>An environment of one machine\<close>

text \<open>An API that gives its answers one after the other, and the answers for one machine.\<close>

definition scripted :: "json list px_env" where
  "scripted = \<lparr>pxDo = (\<lambda>q js. (Inr \<lparr>hpStatus = 200, hpText = '''', hpJson = Some (hd js)\<rparr>, tl js)),
     pxNow = (\<lambda>js. (0, js)), pxWait = (\<lambda>d js. (Inr (), js))\<rparr>"

definition one_machine :: "json list" where
  "one_machine = [JObj [(''data'', JStr ''101'')], JObj [(''data'', JStr ''UPID:n:1'')],
     JObj [(''data'', JObj [(''status'', JStr ''stopped''), (''exitstatus'', JStr ''OK'')])],
     JObj [], JObj [],
     JObj [(''data'', JObj [(''result'', JArr [JObj [(''name'', JStr ''eth0''), (''ip-addresses'', JArr
       [JObj [(''ip-address'', JStr ''10.0.0.7''), (''ip-address-type'', JStr ''ipv4'')]])]])])]]"

definition one_profile :: proxmox_config where
  "one_profile = \<lparr>pcAPIURL = ''x'', pcTokenID = ''x'', pcTokenSecret = ''x'', pcNode = ''n'',
     pcStoragePool = '''', pcNetworkBridge = '''', pcVLANID = 0,
     pcProfiles = [''k8s'' \<mapsto> sample_profile], pcSkipTLSVerify = False\<rparr>"

definition one_request :: environment_spec where
  "one_request = (environment_spec_of ''5'' ''6'' ''pub'' sample_topology)\<lparr>esClusters := [],
     esWorkstation := (esWorkstation (environment_spec_of ''5'' ''6'' ''pub'' sample_topology))\<lparr>
       vrHostname := ''w'', vrTemplate := ''k8s''\<rparr>\<rparr>"

lemma one_machine_created:
  "prox_CreateEnvironment one_profile scripted one_request one_machine =
     (Inr \<lparr>erWorkstation = \<lparr>vmProviderVMID = ''101'', vmIPAddress = ''10.0.0.7'', vmHostname = ''w''\<rparr>,
        erClusters = []\<rparr>, [])"
proof -
  have texts: "show_int 101 = ''101''" "signed_digits False ''101'' = Some 101"
    "split_on CHR '':'' ''UPID:n:1'' = [''UPID'', ''n'', ''1'']" by code_simp+
  have keys: "key_matches ''data'' ''data''" "key_matches ''status'' ''status''"
    "key_matches ''exitstatus'' ''exitstatus''" "\<not> key_matches ''status'' ''exitstatus''"
    "key_matches ''result'' ''result''" "key_matches ''name'' ''name''" "\<not> key_matches ''name'' ''ip-addresses''"
    "key_matches ''ip-addresses'' ''ip-addresses''" "key_matches ''ip-address'' ''ip-address''"
    "\<not> key_matches ''ip-address'' ''ip-address-type''" "\<not> key_matches ''prefix'' ''ip-address-type''"
    "key_matches ''ip-address-type'' ''ip-address-type''" by code_simp+
  have post: "doRequest one_profile scripted m path b (j # js) =
      (Inr \<lparr>hpStatus = 200, hpText = '''', hpJson = Some j\<rparr>, js)" for m path b j js
    by (simp add: doRequest_def send_request_def scripted_def)
  have form: "doFormRequest one_profile scripted m path b (j # js) =
      (Inr \<lparr>hpStatus = 200, hpText = '''', hpJson = Some j\<rparr>, js)" for m path b j js
    by (simp add: doFormRequest_def send_request_def scripted_def)
  have clock: "pxNow scripted js = (0, js)" for js by (simp add: scripted_def)
  have first: "poll_until n scripted i d t body js = (r, js')"
    if "0 < n" "0 < d" "body js = (Some r, js')" for n i d t js js' and r :: "go_error + 'b" and body
    using that by (cases n) (simp_all add: clock bind_do_def)
  have next_id: "NextVMID one_profile scripted (JObj [(''data'', JStr ''101'')] # js) = (Inr 101, js)" for js
    by (simp add: NextVMID_def post unmarshal_def decode_data_def decode_struct_def keys vmid_of_def texts)
  have clone: "cloneVMWithID one_profile scripted tid 101 name full (JObj [(''data'', JStr ''UPID:n:1'')] #
      JObj [(''data'', JObj [(''status'', JStr ''stopped''), (''exitstatus'', JStr ''OK'')])] # js) = (Inr (), js)"
    for tid name full js
  proof -
    have "poll_task one_profile scripted ''n'' ''UPID:n:1'' (JObj [(''data'', JObj [(''status'', JStr ''stopped''),
        (''exitstatus'', JStr ''OK'')])] # js) = (Some (Inr ()), js)"
      by (simp add: poll_task_def post unmarshal_def decode_task_status_def decode_struct_def keys into_string_def)
    then have "waitForTask poll_fuel one_profile scripted ''UPID:n:1'' (JObj [(''data'', JObj [(''status'',
        JStr ''stopped''), (''exitstatus'', JStr ''OK'')])] # js) = (Inr (), js)"
      by (simp add: waitForTask_def texts clock first poll_fuel_def seconds_def)
    then show ?thesis
      by (simp add: cloneVMWithID_def post unmarshal_def decode_upid_def decode_struct_def keys into_string_def)
  qed
  have conf: "ConfigureVM one_profile scripted n kvs (j # js) = (Inr (), js)" for n kvs j js
    by (simp add: ConfigureVM_def form)
  have start: "StartVM one_profile scripted n (JObj [] # js) = (Inr (), js)" for n js
    by (simp add: StartVM_def power_request_def post unmarshal_def decode_upid_def decode_struct_def)
  have ip: "waitForIP ip_fuel one_profile scripted n [JObj [(''data'', JObj [(''result'', JArr [JObj
       [(''name'', JStr ''eth0''), (''ip-addresses'', JArr
       [JObj [(''ip-address'', JStr ''10.0.0.7''), (''ip-address-type'', JStr ''ipv4'')]])]])])]] =
      (Inr ''10.0.0.7'', [])" (is "waitForIP _ _ _ n ?js = _") for n
  proof -
    have "poll_ip one_profile scripted n ?js = (Some (Inr ''10.0.0.7''), [])"
      by (simp add: poll_ip_def GetVMIPAddress_def post unmarshal_def decode_interfaces_def decode_interface_def
        decode_ip_address_def decode_struct_def into_slice_def into_string_def keys usable_address_def try_do_def)
    then show ?thesis by (simp add: waitForIP_def clock first ip_fuel_def seconds_def)
  qed
  have once: "CloneVM one_profile scripted tid name full (JObj [(''data'', JStr ''101'')] #
      JObj [(''data'', JStr ''UPID:n:1'')] # JObj [(''data'', JObj [(''status'', JStr ''stopped''),
      (''exitstatus'', JStr ''OK'')])] # js) = (Inr 101, js)" for tid name full js
    by (simp add: CloneVM_def cloneVMIDAttempts_def eval_nat_numeral next_id clone)
  have "pcProfiles one_profile ''k8s'' = Some sample_profile" by (simp add: one_profile_def)
  then show ?thesis
    by (simp add: prox_CreateEnvironment_def one_request_def profileFor_def create_vm_def once one_machine_def
        conf start ip texts)
qed


end
