(* ===== verification/Reconciler_Properties.thy ===== *)
theory Reconciler_Properties
  imports Cleanup_Properties
begin

text \<open>
  One tick of the reconciler (\<open>internal/orchestrator/reconciler.go\<close>) in closed form: the three
  passes, each a query and a loop over its answer, against one description of which attempts are
  given up and which are sent to be cleaned up.
\<close>

section \<open>What a tick is for\<close>

definition overdue :: "int \<Rightarrow> attempt \<Rightarrow> bool" where
  "overdue th a \<longleftrightarrow> aStatus a = EnvironmentProvisioning \<and> aCreatedAt a < th"

definition give_up :: "int \<Rightarrow> attempt list \<Rightarrow> attempt list" where
  "give_up th as = update_rows (overdue th) (\<lambda>a. a\<lparr>aStatus := ProvisionFailed\<rparr>) as"

definition oldest_first :: "attempt_status \<Rightarrow> attempt list \<Rightarrow> attempt list" where
  "oldest_first st as = order_by aCreatedAt (filter (\<lambda>a. aStatus a = st) as)"

definition left_running :: "environment list \<Rightarrow> attempt \<Rightarrow> bool" where
  "left_running es a = (case find (\<lambda>e. eAttemptID e = aID a) es of
       None \<Rightarrow> False | Some env \<Rightarrow> eStatus env \<noteq> EnvDestroyed)"

definition to_clean :: "int \<Rightarrow> 'p world \<Rightarrow> attempt list" where
  "to_clean th w = (let as = w_attempts w in
     filter (overdue th) (oldest_first EnvironmentProvisioning as) @
     oldest_first CleanupPending as @
     filter (left_running (w_environments w)) (oldest_first Scored as @ oldest_first ExpiredBeforeStart as))"

definition cleanup_jobs :: "uuid_lib \<Rightarrow> attempt list \<Rightarrow> job list" where
  "cleanup_jobs L as = map (\<lambda>a. cleanup_job L (aID a)) as"

lemma cleanup_jobs_simps [simp]:
  "cleanup_jobs L [] = []" "cleanup_jobs L (a # as) = cleanup_job L (aID a) # cleanup_jobs L as"
  "cleanup_jobs L (as @ bs) = cleanup_jobs L as @ cleanup_jobs L bs"
  by (simp_all add: cleanup_jobs_def)

section \<open>The passes\<close>

lemma ListByStatus_served:
  "w_faults w = [] \<Longrightarrow> Attempts_ListByStatus (attempt_status_string st) w =
     (Inr (oldest_first st (w_attempts w)), w)"
  by (simp add: Attempts_ListByStatus_def stmt_simps oldest_first_def)

lemma reconcile_enqueue_served:
  "w_faults w = [] \<Longrightarrow> reconcile_enqueue L i w = ((), w\<lparr>w_jobs := w_jobs w @ [cleanup_job L i]\<rparr>)"
  by (simp add: reconcile_enqueue_def Enqueue_def stmt_simps try_do_def cleanup_job_def)

lemma enqueue_each:
  "w_faults w = [] \<Longrightarrow> for_each as (\<lambda>a. reconcile_enqueue L (aID a)) w =
     ((), w\<lparr>w_jobs := w_jobs w @ cleanup_jobs L as\<rparr>)"
  by (induction as arbitrary: w) (simp_all add: ignore_do_def reconcile_enqueue_served)

lemma terminal_step_served:
  "w_faults w = [] \<Longrightarrow> terminal_step L a w =
     ((), w\<lparr>w_jobs := w_jobs w @ cleanup_jobs L (filter (left_running (w_environments w)) [a])\<rparr>)"
  by (simp add: terminal_step_def Environments_GetByAttemptID_def stmt_simps try_do_def left_running_def
      reconcile_enqueue_served split: option.split)

lemma terminal_each:
  "w_faults w = [] \<Longrightarrow> for_each as (terminal_step L) w =
     ((), w\<lparr>w_jobs := w_jobs w @ cleanup_jobs L (filter (left_running (w_environments w)) as)\<rparr>)"
  by (induction as arbitrary: w) (simp_all add: ignore_do_def terminal_step_served)

lemma terminal_pass:
  "w_faults w = [] \<Longrightarrow> cleanupTerminalStates L w =
     ((), w\<lparr>w_jobs := w_jobs w @ cleanup_jobs L (filter (left_running (w_environments w))
        (oldest_first Scored (w_attempts w) @ oldest_first ExpiredBeforeStart (w_attempts w)))\<rparr>)"
  by (simp add: cleanupTerminalStates_def ignore_do_def try_do_def ListByStatus_served terminal_each
      del: attempt_status_string.simps)

lemma pending_pass:
  "w_faults w = [] \<Longrightarrow> cleanupPendingAttempts L w =
     ((), w\<lparr>w_jobs := w_jobs w @ cleanup_jobs L (oldest_first CleanupPending (w_attempts w))\<rparr>)"
  by (simp add: cleanupPendingAttempts_def try_do_def ListByStatus_served enqueue_each
      del: attempt_status_string.simps)

text \<open>
  The first pass changes the rows it has listed.  Each listed row is still the one that its id
  finds when the loop comes to it, since the ids differ.
\<close>

definition fail_rows :: "attempt list \<Rightarrow> attempt list \<Rightarrow> attempt list" where
  "fail_rows bs as = update_rows (\<lambda>a. aID a \<in> aID ` set bs) (\<lambda>a. a\<lparr>aStatus := ProvisionFailed\<rparr>) as"

lemma fail_rows_Nil [simp]: "fail_rows [] as = as"
  by (simp add: fail_rows_def update_rows_def)

lemma fail_rows_Cons: "fail_rows bs (set_status (aID b) ProvisionFailed as) = fail_rows (b # bs) as"
  by (simp add: fail_rows_def set_status_def update_rows_def)

lemma stale_step_served:
  assumes "w_faults w = []" and "find (\<lambda>b. aID b = aID a) (w_attempts w) = Some a"
    and "aStatus a = EnvironmentProvisioning"
  shows "stale_step L th a w = (if aCreatedAt a < th
     then ((), w\<lparr>w_attempts := set_status (aID a) ProvisionFailed (w_attempts w),
       w_jobs := w_jobs w @ [cleanup_job L (aID a)]\<rparr>) else ((), w))"
  using assms by (simp add: stale_step_def ignore_do_def Transition_status reconcile_enqueue_served)

lemma stale_each:
  assumes "w_faults w = []" and "distinct (map aID bs)"
    and "\<forall>a\<in>set bs. find (\<lambda>b. aID b = aID a) (w_attempts w) = Some a \<and> aStatus a = EnvironmentProvisioning"
  shows "for_each bs (stale_step L th) w =
    ((), w\<lparr>w_attempts := fail_rows (filter (overdue th) bs) (w_attempts w),
       w_jobs := w_jobs w @ cleanup_jobs L (filter (overdue th) bs)\<rparr>)"
  using assms
proof (induction bs arbitrary: w)
  case (Cons b bs)
  then have b: "find (\<lambda>c. aID c = aID b) (w_attempts w) = Some b" "aStatus b = EnvironmentProvisioning"
    by simp_all
  let ?w1 = "w\<lparr>w_attempts := set_status (aID b) ProvisionFailed (w_attempts w),
       w_jobs := w_jobs w @ [cleanup_job L (aID b)]\<rparr>"
  have "\<forall>a\<in>set bs. find (\<lambda>c. aID c = aID a) (w_attempts ?w1) = Some a \<and> aStatus a = EnvironmentProvisioning"
    using Cons.prems(2,3) by (auto simp: image_iff)
  then have late: "for_each bs (stale_step L th) ?w1 =
    ((), ?w1\<lparr>w_attempts := fail_rows (filter (overdue th) bs) (w_attempts ?w1),
       w_jobs := w_jobs ?w1 @ cleanup_jobs L (filter (overdue th) bs)\<rparr>)"
    using Cons.prems(1,2) by (intro Cons.IH) simp_all
  have early: "for_each bs (stale_step L th) w =
    ((), w\<lparr>w_attempts := fail_rows (filter (overdue th) bs) (w_attempts w),
       w_jobs := w_jobs w @ cleanup_jobs L (filter (overdue th) bs)\<rparr>)"
    using Cons.prems by (intro Cons.IH) simp_all
  show ?case
  proof (cases "aCreatedAt b < th")
    case True
    moreover from True b(2) have "overdue th b" by (simp add: overdue_def)
    ultimately show ?thesis
      using Cons.prems(1) b late by (simp add: ignore_do_def stale_step_served fail_rows_Cons)
  next
    case False
    moreover from False have "\<not> overdue th b" by (simp add: overdue_def)
    ultimately show ?thesis
      using Cons.prems(1) b early by (simp add: ignore_do_def stale_step_served)
  qed
qed simp

lemma in_oldest_first [simp]: "a \<in> set (oldest_first st as) \<longleftrightarrow> a \<in> set as \<and> aStatus a = st"
  by (auto simp: oldest_first_def order_by_def)

lemma distinct_oldest_first: "distinct (map aID as) \<Longrightarrow> distinct (map aID (oldest_first st as))"
  by (auto simp: oldest_first_def order_by_def distinct_map inj_on_def)

lemma fail_overdue:
  assumes "distinct (map aID as)"
  shows "fail_rows (filter (overdue th) (oldest_first EnvironmentProvisioning as)) as = give_up th as"
proof -
  have "aID a \<in> aID ` set (filter (overdue th) (oldest_first EnvironmentProvisioning as)) \<longleftrightarrow> overdue th a"
    if "a \<in> set as" for a
    using assms that by (auto simp: overdue_def distinct_map dest: inj_onD)
  then show ?thesis by (simp add: fail_rows_def give_up_def update_rows_def)
qed

lemma stale_pass:
  assumes "w_faults w = []" and "unique_key aID (w_attempts w)"
    and "th = w_clock w (w_clock_pos w) - minutes 30"
  shows "cleanupStaleProvisioning L w = ((), w\<lparr>w_clock_pos := Suc (w_clock_pos w),
     w_attempts := give_up th (w_attempts w), w_jobs := w_jobs w @
       cleanup_jobs L (filter (overdue th) (oldest_first EnvironmentProvisioning (w_attempts w)))\<rparr>)"
proof -
  from assms(2) have d: "distinct (map aID (w_attempts w))" by (simp add: unique_key_def)
  with assms show ?thesis
    by (simp add: cleanupStaleProvisioning_def try_do_def ListByStatus_served time_Now_def bind_do_def
        Let_def stale_each distinct_oldest_first fail_overdue find_distinct_key del: attempt_status_string.simps)
qed

section \<open>The tick\<close>

text \<open>Giving up an attempt takes it out of \<open>environment_provisioning\<close> and into a status that no later pass lists.\<close>

lemma give_up_elsewhere:
  "st \<notin> {EnvironmentProvisioning, ProvisionFailed} \<Longrightarrow> oldest_first st (give_up th as) = oldest_first st as"
proof -
  assume "st \<notin> {EnvironmentProvisioning, ProvisionFailed}"
  then have "filter (\<lambda>a. aStatus a = st) (give_up th as) = filter (\<lambda>a. aStatus a = st) as"
    by (induction as) (auto simp: give_up_def overdue_def)
  then show ?thesis by (simp add: oldest_first_def)
qed

text \<open>C29: One tick, with the database answering, in closed form.  The attempts in
  provisioning that were created more than thirty minutes ago become \<open>provision_failed\<close>; nothing else in the
  store changes; and one cleanup job is queued for each of these, then for each attempt that
  waits for its cleanup, then for each attempt that is \<open>scored\<close> and each that is
  \<open>expired_before_start\<close> whose environment is there and not destroyed, oldest first within each
  group.  An attempt in \<open>expired\<close> or \<open>expired_running\<close> gets none.  (Nothing marks a job as queued,
  so that the next tick queues the later groups again.)\<close>

theorem reconcile_exact:
  assumes "w_faults w = []" and "unique_key aID (w_attempts w)"
    and "th = w_clock w (w_clock_pos w) - minutes 30"
  shows "reconcile L w = ((), w\<lparr>w_clock_pos := Suc (w_clock_pos w),
     w_attempts := give_up th (w_attempts w), w_jobs := w_jobs w @ cleanup_jobs L (to_clean th w)\<rparr>)"
  using assms(1)
  by (simp add: reconcile_def ignore_do_def stale_pass [OF assms] pending_pass terminal_pass
      give_up_elsewhere to_clean_def Let_def)

theorem reconcile_exact_witness:
  "reconcile decimal_uuid_lib ((sample_world EnvironmentProvisioning ())\<lparr>w_clock := \<lambda>n. minutes 31\<rparr>) =
   ((), (sample_world ProvisionFailed ())\<lparr>w_clock := \<lambda>n. minutes 31, w_clock_pos := 1,
      w_jobs := [cleanup_job decimal_uuid_lib 70]\<rparr>)"
  by (subst reconcile_exact [where th = "minutes 1"])
     (simp_all add: sample_defs unique_key_def give_up_def overdue_def to_clean_def oldest_first_def
       order_by_def minutes_def)

end
