(* ===== verification/Threads.thy ===== *)
theory Threads
  imports Integrity
begin

text \<open>
  Go serves every request on a goroutine of its own, and the worker runs jobs next to them; what
  they share is the database.  A thread is a program cut at its statements: it has returned, or
  it is at a statement, a state transformer that yields the rest of the thread.  \<open>run\<close> puts the
  pieces together again.  The combinators are those of the Prelude, with the same shape, so that
  a handler cut at its statements reads like the handler, and \<open>run\<close> turns one into the other
  (\<open>run_rules\<close>).

  \<open>watched I R t w\<close> is what the thread guarantees: if between its statements the others keep the
  invariant \<open>I\<close> and respect \<open>R\<close>, then so does each of its own; \<open>guided I R t\<close> is this from every
  state.  \<open>assured I R Q t w\<close> is what it is assured of: if between its
  statements the others keep \<open>I\<close> and respect \<open>R\<close>, its result satisfies \<open>Q\<close>.
\<close>

section \<open>Threads\<close>

datatype ('s, 'a) thread = Done 'a | Step "'s \<Rightarrow> ('s, 'a) thread \<times> 's"

primrec run :: "('s, 'a) thread \<Rightarrow> ('s, 'a) prog" where
  "run (Done x) = result x"
| "run (Step f) = (\<lambda>s. (\<lambda>(r, s'). r s') ((map_prod run id \<circ> f) s))"

definition t_stmt :: "('s, 'a) prog \<Rightarrow> ('s, 'a) thread" where
  "t_stmt m = Step (\<lambda>s. case m s of (x, s') \<Rightarrow> (Done x, s'))"

primrec t_bind :: "('s, 'a) thread \<Rightarrow> ('a \<Rightarrow> ('s, 'b) thread) \<Rightarrow> ('s, 'b) thread" where
  "t_bind (Done x) k = k x"
| "t_bind (Step f) k = Step (map_prod (\<lambda>t. t_bind t k) id \<circ> f)"

definition t_ok :: "'a \<Rightarrow> ('s, go_error + 'a) thread" where
  "t_ok x = Done (Inr x)"

definition t_fail :: "go_error \<Rightarrow> ('s, go_error + 'a) thread" where
  "t_fail e = Done (Inl e)"

definition t_try :: "('s, go_error + 'a) thread \<Rightarrow> (go_error \<Rightarrow> ('s, 'b) thread) \<Rightarrow>
    ('a \<Rightarrow> ('s, 'b) thread) \<Rightarrow> ('s, 'b) thread" where
  "t_try t h k = t_bind t (\<lambda>r. case r of Inl e \<Rightarrow> h e | Inr x \<Rightarrow> k x)"

definition t_ignore :: "('s, 'a) thread \<Rightarrow> ('s, 'b) thread \<Rightarrow> ('s, 'b) thread" where
  "t_ignore t k = t_bind t (\<lambda>_. k)"

definition t_deferred :: "('s, unit) thread \<Rightarrow> ('s, 'a) thread \<Rightarrow> ('s, 'a) thread" where
  "t_deferred close body = t_bind body (\<lambda>r. t_ignore close (Done r))"

fun t_for_each :: "'a list \<Rightarrow> ('a \<Rightarrow> ('s, 'b) thread) \<Rightarrow> ('s, unit) thread" where
  "t_for_each [] f = Done ()"
| "t_for_each (x # xs) f = t_ignore (f x) (t_for_each xs f)"

section \<open>A thread alone\<close>

named_theorems run_rules "what a thread does when it runs alone"

lemma run_Step: "run (Step f) s = (case f s of (t, s') \<Rightarrow> run t s')"
  by (simp add: map_prod_def split: prod.split)

lemma run_Done [run_rules]: "run (Done x) = result x"
  by simp

lemma run_stmt [run_rules]: "run (t_stmt m) = m"
  by (rule ext) (simp add: t_stmt_def result_def map_prod_def split: prod.split)

lemma run_bind [run_rules]: "run (t_bind t k) = bind_do (run t) (\<lambda>x. run (k x))"
proof (induction t)
  case (Done x)
  then show ?case by (simp add: bind_do_def result_def)
next
  case (Step f)
  show ?case
  proof (rule ext)
    fix s
    obtain t s' where f: "f s = (t, s')" by fastforce
    then have "t \<in> Basic_BNFs.fsts (f s)" by (simp add: fsts.simps)
    then have "run (t_bind t k) = bind_do (run t) (\<lambda>x. run (k x))" by (intro Step) auto
    with f show "run (t_bind (Step f) k) s = bind_do (run (Step f)) (\<lambda>x. run (k x)) s"
      by (simp add: bind_do_def)
  qed
qed

lemma run_ok [run_rules]: "run (t_ok x) = ok x"
  by (simp add: t_ok_def ok_def result_def)

lemma run_fail [run_rules]: "run (t_fail e) = fail e"
  by (simp add: t_fail_def fail_def result_def)

lemma run_option [run_rules]:
  "run (case x of None \<Rightarrow> t | Some y \<Rightarrow> k y) = (case x of None \<Rightarrow> run t | Some y \<Rightarrow> run (k y))"
  by (simp split: option.split)

lemma run_sum [run_rules]:
  "run (case x of Inl e \<Rightarrow> h e | Inr y \<Rightarrow> k y) = (case x of Inl e \<Rightarrow> run (h e) | Inr y \<Rightarrow> run (k y))"
  by (simp split: sum.split)

lemma run_prod [run_rules]: "run (case x of (a, b) \<Rightarrow> k a b) = (case x of (a, b) \<Rightarrow> run (k a b))"
  by (simp split: prod.split)

lemma run_if [run_rules]: "run (if b then t else u) = (if b then run t else run u)"
  by simp

lemma run_try [run_rules]: "run (t_try t h k) = try_do (run t) (\<lambda>e. run (h e)) (\<lambda>x. run (k x))"
  by (rule ext) (simp add: t_try_def run_bind bind_do_def try_do_def split: prod.split sum.split)

lemma run_ignore [run_rules]: "run (t_ignore t k) = ignore_do (run t) (run k)"
  by (rule ext) (simp add: t_ignore_def run_bind bind_do_def ignore_do_def split: prod.split)

lemma run_deferred [run_rules]: "run (t_deferred close body) = deferred (run close) (run body)"
  by (simp add: t_deferred_def deferred_def run_rules)

lemma run_for_each [run_rules]: "run (t_for_each xs f) = for_each xs (\<lambda>x. run (f x))"
  by (induction xs) (simp_all add: run_rules)

lemmas run_congs = if_cong option.case_cong sum.case_cong prod.case_cong

section \<open>What a thread guarantees\<close>

inductive watched :: "('s \<Rightarrow> bool) \<Rightarrow> ('s \<Rightarrow> 's \<Rightarrow> bool) \<Rightarrow> ('s, 'a) thread \<Rightarrow> 's \<Rightarrow> bool"
  for I :: "'s \<Rightarrow> bool" and R :: "'s \<Rightarrow> 's \<Rightarrow> bool"
where
  Done: "watched I R (Done x) s"
| Step: "(\<And>s'. I s' \<Longrightarrow> R s s' \<Longrightarrow> I (snd (f s')) \<and> R s' (snd (f s'))) \<Longrightarrow>
    (\<And>s'. I s' \<Longrightarrow> R s s' \<Longrightarrow> watched I R (fst (f s')) (snd (f s'))) \<Longrightarrow> watched I R (Step f) s"

inductive_simps watched_simps: "watched I R (Done x) s" "watched I R (Step f) s"

definition guided :: "('s \<Rightarrow> bool) \<Rightarrow> ('s \<Rightarrow> 's \<Rightarrow> bool) \<Rightarrow> ('s, 'a) thread \<Rightarrow> bool" where
  "guided I R t \<longleftrightarrow> (\<forall>s. watched I R t s)"

lemma guidedI: "(\<And>s. watched I R t s) \<Longrightarrow> guided I R t"
  by (simp add: guided_def)

lemma guidedD: "guided I R t \<Longrightarrow> watched I R t s"
  by (simp add: guided_def)

text \<open>A statement: what it does, and what its result satisfies under the invariant.\<close>

definition lawful :: "('s \<Rightarrow> bool) \<Rightarrow> ('s \<Rightarrow> 's \<Rightarrow> bool) \<Rightarrow> ('s, 'a) prog \<Rightarrow> bool" where
  "lawful I R m \<longleftrightarrow> (\<forall>s. I s \<longrightarrow> I (snd (m s)) \<and> R s (snd (m s)))"

definition returns :: "('s \<Rightarrow> bool) \<Rightarrow> ('s, 'a) eprog \<Rightarrow> ('a \<Rightarrow> bool) \<Rightarrow> bool" where
  "returns I m V \<longleftrightarrow> (\<forall>s x. I s \<longrightarrow> fst (m s) = Inr x \<longrightarrow> V x)"

lemma lawfulI: "obeys (keeps I) m \<Longrightarrow> obeys R m \<Longrightarrow> lawful I R m"
  by (simp add: lawful_def obeys_def keeps_def)

lemma lawfulD: "lawful I R m \<Longrightarrow> I s \<Longrightarrow> I (snd (m s)) \<and> R s (snd (m s))"
  by (simp add: lawful_def)

text \<open>A statement may be lawful only where the thread comes to it.\<close>

lemma watched_stmt:
  assumes "\<And>s1. I s1 \<Longrightarrow> R s s1 \<Longrightarrow> I (snd (m s1)) \<and> R s1 (snd (m s1))"
    and "\<And>s1 x s2. I s1 \<Longrightarrow> R s s1 \<Longrightarrow> m s1 = (x, s2) \<Longrightarrow> watched I R (k x) s2"
  shows "watched I R (t_bind (t_stmt m) k) s"
  unfolding t_stmt_def t_bind.simps
proof (rule watched.Step)
  fix s'
  assume s': "I s'" "R s s'"
  obtain x s2 where m: "m s' = (x, s2)" by fastforce
  with assms(1) [OF s'] assms(2) [OF s' m]
  show "I (snd ((map_prod (\<lambda>t. t_bind t k) id \<circ> (\<lambda>s. case m s of (x, s') \<Rightarrow> (Done x, s'))) s')) \<and>
      R s' (snd ((map_prod (\<lambda>t. t_bind t k) id \<circ> (\<lambda>s. case m s of (x, s') \<Rightarrow> (Done x, s'))) s'))"
    and "watched I R (fst ((map_prod (\<lambda>t. t_bind t k) id \<circ> (\<lambda>s. case m s of (x, s') \<Rightarrow> (Done x, s'))) s'))
      (snd ((map_prod (\<lambda>t. t_bind t k) id \<circ> (\<lambda>s. case m s of (x, s') \<Rightarrow> (Done x, s'))) s'))"
    by simp_all
qed

lemma watched_try:
  assumes "\<And>s1. I s1 \<Longrightarrow> R s s1 \<Longrightarrow> I (snd (m s1)) \<and> R s1 (snd (m s1))"
    and "\<And>s1 e s2. I s1 \<Longrightarrow> R s s1 \<Longrightarrow> m s1 = (Inl e, s2) \<Longrightarrow> watched I R (h e) s2"
    and "\<And>s1 x s2. I s1 \<Longrightarrow> R s s1 \<Longrightarrow> m s1 = (Inr x, s2) \<Longrightarrow> watched I R (k x) s2"
  shows "watched I R (t_try (t_stmt m) h k) s"
  unfolding t_try_def using assms by (intro watched_stmt) (auto split: sum.split)

lemma watched_bind: "watched I R t s \<Longrightarrow> (\<And>x. guided I R (k x)) \<Longrightarrow> watched I R (t_bind t k) s"
  by (induction rule: watched.induct) (auto simp: guided_def intro!: watched.Step)

lemma guided_Done [simp]: "guided I R (Done x)"
  by (simp add: guided_def watched.Done)

lemma guided_stmt: "lawful I R m \<Longrightarrow> guided I R (t_stmt m)"
  by (auto simp: guided_def t_stmt_def lawful_def watched_simps split: prod.split)

lemma guided_bind: "guided I R t \<Longrightarrow> (\<And>x. guided I R (k x)) \<Longrightarrow> guided I R (t_bind t k)"
  by (simp add: guided_def watched_bind)

lemma guided_ok: "guided I R (t_ok x)"
  by (simp add: t_ok_def)

lemma guided_fail: "guided I R (t_fail e)"
  by (simp add: t_fail_def)

lemma guided_if:
  "(b \<Longrightarrow> guided I R t) \<Longrightarrow> (\<not> b \<Longrightarrow> guided I R u) \<Longrightarrow> guided I R (if b then t else u)"
  by simp

lemma guided_option:
  "(x = None \<Longrightarrow> guided I R t) \<Longrightarrow> (\<And>y. x = Some y \<Longrightarrow> guided I R (k y)) \<Longrightarrow>
   guided I R (case x of None \<Rightarrow> t | Some y \<Rightarrow> k y)"
  by (simp split: option.split)

lemma guided_sum:
  "(\<And>e. x = Inl e \<Longrightarrow> guided I R (h e)) \<Longrightarrow> (\<And>y. x = Inr y \<Longrightarrow> guided I R (k y)) \<Longrightarrow>
   guided I R (case x of Inl e \<Rightarrow> h e | Inr y \<Rightarrow> k y)"
  by (simp split: sum.split)

lemma guided_prod:
  "(\<And>a b. x = (a, b) \<Longrightarrow> guided I R (k a b)) \<Longrightarrow> guided I R (case x of (a, b) \<Rightarrow> k a b)"
  by (simp split: prod.split)

lemma guided_try:
  "guided I R t \<Longrightarrow> (\<And>e. guided I R (h e)) \<Longrightarrow> (\<And>x. guided I R (k x)) \<Longrightarrow> guided I R (t_try t h k)"
  unfolding t_try_def by (rule guided_bind, assumption, rule guided_sum)

lemma guided_ignore: "guided I R t \<Longrightarrow> guided I R u \<Longrightarrow> guided I R (t_ignore t u)"
  unfolding t_ignore_def by (rule guided_bind)

lemma guided_deferred: "guided I R close \<Longrightarrow> guided I R body \<Longrightarrow> guided I R (t_deferred close body)"
  unfolding t_deferred_def by (rule guided_bind, assumption, rule guided_ignore, assumption, simp)

lemma guided_for_each:
  "(\<And>x. x \<in> set xs \<Longrightarrow> guided I R (f x)) \<Longrightarrow> guided I R (t_for_each xs f)"
  by (induction xs) (auto intro: guided_ignore)

text \<open>What was read, or done, under the invariant may be used.\<close>

lemma guided_try_at:
  assumes "lawful I R m" and "\<And>e. guided I R (h e)"
    and "\<And>s1 x s2. I s1 \<Longrightarrow> m s1 = (Inr x, s2) \<Longrightarrow> watched I R (k x) s2"
  shows "guided I R (t_try (t_stmt m) h k)"
  by (rule guidedI, rule watched_try) (rule lawfulD [OF assms(1)] guidedD [OF assms(2)] assms(3); assumption)+

lemma guided_read:
  assumes "lawful I R m" and "returns I m V" and "\<And>e. guided I R (h e)" and "\<And>x. V x \<Longrightarrow> guided I R (k x)"
  shows "guided I R (t_try (t_stmt m) h k)"
proof (rule guided_try_at [OF assms(1,3)])
  fix s1 x s2
  assume "I s1" and "m s1 = (Inr x, s2)"
  with assms(2) have "V x" by (auto simp: returns_def dest!: spec [of _ s1])
  then show "watched I R (k x) s2" by (intro guidedD assms(4))
qed

text \<open>What holds and is taken back by nobody may be used as well.\<close>

lemma watched_stmt_under:
  assumes "lawful I R m" and "P s" and "\<And>s s'. P s \<Longrightarrow> R s s' \<Longrightarrow> P s'"
    and "\<And>x s'. P s' \<Longrightarrow> watched I R (k x) s'"
  shows "watched I R (t_bind (t_stmt m) k) s"
proof (rule watched_stmt)
  fix s1
  assume s1: "I s1" "R s s1"
  then show "I (snd (m s1)) \<and> R s1 (snd (m s1))" by (intro lawfulD [OF assms(1)])
  fix x s2
  assume "m s1 = (x, s2)"
  with lawfulD [OF assms(1) s1(1)] have "R s1 s2" by simp
  with assms(3) [OF assms(2) s1(2)] have "P s2" by (rule assms(3))
  then show "watched I R (k x) s2" by (rule assms(4))
qed

lemma watched_try_under:
  assumes "lawful I R m" and "P s" and "\<And>s s'. P s \<Longrightarrow> R s s' \<Longrightarrow> P s'"
    and "\<And>e. guided I R (h e)" and "\<And>x s'. P s' \<Longrightarrow> watched I R (k x) s'"
  shows "watched I R (t_try (t_stmt m) h k) s"
  unfolding t_try_def
  by (rule watched_stmt_under [where P = P]) (use assms in \<open>auto intro: guidedD split: sum.split\<close>)

lemmas guided_rules = guided_Done guided_ok guided_fail guided_if guided_option guided_sum
  guided_prod guided_bind guided_try guided_ignore guided_deferred guided_for_each

section \<open>What a thread is assured of\<close>

inductive assured :: "('s \<Rightarrow> bool) \<Rightarrow> ('s \<Rightarrow> 's \<Rightarrow> bool) \<Rightarrow> ('a \<Rightarrow> 's \<Rightarrow> bool) \<Rightarrow> ('s, 'a) thread \<Rightarrow> 's \<Rightarrow> bool"
  for I :: "'s \<Rightarrow> bool" and R :: "'s \<Rightarrow> 's \<Rightarrow> bool" and Q :: "'a \<Rightarrow> 's \<Rightarrow> bool"
where
  Done: "(\<And>s'. I s' \<Longrightarrow> R s s' \<Longrightarrow> Q x s') \<Longrightarrow> assured I R Q (Done x) s"
| Step: "(\<And>s'. I s' \<Longrightarrow> R s s' \<Longrightarrow> assured I R Q (fst (f s')) (snd (f s'))) \<Longrightarrow> assured I R Q (Step f) s"

inductive_simps assured_simps: "assured I R Q (Done x) s" "assured I R Q (Step f) s"

context preorder_effect
begin

lemma assured_later:
  assumes "assured I R Q t s" and "R s s'"
  shows "assured I R Q t s'"
  using assms by (cases t) (auto simp: assured_simps intro: trans)

lemma assured_mono:
  "assured I R P t s \<Longrightarrow> (\<And>x s'. P x s' \<Longrightarrow> Q x s') \<Longrightarrow> assured I R Q t s"
  by (induction rule: assured.induct) (auto simp: assured_simps)

lemma assured_bind:
  assumes "assured I R (\<lambda>x s'. assured I R Q (k x) s') t s"
  shows "assured I R Q (t_bind t k) s"
  using assms
proof (induction rule: assured.induct)
  case (Done s x)
  have "assured I R Q (k x) s" if "\<And>s'. I s' \<Longrightarrow> R s s' \<Longrightarrow> assured I R Q (k x) s'"
  proof (cases "k x")
    case (Done y)
    with that show ?thesis by (auto simp: assured_simps intro: refl)
  next
    case (Step f)
    with that show ?thesis by (auto simp: assured_simps intro: refl)
  qed
  with Done show ?case by simp
next
  case (Step s f)
  then show ?case by (auto simp: assured_simps)
qed

lemma assured_stmt:
  assumes "\<And>s1 x s2 s3. I s1 \<Longrightarrow> R s s1 \<Longrightarrow> m s1 = (x, s2) \<Longrightarrow> I s3 \<Longrightarrow> R s2 s3 \<Longrightarrow> Q x s3"
  shows "assured I R Q (t_stmt m) s"
  using assms by (auto simp: t_stmt_def assured_simps split: prod.split)

lemma assured_try:
  assumes "\<And>s1 e s2. I s1 \<Longrightarrow> R s s1 \<Longrightarrow> m s1 = (Inl e, s2) \<Longrightarrow> assured I R Q (h e) s2"
    and "\<And>s1 x s2. I s1 \<Longrightarrow> R s s1 \<Longrightarrow> m s1 = (Inr x, s2) \<Longrightarrow> assured I R Q (k x) s2"
  shows "assured I R Q (t_try (t_stmt m) h k) s"
  using assms by (auto simp: t_try_def t_stmt_def assured_simps split: prod.split sum.split)

lemma assured_const: "(\<And>s'. Q x s') \<Longrightarrow> assured I R Q (Done x) s"
  by (simp add: assured_simps)

text \<open>What holds, and is taken back by nobody, holds at the end.\<close>

lemma assured_stable:
  assumes "guided I R t" and "P s" and "\<And>s s'. P s \<Longrightarrow> R s s' \<Longrightarrow> P s'"
  shows "assured I R (\<lambda>_. P) t s"
  using guidedD [OF assms(1), of s] assms(2)
proof (induction rule: watched.induct)
  case (Done x s)
  with assms(3) show ?case by (auto simp: assured_simps)
next
  case (Step s f)
  show ?case
    unfolding assured_simps
  proof (intro allI impI)
    fix s'
    assume s': "I s'" "R s s'"
    with Step.prems have "P s'" using assms(3) by blast
    with Step.hyps(1) [OF s'] have "P (snd (f s'))" using assms(3) by blast
    then show "assured I R (\<lambda>_. P) (fst (f s')) (snd (f s'))" by (rule Step.IH [OF s'])
  qed
qed

text \<open>A thread that waits keeps its promise, and so does one that makes its step.\<close>

lemma watched_later: "watched I R t s \<Longrightarrow> R s s' \<Longrightarrow> watched I R t s'"
  by (cases t) (auto simp: watched_simps intro: trans)

lemma watched_step:
  assumes "watched I R (Step f) s" and "f s = (t, s')" and "I s"
  shows "I s'" and "R s s'" and "watched I R t s'"
proof -
  from assms(1) have "I (snd (f s)) \<and> R s (snd (f s)) \<and> watched I R (fst (f s)) (snd (f s))"
    using assms(3) refl [of s] by (simp add: watched_simps)
  with assms(2) show "I s'" and "R s s'" and "watched I R t s'" by simp_all
qed

end

end
