(* ===== verification/Attempt_Threads.thy ===== *)
theory Attempt_Threads
  imports Threads Reconciler Grader Scoring Terminal
begin

text \<open>
  The operations on attempts and the jobs, cut at their statements: the attempts service, the
  orchestrator, grading, the reconciler and the terminal.  Each definition \<open>f_t\<close> has the shape
  of the handler \<open>f\<close> that it cuts, and \<open>run_f\<close> shows that the pieces run one after the other
  are that handler.  A method of the store is one SQL statement and hence one step; reading
  the clock, making a UUID and a call of an external system are steps of their own.  What
  happens inside an open terminal only concerns the external systems and is one step.
\<close>

section \<open>The attempts service\<close>

definition start_attempt_t :: "uuid_lib \<Rightarrow> purchased_test \<Rightarrow> ('p world, go_error + attempt) thread" where
  "start_attempt_t L purchase =
     t_try (t_stmt (Purchases_DecrementAttemptsRemaining (pID purchase)))
       (\<lambda>e. t_fail (wrap_err ''failed to decrement attempts: '' e)) (\<lambda>_.
     t_bind (t_stmt uuid_New) (\<lambda>attemptID.
     t_bind (t_stmt time_Now) (\<lambda>created.
     let attempt = new_attempt attemptID (pID purchase) created in
     t_try (t_stmt (Attempts_Create attempt))
       (\<lambda>e. t_ignore (t_stmt (Purchases_IncrementAttemptsRemaining (pID purchase)))
              (t_fail (wrap_err ''failed to create attempt: '' e))) (\<lambda>_.
     t_try (t_stmt (Enqueue ProvisionEnvironmentJob (attempt_payload L (aID attempt)) None))
       (\<lambda>e. t_ignore (t_stmt (Purchases_IncrementAttemptsRemaining (pID purchase)))
              (t_fail (wrap_err ''failed to enqueue provisioning job: '' e))) (\<lambda>_.
     t_ok attempt)))))"

lemma run_start_attempt [run_rules]: "run (start_attempt_t L purchase) = start_attempt L purchase"
  by (simp add: start_attempt_t_def start_attempt_def Let_def run_rules cong: run_congs)

definition RequestAttempt_t :: "uuid_lib \<Rightarrow> uuid \<Rightarrow> uuid \<Rightarrow> ('p world, go_error + attempt) thread" where
  "RequestAttempt_t L userID purchasedTestID =
     t_try (t_stmt (Purchases_GetByID purchasedTestID))
       (\<lambda>e. t_fail (wrap_err ''purchase not found: '' e)) (\<lambda>purchase.
     if pUserID purchase \<noteq> userID then t_fail (Plain ''unauthorized'') else
     t_bind (t_stmt time_Now) (\<lambda>now.
     if pExpiresAt purchase < now then t_fail ErrPurchaseExpired else
     if pAttemptsRemaining purchase \<le> 0 then t_fail ErrNoAttemptsRemaining else
     start_attempt_t L purchase))"

lemma run_RequestAttempt [run_rules]: "run (RequestAttempt_t L userID purchasedTestID) = RequestAttempt L userID purchasedTestID"
  by (simp add: RequestAttempt_t_def RequestAttempt_def Let_def run_rules cong: run_congs)

definition TransitionAttempt_t :: "uuid \<Rightarrow> attempt_status \<Rightarrow> ('p world, go_error + unit) thread" where
  "TransitionAttempt_t attemptID to =
     t_try (t_stmt (Attempts_GetByID attemptID))
       (\<lambda>e. t_fail (wrap_err ''attempt not found: '' e)) (\<lambda>attempt.
     if \<not> ValidTransition (aStatus attempt) to
     then t_fail (invalid_transition (aStatus attempt) to) else
     t_try (t_stmt (Attempts_UpdateStatus attemptID to))
       (\<lambda>e. t_fail (wrap_err ''failed to update status: '' e)) (\<lambda>_.
     t_ok ()))"

lemma run_TransitionAttempt [run_rules]: "run (TransitionAttempt_t attemptID to) = TransitionAttempt attemptID to"
  by (simp add: TransitionAttempt_t_def TransitionAttempt_def Let_def run_rules cong: run_congs)

definition RestoreAttemptCount_t :: "uuid \<Rightarrow> ('p world, go_error + unit) thread" where
  "RestoreAttemptCount_t attemptID =
     t_try (t_stmt (Attempts_GetByID attemptID))
       (\<lambda>e. t_fail (wrap_err ''attempt not found: '' e)) (\<lambda>attempt.
     t_try (t_stmt (Purchases_IncrementAttemptsRemaining (aPurchasedTestID attempt)))
       (\<lambda>e. t_fail (wrap_err ''failed to restore attempt count: '' e)) (\<lambda>_.
     t_ok ()))"

lemma run_RestoreAttemptCount [run_rules]: "run (RestoreAttemptCount_t attemptID) = RestoreAttemptCount attemptID"
  by (simp add: RestoreAttemptCount_t_def RestoreAttemptCount_def Let_def run_rules cong: run_congs)

definition SubmitAttempt_t :: "uuid_lib \<Rightarrow> uuid \<Rightarrow> uuid \<Rightarrow> ('p world, go_error + unit) thread" where
  "SubmitAttempt_t L userID attemptID =
     t_try (t_stmt (Attempts_GetByID attemptID))
       (\<lambda>e. t_fail (wrap_err ''attempt not found: '' e)) (\<lambda>attempt.
     t_try (t_stmt (Purchases_GetByID (aPurchasedTestID attempt)))
       (\<lambda>e. t_fail (wrap_err ''purchase not found: '' e)) (\<lambda>purchase.
     if pUserID purchase \<noteq> userID then t_fail (Plain ''unauthorized'') else
     if aStatus attempt \<noteq> Running then t_fail (Plain ''attempt is not running'') else
     t_try (TransitionAttempt_t attemptID Submitted)
       (\<lambda>e. t_fail (wrap_err ''failed to submit attempt: '' e)) (\<lambda>_.
     t_try (t_stmt (Enqueue GradeAttemptJob (attempt_payload L attemptID) None))
       (\<lambda>e. t_fail (wrap_err ''failed to enqueue grading job: '' e)) (\<lambda>_.
     t_ok ()))))"

lemma run_SubmitAttempt [run_rules]: "run (SubmitAttempt_t L userID attemptID) = SubmitAttempt L userID attemptID"
  by (simp add: SubmitAttempt_t_def SubmitAttempt_def Let_def run_rules cong: run_congs)

definition HandleExpireAttempt_t :: "uuid_lib \<Rightarrow> json \<Rightarrow> ('p world, go_error + unit) thread" where
  "HandleExpireAttempt_t L payload =
     (case parse_attempt_payload L payload of Inl e \<Rightarrow> t_fail e | Inr attemptID \<Rightarrow>
     t_try (t_stmt (Attempts_GetByID attemptID))
       (\<lambda>e. t_fail (wrap_err ''attempt not found: '' e)) (\<lambda>attempt.
     if aStatus attempt \<noteq> Running then t_ok () else
     t_try (TransitionAttempt_t attemptID Expired)
       (\<lambda>e. t_fail (wrap_err ''failed to expire attempt: '' e)) (\<lambda>_.
     t_try (t_stmt (Enqueue GradeAttemptJob (attempt_payload L attemptID) None))
       (\<lambda>e. t_fail (wrap_err ''failed to enqueue grading job: '' e)) (\<lambda>_.
     t_ok ()))))"

lemma run_HandleExpireAttempt [run_rules]: "run (HandleExpireAttempt_t L payload) = HandleExpireAttempt L payload"
  by (simp add: HandleExpireAttempt_t_def HandleExpireAttempt_def Let_def run_rules cong: run_congs)

definition createAttempt_t ::
  "uuid_lib \<Rightarrow> uuid option \<Rightarrow> json option \<Rightarrow> ('p world, response) thread"
where
  "createAttempt_t L ctx_user body = (case ctx_user of
       None \<Rightarrow> Done (Unauthorized ''unauthorized'')
     | Some userID \<Rightarrow>
     (case ReadJSON [(''purchased_test_id'', into_string (\<lambda>s _. s))] '''' body of
       None \<Rightarrow> Done (BadRequest ''invalid request body'')
     | Some req \<Rightarrow>
     (case uuid_Parse L req of
       Inl e \<Rightarrow> Done (BadRequest ''invalid purchased_test_id'')
     | Inr purchasedTestID \<Rightarrow>
     t_try (RequestAttempt_t L userID purchasedTestID)
       (\<lambda>err. if err = ErrPurchaseExpired then Done (BadRequest ''purchase has expired'')
              else if err = ErrNoAttemptsRemaining then Done (BadRequest ''no attempts remaining'')
              else Done (InternalError ''failed to create attempt''))
       (\<lambda>attempt. Done (WriteJSON 201 (JObj
          [(''id'', JStr (uuid_String L (aID attempt))),
           (''status'', JStr (attempt_status_string (aStatus attempt)))]))))))"

lemma run_createAttempt [run_rules]: "run (createAttempt_t L ctx_user body) = createAttempt L ctx_user body"
  by (simp add: createAttempt_t_def createAttempt_def Let_def run_rules cong: run_congs)

definition getAttempt_t ::
  "uuid_lib \<Rightarrow> uuid option \<Rightarrow> string \<Rightarrow> ('p world, response) thread"
where
  "getAttempt_t L ctx_user attemptIDStr = (case ctx_user of
       None \<Rightarrow> Done (Unauthorized ''unauthorized'')
     | Some userID \<Rightarrow>
     (case uuid_Parse L attemptIDStr of
       Inl e \<Rightarrow> Done (BadRequest ''invalid attempt_id'')
     | Inr attemptID \<Rightarrow>
     t_try (t_stmt (GetAttempt attemptID)) (\<lambda>_. Done (NotFound ''attempt not found'')) (\<lambda>attempt.
     t_try (t_stmt (Purchases_GetByID (aPurchasedTestID attempt)))
       (\<lambda>_. Done (Forbidden ''forbidden'')) (\<lambda>purchase.
     if pUserID purchase \<noteq> userID then Done (Forbidden ''forbidden'') else
     if active_status (aStatus attempt) then
       t_try (t_stmt (Sessions_GetByAttemptID attemptID))
         (\<lambda>_. Done (WriteJSON 200 (attempt_response L attempt None)))
         (\<lambda>s. Done (WriteJSON 200 (attempt_response L attempt (Some (sTerminalToken s)))))
     else Done (WriteJSON 200 (attempt_response L attempt None))))))"

lemma run_getAttempt [run_rules]: "run (getAttempt_t L ctx_user attemptIDStr) = getAttempt L ctx_user attemptIDStr"
  by (simp add: getAttempt_t_def getAttempt_def Let_def run_rules cong: run_congs)

definition submitAttempt_t ::
  "uuid_lib \<Rightarrow> uuid option \<Rightarrow> string \<Rightarrow> ('p world, response) thread"
where
  "submitAttempt_t L ctx_user attemptIDStr = (case ctx_user of
       None \<Rightarrow> Done (Unauthorized ''unauthorized'')
     | Some userID \<Rightarrow>
     (case uuid_Parse L attemptIDStr of
       Inl e \<Rightarrow> Done (BadRequest ''invalid attempt_id'')
     | Inr attemptID \<Rightarrow>
     t_try (SubmitAttempt_t L userID attemptID)
       (\<lambda>err. if err_msg err = ''attempt is not running''
              then Done (BadRequest ''attempt is not running'')
              else if err_msg err = ''unauthorized'' then Done (Forbidden ''forbidden'')
              else Done (InternalError ''failed to submit attempt''))
       (\<lambda>_. Done (WriteJSON 200 (JObj [(''status'', JStr ''submitted'')])))))"

lemma run_submitAttempt [run_rules]: "run (submitAttempt_t L ctx_user attemptIDStr) = submitAttempt L ctx_user attemptIDStr"
  by (simp add: submitAttempt_t_def submitAttempt_def Let_def run_rules cong: run_congs)

definition getScore_t ::
  "uuid_lib \<Rightarrow> uuid option \<Rightarrow> string \<Rightarrow> ('p world, response) thread"
where
  "getScore_t L ctx_user attemptIDStr = (case ctx_user of
       None \<Rightarrow> Done (Unauthorized ''unauthorized'')
     | Some userID \<Rightarrow>
     (case uuid_Parse L attemptIDStr of
       Inl e \<Rightarrow> Done (BadRequest ''invalid attempt_id'')
     | Inr attemptID \<Rightarrow>
     t_try (t_stmt (Attempts_GetByID attemptID))
       (\<lambda>_. Done (NotFound ''attempt not found'')) (\<lambda>attempt.
     t_try (t_stmt (Purchases_GetByID (aPurchasedTestID attempt)))
       (\<lambda>_. Done (NotFound ''purchase not found'')) (\<lambda>purchase.
     if pUserID purchase \<noteq> userID then Done (Forbidden ''forbidden'') else
     if aStatus attempt \<noteq> Scored then Done (NotFound ''score not available'') else
     Done (WriteJSON 200 (score_response attempt))))))"

lemma run_getScore [run_rules]: "run (getScore_t L ctx_user attemptIDStr) = getScore L ctx_user attemptIDStr"
  by (simp add: getScore_t_def getScore_def Let_def run_rules cong: run_congs)

section \<open>The orchestrator\<close>

definition handleProvisionFailure_t :: "uuid_lib \<Rightarrow> uuid \<Rightarrow> ('p world, unit) thread" where
  "handleProvisionFailure_t L attemptID =
     t_try (TransitionAttempt_t attemptID ProvisionFailed) (\<lambda>_. Done ()) (\<lambda>_.
     t_ignore (t_stmt (enqueueCleanup L attemptID))
     (t_ignore (RestoreAttemptCount_t attemptID) (Done ())))"

lemma run_handleProvisionFailure [run_rules]: "run (handleProvisionFailure_t L attemptID) = handleProvisionFailure L attemptID"
  by (simp add: handleProvisionFailure_t_def handleProvisionFailure_def Let_def run_rules cong: run_congs)

definition provision_failed_t :: "uuid_lib \<Rightarrow> uuid \<Rightarrow> go_error \<Rightarrow> ('p world, go_error + unit) thread" where
  "provision_failed_t L attemptID e = t_ignore (handleProvisionFailure_t L attemptID) (t_ok ())"

lemma run_provision_failed [run_rules]: "run (provision_failed_t L attemptID e) = provision_failed L attemptID e"
  by (simp add: provision_failed_t_def provision_failed_def Let_def run_rules cong: run_congs)

definition record_and_provision_t ::
  "'p orchestrator \<Rightarrow> uuid \<Rightarrow> string \<Rightarrow> string \<Rightarrow> topology \<Rightarrow> environment_result \<Rightarrow>
   ('p world, go_error + unit) thread"
where
  "record_and_provision_t oc attemptID privKey externalID t r =
     t_bind (t_stmt uuid_New) (\<lambda>envID.
     t_bind (t_stmt time_Now) (\<lambda>now.
     let env = new_environment envID attemptID r privKey now in
     t_try (t_stmt (Environments_Create env)) (provision_failed_t (oUUID oc) attemptID) (\<lambda>_.
     (case provision_spec_of (oProxyConfig oc) privKey externalID t r of
       Inl e \<Rightarrow> t_fail e
     | Inr spec \<Rightarrow>
     t_try (t_stmt (on_ext (oProvisioner oc spec))) (provision_failed_t (oUUID oc) attemptID) (\<lambda>_.
     t_bind (t_stmt uuid_New) (\<lambda>tokenID.
     t_bind (t_stmt uuid_New) (\<lambda>sessionID.
     t_bind (t_stmt time_Now) (\<lambda>now2.
     t_try (t_stmt (Sessions_Create
         (new_session sessionID attemptID envID (uuid_String (oUUID oc) tokenID) now2)))
       (provision_failed_t (oUUID oc) attemptID) (\<lambda>_.
     t_try (TransitionAttempt_t attemptID EnvironmentReady)
       (\<lambda>e. t_fail (wrap_err ''failed to transition attempt to ready: '' e)) (\<lambda>_.
     t_ok ()))))))))))"

lemma run_record_and_provision [run_rules]: "run (record_and_provision_t oc attemptID privKey externalID t r) = record_and_provision oc attemptID privKey externalID t r"
  by (simp add: record_and_provision_t_def record_and_provision_def Let_def run_rules cong: run_congs)

definition build_environment_t :: "'p orchestrator \<Rightarrow> uuid \<Rightarrow> attempt \<Rightarrow> ('p world, go_error + unit) thread" where
  "build_environment_t oc attemptID attempt =
     t_try (t_stmt (on_ext (oGenerateKey oc)))
       (\<lambda>e. t_fail (wrap_err ''failed to generate SSH key: '' e)) (\<lambda>keys.
     t_try (Done (oPublicKey oc (fst keys)))
       (\<lambda>e. t_fail (wrap_err ''failed to create SSH public key: '' e)) (\<lambda>pubKey.
     t_try (Done (oPrivateKeyPEM oc (snd keys)))
       (\<lambda>e. t_fail (wrap_err ''failed to marshal SSH private key: '' e)) (\<lambda>privKey.
     t_try (t_stmt (Purchases_GetByID (aPurchasedTestID attempt)))
       (\<lambda>e. t_fail (wrap_err ''purchase not found: '' e)) (\<lambda>purchase.
     t_try (t_stmt (Tests_GetByID (pTestID purchase)))
       (\<lambda>e. t_fail (wrap_err ''test not found: '' e)) (\<lambda>test.
     t_try (t_stmt (Scenarios_GetVersion (tScenarioVersionID test)))
       (\<lambda>e. t_fail (wrap_err ''scenario version not found: '' e)) (\<lambda>version.
     (case decode_topology (vTopologyJSON version) of
       None \<Rightarrow> t_fail (wrap_err ''failed to unmarshal topology: '' (External ''json''))
     | Some t \<Rightarrow>
     t_bind (t_stmt uuid_New) (\<lambda>tagID.
     t_try (t_stmt (on_ext (CreateEnvironment (oProvider oc)
         (environment_spec_of (uuid_String (oUUID oc) attemptID)
            (uuid_String (oUUID oc) tagID) pubKey t))))
       (provision_failed_t (oUUID oc) attemptID)
       (record_and_provision_t oc attemptID privKey (vExternalID version) t)))))))))"

lemma run_build_environment [run_rules]: "run (build_environment_t oc attemptID attempt) = build_environment oc attemptID attempt"
  by (simp add: build_environment_t_def build_environment_def Let_def run_rules cong: run_congs)

definition handleProvisionEnvironment_t :: "'p orchestrator \<Rightarrow> json \<Rightarrow> ('p world, go_error + unit) thread" where
  "handleProvisionEnvironment_t oc payload =
     (case parse_attempt_payload (oUUID oc) payload of Inl e \<Rightarrow> t_fail e | Inr attemptID \<Rightarrow>
     t_try (t_stmt (Attempts_GetByID attemptID))
       (\<lambda>e. t_fail (wrap_err ''attempt not found: '' e)) (\<lambda>attempt.
     if aStatus attempt \<noteq> AttemptRequested \<and> aStatus attempt \<noteq> EnvironmentProvisioning
     then t_ok () else
     if aStatus attempt = AttemptRequested then
       t_try (TransitionAttempt_t attemptID EnvironmentProvisioning)
         (\<lambda>e. t_fail (wrap_err ''failed to transition attempt: '' e))
         (\<lambda>_. build_environment_t oc attemptID attempt)
     else build_environment_t oc attemptID attempt))"

lemma run_handleProvisionEnvironment [run_rules]: "run (handleProvisionEnvironment_t oc payload) = handleProvisionEnvironment oc payload"
  by (simp add: handleProvisionEnvironment_t_def handleProvisionEnvironment_def Let_def run_rules cong: run_congs)

definition handleCleanupEnvironment_t :: "'p orchestrator \<Rightarrow> json \<Rightarrow> ('p world, go_error + unit) thread" where
  "handleCleanupEnvironment_t oc payload =
     (case parse_attempt_payload (oUUID oc) payload of Inl e \<Rightarrow> t_fail e | Inr attemptID \<Rightarrow>
     t_try (t_stmt (Environments_GetByAttemptID attemptID)) (\<lambda>_. t_ok ()) (\<lambda>env.
     t_try (t_stmt (Environments_UpdateStatus (eID env) EnvDestroying))
       (\<lambda>e. t_fail (wrap_err ''failed to update environment status: '' e)) (\<lambda>_.
     t_try (t_stmt (on_ext (DestroyEnvironment (oProvider oc) (eProviderMetadata env))))
       (\<lambda>e. t_ignore (t_stmt (Environments_UpdateStatus (eID env) EnvFailed))
              (t_fail (wrap_err ''failed to destroy environment: '' e))) (\<lambda>_.
     t_try (t_stmt (Environments_UpdateStatus (eID env) EnvDestroyed))
       (\<lambda>e. t_fail (wrap_err ''failed to update environment status: '' e)) (\<lambda>_.
     t_ignore (TransitionAttempt_t attemptID Destroyed)
     (t_ok ()))))))"

lemma run_handleCleanupEnvironment [run_rules]: "run (handleCleanupEnvironment_t oc payload) = handleCleanupEnvironment oc payload"
  by (simp add: handleCleanupEnvironment_t_def handleCleanupEnvironment_def Let_def run_rules cong: run_congs)

section \<open>Grading\<close>

definition run_in_session_t :: "'p ssh_lib \<Rightarrow> check_row \<Rightarrow> nat \<Rightarrow> ('p world, go_error + check_result) thread" where
  "run_in_session_t S check session =
     t_bind (t_stmt (on_ext (ssh_Run S session (ckCommand check)))) (\<lambda>r.
     case r of (oc, out, err) \<Rightarrow>
     (case oc of
       RunError e \<Rightarrow> t_fail (wrap_err ''failed to run command: '' e)
     | ExitError code \<Rightarrow> t_bind (t_stmt time_Now) (\<lambda>now. t_ok (check_result_of check code out err now))
     | RunOk \<Rightarrow> t_bind (t_stmt time_Now) (\<lambda>now. t_ok (check_result_of check 0 out err now))))"

lemma run_outcome_case [run_rules]:
  "run (case c of RunOk \<Rightarrow> v | ExitError n \<Rightarrow> u n | RunError e \<Rightarrow> t e) =
    (case c of RunOk \<Rightarrow> run v | ExitError n \<Rightarrow> run (u n) | RunError e \<Rightarrow> run (t e))"
  by (simp split: run_outcome.split)

lemma run_run_in_session [run_rules]: "run (run_in_session_t S check session) = run_in_session S check session"
  by (simp add: run_in_session_t_def run_in_session_def run_rules cong: run_congs run_outcome.case_cong)

definition RunCheck_t ::
  "'p ssh_lib \<Rightarrow> check_row \<Rightarrow> string \<Rightarrow> string \<Rightarrow> ('p world, go_error + check_result) thread"
where
  "RunCheck_t S check workstationIP sshKey =
     (case ssh_ParsePrivateKey S sshKey of
       Inl e \<Rightarrow> t_fail (wrap_err ''failed to parse SSH key: '' e)
     | Inr signer \<Rightarrow>
     t_try (t_stmt (on_ext (ssh_Dial S (workstationIP @ '':22'') signer)))
       (\<lambda>e. t_fail (wrap_err ''failed to dial SSH: '' e)) (\<lambda>client.
     t_deferred (t_stmt (on_ext (ssh_CloseClient S client)))
      (t_try (t_stmt (on_ext (ssh_NewSession S client)))
        (\<lambda>e. t_fail (wrap_err ''failed to create SSH session: '' e)) (\<lambda>session.
       t_deferred (t_stmt (on_ext (ssh_CloseSession S session)))
         (run_in_session_t S check session)))))"

lemma run_RunCheck [run_rules]: "run (RunCheck_t S check workstationIP sshKey) = RunCheck S check workstationIP sshKey"
  by (simp add: RunCheck_t_def RunCheck_def Let_def run_rules cong: run_congs)

fun grade_checks_t ::
  "'p ssh_lib \<Rightarrow> environment \<Rightarrow> check_row list \<Rightarrow> int \<Rightarrow> int \<Rightarrow> ('p world, go_error + (int \<times> int)) thread"
where
  "grade_checks_t S env [] totalScore maxScore = t_ok (totalScore, maxScore)"
| "grade_checks_t S env (check # checks) totalScore maxScore =
     (let maxScore' = i64 (maxScore + ckPoints check)
      in (case eWorkstationIP env of
           None \<Rightarrow> t_fail (Panic ''nil pointer dereference'')
         | Some ip \<Rightarrow>
         t_try (RunCheck_t S check ip (eSSHPrivateKey env))
           (\<lambda>_. grade_checks_t S env checks totalScore maxScore') (\<lambda>r.
         grade_checks_t S env checks (i64 (totalScore + crPointsAwarded r)) maxScore')))"

lemma run_grade_checks [run_rules]:
  "run (grade_checks_t S env checks totalScore maxScore) = grade_checks S env checks totalScore maxScore"
  by (induction checks arbitrary: totalScore maxScore) (simp_all add: Let_def run_rules cong: run_congs)

definition GradeAttempt_t :: "uuid_lib \<Rightarrow> 'p ssh_lib \<Rightarrow> json \<Rightarrow> ('p world, go_error + unit) thread" where
  "GradeAttempt_t L S payload =
     (case parse_attempt_payload L payload of Inl e \<Rightarrow> t_fail e | Inr attemptID \<Rightarrow>
     t_try (t_stmt (Attempts_GetByID attemptID))
       (\<lambda>e. t_fail (wrap_err ''attempt not found: '' e)) (\<lambda>attempt.
     t_try (TransitionAttempt_t attemptID Grading)
       (\<lambda>e. t_fail (wrap_err ''failed to transition to grading: '' e)) (\<lambda>_.
     t_try (t_stmt (Purchases_GetByID (aPurchasedTestID attempt)))
       (\<lambda>e. t_fail (wrap_err ''purchase not found: '' e)) (\<lambda>purchase.
     t_try (t_stmt (Tests_GetByID (pTestID purchase)))
       (\<lambda>e. t_fail (wrap_err ''test not found: '' e)) (\<lambda>test.
     t_try (t_stmt (Scenarios_ListChecksByScenarioVersion (tScenarioVersionID test)))
       (\<lambda>e. t_fail (wrap_err ''failed to list checks: '' e)) (\<lambda>checks.
     t_try (t_stmt (Environments_GetByAttemptID attemptID))
       (\<lambda>e. t_fail (wrap_err ''environment not found: '' e)) (\<lambda>env.
     t_try (grade_checks_t S env checks 0 0) t_fail (\<lambda>scores.
     t_try (t_stmt (Attempts_UpdateScore attemptID (fst scores) (snd scores)))
       (\<lambda>e. t_fail (wrap_err ''failed to update score: '' e)) (\<lambda>_.
     t_try (TransitionAttempt_t attemptID Scored)
       (\<lambda>e. t_fail (wrap_err ''failed to transition to scored: '' e)) (\<lambda>_.
     t_ignore (t_stmt (Enqueue CleanupEnvironmentJob (attempt_payload L attemptID) None))
     (t_ok ())))))))))))"

lemma run_GradeAttempt [run_rules]: "run (GradeAttempt_t L S payload) = GradeAttempt L S payload"
  by (simp add: GradeAttempt_t_def GradeAttempt_def Let_def run_rules cong: run_congs)

section \<open>The reconciler\<close>

definition reconcile_enqueue_t :: "uuid_lib \<Rightarrow> uuid \<Rightarrow> ('p world, unit) thread" where
  "reconcile_enqueue_t L attemptID =
     t_try (t_stmt (Enqueue CleanupEnvironmentJob (attempt_payload L attemptID) None))
       (\<lambda>_. Done ()) (\<lambda>_. Done ())"

lemma run_reconcile_enqueue [run_rules]: "run (reconcile_enqueue_t L attemptID) = reconcile_enqueue L attemptID"
  by (simp add: reconcile_enqueue_t_def reconcile_enqueue_def Let_def run_rules cong: run_congs)

definition stale_step_t :: "uuid_lib \<Rightarrow> int \<Rightarrow> attempt \<Rightarrow> ('p world, unit) thread" where
  "stale_step_t L staleThreshold attempt =
     (if aCreatedAt attempt < staleThreshold then
        t_ignore (TransitionAttempt_t (aID attempt) ProvisionFailed)
          (reconcile_enqueue_t L (aID attempt))
      else Done ())"

lemma run_stale_step [run_rules]: "run (stale_step_t L staleThreshold attempt) = stale_step L staleThreshold attempt"
  by (simp add: stale_step_t_def stale_step_def Let_def run_rules cong: run_congs)

definition cleanupStaleProvisioning_t :: "uuid_lib \<Rightarrow> ('p world, unit) thread" where
  "cleanupStaleProvisioning_t L =
     t_try (t_stmt (Attempts_ListByStatus (attempt_status_string EnvironmentProvisioning)))
       (\<lambda>_. Done ()) (\<lambda>attempts.
     t_bind (t_stmt time_Now) (\<lambda>now.
     let staleThreshold = now - minutes 30 in
     t_for_each attempts (stale_step_t L staleThreshold)))"

lemma run_cleanupStaleProvisioning [run_rules]: "run (cleanupStaleProvisioning_t L) = cleanupStaleProvisioning L"
  by (simp add: cleanupStaleProvisioning_t_def cleanupStaleProvisioning_def Let_def run_rules cong: run_congs)

definition cleanupPendingAttempts_t :: "uuid_lib \<Rightarrow> ('p world, unit) thread" where
  "cleanupPendingAttempts_t L =
     t_try (t_stmt (Attempts_ListByStatus (attempt_status_string CleanupPending)))
       (\<lambda>_. Done ()) (\<lambda>attempts.
     t_for_each attempts (\<lambda>attempt. reconcile_enqueue_t L (aID attempt)))"

lemma run_cleanupPendingAttempts [run_rules]: "run (cleanupPendingAttempts_t L) = cleanupPendingAttempts L"
  by (simp add: cleanupPendingAttempts_t_def cleanupPendingAttempts_def Let_def run_rules cong: run_congs)

definition terminal_step_t :: "uuid_lib \<Rightarrow> attempt \<Rightarrow> ('p world, unit) thread" where
  "terminal_step_t L attempt =
     t_try (t_stmt (Environments_GetByAttemptID (aID attempt))) (\<lambda>_. Done ()) (\<lambda>env.
     if eStatus env = EnvDestroyed then Done () else reconcile_enqueue_t L (aID attempt))"

lemma run_terminal_step [run_rules]: "run (terminal_step_t L attempt) = terminal_step L attempt"
  by (simp add: terminal_step_t_def terminal_step_def Let_def run_rules cong: run_congs)

definition cleanupTerminalStates_t :: "uuid_lib \<Rightarrow> ('p world, unit) thread" where
  "cleanupTerminalStates_t L =
     t_for_each [Scored, ExpiredBeforeStart] (\<lambda>status.
       t_try (t_stmt (Attempts_ListByStatus (attempt_status_string status)))
         (\<lambda>_. Done ()) (\<lambda>attempts.
       t_for_each attempts (terminal_step_t L)))"

lemma run_cleanupTerminalStates [run_rules]: "run (cleanupTerminalStates_t L) = cleanupTerminalStates L"
  by (simp add: cleanupTerminalStates_t_def cleanupTerminalStates_def Let_def run_rules cong: run_congs)

definition reconcile_t :: "uuid_lib \<Rightarrow> ('p world, unit) thread" where
  "reconcile_t L =
     t_ignore (cleanupStaleProvisioning_t L)
     (t_ignore (cleanupPendingAttempts_t L)
     (cleanupTerminalStates_t L))"

lemma run_reconcile [run_rules]: "run (reconcile_t L) = reconcile L"
  by (simp add: reconcile_t_def reconcile_def Let_def run_rules cong: run_congs)

section \<open>The terminal\<close>

definition first_open_t :: "session \<Rightarrow> ('p world, unit) thread" where
  "first_open_t session =
     (if sFirstOpenedAt session = None then
        t_bind (t_stmt time_Now) (\<lambda>now.
        t_ignore (t_stmt (Sessions_UpdateFirstOpenedAt (sID session) now))
        (t_ignore (TransitionAttempt_t (sAttemptID session) TerminalOpened)
        (t_ignore (TransitionAttempt_t (sAttemptID session) Running)
        (Done ()))))
      else Done ())"

lemma run_first_open [run_rules]: "run (first_open_t session) = first_open session"
  by (simp add: first_open_t_def first_open_def Let_def run_rules cong: run_congs)

definition handleWebSocket_t ::
  "'p term_lib \<Rightarrow> (string \<Rightarrow> json option) \<Rightarrow> pump_event list \<Rightarrow> string \<Rightarrow>
   ('p world, ws_result) thread"
where
  "handleWebSocket_t T parse events token =
     t_try (t_stmt (Sessions_GetByTerminalToken token))
       (\<lambda>_. Done (HttpReply (http_Error ''invalid token'' 401))) (\<lambda>session.
     t_try (t_stmt (Attempts_GetByID (sAttemptID session)))
       (\<lambda>_. Done (HttpReply (http_Error ''attempt not found'' 404))) (\<lambda>attempt.
     if \<not> connectable (aStatus attempt)
     then Done (HttpReply (http_Error ''attempt not active'' 403)) else
     t_try (t_stmt (Environments_GetByID (sEnvironmentID session)))
       (\<lambda>_. Done (HttpReply (http_Error ''environment not found'' 404))) (\<lambda>env.
     t_try (t_stmt (on_ext (tl_Upgrade T))) (\<lambda>_. Done NotUpgraded) (\<lambda>ws.
     t_deferred (t_stmt (on_ext (tl_CloseWS T ws)))
      (t_ignore (first_open_t session)
      (case eWorkstationIP env of
         None \<Rightarrow> Done Crashed
       | Some ip \<Rightarrow> t_stmt (on_ext (open_shell T parse events ws ip (eSSHPrivateKey env)))))))))"

lemma run_handleWebSocket [run_rules]: "run (handleWebSocket_t T parse events token) = handleWebSocket T parse events token"
  by (simp add: handleWebSocket_t_def handleWebSocket_def Let_def run_rules cong: run_congs)

end
