(* ===== verification/Server_Threads.thy ===== *)
theory Server_Threads
  imports Attempt_Threads System
begin

text \<open>
  The rest of the server cut at its statements, and the server as a pool of threads
  (\<open>cmd/server/main.go\<close>).  \<open>serve_t\<close> is what a request does, \<open>Work_t\<close> a run of a job, with
  the same routes, middleware and registrations as \<open>serve\<close> and \<open>Work\<close>; \<open>run_serve\<close> and \<open>run_Work\<close>
  tie them to those.  Pages that only read, and the login, are left as one step.  A transaction
  is one step: what it writes is seen by the others when it is committed.

  In \<open>conc_step\<close> requests arrive, jobs are started (the same job more than once, if River has
  lost track of it), the reconciler ticks, scenarios are imported, and any thread that has not
  finished makes its next step.
\<close>

section \<open>Billing\<close>

definition create_purchase_t :: "uuid \<Rightarrow> uuid \<Rightarrow> test \<Rightarrow> ('p world, go_error + uuid) thread" where
  "create_purchase_t userID testID test =
     t_bind (t_stmt time_Now) (\<lambda>now.
     let expiresAt = now + hours_duration (tAccessWindowHours test) in
     t_bind (t_stmt uuid_New) (\<lambda>i.
     t_bind (t_stmt time_Now) (\<lambda>created.
     t_try (t_stmt (Purchases_Create (new_purchase i userID test testID expiresAt created)))
       (\<lambda>e. t_fail (wrap_err ''failed to create purchase: '' e)) (\<lambda>_. t_ok i))))"

lemma run_create_purchase [run_rules]: "run (create_purchase_t userID testID test) = create_purchase userID testID test"
  by (simp add: create_purchase_t_def create_purchase_def Let_def run_rules cong: run_congs)

definition HandleCheckoutCompleted_t ::
  "uuid_lib \<Rightarrow> checkout_session \<Rightarrow> ('p world, go_error + unit) thread"
where
  "HandleCheckoutCompleted_t L sess =
     (case csMetadata sess ''user_id'' of
       None \<Rightarrow> t_fail (Plain ''missing user_id in metadata'')
     | Some userIDStr \<Rightarrow>
     (case csMetadata sess ''test_id'' of
       None \<Rightarrow> t_fail (Plain ''missing test_id in metadata'')
     | Some testIDStr \<Rightarrow>
     (case uuid_Parse L userIDStr of
       Inl e \<Rightarrow> t_fail (wrap_err ''invalid user_id: '' e)
     | Inr userID \<Rightarrow>
     (case uuid_Parse L testIDStr of
       Inl e \<Rightarrow> t_fail (wrap_err ''invalid test_id: '' e)
     | Inr testID \<Rightarrow>
     t_try (t_stmt (Tests_GetByID testID))
       (\<lambda>e. t_fail (wrap_err ''test not found: '' e)) (\<lambda>test.
     t_try (create_purchase_t userID testID test) t_fail (\<lambda>_. t_ok ()))))))"

lemma run_HandleCheckoutCompleted [run_rules]: "run (HandleCheckoutCompleted_t L sess) = HandleCheckoutCompleted L sess"
  by (simp add: HandleCheckoutCompleted_t_def HandleCheckoutCompleted_def Let_def run_rules cong: run_congs)

definition CreateFreePurchase_t :: "uuid \<Rightarrow> uuid \<Rightarrow> ('p world, go_error + uuid) thread" where
  "CreateFreePurchase_t userID testID =
     t_try (t_stmt (Tests_GetByID testID))
       (\<lambda>e. t_fail (wrap_err ''test not found: '' e)) (\<lambda>test.
     t_try (t_stmt (Products_GetByID (tProductID test)))
       (\<lambda>e. t_fail (wrap_err ''product not found: '' e)) (\<lambda>product.
     if \<not> pdIsFree product then t_fail (Plain ''test is not free'') else
     create_purchase_t userID testID test))"

lemma run_CreateFreePurchase [run_rules]: "run (CreateFreePurchase_t userID testID) = CreateFreePurchase userID testID"
  by (simp add: CreateFreePurchase_t_def CreateFreePurchase_def Let_def run_rules cong: run_congs)

definition webhook_Handle_t ::
  "'p billing_service \<Rightarrow> string \<Rightarrow> string option \<Rightarrow> string \<Rightarrow> ('p world, response) thread"
where
  "webhook_Handle_t s webhookSecret body signature =
     (case body of
       None \<Rightarrow> Done (http_Error ''failed to read body'' 400)
     | Some payload \<Rightarrow>
     if MaxBodyBytes < length payload then Done (http_Error ''failed to read body'' 400) else
     (case stripe_ConstructEvent (bsStripe s) payload signature webhookSecret of
       Inl e \<Rightarrow> Done (http_Error ''invalid signature'' 400)
     | Inr event \<Rightarrow>
     if seType event = ''checkout.session.completed'' then
       (case stripe_DecodeSession (bsStripe s) (seRaw event) of
         None \<Rightarrow> Done (http_Error ''failed to parse event'' 400)
       | Some sess \<Rightarrow>
         t_try (HandleCheckoutCompleted_t (bsUUID s) sess)
           (\<lambda>_. Done (http_Error ''processing failed'' 500)) (\<lambda>_. Done ok_response))
     else Done ok_response))"

lemma run_webhook_Handle [run_rules]: "run (webhook_Handle_t s webhookSecret body signature) = webhook_Handle s webhookSecret body signature"
  by (simp add: webhook_Handle_t_def webhook_Handle_def Let_def run_rules cong: run_congs)

definition acquireFree_t ::
  "uuid_lib \<Rightarrow> uuid option \<Rightarrow> json option \<Rightarrow> ('p world, response) thread"
where
  "acquireFree_t L ctx_user body = (case ctx_user of
       None \<Rightarrow> Done (Unauthorized ''unauthorized'')
     | Some userID \<Rightarrow>
     (case parse_test_request L body of
       Inl r \<Rightarrow> Done r
     | Inr testID \<Rightarrow>
     t_try (CreateFreePurchase_t userID testID)
       (\<lambda>err. if err_msg err = ''test is not free''
              then Done (BadRequest ''test is not free'')
              else Done (InternalError ''failed to create free purchase''))
       (\<lambda>purchaseID. Done (WriteJSON 200
          (JObj [(''purchase_id'', JStr (uuid_String L purchaseID))])))))"

lemma run_acquireFree [run_rules]: "run (acquireFree_t L ctx_user body) = acquireFree L ctx_user body"
  by (simp add: acquireFree_t_def acquireFree_def Let_def run_rules cong: run_congs)

section \<open>Authentication\<close>

definition ValidateToken_t :: "'p auth_config \<Rightarrow> string \<Rightarrow> ('p world, go_error + uuid) thread" where
  "ValidateToken_t c tokenString =
     t_bind (t_stmt time_Now) (\<lambda>now.
     (case jwt_ParseWithClaims (acLib c) tokenString (acSecret c) now of
       Inl e \<Rightarrow> t_fail e
     | Inr r \<Rightarrow> (if \<not> snd r then t_fail jwt_ErrTokenInvalidClaims else t_ok (clUserID (fst r)))))"

lemma run_ValidateToken [run_rules]: "run (ValidateToken_t c tokenString) = ValidateToken c tokenString"
  by (simp add: ValidateToken_t_def ValidateToken_def Let_def run_rules cong: run_congs)

definition auth_Middleware_t ::
  "'p auth_config \<Rightarrow> request_auth \<Rightarrow> (uuid option \<Rightarrow> ('p world, response) thread) \<Rightarrow>
   ('p world, response) thread"
where
  "auth_Middleware_t c r nxt =
     (let token = extractToken r in
      if token = '''' then Done (http_Error ''unauthorized'' 401) else
      t_try (ValidateToken_t c token)
        (\<lambda>_. Done (http_Error ''unauthorized'' 401)) (\<lambda>userID. nxt (Some userID)))"

lemma run_auth_Middleware [run_rules]:
  "run (auth_Middleware_t c r nxt) = auth_Middleware c r (\<lambda>u. run (nxt u))"
  by (simp add: auth_Middleware_t_def auth_Middleware_def Let_def run_rules cong: run_congs)

definition Register_t :: "'p auth_config \<Rightarrow> string \<Rightarrow> string \<Rightarrow> ('p world, go_error + user) thread" where
  "Register_t c email password =
     t_try (t_stmt (Users_GetByEmail email)) (\<lambda>_.
       t_try (t_stmt (on_ext (bcrypt_GenerateFromPassword (acLib c) password)))
         (\<lambda>e. t_fail (wrap_err ''failed to hash password: '' e)) (\<lambda>hash.
       t_bind (t_stmt uuid_New) (\<lambda>i.
       t_bind (t_stmt time_Now) (\<lambda>now.
       let user = \<lparr>uID = i, uEmail = email, uPasswordHash = hash, uIsAdmin = False,
                   uCreatedAt = now\<rparr> in
       t_try (t_stmt (Users_Create user))
         (\<lambda>e. t_fail (wrap_err ''failed to create user: '' e)) (\<lambda>_. t_ok user)))))
     (\<lambda>_. t_fail ErrEmailExists)"

lemma run_Register [run_rules]: "run (Register_t c email password) = Register c email password"
  by (simp add: Register_t_def Register_def Let_def run_rules cong: run_congs)

definition register_t :: "'p auth_config \<Rightarrow> json option \<Rightarrow> ('p world, response) thread" where
  "register_t c body = (case read_credentials body of
       Inl r \<Rightarrow> Done r
     | Inr req \<Rightarrow>
     t_try (Register_t c (crEmail req) (crPassword req))
       (\<lambda>err. if err = ErrEmailExists then Done (BadRequest ''email already exists'')
              else Done (InternalError ''registration failed''))
       (\<lambda>user. Done (WriteJSON 201 (JObj
          [(''id'', JStr (uuid_String (acUUID c) (uID user))),
           (''email'', JStr (uEmail user))]))))"

lemma run_register [run_rules]: "run (register_t c body) = register c body"
  by (simp add: register_t_def register_def Let_def run_rules cong: run_congs)

section \<open>Administration\<close>

definition admin_Middleware_t ::
  "(uuid option \<Rightarrow> ('p world, response) thread) \<Rightarrow> uuid option \<Rightarrow> ('p world, response) thread"
where
  "admin_Middleware_t nxt ctx_user = (case ctx_user of
       None \<Rightarrow> Done (http_Error ''unauthorized'' 401)
     | Some userID \<Rightarrow>
     t_try (t_stmt (Users_GetByID userID))
       (\<lambda>_. Done (http_Error ''unauthorized'' 401)) (\<lambda>user.
     if \<not> uIsAdmin user then Done (http_Error ''forbidden'' 403) else nxt ctx_user))"

lemma run_admin_Middleware [run_rules]:
  "run (admin_Middleware_t nxt ctx_user) = admin_Middleware (\<lambda>u. run (nxt u)) ctx_user"
  by (simp add: admin_Middleware_t_def admin_Middleware_def run_rules cong: run_congs)

definition retryProvision_t :: "uuid_lib \<Rightarrow> string \<Rightarrow> ('p world, response) thread" where
  "retryProvision_t L attemptIDStr = (case uuid_Parse L attemptIDStr of
       Inl e \<Rightarrow> Done (BadRequest ''invalid attempt_id'')
     | Inr attemptID \<Rightarrow>
     t_try (t_stmt (Attempts_GetByID attemptID))
       (\<lambda>_. Done (NotFound ''attempt not found'')) (\<lambda>attempt.
     if aStatus attempt \<noteq> ProvisionFailed
     then Done (BadRequest ''attempt is not in provision_failed state'') else
     t_try (TransitionAttempt_t attemptID AttemptRequested)
       (\<lambda>_. Done (InternalError ''failed to reset attempt'')) (\<lambda>_.
     t_try (t_stmt (Enqueue ProvisionEnvironmentJob (attempt_payload L attemptID) None))
       (\<lambda>_. Done (InternalError ''failed to enqueue provisioning'')) (\<lambda>_.
     Done (status_response ''retrying'')))))"

lemma run_retryProvision [run_rules]: "run (retryProvision_t L attemptIDStr) = retryProvision L attemptIDStr"
  by (simp add: retryProvision_t_def retryProvision_def Let_def run_rules cong: run_congs)

definition retryGrade_t :: "uuid_lib \<Rightarrow> string \<Rightarrow> ('p world, response) thread" where
  "retryGrade_t L attemptIDStr = (case uuid_Parse L attemptIDStr of
       Inl e \<Rightarrow> Done (BadRequest ''invalid attempt_id'')
     | Inr attemptID \<Rightarrow>
     t_try (t_stmt (Enqueue GradeAttemptJob (attempt_payload L attemptID) None))
       (\<lambda>_. Done (InternalError ''failed to enqueue grading'')) (\<lambda>_.
     Done (status_response ''regrading'')))"

lemma run_retryGrade [run_rules]: "run (retryGrade_t L attemptIDStr) = retryGrade L attemptIDStr"
  by (simp add: retryGrade_t_def retryGrade_def Let_def run_rules cong: run_congs)

definition forceDestroy_t :: "uuid_lib \<Rightarrow> string \<Rightarrow> ('p world, response) thread" where
  "forceDestroy_t L envIDStr = (case uuid_Parse L envIDStr of
       Inl e \<Rightarrow> Done (BadRequest ''invalid environment_id'')
     | Inr envID \<Rightarrow>
     t_try (t_stmt (Environments_GetByID envID))
       (\<lambda>_. Done (NotFound ''environment not found'')) (\<lambda>env.
     t_try (t_stmt (Enqueue CleanupEnvironmentJob (attempt_payload L (eAttemptID env)) None))
       (\<lambda>_. Done (InternalError ''failed to enqueue cleanup'')) (\<lambda>_.
     Done (status_response ''destroying''))))"

lemma run_forceDestroy [run_rules]: "run (forceDestroy_t L envIDStr) = forceDestroy L envIDStr"
  by (simp add: forceDestroy_t_def forceDestroy_def Let_def run_rules cong: run_congs)

definition createTest_t :: "uuid_lib \<Rightarrow> json option \<Rightarrow> ('p world, response) thread" where
  "createTest_t L body = (case read_create_request body of
       None \<Rightarrow> Done (BadRequest ''invalid request body'')
     | Some req \<Rightarrow>
     if ctTitle req = '''' then Done (BadRequest ''title is required'') else
     if ctDurationMinutes req \<le> 0 \<or> ctAccessWindowHours req \<le> 0 \<or> ctAttemptsAllowed req \<le> 0
     then Done (BadRequest
       ''duration_minutes, access_window_hours, and attempts_allowed must be positive'') else
     if \<not> ctIsFree req \<and> no_price (ctStripePriceID req)
     then Done (BadRequest ''stripe_price_id is required for paid tests'') else
     t_bind (t_stmt time_Now) (\<lambda>now.
     t_bind (t_stmt uuid_New) (\<lambda>productID.
     t_bind (t_stmt uuid_New) (\<lambda>testID.
     t_bind (t_stmt (transaction
         [(insert_product (create_product_of req productID now), ''failed to create product''),
          (insert_test (create_test_of req testID productID now), ''failed to create test'')]))
       (\<lambda>r. case r of
         Some msg \<Rightarrow> Done (InternalError msg)
       | None \<Rightarrow>
         t_try (t_stmt (Tests_GetWithProduct testID))
           (\<lambda>_. Done (InternalError ''failed to fetch created test''))
           (\<lambda>t. Done (WriteJSON 201 (testWithProductToResponse L t))))))))"

lemma run_createTest [run_rules]: "run (createTest_t L body) = createTest L body"
  by (simp add: createTest_t_def createTest_def Let_def run_rules cong: run_congs)

definition updateTest_t :: "uuid_lib \<Rightarrow> string \<Rightarrow> json option \<Rightarrow> ('p world, response) thread" where
  "updateTest_t L testIDStr body = (case uuid_Parse L testIDStr of
       Inl e \<Rightarrow> Done (BadRequest ''invalid test_id'')
     | Inr testID \<Rightarrow>
     (case read_update_request body of
       None \<Rightarrow> Done (BadRequest ''invalid request body'')
     | Some req \<Rightarrow>
     t_try (t_stmt (Tests_GetWithProduct testID))
       (\<lambda>_. Done (NotFound ''test not found'')) (\<lambda>existing.
     t_try (t_stmt (Products_GetByID (tProductID (twTest existing))))
       (\<lambda>_. Done (InternalError ''failed to fetch product'')) (\<lambda>stored.
     let product = patch_product req stored in
     if \<not> pdIsFree product \<and> no_price (pdStripePriceID product)
     then Done (BadRequest ''stripe_price_id is required for paid tests'') else
     t_try (t_stmt (Products_Update product))
       (\<lambda>_. Done (InternalError ''failed to update product'')) (\<lambda>_.
     (case patch_test req (twTest existing) of
       Inl r \<Rightarrow> Done r
     | Inr test \<Rightarrow>
     t_try (t_stmt (Tests_Update test))
       (\<lambda>_. Done (InternalError ''failed to update test'')) (\<lambda>_.
     t_try (t_stmt (Tests_GetWithProduct testID))
       (\<lambda>_. Done (InternalError ''failed to fetch updated test''))
       (\<lambda>t. Done (WriteJSON 200 (testWithProductToResponse L t))))))))))"

lemma run_updateTest [run_rules]: "run (updateTest_t L testIDStr body) = updateTest L testIDStr body"
  by (simp add: updateTest_t_def updateTest_def Let_def run_rules cong: run_congs)

definition deleteTest_t :: "uuid_lib \<Rightarrow> string \<Rightarrow> ('p world, response) thread" where
  "deleteTest_t L testIDStr = (case uuid_Parse L testIDStr of
       Inl e \<Rightarrow> Done (BadRequest ''invalid test_id'')
     | Inr testID \<Rightarrow>
     t_try (t_stmt (Tests_GetByID testID))
       (\<lambda>_. Done (NotFound ''test not found'')) (\<lambda>existing.
     t_try (t_stmt (Tests_HasPurchases testID))
       (\<lambda>_. Done (InternalError ''failed to check purchases'')) (\<lambda>hasPurchases.
     if hasPurchases
     then Done (BadRequest ''cannot delete test with existing purchases'') else
     t_bind (t_stmt (transaction
         [(delete_test testID, ''failed to delete test''),
          (delete_product (tProductID existing), ''failed to delete product'')]))
       (\<lambda>r. case r of
         Some msg \<Rightarrow> Done (InternalError msg)
       | None \<Rightarrow> Done (status_response ''deleted'')))))"

lemma run_deleteTest [run_rules]: "run (deleteTest_t L testIDStr) = deleteTest L testIDStr"
  by (simp add: deleteTest_t_def deleteTest_def Let_def run_rules cong: run_congs)

section \<open>The importer\<close>

fun import_tasks_t ::
  "(string \<rightharpoonup> string) \<Rightarrow> uuid \<Rightarrow> int \<Rightarrow> task list \<Rightarrow> (string \<rightharpoonup> uuid) \<Rightarrow>
   ('p world, go_error + (string \<rightharpoonup> uuid)) thread"
where
  "import_tasks_t prompts svID now [] taskUUIDs = t_ok taskUUIDs"
| "import_tasks_t prompts svID now (t # ts) taskUUIDs =
     t_bind (t_stmt uuid_New) (\<lambda>i.
     t_try (t_stmt (Scenarios_CreateTask (task_row_of prompts svID now t i)))
       (\<lambda>e. t_fail (wrap_err (''creating task '' @ skID t @ '': '') e))
       (\<lambda>_. import_tasks_t prompts svID now ts (taskUUIDs(skID t \<mapsto> i))))"

lemma run_import_tasks [run_rules]:
  "run (import_tasks_t prompts svID now ts taskUUIDs) = import_tasks prompts svID now ts taskUUIDs"
  by (induction ts arbitrary: taskUUIDs) (simp_all add: run_rules)

fun import_checks_t :: "(string \<rightharpoonup> uuid) \<Rightarrow> int \<Rightarrow> check list \<Rightarrow> ('p world, go_error + unit) thread" where
  "import_checks_t taskUUIDs now [] = t_ok ()"
| "import_checks_t taskUUIDs now (c # cs) = (case taskUUIDs (chTaskID c) of
       None \<Rightarrow> t_fail (Plain (''check '' @ chID c @ '' references unknown task '' @ chTaskID c))
     | Some taskUUID \<Rightarrow>
       t_bind (t_stmt uuid_New) (\<lambda>i.
       t_try (t_stmt (Scenarios_CreateCheck (check_row_of now c taskUUID i)))
         (\<lambda>e. t_fail (wrap_err (''creating check '' @ chID c @ '': '') e))
         (\<lambda>_. import_checks_t taskUUIDs now cs)))"

lemma run_import_checks [run_rules]:
  "run (import_checks_t taskUUIDs now cs) = import_checks taskUUIDs now cs"
  by (induction cs) (simp_all add: run_rules cong: run_congs)

definition find_or_create_product_t :: "string \<Rightarrow> int \<Rightarrow> ('p world, go_error + product) thread" where
  "find_or_create_product_t title now =
     t_try (t_stmt (Products_GetByTitle title)) (\<lambda>_.
       t_bind (t_stmt uuid_New) (\<lambda>i.
       let product = \<lparr>pdID = i, pdStripePriceID = None, pdTitle = title,
             pdDescription = title, pdIsFree = False, pdCreatedAt = now\<rparr> in
       t_try (t_stmt (Products_Create product))
         (\<lambda>e. t_fail (wrap_err ''creating product: '' e)) (\<lambda>_. t_ok product)))
     (\<lambda>product. t_ok product)"

lemma run_find_or_create_product [run_rules]: "run (find_or_create_product_t title now) = find_or_create_product title now"
  by (simp add: find_or_create_product_t_def find_or_create_product_def Let_def run_rules cong: run_congs)

definition import_test_t :: "scenario \<Rightarrow> uuid \<Rightarrow> int \<Rightarrow> product \<Rightarrow> ('p world, go_error + unit) thread" where
  "import_test_t s svID now product =
     t_bind (t_stmt uuid_New) (\<lambda>i.
     t_try (t_stmt (Tests_Create \<lparr>tID = i, tProductID = pdID product, tScenarioVersionID = svID,
         tDurationMinutes = scDurationMinutes s, tAccessWindowHours = scAccessWindowHours s,
         tAttemptsAllowed = scAttemptsAllowed s, tCreatedAt = now\<rparr>))
       (\<lambda>e. t_fail (wrap_err ''creating test: '' e)) (\<lambda>_. t_ok ()))"

lemma run_import_test [run_rules]: "run (import_test_t s svID now product) = import_test s svID now product"
  by (simp add: import_test_t_def import_test_def Let_def run_rules cong: run_congs)

definition import_new_version_t :: "parsed_scenario \<Rightarrow> string \<Rightarrow> ('p world, go_error + unit) thread" where
  "import_new_version_t ps gitCommit =
     (let s = ipScenario ps in
     t_bind (t_stmt time_Now) (\<lambda>now.
     t_bind (t_stmt uuid_New) (\<lambda>svID.
     t_try (t_stmt (Scenarios_CreateVersion (version_row s gitCommit svID now)))
       (\<lambda>e. t_fail (wrap_err ''creating scenario version: '' e)) (\<lambda>_.
     t_try (import_tasks_t (ipPrompts ps) svID now (scTasks s) Map.empty) t_fail (\<lambda>taskUUIDs.
     t_try (import_checks_t taskUUIDs now (cfChecks (ipChecks ps))) t_fail (\<lambda>_.
     t_try (find_or_create_product_t (scTitle s) now) t_fail (\<lambda>product.
     import_test_t s svID now product)))))))"

lemma run_import_new_version [run_rules]: "run (import_new_version_t ps gitCommit) = import_new_version ps gitCommit"
  by (simp add: import_new_version_t_def import_new_version_def Let_def run_rules cong: run_congs)

definition importParsedScenario_t :: "parsed_scenario \<Rightarrow> string \<Rightarrow> ('p world, go_error + unit) thread" where
  "importParsedScenario_t ps gitCommit =
     t_try (t_stmt (Scenarios_GetVersionByExternalID (scID (ipScenario ps)) gitCommit))
       (\<lambda>e. if e \<noteq> sql_ErrNoRows
            then t_fail (wrap_err ''checking existing scenario version: '' e)
            else import_new_version_t ps gitCommit)
       (\<lambda>existing. t_ok ())"

lemma run_importParsedScenario [run_rules]: "run (importParsedScenario_t ps gitCommit) = importParsedScenario ps gitCommit"
  by (simp add: importParsedScenario_t_def importParsedScenario_def Let_def run_rules cong: run_congs)

definition ImportAll_t :: "repo \<Rightarrow> string \<Rightarrow> ('p world, go_error + unit) thread" where
  "ImportAll_t r repoPath =
     (if repoPath = '''' then t_fail (Plain ''scenario repo path is empty'') else
     (let gitCommit = resolveGitCommit r repoPath in
     (case discoverScenarios r repoPath of
       Inl e \<Rightarrow> t_fail e
     | Inr discovered \<Rightarrow>
       if discovered = [] then t_ok () else
       t_ignore (t_for_each discovered (\<lambda>ps. importParsedScenario_t ps gitCommit)) (t_ok ()))))"

lemma run_ImportAll [run_rules]: "run (ImportAll_t r repoPath) = ImportAll r repoPath"
  by (simp add: ImportAll_t_def ImportAll_def Let_def run_rules cong: run_congs)

section \<open>Routes and jobs\<close>

fun admin_route_t :: "'p server \<Rightarrow> admin_endpoint \<Rightarrow> ('p world, response) thread" where
  "admin_route_t sv (RetryProvision s) = retryProvision_t (svUUID sv) s"
| "admin_route_t sv (RetryGrade s) = retryGrade_t (svUUID sv) s"
| "admin_route_t sv (ForceDestroy s) = forceDestroy_t (svUUID sv) s"
| "admin_route_t sv (AdminListAttempts s) = t_stmt (admin_listAttempts (svUUID sv) s)"
| "admin_route_t sv AdminListEnvironments = t_stmt admin_listEnvironments"
| "admin_route_t sv AdminListTests = t_stmt (admin_listTests (svUUID sv))"
| "admin_route_t sv (AdminGetTest s) = t_stmt (admin_getTest (svUUID sv) s)"
| "admin_route_t sv (AdminCreateTest b) = createTest_t (svUUID sv) b"
| "admin_route_t sv (AdminUpdateTest s b) = updateTest_t (svUUID sv) s b"
| "admin_route_t sv (AdminDeleteTest s) = deleteTest_t (svUUID sv) s"

fun user_route_t :: "'p server \<Rightarrow> user_endpoint \<Rightarrow> uuid option \<Rightarrow> ('p world, response) thread" where
  "user_route_t sv Me ctx = t_stmt (HandleMe (svUUID sv) ctx)"
| "user_route_t sv (Checkout b) ctx = t_stmt (checkout (svBilling sv) ctx b)"
| "user_route_t sv (AcquireFree b) ctx = acquireFree_t (svUUID sv) ctx b"
| "user_route_t sv Dashboard ctx = t_stmt (dashboard (svUUID sv) (svRFC3339 sv) ctx)"
| "user_route_t sv (CreateAttempt b) ctx = createAttempt_t (svUUID sv) ctx b"
| "user_route_t sv (GetAttemptById s) ctx = getAttempt_t (svUUID sv) ctx s"
| "user_route_t sv (SubmitAttemptById s) ctx = submitAttempt_t (svUUID sv) ctx s"
| "user_route_t sv (GetScore s) ctx = getScore_t (svUUID sv) ctx s"
| "user_route_t sv (OpenTerminal tok evs) ctx =
     t_bind (handleWebSocket_t (svTerm sv) (svParseJSON sv) evs tok) (\<lambda>r. Done (terminal_reply r))"
| "user_route_t sv (AdminRoute e) ctx = admin_Middleware_t (\<lambda>_. admin_route_t sv e) ctx"

fun serve_t :: "'p server \<Rightarrow> endpoint \<Rightarrow> ('p world, response) thread" where
  "serve_t sv Healthz = Done healthz"
| "serve_t sv (RegisterUser b) = register_t (svAuth sv) b"
| "serve_t sv (LoginUser b) = t_stmt (login (svAuth sv) b)"
| "serve_t sv LogoutUser = t_stmt logout"
| "serve_t sv (StripeWebhook b sig) = webhook_Handle_t (svBilling sv) (svWebhookSecret sv) b sig"
| "serve_t sv CatalogTests = t_stmt (catalog_listTests (svUUID sv))"
| "serve_t sv (Protected ra e) = auth_Middleware_t (svAuth sv) ra (user_route_t sv e)"
| "serve_t sv (Frontend urlPath headers) = Done (frontend sv urlPath headers)"

fun job_thread :: "'p server \<Rightarrow> job_kind \<Rightarrow> json \<Rightarrow> ('p world, go_error + unit) thread" where
  "job_thread sv ProvisionEnvironmentJob = handleProvisionEnvironment_t (svOrchestrator sv)"
| "job_thread sv CleanupEnvironmentJob = handleCleanupEnvironment_t (svOrchestrator sv)"
| "job_thread sv GradeAttemptJob = GradeAttempt_t (svUUID sv) (svSSH sv)"
| "job_thread sv ExpireAttemptJob = HandleExpireAttempt_t (svUUID sv)"

definition Work_t :: "'p server \<Rightarrow> job \<Rightarrow> ('p world, go_error + unit) thread" where
  "Work_t sv j = t_try (job_thread sv (jKind j) (jPayload j)) t_fail (\<lambda>_. t_ok ())"

lemma run_admin_route [run_rules]: "run (admin_route_t sv e) = admin_route sv e"
  by (cases e) (simp_all add: run_rules)

lemma run_user_route [run_rules]: "run (user_route_t sv e ctx) = user_route sv e ctx"
  by (cases e) (simp_all add: run_rules)

lemma run_serve: "run (serve_t sv e) = serve sv e"
  by (cases e) (simp_all add: run_rules)

lemma run_Work: "run (Work_t sv j) = Work (server_worker sv) j"
  by (cases "jKind j") (simp_all add: Work_t_def Work_def run_rules)

section \<open>The pool\<close>

datatype thread_result = Answered response | Worked "go_error + unit" | Background

type_synonym 'p pool = "('p world, thread_result) thread list"

definition request_thread :: "'p server \<Rightarrow> endpoint \<Rightarrow> ('p world, thread_result) thread" where
  "request_thread sv e = t_bind (serve_t sv e) (\<lambda>r. Done (Answered r))"

definition worker_thread :: "'p server \<Rightarrow> job \<Rightarrow> ('p world, thread_result) thread" where
  "worker_thread sv j = t_bind (Work_t sv j) (\<lambda>r. Done (Worked r))"

definition tick_thread :: "'p server \<Rightarrow> ('p world, thread_result) thread" where
  "tick_thread sv = t_ignore (reconcile_t (oUUID (svOrchestrator sv))) (Done Background)"

definition import_thread :: "'p server \<Rightarrow> ('p world, thread_result) thread" where
  "import_thread sv = t_ignore (ImportAll_t (svRepo sv) (svRepoPath sv)) (Done Background)"

inductive conc_step :: "'p server \<Rightarrow> 'p pool \<times> 'p world \<Rightarrow> 'p pool \<times> 'p world \<Rightarrow> bool" for sv :: "'p server" where
  arrive: "conc_step sv (ts, w) (ts @ [request_thread sv e], w)"
| start_job: "j \<in> set (w_jobs w) \<Longrightarrow> conc_step sv (ts, w) (ts @ [worker_thread sv j], w)"
| start_tick: "conc_step sv (ts, w) (ts @ [tick_thread sv], w)"
| start_import: "conc_step sv (ts, w) (ts @ [import_thread sv], w)"
| advance: "k < length ts \<Longrightarrow> ts ! k = Step f \<Longrightarrow> f w = (t, w') \<Longrightarrow> conc_step sv (ts, w) (ts[k := t], w')"
| job_done: "conc_step sv (ts, w) (ts, w\<lparr>w_jobs := nths (w_jobs w) kept\<rparr>)"
| outcomes: "conc_step sv (ts, w) (ts, w\<lparr>w_faults := fs\<rparr>)"
| outside: "conc_step sv (ts, w) (ts, w\<lparr>w_ext := p\<rparr>)"

text \<open>The process may be killed at any time and started again: the threads are gone, the database is as they left it.\<close>

inductive conc_reachable :: "'p server \<Rightarrow> 'p pool \<Rightarrow> 'p world \<Rightarrow> bool" for sv :: "'p server" where
  start: "fresh_install w \<Longrightarrow> conc_reachable sv [] w"
| step: "conc_reachable sv ts w \<Longrightarrow> conc_step sv (ts, w) (ts', w') \<Longrightarrow> conc_reachable sv ts' w'"
| restart: "conc_reachable sv ts w \<Longrightarrow> conc_reachable sv [] w"

end
