(* ===== verification/Concurrency.thy ===== *)
theory Concurrency
  imports Server_Threads Records
begin

text \<open>
  What the threads of the server guarantee each other.  The invariant \<open>live_inv\<close> is that of the
  reachable worlds (\<open>system_inv\<close>) and that every attempt that is in use is \<open>furnished\<close>, with a
  session and an environment of its own.  The relation \<open>stays\<close> is what no statement takes back:
  the rows of \<open>append_only\<close>, and the attempts with all but their status and score.  Every
  statement that a thread can come to keeps the one and respects the other, nearly all of them
  from every state (\<open>lawful\<close>); the statements that put an attempt to use do so in the states in
  which their thread comes to them.  So every thread is \<open>guided\<close>, and so is every pool that the
  server can reach.
\<close>

section \<open>What stays\<close>

definition attempt_facts :: "attempt \<Rightarrow> uuid \<times> uuid \<times> int option \<times> int option \<times> int" where
  "attempt_facts a = (aID a, aPurchasedTestID a, aStartedAt a, aEndedAt a, aCreatedAt a)"

text \<open>Attempts are only added; and the clock that is read is the same one throughout.\<close>

definition attempts_grow :: "'p world \<Rightarrow> 'p world \<Rightarrow> bool" where
  "attempts_grow w w' \<longleftrightarrow> grows attempt_facts any_row (w_attempts w) (w_attempts w') \<and> w_clock w' = w_clock w"

definition stays :: "'p world \<Rightarrow> 'p world \<Rightarrow> bool" where
  "stays w w' \<longleftrightarrow> append_only w w' \<and> attempts_grow w w'"

lemma attempts_grow_same: "w_attempts w' = w_attempts w \<Longrightarrow> w_clock w' = w_clock w \<Longrightarrow> attempts_grow w w'"
  by (simp add: attempts_grow_def)

interpretation grow: world_effect "attempts_grow :: 'p world \<Rightarrow> _"
  by unfold_locales (simp_all add: attempts_grow_def, auto intro: grows_trans)

lemma attempts_grow_others:
  "obeys attempts_grow (Users_Create u :: ('p world, unit) eprog)"
  "obeys attempts_grow (sql_exec (insert_product pd) :: ('p world, nat) eprog)"
  "obeys attempts_grow (sql_exec (delete_product i) :: ('p world, nat) eprog)"
  "obeys attempts_grow (Products_Update pd :: ('p world, unit) eprog)"
  "obeys attempts_grow (sql_exec (insert_test t) :: ('p world, nat) eprog)"
  "obeys attempts_grow (sql_exec (delete_test i) :: ('p world, nat) eprog)"
  "obeys attempts_grow (Tests_Update t :: ('p world, unit) eprog)"
  "obeys attempts_grow (Purchases_Create pu :: ('p world, unit) eprog)"
  "obeys attempts_grow (Purchases_IncrementAttemptsRemaining i :: ('p world, unit) eprog)"
  "obeys attempts_grow (Environments_Create e :: ('p world, unit) eprog)"
  "obeys attempts_grow (Environments_UpdateStatus i es :: ('p world, unit) eprog)"
  "obeys attempts_grow (Sessions_Create s :: ('p world, unit) eprog)"
  "obeys attempts_grow (Sessions_UpdateFirstOpenedAt i now :: ('p world, unit) eprog)"
  "obeys attempts_grow (Scenarios_CreateVersion v :: ('p world, unit) eprog)"
  "obeys attempts_grow (Scenarios_CreateTask tk :: ('p world, unit) eprog)"
  "obeys attempts_grow (Scenarios_CreateCheck ck :: ('p world, unit) eprog)"
  "obeys attempts_grow (Enqueue k payload opts :: ('p world, unit) eprog)"
  unfolding store_defs insert_product_def delete_product_def insert_test_def delete_test_def Enqueue_def
  by ((rule grow.obeys_exec_only grow.obeys_sql_exec), rule attempts_grow_same; force split: if_splits)+

lemma attempts_grow_decrement:
  "obeys attempts_grow (Purchases_DecrementAttemptsRemaining i :: ('p world, unit) eprog)"
  unfolding store_defs Let_def
  by (intro grow.obeys_try grow.obeys_sql_exec grow.obeys_if grow.obeys_fail grow.obeys_ok
      attempts_grow_same) auto

lemma attempts_grow_attempts:
  "obeys attempts_grow (Attempts_Create a :: ('p world, unit) eprog)"
  "obeys attempts_grow (Attempts_UpdateStatus i st :: ('p world, unit) eprog)"
  "obeys attempts_grow (Attempts_UpdateScore i sc mx :: ('p world, unit) eprog)"
  unfolding store_defs
  by (rule grow.obeys_exec_only, force simp: attempts_grow_def attempt_facts_def split: if_splits)+

lemma attempts_grow_transition: "obeys attempts_grow (TransitionAttempt i to :: ('p world, unit) eprog)"
  unfolding TransitionAttempt_def Attempts_GetByID_def
  by (intro grow.obeys_try grow.obeys_sql_get grow.obeys_if grow.obeys_fail grow.obeys_ok
      attempts_grow_attempts)

interpretation grow: table_effect "attempts_grow :: 'p world \<Rightarrow> _"
  by unfold_locales
     (rule attempts_grow_others attempts_grow_decrement attempts_grow_attempts attempts_grow_transition)+

interpretation kept: world_effect "stays :: 'p world \<Rightarrow> _"
  by unfold_locales
     (auto simp: stays_def intro: rec.refl grow.refl rec.trans grow.trans
       rec.faults grow.faults rec.uuid_pos grow.uuid_pos rec.clock_pos grow.clock_pos rec.ext grow.ext)

section \<open>What an attempt in use has\<close>

definition in_use :: "attempt_status set" where
  "in_use = {EnvironmentReady, TerminalOpened, Running, Submitted, Grading, Scored}"

text \<open>A session of the attempt, on an environment of the same attempt that has an address.\<close>

definition furnished :: "uuid \<Rightarrow> 'p world \<Rightarrow> bool" where
  "furnished i w \<longleftrightarrow> (\<exists>s \<in> set (w_sessions w). sAttemptID s = i \<and>
     (\<exists>e \<in> set (w_environments w). eID e = sEnvironmentID s \<and> eAttemptID e = i \<and> eWorkstationIP e \<noteq> None))"

definition equipped :: "'p world \<Rightarrow> bool" where
  "equipped w \<longleftrightarrow> (\<forall>a \<in> set (w_attempts w). aStatus a \<in> in_use \<longrightarrow> furnished (aID a) w)"

text \<open>A statement that puts no attempt to use.\<close>

definition promotes_none :: "'p world \<Rightarrow> 'p world \<Rightarrow> bool" where
  "promotes_none w w' \<longleftrightarrow> (\<forall>b \<in> set (w_attempts w'). aStatus b \<in> in_use \<longrightarrow>
     (\<exists>a \<in> set (w_attempts w). aID a = aID b \<and> aStatus a \<in> in_use))"

definition live_inv :: "'p world \<Rightarrow> bool" where
  "live_inv w \<longleftrightarrow> system_inv w \<and> equipped w"

lemma furnished_append: "furnished i w \<Longrightarrow> append_only w w' \<Longrightarrow> furnished i w'"
proof -
  assume "furnished i w" and "append_only w w'"
  then obtain s e where s: "s \<in> set (w_sessions w)" "sAttemptID s = i"
    and e: "e \<in> set (w_environments w)" "eID e = sEnvironmentID s" "eAttemptID e = i" "eWorkstationIP e \<noteq> None"
    and "grows session_facts any_row (w_sessions w) (w_sessions w')"
    and "grows environment_facts any_row (w_environments w) (w_environments w')"
    by (auto simp: furnished_def append_only_def)
  then obtain s' e' where "s' \<in> set (w_sessions w')" "session_facts s' = session_facts s"
    and "e' \<in> set (w_environments w')" "environment_facts e' = environment_facts e"
    by (meson grows_keeps)
  with s e show ?thesis by (force simp: furnished_def session_facts_def environment_facts_def)
qed

lemma furnished_stays: "furnished i w \<Longrightarrow> stays w w' \<Longrightarrow> furnished i w'"
  by (auto simp: stays_def intro: furnished_append)

lemma equipped_stays:
  "equipped w \<Longrightarrow> promotes_none w w' \<Longrightarrow> append_only w w' \<Longrightarrow> equipped w'"
  unfolding equipped_def promotes_none_def by (metis furnished_append)

lemma promotes_none_same: "w_attempts w' = w_attempts w \<Longrightarrow> promotes_none w w'"
  by (auto simp: promotes_none_def)

lemma promotes_none_trans: "promotes_none w t \<Longrightarrow> promotes_none t u \<Longrightarrow> promotes_none w u"
  unfolding promotes_none_def by metis

interpretation idle: world_effect "promotes_none :: 'p world \<Rightarrow> _"
  by unfold_locales (simp_all add: promotes_none_same, erule promotes_none_trans)

lemma idle_others:
  "obeys promotes_none (Users_Create u :: ('p world, unit) eprog)"
  "obeys promotes_none (sql_exec (insert_product pd) :: ('p world, nat) eprog)"
  "obeys promotes_none (sql_exec (delete_product i) :: ('p world, nat) eprog)"
  "obeys promotes_none (Products_Create pd :: ('p world, unit) eprog)"
  "obeys promotes_none (Products_Update pd :: ('p world, unit) eprog)"
  "obeys promotes_none (sql_exec (insert_test t) :: ('p world, nat) eprog)"
  "obeys promotes_none (sql_exec (delete_test i) :: ('p world, nat) eprog)"
  "obeys promotes_none (Tests_Create t :: ('p world, unit) eprog)"
  "obeys promotes_none (Tests_Update t :: ('p world, unit) eprog)"
  "obeys promotes_none (Purchases_Create pu :: ('p world, unit) eprog)"
  "obeys promotes_none (Purchases_IncrementAttemptsRemaining i :: ('p world, unit) eprog)"
  "obeys promotes_none (Environments_Create e :: ('p world, unit) eprog)"
  "obeys promotes_none (Environments_UpdateStatus i es :: ('p world, unit) eprog)"
  "obeys promotes_none (Sessions_Create s :: ('p world, unit) eprog)"
  "obeys promotes_none (Sessions_UpdateFirstOpenedAt i now :: ('p world, unit) eprog)"
  "obeys promotes_none (Scenarios_CreateVersion v :: ('p world, unit) eprog)"
  "obeys promotes_none (Scenarios_CreateTask tk :: ('p world, unit) eprog)"
  "obeys promotes_none (Scenarios_CreateCheck ck :: ('p world, unit) eprog)"
  "obeys promotes_none (Enqueue k payload opts :: ('p world, unit) eprog)"
  unfolding store_defs insert_product_def delete_product_def insert_test_def delete_test_def Enqueue_def
  by ((rule idle.obeys_exec_only idle.obeys_sql_exec), rule promotes_none_same; force split: if_splits)+

lemma idle_decrement:
  "obeys promotes_none (Purchases_DecrementAttemptsRemaining i :: ('p world, unit) eprog)"
  unfolding store_defs Let_def
  by (intro idle.obeys_try idle.obeys_sql_exec idle.obeys_if idle.obeys_fail idle.obeys_ok
      promotes_none_same) auto

lemma idle_attempts:
  "obeys promotes_none (Attempts_Create (new_attempt i p now) :: ('p world, unit) eprog)"
  "to \<notin> in_use \<Longrightarrow> obeys promotes_none (Attempts_UpdateStatus i to :: ('p world, unit) eprog)"
  "obeys promotes_none (Attempts_UpdateScore i sc mx :: ('p world, unit) eprog)"
  unfolding store_defs
  by (rule idle.obeys_exec_only,
      fastforce simp: promotes_none_def new_attempt_def in_use_def set_update_rows split: if_splits)+

section \<open>Lawful statements\<close>

abbreviation sound :: "('p world, 'a) prog \<Rightarrow> bool" where
  "sound m \<equiv> lawful live_inv stays m"

lemma soundI:
  assumes "obeys (keeps db_ok) m" and "obeys (keeps balances_ok) m" and "obeys (keeps working) m"
    and "obeys append_only m" and "obeys attempts_grow m" and "obeys promotes_none m"
  shows "sound m"
  using assms
  by (auto simp: lawful_def obeys_def keeps_def live_inv_def system_inv_def stays_def intro: equipped_stays)

lemma sound_reads:
  "sound (Users_GetByID i)" "sound (Users_GetByEmail em)" "sound (Products_GetByID i)"
  "sound (Products_GetByTitle ti)" "sound (Tests_GetByID i)" "sound (Tests_GetWithProduct i)"
  "sound (Tests_HasPurchases i)" "sound (Purchases_GetByID i)"
  "sound (Attempts_GetByID i)" "sound (Attempts_ListByStatus st)" "sound (GetAttempt i)"
  "sound (Environments_GetByID i)" "sound (Environments_GetByAttemptID i)"
  "sound (Sessions_GetByAttemptID i)" "sound (Sessions_GetByTerminalToken tok)"
  "sound (Scenarios_GetVersion i)" "sound (Scenarios_GetVersionByExternalID x g)"
  "sound (Scenarios_ListChecksByScenarioVersion i)"
  unfolding GetAttempt_def
  by (rule soundI; rule integ.reads bal.reads work.reads rec.reads grow.reads idle.reads)+

lemma sound_outside:
  "sound uuid_New" "sound time_Now" "sound (on_ext m)"
  by (rule soundI; blast intro: integ.obeys_uuid_New bal.obeys_uuid_New work.obeys_uuid_New rec.obeys_uuid_New
      grow.obeys_uuid_New integ.obeys_time_Now bal.obeys_time_Now work.obeys_time_Now rec.obeys_time_Now
      grow.obeys_time_Now integ.obeys_on_ext bal.obeys_on_ext work.obeys_on_ext rec.obeys_on_ext grow.obeys_on_ext
      idle.obeys_uuid_New idle.obeys_time_Now idle.obeys_on_ext)+

lemma sound_pages:
  "sound (admin_listAttempts L s)" "sound admin_listEnvironments" "sound (admin_listTests L)"
  "sound (admin_getTest L s)" "sound (HandleMe L ctx)" "sound (checkout b ctx body)"
  "sound (dashboard L fmt ctx)" "sound (login c body)" "sound logout" "sound (catalog_listTests L)"
  by (rule soundI; rule integ.read_pages bal.read_pages work.read_pages rec.read_pages grow.read_pages
      idle.read_pages)+

lemma sound_user: "uIsAdmin u = False \<Longrightarrow> sound (Users_Create u)"
  by (intro soundI integ.user_create bal.user_create work.user_create rec.user_create grow.user_create
      idle_others)

lemma sound_writes:
  "sound (Purchases_DecrementAttemptsRemaining i)"
  "sound (Purchases_IncrementAttemptsRemaining i)"
  "sound (Attempts_Create (new_attempt i p now))"
  "sound (Attempts_UpdateScore i sc mx)"
  "sound (Environments_Create e)" "sound (Environments_UpdateStatus i es)"
  "sound (Sessions_Create s)" "sound (Sessions_UpdateFirstOpenedAt i now)"
  by (intro soundI integ.decrement bal.decrement work.decrement rec.decrement grow.decrement
      integ.increment bal.increment work.increment rec.increment grow.increment
      integ.attempt_create bal.attempt_create work.attempt_create rec.attempt_create grow.attempt_create
      integ.update_score bal.update_score work.update_score rec.update_score grow.update_score
      integ.environment_create bal.environment_create work.environment_create rec.environment_create
      grow.environment_create integ.environment_status bal.environment_status work.environment_status
      rec.environment_status grow.environment_status integ.session_create bal.session_create
      work.session_create rec.session_create grow.session_create integ.session_opened bal.session_opened
      work.session_opened rec.session_opened grow.session_opened idle_others idle_decrement idle_attempts)+

lemma sound_enqueue:
  "sound (Enqueue ProvisionEnvironmentJob payload opts)" "sound (Enqueue GradeAttemptJob payload opts)"
  "sound (Enqueue CleanupEnvironmentJob payload opts)" "sound (enqueueCleanup L i)"
  unfolding enqueueCleanup_def
  by (rule soundI; rule integ.enqueues bal.enqueues work.enqueues rec.enqueues grow.enqueues idle_others)+

lemma sound_import:
  "sound (Scenarios_CreateVersion v)" "sound (Scenarios_CreateTask tk)" "sound (Scenarios_CreateCheck ck)"
  "sound (Products_Create pd)" "sound (Products_Update pd)"
  by (rule soundI; rule integ.st_version balances_others work.st_version rec.st_version grow.st_version
      integ.st_task work.st_task rec.st_task grow.st_task integ.st_check work.st_check rec.st_check
      grow.st_check integ.t_creates work.t_creates rec.t_creates grow.t_creates integ.st_update_product
      work.st_update_product rec.st_update_product grow.st_update_product idle_others)+

lemma sound_tests:
  assumes "sellable t"
  shows "sound (Tests_Create t)" and "sound (Tests_Update t)"
  by (rule soundI; rule balances_tests [OF assms] integ.t_creates work.t_creates rec.t_creates grow.t_creates
      integ.st_update_test work.st_update_test rec.st_update_test grow.st_update_test
      idle_others)+

lemma sound_purchase: "0 \<le> pAttemptsRemaining p \<Longrightarrow> sound (Purchases_Create p)"
  by (intro soundI balances_purchases integ.st_purchase work.st_purchase rec.st_purchase grow.st_purchase
      idle_others)

lemma sound_transaction:
  assumes "\<And>st msg. (st, msg) \<in> set steps \<Longrightarrow> obeys (keeps db_ok) (sql_exec st) \<and>
      obeys (keeps balances_ok) (sql_exec st) \<and> obeys (keeps working) (sql_exec st) \<and>
      obeys append_only (sql_exec st) \<and> obeys attempts_grow (sql_exec st) \<and>
      obeys promotes_none (sql_exec st)"
  shows "sound (transaction steps)"
  using assms
  by (intro soundI transaction_effect integ.world_effect_axioms bal.world_effect_axioms
      work.world_effect_axioms rec.world_effect_axioms grow.world_effect_axioms idle.world_effect_axioms) blast+

lemma sound_create_transaction:
  "sellable t \<Longrightarrow> sound (transaction [(insert_product pd, m), (insert_test t, n)])"
  by (rule sound_transaction)
     (auto intro: integ.st_insert_product balances_others work.st_insert_product rec.st_insert_product
       grow.st_insert_product integ.st_insert_test balances_insert_test work.st_insert_test
       rec.st_insert_test grow.st_insert_test idle_others)

lemma sound_delete_transaction:
  "sound (transaction [(delete_test i, m), (delete_product j, n)])"
  by (rule sound_transaction)
     (auto intro: integ.st_delete_product balances_others work.st_delete_product rec.st_delete_product
       grow.st_delete_product integ.st_delete_test balances_delete_test work.st_delete_test
       rec.st_delete_test grow.st_delete_test idle_others)

lemma keeps_working_status:
  "to \<in> working_statuses \<Longrightarrow> obeys (keeps working) (Attempts_UpdateStatus i to :: ('p world, unit) eprog)"
  unfolding store_defs by (intro work.obeys_exec_only) (auto simp: keeps_def working_def set_update_rows)

lemma sound_status: "to \<in> working_statuses \<Longrightarrow> to \<notin> in_use \<Longrightarrow> sound (Attempts_UpdateStatus i to)"
  by (rule soundI)
     (erule keeps_working_status idle_attempts |
      rule attempts_integ balances_others append_only_statements attempts_grow_attempts)+

text \<open>The status of an attempt that has its session and environment may be any.\<close>

lemma status_of_furnished:
  assumes "to \<in> working_statuses" and "furnished i w" and "live_inv w"
  shows "live_inv (snd (Attempts_UpdateStatus i to w)) \<and> stays w (snd (Attempts_UpdateStatus i to w))"
proof -
  let ?w = "snd (Attempts_UpdateStatus i to w)"
  have m: "obeys (keeps db_ok) (Attempts_UpdateStatus i to :: ('p world, unit) eprog)"
    "obeys (keeps balances_ok) (Attempts_UpdateStatus i to :: ('p world, unit) eprog)"
    "obeys append_only (Attempts_UpdateStatus i to :: ('p world, unit) eprog)"
    "obeys attempts_grow (Attempts_UpdateStatus i to :: ('p world, unit) eprog)"
    by (rule attempts_integ balances_others append_only_statements attempts_grow_attempts)+
  with keeps_working_status [OF assms(1), of i] assms(3)
  have sys: "system_inv ?w" and st: "stays w ?w"
    by (auto simp: obeys_def keeps_def live_inv_def system_inv_def stays_def)
  obtain r w1 where run: "Attempts_UpdateStatus i to w = (r, w1)" by fastforce
  then have others: "b \<in> set (w_attempts w)" if "b \<in> set (w_attempts w1)" and "aID b \<noteq> i" for b
    using run that unfolding Attempts_UpdateStatus_def
    by (elim exec_only_state) (auto simp: set_update_rows)
  have "equipped ?w"
    unfolding equipped_def
  proof (intro ballI impI)
    fix b
    assume b: "b \<in> set (w_attempts ?w)" "aStatus b \<in> in_use"
    have "furnished (aID b) w"
    proof (cases "aID b = i")
      case True
      with assms(2) show ?thesis by simp
    next
      case False
      with others run b have "b \<in> set (w_attempts w)" by simp
      with b assms(3) show ?thesis by (auto simp: live_inv_def equipped_def)
    qed
    then show "furnished (aID b) ?w" using st by (rule furnished_stays)
  qed
  with sys st show ?thesis by (simp add: live_inv_def)
qed

section \<open>What is read\<close>

lemma returns_yields: "yields I m V \<Longrightarrow> (\<And>w. system_inv w \<Longrightarrow> I w) \<Longrightarrow> returns live_inv m V"
  by (auto simp: yields_def returns_def live_inv_def)

lemma returns_test: "returns live_inv (Tests_GetByID i) sellable"
  by (rule returns_yields [OF yields_test]) (simp add: system_inv_def)

lemma returns_joined: "returns live_inv (Tests_GetWithProduct i) (\<lambda>r. sellable (twTest r))"
  by (rule returns_yields [OF yields_joined]) (simp add: system_inv_def)

lemma attempt_read:
  assumes "Attempts_GetByID i w = (Inr a, w1)"
  shows "a \<in> set (w_attempts w1)" and "aID a = i"
  using assms unfolding store_defs by (auto dest!: sql_get_InrD find_SomeD)

section \<open>Guided threads\<close>

abbreviation safe :: "('p world, 'a) thread \<Rightarrow> bool" where
  "safe t \<equiv> guided live_inv stays t"

lemmas safe_stmt = guided_stmt [where I = live_inv and R = stays]

lemmas sound_rules = sound_reads sound_outside sound_pages sound_writes sound_enqueue sound_import

lemmas safe_rules = guided_rules safe_stmt sound_rules

lemma soundD: "sound m \<Longrightarrow> m w = (x, w') \<Longrightarrow> live_inv w \<Longrightarrow> live_inv w' \<and> stays w w'"
  by (auto simp: lawful_def dest!: spec [of _ w])

text \<open>
  An attempt is put to use only from a status in which it already is, but for one edge of the
  state machine: into \<open>environment_ready\<close>.
\<close>

lemma enters_use:
  "a \<in> working_statuses \<Longrightarrow> ValidTransition a to \<Longrightarrow> to \<in> in_use \<Longrightarrow> to = EnvironmentReady \<or> a \<in> in_use"
  by (auto simp: working_statuses_def in_use_def ValidTransition_def)

lemma watched_transition:
  assumes to: "to \<in> live_targets" and ready: "to = EnvironmentReady \<Longrightarrow> furnished i w"
  shows "watched live_inv stays (TransitionAttempt_t i to) (w :: 'p world)"
  unfolding TransitionAttempt_t_def
proof (rule watched_try)
  fix s1 s2 :: "'p world" and a
  assume s1: "live_inv s1" "stays w s1" and g: "Attempts_GetByID i s1 = (Inr a, s2)"
  from soundD [OF sound_reads(9) g s1(1)] have s2: "live_inv s2" "stays s1 s2" by simp_all
  note a = attempt_read [OF g]
  with s2(1) have working: "aStatus a \<in> working_statuses"
    by (auto simp: live_inv_def system_inv_def working_def)
  have furnished: "furnished i s2" if "ValidTransition (aStatus a) to" and "to \<in> in_use"
  proof (cases "to = EnvironmentReady")
    case True
    with ready s1(2) s2(2) show ?thesis by (blast intro: furnished_stays)
  next
    case False
    with enters_use [OF working that] a s2(1) show ?thesis by (auto simp: live_inv_def equipped_def)
  qed
  show "watched live_inv stays (if \<not> ValidTransition (aStatus a) to
        then t_fail (invalid_transition (aStatus a) to)
        else t_try (t_stmt (Attempts_UpdateStatus i to))
          (\<lambda>e. t_fail (wrap_err ''failed to update status: '' e)) (\<lambda>_. t_ok ())) s2"
  proof (cases "ValidTransition (aStatus a) to")
    case False
    then show ?thesis by (simp add: guidedD guided_fail)
  next
    case True
    have to': "to \<in> working_statuses" by (rule working_target [OF working to True])
    have "live_inv (snd (Attempts_UpdateStatus i to s3)) \<and> stays s3 (snd (Attempts_UpdateStatus i to s3))"
      if "live_inv s3" and "stays s2 s3" for s3
    proof (cases "to \<in> in_use")
      case True
      from furnished [OF \<open>ValidTransition (aStatus a) to\<close> True] that(2) have "furnished i s3"
        by (rule furnished_stays)
      then show ?thesis by (rule status_of_furnished [OF to' _ that(1)])
    next
      case False
      then show ?thesis by (rule lawfulD [OF sound_status [OF to'] that(1)])
    qed
    note step = this
    have "watched live_inv stays (t_try (t_stmt (Attempts_UpdateStatus i to))
        (\<lambda>e. t_fail (wrap_err ''failed to update status: '' e)) (\<lambda>_. t_ok ())) s2"
      by (rule watched_try) (rule step guidedD [OF guided_fail] guidedD [OF guided_ok]; assumption)+
    with True show ?thesis by simp
  qed
qed (rule lawfulD [OF sound_reads(9)] guidedD guided_fail; assumption?)+

lemma safe_transition: "to \<in> live_targets \<Longrightarrow> to \<noteq> EnvironmentReady \<Longrightarrow> safe (TransitionAttempt_t i to)"
  by (rule guidedI, rule watched_transition) auto

lemma safe_transitions:
  "safe (TransitionAttempt_t i AttemptRequested)" "safe (TransitionAttempt_t i EnvironmentProvisioning)"
  "safe (TransitionAttempt_t i TerminalOpened)"
  "safe (TransitionAttempt_t i Running)" "safe (TransitionAttempt_t i Submitted)"
  "safe (TransitionAttempt_t i Grading)" "safe (TransitionAttempt_t i Scored)"
  "safe (TransitionAttempt_t i Destroyed)" "safe (TransitionAttempt_t i ProvisionFailed)"
  by (simp_all add: safe_transition live_targets_def)

lemma safe_RestoreAttemptCount: "safe (RestoreAttemptCount_t i)"
  unfolding RestoreAttemptCount_t_def by (intro safe_rules)

lemma safe_attempts:
  "safe (createAttempt_t L ctx body)" "safe (getAttempt_t L ctx str)" "safe (submitAttempt_t L ctx str)"
  "safe (getScore_t L ctx str)"
  unfolding createAttempt_t_def RequestAttempt_t_def start_attempt_t_def getAttempt_t_def
    submitAttempt_t_def SubmitAttempt_t_def getScore_t_def Let_def
  by (intro safe_rules safe_transitions)+

lemma safe_provision_failed: "safe (provision_failed_t L i e)"
  unfolding provision_failed_t_def handleProvisionFailure_t_def
  by (intro safe_rules safe_transitions safe_RestoreAttemptCount)

text \<open>
  The provisioning job: the row of the environment stays, so the session it opens finds it, and
  only then is the attempt marked ready.
\<close>

definition recorded_environment :: "uuid \<Rightarrow> uuid \<Rightarrow> 'p world \<Rightarrow> bool" where
  "recorded_environment e i w \<longleftrightarrow>
     (\<exists>r \<in> set (w_environments w). eID r = e \<and> eAttemptID r = i \<and> eWorkstationIP r \<noteq> None)"

lemma recorded_stays: "recorded_environment e i w \<Longrightarrow> stays w w' \<Longrightarrow> recorded_environment e i w'"
proof -
  assume "recorded_environment e i w" and "stays w w'"
  then obtain r where r: "r \<in> set (w_environments w)" "eID r = e" "eAttemptID r = i" "eWorkstationIP r \<noteq> None"
    and "grows environment_facts any_row (w_environments w) (w_environments w')"
    by (auto simp: recorded_environment_def stays_def append_only_def)
  then obtain r' where "r' \<in> set (w_environments w')" "environment_facts r' = environment_facts r"
    by (meson grows_keeps)
  with r show ?thesis by (force simp: recorded_environment_def environment_facts_def)
qed

lemma environment_recorded:
  "Environments_Create (new_environment e i r key now) w = (Inr x, w') \<Longrightarrow> recorded_environment e i w'"
  unfolding Environments_Create_def
  by (elim exec_only_done) (auto simp: recorded_environment_def new_environment_def split: if_splits)

lemma session_furnishes:
  assumes "Sessions_Create (new_session s i e tok now) w = (Inr x, w')" and "recorded_environment e i w"
  shows "furnished i w'"
proof -
  from assms(1) have "w_sessions w' = w_sessions w @ [new_session s i e tok now] \<and>
      w_environments w' = w_environments w"
    unfolding Sessions_Create_def by (elim exec_only_done) (auto split: if_splits)
  with assms(2) show ?thesis by (auto simp: furnished_def recorded_environment_def new_session_def)
qed

lemma watched_session:
  assumes "recorded_environment e i w"
  shows "watched live_inv stays (t_try (t_stmt (Sessions_Create (new_session s i e tok now)))
    (provision_failed_t L i) (\<lambda>_.
     t_try (TransitionAttempt_t i EnvironmentReady)
       (\<lambda>e. t_fail (wrap_err ''failed to transition attempt to ready: '' e)) (\<lambda>_. t_ok ()))) (w :: 'p world)"
proof (rule watched_try)
  fix s1 s2 :: "'p world" and x
  assume "live_inv s1" and s1: "stays w s1" and c: "Sessions_Create (new_session s i e tok now) s1 = (Inr x, s2)"
  have "furnished i s2" by (rule session_furnishes [OF c recorded_stays [OF assms s1]])
  then show "watched live_inv stays (t_try (TransitionAttempt_t i EnvironmentReady)
       (\<lambda>e. t_fail (wrap_err ''failed to transition attempt to ready: '' e)) (\<lambda>_. t_ok ())) s2"
    unfolding t_try_def
    by (intro watched_bind watched_transition) (auto simp: live_targets_def split: sum.split intro: guided_fail guided_ok)
qed (rule lawfulD [OF sound_writes(7)] guidedD [OF safe_provision_failed]; assumption)+

lemma watched_provision:
  assumes "recorded_environment envID attemptID w"
  shows "watched live_inv stays (t_try (t_stmt (on_ext m)) (provision_failed_t (oUUID oc) attemptID) (\<lambda>_.
     t_bind (t_stmt uuid_New) (\<lambda>tokenID.
     t_bind (t_stmt uuid_New) (\<lambda>sessionID.
     t_bind (t_stmt time_Now) (\<lambda>now2.
     t_try (t_stmt (Sessions_Create
         (new_session sessionID attemptID envID (uuid_String (oUUID oc) tokenID) now2)))
       (provision_failed_t (oUUID oc) attemptID) (\<lambda>_.
     t_try (TransitionAttempt_t attemptID EnvironmentReady)
       (\<lambda>e. t_fail (wrap_err ''failed to transition attempt to ready: '' e)) (\<lambda>_.
     t_ok ()))))))) (w :: 'p world)"
proof -
  let ?P = "recorded_environment envID attemptID"
  note under = recorded_stays [where e = envID and i = attemptID]
  show ?thesis
    by (rule watched_try_under [where P = ?P, OF sound_outside(3) assms under safe_provision_failed], assumption+,
        rule watched_stmt_under [where P = ?P, OF sound_outside(1) _ under], assumption+,
        rule watched_stmt_under [where P = ?P, OF sound_outside(1) _ under], assumption+,
        rule watched_stmt_under [where P = ?P, OF sound_outside(2) _ under], assumption+,
        rule watched_session)
qed

lemma safe_record_and_provision: "safe (record_and_provision_t oc i key ext t r :: ('p world, _) thread)"
  unfolding record_and_provision_t_def Let_def
proof (intro guided_bind safe_stmt sound_outside guided_try_at [OF sound_writes(5)] safe_provision_failed)
  fix envID now x and s1 s2 :: "'p world"
  assume "Environments_Create (new_environment envID i r key now) s1 = (Inr x, s2)"
  then have e: "recorded_environment envID i s2" by (rule environment_recorded)
  show "watched live_inv stays (case provision_spec_of (oProxyConfig oc) key ext t r of Inl e \<Rightarrow> t_fail e
    | Inr spec \<Rightarrow> t_try (t_stmt (on_ext (oProvisioner oc spec))) (provision_failed_t (oUUID oc) i) (\<lambda>_.
     t_bind (t_stmt uuid_New) (\<lambda>tokenID.
     t_bind (t_stmt uuid_New) (\<lambda>sessionID.
     t_bind (t_stmt time_Now) (\<lambda>now2.
     t_try (t_stmt (Sessions_Create
         (new_session sessionID i envID (uuid_String (oUUID oc) tokenID) now2)))
       (provision_failed_t (oUUID oc) i) (\<lambda>_.
     t_try (TransitionAttempt_t i EnvironmentReady)
       (\<lambda>e. t_fail (wrap_err ''failed to transition attempt to ready: '' e)) (\<lambda>_.
     t_ok ()))))))) s2"
    by (cases "provision_spec_of (oProxyConfig oc) key ext t r")
       (simp_all only: sum.case guidedD [OF guided_fail] watched_provision [OF e])
qed

lemma safe_handleProvisionEnvironment: "safe (handleProvisionEnvironment_t oc payload)"
  unfolding handleProvisionEnvironment_t_def build_environment_t_def
  by (intro safe_rules safe_transitions safe_provision_failed safe_record_and_provision)

lemma safe_handleCleanupEnvironment: "safe (handleCleanupEnvironment_t oc payload)"
  unfolding handleCleanupEnvironment_t_def by (intro safe_rules safe_transitions)

lemma safe_RunCheck: "safe (RunCheck_t S check ip key)"
proof -
  have "safe (run_in_session_t S check session)" for session
    unfolding run_in_session_t_def
    by (intro safe_rules) (auto split: run_outcome.split intro!: safe_rules)
  then show ?thesis unfolding RunCheck_t_def by (intro safe_rules)
qed

lemma safe_grade_checks: "safe (grade_checks_t S env checks ts ms)"
  by (induction checks arbitrary: ts ms)
     (auto simp: Let_def split: option.split intro!: guided_ok guided_fail guided_try safe_RunCheck)

lemma safe_GradeAttempt: "safe (GradeAttempt_t L S payload)"
  unfolding GradeAttempt_t_def by (intro safe_rules safe_transitions safe_grade_checks)

lemma safe_reconcile: "safe (reconcile_t L)"
  unfolding reconcile_t_def cleanupStaleProvisioning_t_def cleanupPendingAttempts_t_def
    cleanupTerminalStates_t_def stale_step_t_def terminal_step_t_def reconcile_enqueue_t_def Let_def
  by (intro safe_rules safe_transitions)

lemma safe_handleWebSocket: "safe (handleWebSocket_t T parse events token)"
  unfolding handleWebSocket_t_def first_open_t_def by (intro safe_rules safe_transitions)

lemma safe_create_purchase: "sellable t \<Longrightarrow> safe (create_purchase_t usr tst t)"
  unfolding create_purchase_t_def Let_def
  by (intro safe_rules sound_purchase) (simp add: new_purchase_def sellable_def)

lemma safe_billing:
  "safe (webhook_Handle_t s secret raw sig)" "safe (acquireFree_t L ctx body)"
  unfolding webhook_Handle_t_def acquireFree_t_def HandleCheckoutCompleted_t_def CreateFreePurchase_t_def
  by (intro guided_Done guided_if guided_option guided_sum guided_fail guided_ok
      guided_read [OF sound_reads(5) returns_test] guided_try safe_stmt sound_reads
      safe_create_purchase; assumption?)+

lemma safe_register: "safe (register_t c body)"
  unfolding register_t_def Register_t_def Let_def by (intro safe_rules sound_user) simp

lemma safe_auth_Middleware: "(\<And>u. safe (nxt u)) \<Longrightarrow> safe (auth_Middleware_t c r nxt)"
  unfolding auth_Middleware_t_def ValidateToken_t_def Let_def by (intro safe_rules)

lemma safe_admin_Middleware: "(\<And>u. safe (nxt u)) \<Longrightarrow> safe (admin_Middleware_t nxt ctx)"
  unfolding admin_Middleware_t_def by (intro safe_rules)

lemma safe_createTest: "safe (createTest_t L body)"
  unfolding createTest_t_def
  by (intro safe_rules sound_create_transaction) (auto simp: sellable_def create_test_of_def)

lemma safe_updateTest: "safe (updateTest_t L str body)"
  unfolding updateTest_t_def Let_def
proof (intro guided_sum guided_option guided_Done guided_read [OF sound_reads(6) returns_joined])
  fix testID req existing
  assume ex: "sellable (twTest existing)"
  have "safe (case patch_test req (twTest existing) of Inl r \<Rightarrow> Done r
    | Inr test \<Rightarrow> t_try (t_stmt (Tests_Update test))
        (\<lambda>_. Done (InternalError ''failed to update test'')) (\<lambda>_. t_try (t_stmt (Tests_GetWithProduct testID))
           (\<lambda>_. Done (InternalError ''failed to fetch updated test''))
           (\<lambda>t. Done (WriteJSON 200 (testWithProductToResponse L t)))))"
    by (intro safe_rules sound_tests) (rule patch_test_sellable [OF _ ex])
  then show "safe (t_try (t_stmt (Products_GetByID (tProductID (twTest existing))))
       (\<lambda>_. Done (InternalError ''failed to fetch product'')) (\<lambda>stored.
     if \<not> pdIsFree (patch_product req stored) \<and> no_price (pdStripePriceID (patch_product req stored))
     then Done (BadRequest ''stripe_price_id is required for paid tests'') else
     t_try (t_stmt (Products_Update (patch_product req stored)))
       (\<lambda>_. Done (InternalError ''failed to update product'')) (\<lambda>_.
     (case patch_test req (twTest existing) of Inl r \<Rightarrow> Done r
     | Inr test \<Rightarrow> t_try (t_stmt (Tests_Update test))
       (\<lambda>_. Done (InternalError ''failed to update test'')) (\<lambda>_. t_try (t_stmt (Tests_GetWithProduct testID))
         (\<lambda>_. Done (InternalError ''failed to fetch updated test''))
         (\<lambda>t. Done (WriteJSON 200 (testWithProductToResponse L t))))))))"
    by (intro guided_try guided_if guided_Done safe_stmt sound_reads sound_import)
qed

lemma safe_deleteTest: "safe (deleteTest_t L str)"
  unfolding deleteTest_t_def by (intro safe_rules sound_delete_transaction)

lemma safe_admin:
  "safe (retryProvision_t L str)" "safe (retryGrade_t L str)" "safe (forceDestroy_t L str)"
  unfolding retryProvision_t_def retryGrade_t_def forceDestroy_t_def
  by (intro safe_rules safe_transitions)+

lemma safe_import_tasks: "safe (import_tasks_t prompts sv now ts ids)"
  by (induction ts arbitrary: ids) (auto intro!: safe_rules)

lemma safe_import_checks: "safe (import_checks_t ids now cs)"
  by (induction cs) (simp_all only: import_checks_t.simps, (intro safe_rules; assumption?)+)

lemma safe_importParsedScenario: "valid_scenario (ipScenario ps) \<Longrightarrow> safe (importParsedScenario_t ps g)"
  unfolding importParsedScenario_t_def import_new_version_t_def find_or_create_product_t_def
    import_test_t_def Let_def
  by (intro safe_rules safe_import_tasks safe_import_checks sound_tests)
     (simp add: sellable_def valid_scenario_def)

lemma safe_ImportAll: "safe (ImportAll_t rp path)"
  unfolding ImportAll_t_def Let_def
  by (intro safe_rules safe_importParsedScenario) (rule discoverScenarios_valid)

section \<open>The server\<close>

lemma safe_admin_route: "safe (admin_route_t sv e)"
  by (cases e) (simp_all add: safe_admin safe_createTest safe_updateTest safe_deleteTest safe_stmt sound_pages)

lemma safe_user_route: "safe (user_route_t sv e ctx)"
  by (cases e)
     (simp_all add: safe_attempts safe_billing safe_stmt sound_pages safe_admin_Middleware safe_admin_route
       guided_bind safe_handleWebSocket)

lemma safe_serve: "safe (serve_t sv e)"
  by (cases e)
     (simp_all add: safe_register safe_billing safe_stmt sound_pages safe_auth_Middleware safe_user_route)

lemma safe_Work: "jKind j \<noteq> ExpireAttemptJob \<Longrightarrow> safe (Work_t sv j)"
  unfolding Work_t_def
  by (cases "jKind j")
     (auto intro!: guided_try guided_ok guided_fail safe_handleProvisionEnvironment
       safe_handleCleanupEnvironment safe_GradeAttempt)

lemma safe_threads:
  "safe (request_thread sv e)" "safe (tick_thread sv)" "safe (import_thread sv)"
  "jKind j \<noteq> ExpireAttemptJob \<Longrightarrow> safe (worker_thread sv j)"
  unfolding request_thread_def tick_thread_def import_thread_def worker_thread_def
  by (intro guided_bind guided_ignore guided_Done safe_serve safe_reconcile safe_ImportAll safe_Work; assumption)+

text \<open>The pool: the invariant holds and every thread, from where it is, keeps to it.\<close>

definition pool_ok :: "'p pool \<Rightarrow> 'p world \<Rightarrow> bool" where
  "pool_ok ts w \<longleftrightarrow> live_inv w \<and> (\<forall>t \<in> set ts. watched live_inv stays t w)"

lemma pool_ok_spawn: "pool_ok ts w \<Longrightarrow> safe t \<Longrightarrow> pool_ok (ts @ [t]) w"
  by (auto simp: pool_ok_def guidedD)

lemma pool_ok_later: "pool_ok ts w \<Longrightarrow> live_inv w' \<Longrightarrow> stays w w' \<Longrightarrow> pool_ok ts w'"
  by (auto simp: pool_ok_def intro: kept.watched_later)

lemma stays_same [simp]: "stays w (w\<lparr>w_jobs := js\<rparr>)" "stays w (w\<lparr>w_faults := fs\<rparr>)" "stays w (w\<lparr>w_ext := p\<rparr>)"
  "stays w w"
  by (simp_all add: stays_def append_only_def attempts_grow_def)

lemma live_inv_tables:
  assumes "live_inv w" and "w_attempts w' = w_attempts w" and "w_sessions w' = w_sessions w"
    and "w_environments w' = w_environments w" and "set (w_jobs w') \<subseteq> set (w_jobs w)"
    and "db_ok w' \<longleftrightarrow> db_ok w" and "balances_ok w' \<longleftrightarrow> balances_ok w"
  shows "live_inv w'"
  using assms(1,5) unfolding live_inv_def system_inv_def equipped_def furnished_def working_def
  by (simp only: assms(2,3,4,6,7)) blast

lemma live_inv_same:
  "live_inv w \<Longrightarrow> live_inv (w\<lparr>w_jobs := nths (w_jobs w) kept\<rparr>)"
  "live_inv w \<Longrightarrow> live_inv (w\<lparr>w_faults := fs\<rparr>)" "live_inv w \<Longrightarrow> live_inv (w\<lparr>w_ext := p\<rparr>)"
  by (erule live_inv_tables; simp add: set_nths_subset db_ok_defs balances_ok_def)+

lemma pool_ok_live: "pool_ok ts w \<Longrightarrow> live_inv w"
  by (simp add: pool_ok_def)

lemma conc_step_ok:
  assumes "conc_step sv (ts, w) (ts', w')" and "pool_ok ts w"
  shows "pool_ok ts' w' \<and> stays w w'"
  using assms(1)
proof cases
  case (start_job j)
  with assms(2) have "jKind j \<noteq> ExpireAttemptJob"
    by (auto simp: pool_ok_def live_inv_def system_inv_def working_def live_kinds_def)
  with start_job assms(2) show ?thesis by (simp add: pool_ok_spawn safe_threads)
next
  case (advance k f t)
  then have "Step f \<in> set ts" by (metis nth_mem)
  with assms(2) have "watched live_inv stays (Step f) w" and "live_inv w" by (simp_all add: pool_ok_def)
  note step = kept.watched_step [OF this(1) advance(4) this(2)]
  from pool_ok_later [OF assms(2) step(1,2)] step advance show ?thesis
    by (auto simp: pool_ok_def dest: set_update_subset_insert [THEN subsetD])
qed (use assms(2) pool_ok_later [OF assms(2)] pool_ok_live [OF assms(2)] in
    \<open>simp_all add: pool_ok_spawn safe_threads live_inv_same\<close>)

lemma conc_reachable_ok: "conc_reachable sv ts w \<Longrightarrow> pool_ok ts w"
proof (induction rule: conc_reachable.induct)
  case (start w)
  then have "reachable sv w" by (rule reachable.start)
  moreover from start have "equipped w" by (simp add: fresh_install_def equipped_def)
  ultimately show ?case by (simp add: pool_ok_def live_inv_def reachable_inv)
next
  case (step ts w ts' w')
  then show ?case using conc_step_ok by blast
next
  case (restart ts w)
  then show ?case by (simp add: pool_ok_def)
qed

lemma conc_steps_ok:
  assumes "(conc_step sv)\<^sup>*\<^sup>* c c'" and "pool_ok (fst c) (snd c)"
  shows "pool_ok (fst c') (snd c') \<and> stays (snd c) (snd c')"
  using assms(1)
proof (induction rule: rtranclp_induct)
  case base
  with assms(2) show ?case by simp
next
  case (step d e)
  then show ?case using conc_step_ok [of sv "fst d" "snd d" "fst e" "snd e"] by (auto intro: kept.trans)
qed

section \<open>What a thread of the pool is assured of\<close>

abbreviation assures :: "('a \<Rightarrow> 'p world \<Rightarrow> bool) \<Rightarrow> ('p world, 'a) thread \<Rightarrow> 'p world \<Rightarrow> bool" where
  "assures Q t w \<equiv> assured live_inv stays Q t w"

lemma conc_step_assures:
  assumes "conc_step sv (ts, w) (ts', w')" and "pool_ok ts w" and "k < length ts" and "assures Q (ts ! k) w"
  shows "k < length ts' \<and> assures Q (ts' ! k) w'"
proof -
  from conc_step_ok [OF assms(1,2)] have s: "stays w w'" and i: "live_inv w" using assms(2)
    by (simp_all add: pool_ok_def)
  have later: "assures Q (ts ! k) w'" by (rule kept.assured_later [OF assms(4) s])
  from assms(1) show ?thesis
  proof cases
    case (advance j f t)
    show ?thesis
    proof (cases "j = k")
      case True
      with advance assms(4) i have "assures Q t w'"
        using kept.refl [of w] by (auto simp: assured_simps)
      with True advance show ?thesis by simp
    next
      case False
      with advance later assms(3) show ?thesis by simp
    qed
  qed (use later assms(3) in \<open>simp_all add: nth_append\<close>)
qed

lemma conc_steps_assures:
  assumes "(conc_step sv)\<^sup>*\<^sup>* c c'" and "pool_ok (fst c) (snd c)" and "k < length (fst c)"
    and "assures Q (fst c ! k) (snd c)"
  shows "k < length (fst c') \<and> assures Q (fst c' ! k) (snd c')"
  using assms(1)
proof (induction rule: rtranclp_induct)
  case base
  with assms show ?case by simp
next
  case (step d e)
  from conc_steps_ok [OF step(1) assms(2)] have "pool_ok (fst d) (snd d)" by simp
  with step show ?case
    using conc_step_assures [of sv "fst d" "snd d" "fst e" "snd e" k Q] by simp
qed

text \<open>A thread that has finished has kept its promise.\<close>

lemma thread_finished:
  assumes "conc_reachable sv ts w" and "safe t" and "assures Q t w"
    and "(conc_step sv)\<^sup>*\<^sup>* (ts @ [t], w) (ts', w')" and "ts' ! length ts = Done x"
  shows "Q x w'"
proof -
  have ok: "pool_ok (ts @ [t]) w" by (rule pool_ok_spawn [OF conc_reachable_ok [OF assms(1)] assms(2)])
  have "assures Q (fst (ts', w') ! length ts) (snd (ts', w'))"
    by (rule conc_steps_assures [OF assms(4), THEN conjunct2]) (simp_all add: ok assms(3))
  with assms(5) have "assures Q (Done x) w'" by simp
  moreover have "pool_ok (fst (ts', w')) (snd (ts', w'))"
    by (rule conc_steps_ok [OF assms(4), THEN conjunct1]) (simp add: ok)
  then have "live_inv w'" by (simp add: pool_ok_live)
  ultimately show ?thesis using kept.refl [of w'] by (simp add: assured_simps)
qed

end
