(* ===== verification/Concurrency_Properties.thy ===== *)
theory Concurrency_Properties
  imports Concurrency Attempt_Properties Environment_Properties
begin

text \<open>
  Properties of the server whose threads interleave at their statements: the invariants, what is
  never taken back, who is served, and what two submissions at the same time do.  A server that
  handles one thing at a time is a special case (\<open>sequential_is_concurrent\<close>).
\<close>

section \<open>A thread that is left alone\<close>

lemma advance_last:
  "f w = (t, w') \<Longrightarrow> conc_step sv (ts @ [Step f], w) (ts @ [t], w')"
  using conc_step.advance [of "length ts" "ts @ [Step f]" f w t w'] by simp

lemma run_alone: "run t w = (x, w') \<Longrightarrow> (conc_step sv)\<^sup>*\<^sup>* (ts @ [t], w) (ts @ [Done x], w')"
proof (induction t arbitrary: w)
  case (Done y)
  then show ?case by simp
next
  case (Step f)
  obtain t w1 where f: "f w = (t, w1)" by fastforce
  then have "t \<in> Basic_BNFs.fsts (f w)" by (simp add: fsts.simps)
  moreover from Step.prems f have "run t w1 = (x, w')" by (simp add: run_Step)
  ultimately have "(conc_step sv)\<^sup>*\<^sup>* (ts @ [t], w1) (ts @ [Done x], w')" by (intro Step.IH) auto
  moreover from f have "conc_step sv (ts @ [Step f], w) (ts @ [t], w1)" by (rule advance_last)
  ultimately show ?case by (meson converse_rtranclp_into_rtranclp)
qed

lemma run_threads:
  "run (request_thread sv e) w = (case serve sv e w of (r, w') \<Rightarrow> (Answered r, w'))"
  "run (worker_thread sv j) w = (case Work (server_worker sv) j w of (r, w') \<Rightarrow> (Worked r, w'))"
  "run (tick_thread sv) w = (Background, snd (reconcile (oUUID (svOrchestrator sv)) w))"
  "run (import_thread sv) w = (Background, snd (ImportAll (svRepo sv) (svRepoPath sv) w))"
  by (simp_all add: request_thread_def worker_thread_def tick_thread_def import_thread_def run_rules
      run_serve run_Work bind_do_def ignore_do_def split: prod.split)

lemma spawn_alone:
  "conc_step sv ([], w) ([t], w) \<Longrightarrow> run t w = (x, w') \<Longrightarrow> (conc_step sv)\<^sup>*\<^sup>* ([], w) ([Done x], w')"
  using run_alone [of t w x w' sv "[]"] by (simp add: converse_rtranclp_into_rtranclp)

lemma system_step_concurrent:
  assumes "system_step sv w w'"
  shows "\<exists>ts. (conc_step sv)\<^sup>*\<^sup>* ([], w) (ts, w')"
  using assms
proof cases
  case (request e r)
  then show ?thesis
    using spawn_alone [OF conc_step.arrive [of sv "[]" w e, simplified]] by (auto simp: run_threads)
next
  case (job j r)
  then show ?thesis
    using spawn_alone [OF conc_step.start_job [of j w sv "[]", simplified]] by (auto simp: run_threads)
next
  case (tick r)
  then show ?thesis
    using spawn_alone [OF conc_step.start_tick [of sv "[]" w, simplified]] by (auto simp: run_threads)
next
  case (startup r)
  then show ?thesis
    using spawn_alone [OF conc_step.start_import [of sv "[]" w, simplified]] by (auto simp: run_threads)
next
  case (job_done kept)
  then show ?thesis using conc_step.job_done [of sv "[]" w kept] by blast
next
  case (outcomes fs)
  then show ?thesis using conc_step.outcomes [of sv "[]" w fs] by blast
next
  case (outside p)
  then show ?thesis using conc_step.outside [of sv "[]" w p] by blast
qed

lemma conc_reachable_steps:
  "(conc_step sv)\<^sup>*\<^sup>* c c' \<Longrightarrow> conc_reachable sv (fst c) (snd c) \<Longrightarrow> conc_reachable sv (fst c') (snd c')"
proof (induction rule: rtranclp_induct)
  case (step d e)
  then show ?case by (cases d, cases e) (auto intro: conc_reachable.step)
qed

lemma reachable_concurrent: "reachable sv w \<Longrightarrow> conc_reachable sv [] w"
proof (induction rule: reachable.induct)
  case (start w)
  then show ?case by (rule conc_reachable.start)
next
  case (step w w')
  then obtain ts where "(conc_step sv)\<^sup>*\<^sup>* ([], w) (ts, w')" using system_step_concurrent by blast
  with step have "conc_reachable sv ts w'" using conc_reachable_steps by fastforce
  then show ?case by (rule conc_reachable.restart)
qed

text \<open>A server that lets every request, job, tick and import run to its end before the next one starts
  is a server with threads: what whole operations can reach, interleaved statements can reach, and
  each step of the former is a run of the latter.\<close>

lemma sequential_is_concurrent:
  assumes "reachable sv w"
  shows "conc_reachable sv [] w \<and> (\<forall>w'. system_step sv w w' \<longrightarrow> (\<exists>ts. (conc_step sv)\<^sup>*\<^sup>* ([], w) (ts, w')))"
  using reachable_concurrent [OF assms] system_step_concurrent by blast

lemma sequential_is_concurrent_example: "conc_reachable sample_server [] sample_history"
  using sequential_is_concurrent [OF reachable_history] by blast

section \<open>A schedule\<close>

text \<open>Which thread makes the next step, one after the other.\<close>

fun play :: "nat list \<Rightarrow> 'p pool \<times> 'p world \<Rightarrow> 'p pool \<times> 'p world" where
  "play [] c = c"
| "play (k # ks) (ts, w) = (if length ts \<le> k then (ts, w) else (case ts ! k of
       Done x \<Rightarrow> (ts, w)
     | Step f \<Rightarrow> (case f w of (t, w') \<Rightarrow> play ks (ts[k := t], w'))))"

lemma play_steps: "(conc_step sv)\<^sup>*\<^sup>* c (play ks c)"
proof (induction ks c rule: play.induct)
  case (2 k ks ts w)
  show ?case
  proof (cases "length ts \<le> k \<or> (\<exists>x. ts ! k = Done x)")
    case True
    then show ?thesis by auto
  next
    case False
    then obtain f where k: "k < length ts" and f: "ts ! k = Step f" by (cases "ts ! k") auto
    obtain t w' where s: "f w = (t, w')" by fastforce
    with k f have "conc_step sv (ts, w) (ts[k := t], w')" by (rule conc_step.advance)
    moreover from 2 k f s have "(conc_step sv)\<^sup>*\<^sup>* (ts[k := t], w') (play ks (ts[k := t], w'))" by simp
    ultimately show ?thesis using k f s by (simp add: converse_rtranclp_into_rtranclp)
  qed
qed simp

section \<open>Invariants\<close>

text \<open>Two requests of the sample user that are on their way at the same time.\<close>

definition sample_token :: request_auth where
  "sample_token = \<lparr>raAuthorization = ''Bearer 1'', raCookie = None\<rparr>"

lemma two_arrive:
  "(conc_step sv)\<^sup>*\<^sup>* ([], w) ([request_thread sv e, request_thread sv e'], w)"
proof -
  have "conc_step sv ([], w) ([request_thread sv e], w)"
    using conc_step.arrive [of sv "[]" w e] by simp
  moreover have "conc_step sv ([request_thread sv e], w) ([request_thread sv e, request_thread sv e'], w)"
    using conc_step.arrive [of sv "[request_thread sv e]" w e'] by simp
  ultimately show ?thesis by (meson rtranclp.rtrancl_into_rtrancl rtranclp.rtrancl_refl)
qed

lemma conc_history: "conc_reachable sample_server [] sample_history"
  using reachable_history by (rule reachable_concurrent)

definition busy_server :: "mock_state pool \<times> mock_state world" where
  "busy_server = play [0, 1, 0, 1, 0, 1, 1]
     ([request_thread sample_server (Protected sample_token (GetAttemptById ''1001'')),
       request_thread sample_server (Protected sample_token
         (CreateAttempt (Some (JObj [(''purchased_test_id'', JStr ''1000'')]))))], sample_history)"

lemma busy_server_reachable: "conc_reachable sample_server (fst busy_server) (snd busy_server)"
proof -
  have "(conc_step sample_server)\<^sup>*\<^sup>* ([], sample_history) busy_server"
    unfolding busy_server_def by (rule rtranclp_trans [OF two_arrive play_steps])
  then show ?thesis using conc_reachable_steps conc_history by fastforce
qed

lemma parse_1001 [simp]: "uuid_Parse decimal_uuid_lib ''1001'' = Inr 1001"
  by (simp add: decimal_uuid_lib_def is_digit_def digits_to_nat_def digit_val_def)

lemmas thread_defs = t_try_def t_stmt_def t_ignore_def t_deferred_def t_ok_def t_fail_def

lemma busy_server_tables:
  "map pAttemptsRemaining (w_purchases (snd busy_server)) = [1] \<and>
   w_attempts (snd busy_server) = [new_attempt 1001 1000 5] \<and>
   (\<exists>r. fst busy_server ! 0 = Done (Answered r) \<and> rStatus r = 200)"
  by (simp add: busy_server_def request_thread_def auth_Middleware_t_def ValidateToken_t_def
      createAttempt_t_def RequestAttempt_t_def start_attempt_t_def getAttempt_t_def thread_defs
      sample_token_def sample_history_def sample_requests_def sample_run_defs sample_defs GetAttempt_def
      ok_def fail_def active_status_def)

text \<open>The tables enforce their keys and references themselves, so they hold under concurrency as well.\<close>

lemma concurrent_integrity: "conc_reachable sv ts w \<Longrightarrow> db_ok w"
  using conc_reachable_ok by (auto simp: pool_ok_def live_inv_def system_inv_def)

lemma concurrent_integrity_example:
  "map pAttemptsRemaining (w_purchases (snd busy_server)) = [1] \<and> db_ok (snd busy_server)"
  using concurrent_integrity [OF busy_server_reachable] busy_server_tables by simp

text \<open>C2: Nobody overdraws a purchase under concurrency: in every state of the concurrent server no purchase
  has a negative number of attempts left, and every test on sale has a positive duration, access
  window and number of attempts, although an update of a test reads it in one statement and
  writes it in another.\<close>

theorem concurrent_balances:
  assumes "conc_reachable sv ts w"
  shows "(\<forall>p \<in> set (w_purchases w). 0 \<le> pAttemptsRemaining p) \<and>
    (\<forall>t \<in> set (w_tests w). 0 < tDurationMinutes t \<and> 0 < tAccessWindowHours t \<and> 0 < tAttemptsAllowed t)"
  using conc_reachable_ok [OF assms]
  by (auto simp: pool_ok_def live_inv_def system_inv_def balances_ok_def sellable_def)

theorem concurrent_balances_witness:
  "\<exists>p. w_purchases (snd busy_server) = [p] \<and> 0 \<le> pAttemptsRemaining p \<and> pAttemptsRemaining p = 1"
  using concurrent_balances [OF busy_server_reachable] busy_server_tables by (auto simp: map_eq_Cons_conv)

text \<open>C4: Nothing expires and nothing is marked destroyed, under concurrency as well: no attempt is ever in
  one of the statuses \<open>expired\<close>, \<open>expired_before_start\<close>, \<open>expired_running\<close>, \<open>cleanup_pending\<close>,
  \<open>cleanup_failed\<close> or \<open>destroyed\<close>, and no expiry job is queued, because no statement of any
  thread writes such a status or queues such a job.\<close>

theorem concurrent_statuses:
  assumes "conc_reachable sv ts w"
  shows "(\<forall>a \<in> set (w_attempts w). aStatus a \<notin> {Expired, ExpiredBeforeStart, ExpiredRunning,
      CleanupPending, CleanupFailed, Destroyed}) \<and>
    (\<forall>j \<in> set (w_jobs w). jKind j \<noteq> ExpireAttemptJob)"
  using conc_reachable_ok [OF assms]
  by (auto simp: pool_ok_def live_inv_def system_inv_def working_def working_statuses_def live_kinds_def)

theorem concurrent_statuses_witness:
  "w_attempts (snd busy_server) \<noteq> [] \<and> Expired \<notin> aStatus ` set (w_attempts (snd busy_server))"
  using concurrent_statuses [OF busy_server_reachable] busy_server_tables by auto

text \<open>The job that builds the environment of the sample user's attempt, and what it leaves.\<close>

lemma queue_history: "w_jobs sample_history = [\<lparr>jKind = ProvisionEnvironmentJob,
    jPayload = attempt_payload decimal_uuid_lib 1001, jScheduledAt = None\<rparr>]"
  by (simp add: sample_history_def sample_requests_def sample_run_defs sample_defs Enqueue_def)

definition built_history :: "mock_state world" where
  "built_history = snd (handleProvisionEnvironment sample_orchestrator
     (attempt_payload decimal_uuid_lib 1001) sample_history)"

lemma built_history_reachable: "conc_reachable sample_server [] built_history"
proof (rule reachable_concurrent, rule reachable.step [OF reachable_history], rule system_step.job)
  have orchestrator: "svOrchestrator sample_server = sample_orchestrator" by (simp add: sample_server_def)
  show "hd (w_jobs sample_history) \<in> set (w_jobs sample_history)" by (simp add: queue_history)
  show "Work (server_worker sample_server) (hd (w_jobs sample_history)) sample_history =
      (fst (handleProvisionEnvironment sample_orchestrator (attempt_payload decimal_uuid_lib 1001) sample_history),
       built_history)"
    by (simp add: queue_history Work_registered built_history_def orchestrator)
qed

lemma built_history_ready:
  "map (\<lambda>a. (aID a, aStatus a)) (w_attempts built_history) = [(1001, EnvironmentReady)]"
  by (simp add: built_history_def handleProvisionEnvironment_def build_environment_def
      record_and_provision_def TransitionAttempt_def sample_history_def sample_requests_def
      sample_run_defs sample_defs Enqueue_def sample_orchestrator_def mock_provider_def
      mock_CreateEnvironment_def requested_spec_def environment_spec_of_def cluster_request_of_def
      provision_spec_of_def node_request_def decode_topology_marshal stored_cluster_def
      decimal_uuid_lib_ok on_ext_def mock_New_def ok_def noop_Provision_def new_environment_def
      new_session_def split: prod.split)

text \<open>C1: No attempt is handed over unfurnished: in every state of the concurrent server, whatever statements
  interleave, fail or take effect unacknowledged, and wherever the process is killed, an attempt
  that is ready, opened, running, submitted, being graded or scored has a session of its own, on
  an environment of the same attempt whose row has the address of a workstation.  The provisioning
  job inserts these rows before it marks the attempt ready, no other statement of any thread moves
  an attempt into these statuses from outside them, and no statement takes the rows back.\<close>

theorem furnished_before_use:
  assumes "conc_reachable sv ts w" and "a \<in> set (w_attempts w)"
    and "aStatus a \<in> {EnvironmentReady, TerminalOpened, Running, Submitted, Grading, Scored}"
  shows "\<exists>s \<in> set (w_sessions w). sAttemptID s = aID a \<and>
    (\<exists>e \<in> set (w_environments w). eID e = sEnvironmentID s \<and> eAttemptID e = aID a \<and>
       (\<exists>ip. eWorkstationIP e = Some ip))"
  using pool_ok_live [OF conc_reachable_ok [OF assms(1)]] assms(2,3)
  by (auto simp: live_inv_def equipped_def in_use_def furnished_def)

theorem furnished_before_use_witness:
  "\<exists>s \<in> set (w_sessions built_history). sAttemptID s = 1001 \<and>
    (\<exists>e \<in> set (w_environments built_history). eID e = sEnvironmentID s \<and> eAttemptID e = 1001 \<and>
       (\<exists>ip. eWorkstationIP e = Some ip))"
proof -
  from built_history_ready obtain a where "w_attempts built_history = [a]" "aID a = 1001" "aStatus a = EnvironmentReady"
    by (auto simp: map_eq_Cons_conv)
  then show ?thesis using furnished_before_use [OF built_history_reachable, of a] by simp
qed

section \<open>What is never taken back\<close>

text \<open>C5: Whatever the threads do from a reachable state on, nobody becomes an administrator, every purchase,
  environment and session keeps the user, the test, the expiry, the attempt and the token it was
  created with, and no attempt is lost or given to another purchase.\<close>

theorem nothing_taken_back:
  assumes "conc_reachable sv ts w" and "(conc_step sv)\<^sup>*\<^sup>* (ts, w) (ts', w')"
  shows "(\<forall>u \<in> set (w_users w'). uIsAdmin u \<longrightarrow> u \<in> set (w_users w)) \<and>
    (\<forall>p \<in> set (w_purchases w). \<exists>q \<in> set (w_purchases w'). purchase_terms q = purchase_terms p) \<and>
    (\<forall>e \<in> set (w_environments w). \<exists>f \<in> set (w_environments w'). environment_facts f = environment_facts e) \<and>
    (\<forall>s \<in> set (w_sessions w). \<exists>t \<in> set (w_sessions w'). session_facts t = session_facts s) \<and>
    (\<forall>a \<in> set (w_attempts w). \<exists>b \<in> set (w_attempts w'). attempt_facts b = attempt_facts a)"
proof -
  have "stays w w'" using conc_steps_ok [OF assms(2)] conc_reachable_ok [OF assms(1)] by simp
  then have "append_only w w'" and "attempts_grow w w'" by (simp_all add: stays_def)
  then show ?thesis
    by (auto simp: append_only_def attempts_grow_def not_admin_def dest: growsD grows_keeps)
qed

theorem nothing_taken_back_witness:
  "(\<exists>b \<in> set (w_attempts (snd busy_server)). aID b = 1001 \<and> aPurchasedTestID b = 1000) \<and>
   (\<exists>q \<in> set (w_purchases (snd busy_server)). pUserID q = 1 \<and> pExpiresAt q = 86400000000001)"
proof -
  have "(conc_step sample_server)\<^sup>*\<^sup>* ([], sample_history) (fst busy_server, snd busy_server)"
    unfolding busy_server_def prod.collapse by (rule rtranclp_trans [OF two_arrive play_steps])
  note h = nothing_taken_back [OF conc_history this]
  from h have "\<exists>b \<in> set (w_attempts (snd busy_server)). attempt_facts b = attempt_facts (new_attempt 1001 1000 5)"
    and "\<exists>q \<in> set (w_purchases (snd busy_server)). purchase_terms q = (1000, 1, 50, None, 86400000000001, 2)"
    by (simp_all add: sample_history_tables purchase_terms_def)
  then show ?thesis by (auto simp: attempt_facts_def purchase_terms_def new_attempt_def)
qed

section \<open>Who is served\<close>

text \<open>The tables say that the attempt named by the text \<open>str\<close> belongs to the user.\<close>

definition owns :: "uuid \<Rightarrow> uuid \<Rightarrow> 'p world \<Rightarrow> bool" where
  "owns userID i w \<longleftrightarrow> (\<exists>a \<in> set (w_attempts w). aID a = i \<and>
     (\<exists>p \<in> set (w_purchases w). pID p = aPurchasedTestID a \<and> pUserID p = userID))"

lemma owns_stays: "owns u i w \<Longrightarrow> stays w w' \<Longrightarrow> owns u i w'"
proof -
  assume "owns u i w" and s: "stays w w'"
  then obtain a p where a: "a \<in> set (w_attempts w)" "aID a = i"
    and p: "p \<in> set (w_purchases w)" "pID p = aPurchasedTestID a" "pUserID p = u"
    by (auto simp: owns_def)
  from s have "grows attempt_facts any_row (w_attempts w) (w_attempts w')"
    and "grows purchase_terms any_row (w_purchases w) (w_purchases w')"
    by (simp_all add: stays_def append_only_def attempts_grow_def)
  with a(1) p(1) obtain b q where "b \<in> set (w_attempts w')" "attempt_facts b = attempt_facts a"
    and "q \<in> set (w_purchases w')" "purchase_terms q = purchase_terms p"
    by (meson grows_keeps)
  with a p show ?thesis by (force simp: owns_def attempt_facts_def purchase_terms_def)
qed

lemma owns_read:
  assumes "Attempts_GetByID i w = (Inr a, w1)" and "stays w1 w2"
    and "Purchases_GetByID (aPurchasedTestID a) w2 = (Inr p, w3)" and "live_inv w2"
  shows "owns (pUserID p) i w3"
proof -
  from assms(1) have "a \<in> set (w_attempts w1)" and i: "aID a = i"
    unfolding store_defs by (auto dest!: sql_get_InrD find_SomeD)
  moreover have "stays w2 w3" using soundD [OF sound_reads(8) assms(3,4)] by simp
  with assms(2) have "stays w1 w3" by (rule kept.trans)
  ultimately obtain b where "b \<in> set (w_attempts w3)" and "attempt_facts b = attempt_facts a"
    unfolding stays_def attempts_grow_def by (meson grows_keeps)
  moreover from assms(3) have "p \<in> set (w_purchases w3)" and "pID p = aPurchasedTestID a"
    unfolding store_defs by (auto dest!: sql_get_InrD find_SomeD)
  ultimately show ?thesis using i by (force simp: owns_def attempt_facts_def)
qed

text \<open>The three handlers look up the attempt, then its purchase, then compare the user.\<close>

lemma owner_guard_t:
  assumes "\<And>e s. assures Q (h1 e) s" and "\<And>a e s. assures Q (h2 a e) s"
    and "\<And>a p s. pUserID p \<noteq> u \<Longrightarrow> assures Q (k a p) s"
    and "\<And>a p s. pUserID p = u \<Longrightarrow> owns u i s \<Longrightarrow> assures Q (k a p) s"
  shows "assures Q (t_try (t_stmt (Attempts_GetByID i)) h1 (\<lambda>a.
    t_try (t_stmt (Purchases_GetByID (aPurchasedTestID a))) (h2 a) (k a))) (w :: 'p world)"
proof (rule kept.assured_try)
  fix s1 s2 :: "'p world" and a
  assume a: "Attempts_GetByID i s1 = (Inr a, s2)"
  show "assures Q (t_try (t_stmt (Purchases_GetByID (aPurchasedTestID a))) (h2 a) (k a)) s2"
  proof (rule kept.assured_try)
    fix s3 s4 :: "'p world" and p
    assume "live_inv s3" and "stays s2 s3" and "Purchases_GetByID (aPurchasedTestID a) s3 = (Inr p, s4)"
    with a have "owns (pUserID p) i s4" by (metis owns_read)
    then show "assures Q (k a p) s4" using assms(3,4) by (cases "pUserID p = u") auto
  qed (rule assms(2))
qed (rule assms(1))

definition for_owner :: "uuid \<Rightarrow> uuid \<Rightarrow> response \<Rightarrow> 'p world \<Rightarrow> bool" where
  "for_owner u i r w \<longleftrightarrow> (rStatus r = 200 \<longrightarrow> owns u i w)"

lemma refusal_for_anyone: "rStatus r \<noteq> 200 \<Longrightarrow> assures (for_owner u i) (Done r) w"
  by (rule kept.assured_const) (simp add: for_owner_def)

lemma answer_for_owner: "safe t \<Longrightarrow> owns u i w \<Longrightarrow> assures (for_owner u i) t w"
  by (rule kept.assured_mono [OF kept.assured_stable [of live_inv t "owns u i"]])
     (auto simp: for_owner_def intro: owns_stays)

lemma for_owner_Done: "for_owner u i r w \<Longrightarrow> assures (for_owner u i) (Done r) w"
  by (auto simp: assured_simps for_owner_def intro: owns_stays)

lemma getAttempt_for_owner:
  "uuid_Parse L str = Inr i \<Longrightarrow> assures (for_owner u i) (getAttempt_t L (Some u) str) w"
  unfolding getAttempt_t_def GetAttempt_def option.case
  by (simp only: sum.case, rule owner_guard_t [where u = u])
     (auto simp: refusal_for_anyone active_status_def intro: answer_for_owner safe_rules)

lemma getScore_for_owner:
  "uuid_Parse L str = Inr i \<Longrightarrow> assures (for_owner u i) (getScore_t L (Some u) str) w"
  unfolding getScore_t_def option.case
  by (simp only: sum.case, rule owner_guard_t [where u = u])
     (auto simp: refusal_for_anyone intro: answer_for_owner safe_rules)

lemma SubmitAttempt_for_owner:
  assumes "\<And>e. rStatus (h e) \<noteq> 200"
  shows "assures (\<lambda>r. for_owner u i (case r of Inl e \<Rightarrow> h e | Inr x \<Rightarrow> k x)) (SubmitAttempt_t L u i) w"
proof -
  let ?Q = "\<lambda>r. for_owner u i (case r of Inl e \<Rightarrow> h e | Inr x \<Rightarrow> k x)"
  have refused: "assures ?Q (t_fail e) s" for e s
    unfolding t_fail_def by (rule kept.assured_const) (simp add: for_owner_def assms)
  have granted: "assures ?Q t s" if "safe t" and "owns u i s" for t s
    by (rule kept.assured_mono [OF kept.assured_stable [of live_inv t "owns u i", OF that owns_stays]])
       (auto simp: for_owner_def)
  show ?thesis
    unfolding SubmitAttempt_t_def
    by (rule owner_guard_t [where u = u], (rule refused)+, simp add: refused, rule granted,
        intro safe_rules safe_transitions)
qed

lemma submitAttempt_for_owner:
  assumes "uuid_Parse L str = Inr i"
  shows "assures (for_owner u i) (submitAttempt_t L (Some u) str) (w :: 'p world)"
proof -
  let ?h = "\<lambda>err. if err_msg err = ''attempt is not running'' then BadRequest ''attempt is not running''
    else if err_msg err = ''unauthorized'' then Forbidden ''forbidden'' else InternalError ''failed to submit attempt''"
  let ?k = "\<lambda>u::unit. WriteJSON 200 (JObj [(''status'', JStr ''submitted'')])"
  have "(submitAttempt_t L (Some u) str :: ('p world, response) thread) = t_bind (SubmitAttempt_t L u i)
      (\<lambda>r. Done (case r of Inl e \<Rightarrow> ?h e | Inr x \<Rightarrow> ?k x))"
    by (simp add: submitAttempt_t_def t_try_def assms, rule arg_cong [where f = "t_bind _"])
      (auto split: sum.split)
  moreover have "assures (\<lambda>r. for_owner u i (case r of Inl e \<Rightarrow> ?h e | Inr x \<Rightarrow> ?k x)) (SubmitAttempt_t L u i) w"
    by (rule SubmitAttempt_for_owner) simp
  then have "assures (for_owner u i) (t_bind (SubmitAttempt_t L u i)
      (\<lambda>r. Done (case r of Inl e \<Rightarrow> ?h e | Inr x \<Rightarrow> ?k x))) w"
    by (intro kept.assured_bind) (erule kept.assured_mono, erule for_owner_Done)
  ultimately show ?thesis by (simp only:)
qed

text \<open>The routes by which a user asks about an attempt, or hands it in.\<close>

fun asks_about :: "user_endpoint \<Rightarrow> string option" where
  "asks_about (GetAttemptById str) = Some str"
| "asks_about (GetScore str) = Some str"
| "asks_about (SubmitAttemptById str) = Some str"
| "asks_about _ = None"

lemma unnamed_refused:
  assumes "uuid_Parse (svUUID sv) str = Inl e" and "asks_about r = Some str"
  shows "\<exists>msg. user_route_t sv r (Some u) = Done (BadRequest msg)"
  using assms by (cases r) (auto simp: getAttempt_t_def getScore_t_def submitAttempt_t_def)

lemma route_for_owner:
  assumes "uuid_Parse (svUUID sv) str = Inr i" and "asks_about e = Some str"
  shows "assures (for_owner u i) (user_route_t sv e (Some u)) w"
  using assms by (cases e) (auto intro: getAttempt_for_owner getScore_for_owner submitAttempt_for_owner)

text \<open>What a 200 reply to such a request says, with the clock the token was checked against.\<close>

definition served_to_owner ::
  "'p server \<Rightarrow> (nat \<Rightarrow> int) \<Rightarrow> request_auth \<Rightarrow> string \<Rightarrow> response \<Rightarrow> 'p world \<Rightarrow> bool"
where
  "served_to_owner sv clock ra str r w \<longleftrightarrow> (rStatus r = 200 \<longrightarrow> (\<exists>n c i.
     jwt_ParseWithClaims (acLib (svAuth sv)) (extractToken ra) (acSecret (svAuth sv)) (clock n) = Inr (c, True) \<and>
     uuid_Parse (svUUID sv) str = Inr i \<and> owns (clUserID c) i w))"

lemma token_assures:
  "assures (\<lambda>r w'. \<forall>u. r = Inr u \<longrightarrow> (\<exists>n cl. jwt_ParseWithClaims (acLib c) tok (acSecret c) (w_clock w n) = Inr (cl, True) \<and>
     clUserID cl = u)) (ValidateToken_t c tok) w"
  (is "assures ?Q _ w")
  unfolding ValidateToken_t_def
proof (rule kept.assured_bind, rule kept.assured_stmt)
  fix s1 s3 :: "'a world" and now s2
  assume "stays w s1" and "time_Now s1 = (now, s2)"
  then have now: "now = w_clock w (w_clock_pos s1)"
    by (auto simp: time_Now_def stays_def attempts_grow_def)
  show "assures ?Q (case jwt_ParseWithClaims (acLib c) tok (acSecret c) now of Inl e \<Rightarrow> t_fail e
      | Inr r \<Rightarrow> if \<not> snd r then t_fail jwt_ErrTokenInvalidClaims else t_ok (clUserID (fst r))) s3"
  proof (cases "jwt_ParseWithClaims (acLib c) tok (acSecret c) now")
    case (Inl e)
    then show ?thesis by (simp add: t_fail_def kept.assured_const)
  next
    case (Inr r)
    then show ?thesis
      using now by (cases r) (auto simp: t_fail_def t_ok_def intro!: kept.assured_const, blast)
  qed
qed

lemma request_to_owner:
  assumes "asks_about e = Some str"
  shows "assures (served_to_owner sv (w_clock w) ra str) (serve_t sv (Protected ra e)) (w :: 'p world)"
proof -
  let ?Q = "served_to_owner sv (w_clock w) ra str"
  have refused: "assures ?Q (Done r) s" if "rStatus r \<noteq> 200" for r and s :: "'p world"
    using that by (auto simp: served_to_owner_def intro!: kept.assured_const)
  have route: "assures ?Q (user_route_t sv e (Some u)) s"
    if "jwt_ParseWithClaims (acLib (svAuth sv)) (extractToken ra) (acSecret (svAuth sv)) (w_clock w n) = Inr (c, True)"
      and "clUserID c = u" for n c u and s :: "'p world"
  proof (cases "uuid_Parse (svUUID sv) str")
    case (Inl err)
    with unnamed_refused [OF Inl assms, of u] refused show ?thesis by fastforce
  next
    case (Inr i)
    from route_for_owner [OF Inr assms, of u s] show ?thesis
      by (rule kept.assured_mono) (use that Inr in \<open>auto simp: served_to_owner_def for_owner_def\<close>)
  qed
  show ?thesis
  proof (cases "extractToken ra = ''''")
    case True
    then show ?thesis by (simp add: auth_Middleware_t_def refused)
  next
    case False
    have "assures ?Q (t_try (ValidateToken_t (svAuth sv) (extractToken ra))
        (\<lambda>_. Done (http_Error ''unauthorized'' 401)) (\<lambda>u. user_route_t sv e (Some u))) w"
      unfolding t_try_def
      by (rule kept.assured_bind, rule kept.assured_mono [OF token_assures])
         (auto intro: refused route split: sum.split)
    with False show ?thesis by (simp add: auth_Middleware_t_def Let_def)
  qed
qed

text \<open>C6: Under concurrency as well, nobody but its owner is told about an attempt or can hand it in: if a request
  for an attempt, for its score or for its submission arrives while any other threads are under
  way, and is answered 200 after any interleaving with them and with whatever arrives later,
  then its token was valid for a user to whom the attempt's purchase belongs, although the
  attempt and the purchase are read in different statements.\<close>

theorem owner_served_concurrently:
  assumes "conc_reachable sv ts w" and "asks_about e = Some str"
    and "(conc_step sv)\<^sup>*\<^sup>* (ts @ [request_thread sv (Protected ra e)], w) (ts', w')"
    and "ts' ! length ts = Done (Answered r)" and "rStatus r = 200"
  shows "\<exists>n c i. jwt_ParseWithClaims (acLib (svAuth sv)) (extractToken ra) (acSecret (svAuth sv)) (w_clock w n) = Inr (c, True) \<and>
    uuid_Parse (svUUID sv) str = Inr i \<and>
    (\<exists>a \<in> set (w_attempts w'). aID a = i \<and>
      (\<exists>p \<in> set (w_purchases w'). pID p = aPurchasedTestID a \<and> pUserID p = clUserID c))"
proof -
  let ?Q = "\<lambda>x. case x of Answered r \<Rightarrow> served_to_owner sv (w_clock w) ra str r | _ \<Rightarrow> \<lambda>_. True"
  have "assures (served_to_owner sv (w_clock w) ra str) (serve_t sv (Protected ra e)) w"
    using assms(2) by (rule request_to_owner)
  then have "assures ?Q (request_thread sv (Protected ra e)) w"
    unfolding request_thread_def
    by (intro kept.assured_bind, elim kept.assured_mono)
       (auto simp: assured_simps served_to_owner_def intro: owns_stays)
  from thread_finished [OF assms(1) safe_threads(1) this assms(3,4)] assms(5) show ?thesis
    by (auto simp: served_to_owner_def owns_def)
qed

theorem owner_served_concurrently_witness:
  "\<exists>i. uuid_Parse decimal_uuid_lib ''1001'' = Inr i \<and>
    (\<exists>a \<in> set (w_attempts (snd busy_server)). aID a = i \<and>
      (\<exists>p \<in> set (w_purchases (snd busy_server)). pID p = aPurchasedTestID a \<and> pUserID p = 1))"
proof -
  let ?t = "request_thread sample_server (Protected sample_token (GetAttemptById ''1001''))"
  have "conc_step sample_server ([?t], sample_history) ([?t, request_thread sample_server (Protected sample_token
         (CreateAttempt (Some (JObj [(''purchased_test_id'', JStr ''1000'')]))))], sample_history)"
    using conc_step.arrive [of sample_server "[?t]" sample_history] by simp
  then have "(conc_step sample_server)\<^sup>*\<^sup>* ([] @ [?t], sample_history) busy_server"
    unfolding busy_server_def append_Nil by (rule converse_rtranclp_into_rtranclp) (rule play_steps)
  then have run: "(conc_step sample_server)\<^sup>*\<^sup>* ([] @ [?t], sample_history) (fst busy_server, snd busy_server)"
    by simp
  from busy_server_tables obtain r where "fst busy_server ! length ([] :: mock_state pool) = Done (Answered r)"
    and "rStatus r = 200" by auto
  from owner_served_concurrently [OF conc_history _ run this, of "''1001''"] show ?thesis
    by (auto simp: sample_server_def sample_auth_def sample_claims_def sample_token_def extractToken_def
        has_prefix_def trim_prefix_def)
qed

section \<open>Two submissions at the same time\<close>

definition grade_job :: "uuid_lib \<Rightarrow> uuid \<Rightarrow> job" where
  "grade_job L i = \<lparr>jKind = GradeAttemptJob, jPayload = attempt_payload L i, jScheduledAt = None\<rparr>"

lemma written_twice:
  "\<forall>a \<in> set (update_rows (\<lambda>a. aID a = i) (aStatus_update (\<lambda>_. s))
     (update_rows (\<lambda>a. aID a = i) (aStatus_update (\<lambda>_. s)) as)). aID a = i \<longrightarrow> aStatus a = s"
  by (induction as) auto

text \<open>C33: Handing in twice can succeed twice: for every running attempt, with the database
  answering, two requests of its owner to submit it that are under way at the same time can run
  so (both read that the attempt is running before either has written) that both are answered
  200, two grading jobs are queued, and the attempt is submitted.  (One after the other, \<open>SubmitAttempt_exact\<close>, the second is refused.)\<close>

theorem double_submission:
  assumes "w_faults w = []" and "uuid_Parse (svUUID sv) str = Inr i"
    and "find (\<lambda>a. aID a = i) (w_attempts w) = Some a" and "aStatus a = Running"
    and "owner_of w a = Some (clUserID c)" and "extractToken ra \<noteq> ''''"
    and "\<forall>n. jwt_ParseWithClaims (acLib (svAuth sv)) (extractToken ra) (acSecret (svAuth sv)) (w_clock w n) = Inr (c, True)"
  shows "\<exists>w'. (conc_step sv)\<^sup>*\<^sup>* ([], w)
      ([Done (Answered (status_response ''submitted'')), Done (Answered (status_response ''submitted''))], w') \<and>
    w_jobs w' = w_jobs w @ [grade_job (svUUID sv) i, grade_job (svUUID sv) i] \<and>
    (\<forall>a \<in> set (w_attempts w'). aID a = i \<longrightarrow> aStatus a = Submitted)"
proof -
  let ?t = "request_thread sv (Protected ra (SubmitAttemptById str))"
  let ?c = "play [0, 0, 0, 0, 1, 1, 1, 1, 0, 0, 1, 1] ([?t, ?t], w)"
  from assms(5) obtain p where p: "find (\<lambda>p. pID p = aPurchasedTestID a) (w_purchases w) = Some p"
    and u: "pUserID p = clUserID c" by (auto simp: owner_of_def)
  have run: "(conc_step sv)\<^sup>*\<^sup>* ([], w) ?c" by (rule rtranclp_trans [OF two_arrive play_steps])
  have "fst ?c = [Done (Answered (status_response ''submitted'')), Done (Answered (status_response ''submitted''))] \<and>
    w_jobs (snd ?c) = w_jobs w @ [grade_job (svUUID sv) i, grade_job (svUUID sv) i] \<and>
    (\<forall>a \<in> set (w_attempts (snd ?c)). aID a = i \<longrightarrow> aStatus a = Submitted)"
    using assms p u
    by (simp add: request_thread_def auth_Middleware_t_def ValidateToken_t_def submitAttempt_t_def
        SubmitAttempt_t_def TransitionAttempt_t_def thread_defs Let_def store_defs stmt_simps time_Now_def
        ValidTransition_def status_response_def grade_job_def written_twice)
  with run show ?thesis by (metis prod.collapse)
qed

lemma parse_70: "uuid_Parse decimal_uuid_lib ''70'' = Inr 70"
  by (simp add: decimal_uuid_lib_def is_digit_def digits_to_nat_def digit_val_def)

theorem double_submission_witness:
  "\<exists>w'. (conc_step sample_server)\<^sup>*\<^sup>* ([], sample_world Running mock_New)
      ([Done (Answered (status_response ''submitted'')), Done (Answered (status_response ''submitted''))], w') \<and>
    w_jobs w' = [grade_job decimal_uuid_lib 70, grade_job decimal_uuid_lib 70]"
proof -
  let ?w = "sample_world Running mock_New"
  have "\<exists>w'. (conc_step sample_server)\<^sup>*\<^sup>* ([], ?w)
      ([Done (Answered (status_response ''submitted'')), Done (Answered (status_response ''submitted''))], w') \<and>
    w_jobs w' = w_jobs ?w @ [grade_job (svUUID sample_server) 70, grade_job (svUUID sample_server) 70] \<and>
    (\<forall>a \<in> set (w_attempts w'). aID a = 70 \<longrightarrow> aStatus a = Submitted)"
    by (rule double_submission [where str = "''70''" and ra = sample_token and c = "sample_claims 1"
          and a = "sample_attempt Running"])
       (simp_all add: sample_server_def sample_auth_def sample_token_def sample_claims_def parse_70
         extractToken_def has_prefix_def trim_prefix_def owner_of_def sample_defs)
  then show ?thesis by (auto simp: sample_server_def sample_defs)
qed

end
