(* ===== verification/Spec2Isabelle.thy ===== *)
theory Spec2Isabelle
  imports Egress_Properties Access_Properties Program_Properties Races Migrate Attempt_Properties
    Grading_Properties Progress_Properties Terminal_Properties Billing_Properties Auth_Properties
    Admin_Properties Importer_Properties Proxmox_Requests Reconciler_Properties
    Concurrency_Properties
begin

text \<open>
  Painkiller Shell is a training platform for Kubernetes: users buy tests, every purchase allows
  a number of attempts, an attempt gets an environment of virtual machines, the user works in it
  through a terminal in the browser, submits, and is graded by checks that run over SSH.  This
  library models the Go code of the server, of the import and of the migration program
  (\<open>cmd\<close> and \<open>internal\<close>), and proves what the parts promise each other and their users.

  \<^bold>\<open>How the code is rendered.\<close>  A function that touches state is a state transformer, one that can
  fail returns an error or a value, and the combinators of theory Prelude stand for Go's idioms
  (\<open>try_do\<close> for the error check after a call, \<open>ignore_do\<close> for an error that is dropped,
  \<open>deferred\<close> for defer).  The state is the record \<open>world\<close> of theory Store: one list of rows for
  each table, River's queue, the coming outcomes of the database's statements, the sequences
  that \<open>uuid.New\<close> and \<open>time.Now\<close> draw from, and the state of the external systems.  Each statement
  draws an outcome: it is served, refused, or executed with its answer lost; a theorem that does
  not assume the list of outcomes to be empty holds whatever fails.  Integers of Go have 64 bits
  (\<open>i64\<close> writes the wrap-around where it can matter), those of the database 32 (\<open>int4\<close>); UUIDs are
  words of 128 bits; a time is a number of nanoseconds.  Panics are errors of their own.

  \<^bold>\<open>The parts, bottom up.\<close>
  GoStrings, Json and Prelude: strings.Index and its relatives, encoding/json with its matching of
  keys and null, errors, programs, effects.
  Models, Store, Tables: \<open>internal/models\<close> and \<open>internal/store\<close>, every query as a statement with
  the constraints of the migrations.
  Jobs: \<open>internal/jobs\<close>, enqueueing and dispatch.
  StateMachine, Attempts: \<open>internal/attempts\<close>, the table of transitions, the service and its
  handlers.
  Httpx, Paths: \<open>internal/httpx\<close>, responses, request bodies, the frontend's files.
  Scenarios, Importer: \<open>internal/scenarios\<close> and \<open>internal/importer\<close>.
  Provider, MockProvider, ProxmoxConfig, ProxmoxClient, ProxmoxProvider: \<open>internal/provider\<close>.
  Provisioner, Ansible: \<open>internal/provisioner\<close>.  Proxy: \<open>internal/proxy\<close>.
  Orchestrator, Reconciler: \<open>internal/orchestrator\<close>, the provisioning and cleanup jobs and the
  reconciler's tick.
  Grader, Scoring, Terminal, Billing, Catalog, Auth, Admin: the packages grading, scoring,
  terminal, billing, catalog and entitlements, auth, admin.
  Startup, Migrate, Programs, Routes: \<open>internal/config\<close>, \<open>internal/log\<close> and the three programs,
  the services they build and the routing table, with the catch-all for the frontend's files.
  System: what \<open>cmd/server\<close> makes of all this, the handler of every endpoint and the step
  relation \<open>system_step\<close>, one step being a request, a run of a job, a tick of the reconciler, an
  import, or something outside.
  Threads, Attempt_Threads, Server_Threads: the same handlers, jobs, ticks and imports cut at
  their statements (\<open>serve_t\<close>, \<open>Work_t\<close>, \<open>reconcile_t\<close>, \<open>ImportAll_t\<close> and their parts), and the
  step relation \<open>conc_step\<close> of a server in which any number of them are under way and take turns
  in any order.  For every \<open>f_t\<close> there is a lemma \<open>run_f\<close>: run without interruption it is \<open>f\<close>.

  \<^bold>\<open>How the parts meet.\<close>  A request reaches its handler through the middleware (\<open>run_route\<close>,
  \<open>serve\<close>); handlers and jobs change the tables and queue further jobs; the worker runs what
  is queued (\<open>server_worker\<close>).  RequestAttempt charges the purchase, stores the attempt and queues
  its provisioning; the provisioning job builds the environment through the provider and the
  provisioner and opens a session, or gives the attempt back; the terminal starts the attempt;
  submission queues the grading, grading queues the cleanup.

  \<^bold>\<open>What the lemmas show.\<close>  The locales \<open>preorder_effect\<close> and \<open>world_effect\<close> carry a relation between
  two states from single statements to whole programs; \<open>operation_effect\<close> and \<open>expiry_effect\<close>
  (theory Effects) carry it to every handler, job and tick, once and for all relations.  They
  are interpreted for the integrity of keys (Integrity), the state machine and the live
  statuses (Lifecycle), the balances (Balances) and the growth of the tables (Records), which
  gives the invariants of reachable worlds in System_Properties.  \<open>provider_contract\<close> is what
  the orchestrator needs of a provider; both providers are interpretations of it.
  The other \<open>_Properties\<close> theories state what single operations do: Attempt_, Environment_,
  Cleanup_, Reconciler_, Grading_, Terminal_, Billing_, Auth_, Admin_, Importer_, Proxmox_ and
  Egress_Properties; Proxmox_Requests records what the Proxmox provider sends and compares the
  machines it creates and removes by these requests; Progress_Properties composes submission, queue and grading;
  Access_Properties says who gets through the routing table; Program_Properties ties the
  server program, with the events that reach it while it serves, to the step relation.

  \<^bold>\<open>Concurrency.\<close>  Theory Threads reasons about one thread among others: \<open>watched I R t w\<close> says that
  from \<open>w\<close> on its own steps keep the invariant \<open>I\<close> and move along \<open>R\<close> if the others do, \<open>guided I R t\<close>
  that they do from every state, \<open>assured I R Q t w\<close> that it ends in \<open>Q\<close> although the others move along
  \<open>R\<close> between its steps.  Concurrency proves the second for every program of Server_Threads.  The
  invariant \<open>live_inv\<close> is that of reachable worlds, and that every attempt in use is \<open>furnished\<close> with a
  session and an environment of its own; the relation is \<open>stays\<close> (rows are never lost and keep what
  they were created with).  Most statements keep to both from any state; a status that puts an
  attempt to use is written only where its thread has read such a status or, in the provisioning
  job, has inserted the rows.  From this follows the invariant of the whole pool, also after the
  process was killed at any point.  Concurrency_Properties draws the consequences: what
  holds of every state of the concurrent server, what is never taken back, that only owners are
  served, and what two overlapping submissions can do.  \<open>sequential_is_concurrent\<close> says that the
  runs of \<open>system_step\<close> are among those of \<open>conc_step\<close>.  Races counts what concurrent calls of
  \<open>RequestAttempt\<close> and of \<open>TransitionAttempt\<close> do on one purchase and one attempt.
  Samples holds the small installation on which the theorems are tried out, Outcomes the
  inversions of statements that succeeded.

  \<^bold>\<open>Bounds and fuel.\<close>  The polling loops of the Proxmox client end by the clock, so they run on fuel:
  \<open>poll_fuel\<close> is 151 readings of the clock for a task (a limit of 300 seconds in steps of 2) and
  \<open>ip_fuel\<close> 25 for an address; \<open>waiting_ends\<close> shows that under a clock that does not go back and a
  timer that waits they never run out and that more fuel changes nothing.  All other loops are
  structural recursions, or recursions on the rest of a string.

  \<^bold>\<open>Libraries\<close> are arguments: the UUID text format, JWT and bcrypt, Stripe, SSH, the websocket,
  the HTTP client, YAML, the file system, the shell, the migration libraries.  What is asked of
  them is documented behaviour and stated where it is used (\<open>uuid_lib_ok\<close>, \<open>auth_lib_ok\<close>,
  \<open>clock_ok\<close>), each with an instance that satisfies it.

  \<^bold>\<open>Not modelled.\<close>  In \<open>conc_step\<close> a page that only reads, the login, a transaction, a call of
  an external system and what goes on in an open terminal are one step each; the isolation of
  transactions is the database's.  Two statements need calls that do not overlap and are
  about \<open>system_step\<close>: that attempts follow the table of transitions, which \<open>transitions_race\<close> shows to
  fail otherwise, and that the server program, given the sequence of its events, stays within the
  relation.  Not rendered are
  the microseconds to which the database rounds a time; River's own
  scheduling, retries and periodic work, beyond running what is queued any number of times;
  chi's matching of paths; the cancellation of contexts; the lengths of VARCHAR columns; TLS, the
  log output; the tables \<open>nodes\<close> and \<open>clusters\<close>, which nothing reads or writes; the content of the embedded
  frontend and how \<open>http.ServeContent\<close> sends it;
  parsing of command line flags.
\<close>

end
